(* ===== verification/Text_Utils.thy ===== *)
theory Text_Utils
  imports Prelude
begin

text \<open>
  The string operations of the Rust standard library that the program uses: \<open>split\<close>,
  \<open>rsplitn\<close>, \<open>join\<close>, \<open>starts_with\<close>, \<open>ends_with\<close>, \<open>replace\<close>, \<open>trim_start\<close>,
  \<open>trim_end_matches\<close>, decimal printing (\<open>to_string\<close>) and \<open>parse::<i32>\<close>.
\<close>

section \<open>Splitting and joining\<close>

fun split_on :: "char \<Rightarrow> string \<Rightarrow> string list" where
  "split_on c [] = [[]]"
| "split_on c (x # xs) =
     (if x = c then [] # split_on c xs
      else (case split_on c xs of [] \<Rightarrow> [[x]] | p # ps \<Rightarrow> (x # p) # ps))"

fun join :: "string \<Rightarrow> string list \<Rightarrow> string" where
  "join sep [] = []"
| "join sep [p] = p"
| "join sep (p # q # ps) = p @ sep @ join sep (q # ps)"

lemma split_on_not_Nil [simp]: "split_on c s \<noteq> []"
  by (induction s) (auto split: list.splits)

lemma join_Cons: "ps \<noteq> [] \<Longrightarrow> join sep (p # ps) = p @ sep @ join sep ps"
  by (cases ps) simp_all

lemma join_split_on [simp]: "join [c] (split_on c s) = s"
proof (induction s)
  case (Cons x s)
  obtain p ps where ps: "split_on c s = p # ps" by (cases "split_on c s") auto
  with Cons show ?case by (cases ps) auto
qed simp

lemma split_on_notin: "c \<notin> set s \<Longrightarrow> split_on c s = [s]"
  by (induction s) auto

lemma split_on_append: "c \<notin> set p \<Longrightarrow> split_on c (p @ c # s) = p # split_on c s"
  by (induction p) auto

lemma split_on_join: "ps \<noteq> [] \<Longrightarrow> \<forall>p \<in> set ps. c \<notin> set p \<Longrightarrow> split_on c (join [c] ps) = ps"
proof (induction ps)
  case (Cons p ps)
  then show ?case
    by (cases "ps = []") (simp_all add: join_Cons split_on_notin split_on_append)
qed simp

lemma split_on_pieces: "p \<in> set (split_on c s) \<Longrightarrow> c \<notin> set p"
proof (induction s arbitrary: p)
  case (Cons x s)
  then show ?case by (cases "split_on c s") (auto split: if_splits)
qed simp

lemma split_on_append_general:
  "split_on c (s @ c # t) = split_on c s @ split_on c t"
proof (induction s)
  case (Cons x s)
  obtain p ps where "split_on c s = p # ps" by (cases "split_on c s") auto
  with Cons show ?case by auto
qed simp

lemma join_append:
  "ps \<noteq> [] \<Longrightarrow> qs \<noteq> [] \<Longrightarrow> join sep (ps @ qs) = join sep ps @ sep @ join sep qs"
  by (induction ps rule: induct_list012) (auto simp: join_Cons)

text \<open>
  \<open>s.rsplitn(n, c)\<close>: at most \<open>n\<close> pieces, from the right; the last one is what is left of
  the string, separators included.
\<close>

definition rsplitn :: "nat \<Rightarrow> char \<Rightarrow> string \<Rightarrow> string list" where
  "rsplitn n c s =
     (let ps = split_on c s; k = length ps in
      if n = 0 then []
      else if k \<le> n then rev ps
      else rev (drop (k - (n - 1)) ps) @ [join [c] (take (k - (n - 1)) ps)])"

lemma rsplitn_join:
  assumes "0 < n"
  shows "join [c] (rev (rsplitn n c s)) = s"
proof -
  define ps where "ps = split_on c s"
  define m where "m = length ps - (n - 1)"
  have s: "join [c] ps = s" by (simp add: ps_def)
  show ?thesis
  proof (cases "length ps \<le> n")
    case True
    with assms s show ?thesis by (simp add: rsplitn_def Let_def ps_def)
  next
    case False
    then have m: "0 < m" "m \<le> length ps" by (auto simp: m_def)
    have ne: "take m ps \<noteq> []" using m by (cases ps) auto
    have "join [c] (join [c] (take m ps) # drop m ps) = join [c] ps"
    proof (cases "drop m ps = []")
      case True
      then show ?thesis by (metis append_Nil2 append_take_drop_id join.simps(2))
    next
      case False
      with ne show ?thesis by (metis append_take_drop_id join_Cons join_append)
    qed
    with False s assms show ?thesis by (simp add: rsplitn_def Let_def ps_def m_def)
  qed
qed

lemma rsplitn_append:
  assumes "Suc (length ps) = n" and "ps \<noteq> []" and "\<forall>p \<in> set ps. c \<notin> set p"
  shows "rsplitn n c (s @ c # join [c] ps) = rev ps @ [s]"
proof -
  have "split_on c (s @ c # join [c] ps) = split_on c s @ ps"
    using assms(2,3) by (simp add: split_on_append_general split_on_join)
  moreover have "0 < length (split_on c s)" by simp
  moreover have "length (split_on c s) \<le> 1 \<Longrightarrow> split_on c s = [s]"
    by (cases "split_on c s") (auto, metis join.simps(2) join_split_on)
  ultimately show ?thesis
    using assms(1) by (auto simp: rsplitn_def Let_def)
qed

section \<open>Prefixes, suffixes, membership\<close>

definition starts_with :: "string \<Rightarrow> string \<Rightarrow> bool" where
  "starts_with s p \<longleftrightarrow> take (length p) s = p"

definition ends_with :: "string \<Rightarrow> string \<Rightarrow> bool" where
  "ends_with s p \<longleftrightarrow> length p \<le> length s \<and> drop (length s - length p) s = p"

lemma starts_with_iff: "starts_with s p \<longleftrightarrow> (\<exists>t. s = p @ t)"
  by (metis append_eq_conv_conj append_take_drop_id starts_with_def)

lemma ends_with_iff: "ends_with s p \<longleftrightarrow> (\<exists>t. s = t @ p)"
proof
  assume "ends_with s p"
  then show "\<exists>t. s = t @ p" by (metis append_take_drop_id ends_with_def)
qed (auto simp: ends_with_def)

text \<open>\<open>s.contains(c)\<close> for a character.\<close>

definition contains :: "string \<Rightarrow> char \<Rightarrow> bool" where
  "contains s c \<longleftrightarrow> list_ex (\<lambda>x. x = c) s"

lemma contains_iff [simp]: "contains s c \<longleftrightarrow> c \<in> set s"
  by (auto simp: contains_def list_ex_iff)

text \<open>\<open>s.trim_end_matches(c)\<close>.\<close>

definition trim_end_matches :: "char \<Rightarrow> string \<Rightarrow> string" where
  "trim_end_matches c s = rev (dropWhile (\<lambda>x. x = c) (rev s))"

section \<open>Decimal numbers\<close>

definition digit_char :: "nat \<Rightarrow> char" where
  "digit_char d = char_of (48 + d)"

fun dec :: "nat \<Rightarrow> string" where
  "dec n = (if n < 10 then [digit_char n] else dec (n div 10) @ [digit_char (n mod 10)])"

declare dec.simps [simp del]

definition digit_val :: "char \<Rightarrow> nat option" where
  "digit_val c = (let n = of_char c in if 48 \<le> n \<and> n \<le> (57::nat) then Some (n - 48) else None)"

fun digits_val :: "nat \<Rightarrow> string \<Rightarrow> nat option" where
  "digits_val acc [] = Some acc"
| "digits_val acc (c # cs) =
     (case digit_val c of None \<Rightarrow> None | Some d \<Rightarrow> digits_val (acc * 10 + d) cs)"

lemma digit_val_digit_char [simp]: "d < 10 \<Longrightarrow> digit_val (digit_char d) = Some d"
  by (simp add: digit_val_def digit_char_def take_bit_eq_mod of_char_of)

lemma digits_val_append:
  "digits_val acc (s @ t) = (case digits_val acc s of None \<Rightarrow> None | Some a \<Rightarrow> digits_val a t)"
  by (induction s arbitrary: acc) (auto split: option.splits)

lemma digits_val_dec [simp]: "digits_val 0 (dec n) = Some n"
proof (induction n rule: dec.induct)
  case (1 n)
  then show ?case by (subst dec.simps) (auto simp: digits_val_append)
qed

lemma dec_inject [simp]: "dec m = dec n \<longleftrightarrow> m = n"
  by (metis digits_val_dec option.inject)

lemma dec_not_Nil [simp]: "dec n \<noteq> []"
  by (subst dec.simps) simp

lemma dec_digits: "c \<in> set (dec n) \<Longrightarrow> \<exists>d < 10. c = digit_char d"
proof (induction n rule: dec.induct)
  case (1 n)
  show ?case
  proof (cases "n < 10")
    case True
    with "1.prems" show ?thesis by (subst (asm) dec.simps) auto
  next
    case False
    with "1.prems" have "c \<in> set (dec (n div 10)) \<or> c = digit_char (n mod 10)"
      by (subst (asm) dec.simps) auto
    with "1.IH" False show ?thesis by (metis mod_less_divisor zero_less_numeral)
  qed
qed

lemma of_char_digit_char: "d < 10 \<Longrightarrow> of_char (digit_char d) = 48 + d"
  by (simp add: digit_char_def of_char_of)

lemma length_dec_le: "n < 10 ^ k \<Longrightarrow> 0 < k \<Longrightarrow> length (dec n) \<le> k"
proof (induction k arbitrary: n)
  case (Suc k)
  show ?case
  proof (cases "n < 10")
    case True
    then show ?thesis by (subst dec.simps) simp
  next
    case False
    with Suc.prems have "0 < k" by (cases k) auto
    moreover have "n div 10 < 10 ^ k" using Suc.prems by auto
    ultimately show ?thesis using Suc.IH [of "n div 10"] False by (subst dec.simps) simp
  qed
qed simp

lemma digit_char_eval [simp]:
  "digit_char 0 = CHR ''0''" "digit_char (Suc 0) = CHR ''1''" "digit_char 1 = CHR ''1''"
  "digit_char 2 = CHR ''2''" "digit_char 3 = CHR ''3''" "digit_char 4 = CHR ''4''"
  "digit_char 5 = CHR ''5''" "digit_char 6 = CHR ''6''" "digit_char 7 = CHR ''7''"
  "digit_char 8 = CHR ''8''" "digit_char 9 = CHR ''9''"
  by (simp_all add: digit_char_def char_of_def bit_0)

lemma dec_numeral [simp]:
  "dec (numeral k) = (if numeral k < (10::nat) then [digit_char (numeral k)]
     else dec (numeral k div 10) @ [digit_char (numeral k mod 10)])"
  by (rule dec.simps)

lemma dec_small [simp]: "dec 0 = ''0''" "dec (Suc 0) = ''1''"
  by (simp_all add: dec.simps)

text \<open>\<open>i32::to_string\<close> and \<open>str::parse::<i32>\<close> (an optional sign, at least one digit, in range).\<close>

definition i32_to_string :: "i32 \<Rightarrow> string" where
  "i32_to_string x = (if sint x < 0 then CHR ''-'' # dec (nat (- sint x)) else dec (nat (sint x)))"

definition parse_i32 :: "string \<Rightarrow> i32 option" where
  "parse_i32 s =
     (let neg = starts_with s ''-'';
          ds = (if neg \<or> starts_with s ''+'' then tl s else s) in
      if ds = [] then None
      else (case digits_val 0 ds of
          None \<Rightarrow> None
        | Some n \<Rightarrow>
            (let v = (if neg then - int n else int n) in
             if - (2 ^ 31) \<le> v \<and> v < 2 ^ 31 then Some (word_of_int v) else None)))"

lemma digit_val_minus [simp]: "digit_val CHR ''-'' = None" "digit_val CHR ''+'' = None"
  by (simp_all add: digit_val_def)

lemma digits_val_sign:
  "digits_val a s = Some n \<Longrightarrow> \<not> starts_with s ''-'' \<and> \<not> starts_with s ''+''"
  by (cases s) (auto simp: starts_with_def split: option.splits)

lemma sint_i32_range: "- (2 ^ 31) \<le> sint (x :: i32)" "sint (x :: i32) < 2 ^ 31"
  using sint_greater_eq [of x] sint_lt [of x] by simp_all

lemma parse_i32_to_string [simp]: "parse_i32 (i32_to_string x) = Some x"
proof (cases "sint x < 0")
  case True
  then show ?thesis
    using sint_i32_range [of x]
    by (simp add: parse_i32_def i32_to_string_def starts_with_def Let_def)
next
  case False
  have "\<not> starts_with (dec (nat (sint x))) ''-''" "\<not> starts_with (dec (nat (sint x))) ''+''"
    using digits_val_sign [OF digits_val_dec] by blast+
  with False show ?thesis
    using sint_i32_range [of x]
    by (simp add: parse_i32_def i32_to_string_def Let_def)
qed

lemma i32_to_string_chars:
  "c \<in> set (i32_to_string x) \<Longrightarrow> c = CHR ''-'' \<or> (\<exists>d < 10. c = digit_char d)"
  by (auto simp: i32_to_string_def split: if_splits dest: dec_digits)

section \<open>Line endings and white space\<close>

text \<open>\<open>s.replace("\r\n", "\n").replace('\r', "\n")\<close>, in two passes as the code makes them.\<close>

definition cr :: char where "cr = CHR 0x0D"
definition lf :: char where "lf = CHR 0x0A"

fun replace_crlf :: "string \<Rightarrow> string" where
  "replace_crlf [] = []"
| "replace_crlf [a] = [a]"
| "replace_crlf (a # b # s) =
     (if a = CHR 0x0D \<and> b = CHR 0x0A then CHR 0x0A # replace_crlf s
      else a # replace_crlf (b # s))"

definition replace_cr :: "string \<Rightarrow> string" where
  "replace_cr s = map (\<lambda>c. if c = CHR 0x0D then CHR 0x0A else c) s"

text \<open>
  \<open>str::trim_start\<close>: drops leading characters with the Unicode White_Space property, here by
  their one-, two- and three-byte UTF-8 forms.
\<close>

definition ws1 :: "char \<Rightarrow> bool" where
  "ws1 a \<longleftrightarrow> a \<in> {CHR 0x09, CHR 0x0A, CHR 0x0B, CHR 0x0C, CHR 0x0D, CHR '' ''}"

definition ws2 :: "char \<Rightarrow> char \<Rightarrow> bool" where
  "ws2 a b \<longleftrightarrow> a = CHR 0xC2 \<and> (b = CHR 0x85 \<or> b = CHR 0xA0)"

definition ws3 :: "char \<Rightarrow> char \<Rightarrow> char \<Rightarrow> bool" where
  "ws3 a b c \<longleftrightarrow>
     a = CHR 0xE1 \<and> b = CHR 0x9A \<and> c = CHR 0x80 \<or>
     a = CHR 0xE2 \<and> b = CHR 0x80 \<and>
       ((0x80 \<le> (of_char c :: nat) \<and> (of_char c :: nat) \<le> 0x8A) \<or> c \<in> {CHR 0xA8, CHR 0xA9, CHR 0xAF}) \<or>
     a = CHR 0xE2 \<and> b = CHR 0x81 \<and> c = CHR 0x9F \<or>
     a = CHR 0xE3 \<and> b = CHR 0x80 \<and> c = CHR 0x80"

fun trim_start :: "string \<Rightarrow> string" where
  "trim_start [] = []"
| "trim_start (a # s) =
     (if ws1 a then trim_start s
      else (case s of
          [] \<Rightarrow> a # s
        | b # t \<Rightarrow>
            if ws2 a b then trim_start t
            else (case t of
                [] \<Rightarrow> a # s
              | c # u \<Rightarrow> if ws3 a b c then trim_start u else a # s)))"

text \<open>\<open>s.split_terminator('\n')\<close>: as \<open>split\<close>, without the empty piece after a final separator.\<close>

definition split_terminator :: "char \<Rightarrow> string \<Rightarrow> string list" where
  "split_terminator c s =
     (let ps = split_on c s in if last ps = [] then butlast ps else ps)"

lemma replace_cr_no_cr: "CHR 0x0D \<notin> set (replace_cr s)"
  by (auto simp: replace_cr_def)

lemma concat_terminated:
  "qs \<noteq> [] \<Longrightarrow> concat (map (\<lambda>l. l @ [c]) qs) = join [c] qs @ [c]"
  by (induction qs rule: induct_list012) auto

lemma last_join:
  assumes "l \<noteq> []"
  shows "last (join [c] (qs @ [l])) = last l"
  using assms by (cases "qs = []") (simp_all add: join_append)

lemma split_terminator_join:
  assumes "s \<noteq> []"
  shows "concat (map (\<lambda>l. l @ [c]) (split_terminator c s)) =
    (if last s = c then s else s @ [c])"
proof -
  obtain qs l where ps: "split_on c s = qs @ [l]"
    by (metis append_butlast_last_id split_on_not_Nil)
  have s: "join [c] (qs @ [l]) = s" using ps by (metis join_split_on)
  show ?thesis
  proof (cases "l = []")
    case True
    have "qs \<noteq> []" using s assms True by auto
    moreover from this have "s = join [c] qs @ [c]" using s True by (simp add: join_append)
    ultimately show ?thesis using ps True by (simp add: split_terminator_def concat_terminated)
  next
    case False
    have "c \<notin> set l" using ps split_on_pieces [of l c s] by simp
    with False have "last l \<noteq> c" by (metis last_in_set)
    moreover have "last s = last l" using last_join [OF False] s by metis
    moreover have "concat (map (\<lambda>l. l @ [c]) (qs @ [l])) = s @ [c]"
      using concat_terminated [of "qs @ [l]" c] s by simp
    ultimately show ?thesis using ps False by (simp add: split_terminator_def)
  qed
qed

end
