(* ===== verification/Einvoice_Core.thy ===== *)
theory Einvoice_Core
  imports Text_Utils
begin

text \<open>
  \<open>crates/einvoice-core\<close>: the MIG version token, the \<open>BAN\<close> data element, the lexical
  message code and the submission lifecycle names.
\<close>

section \<open>MigVersion\<close>

datatype mig_version = V4_1

fun mig_version_as_str :: "mig_version \<Rightarrow> string" where
  "mig_version_as_str V4_1 = ''4.1''"

section \<open>Ban\<close>

datatype ban = Ban (ban_str: string)

datatype ban_error = BanError

definition B2C_BUYER :: string where
  "B2C_BUYER = ''0000000000''"

definition ban_parse :: "string \<Rightarrow> ban_error + ban" where
  "ban_parse value =
     (if (8 \<le> length value \<and> length value \<le> 10) \<and> list_all is_ascii_digit (as_bytes value)
      then Inr (Ban value) else Inl BanError)"

definition ban_as_str :: "ban \<Rightarrow> string" where
  "ban_as_str b = ban_str b"

definition is_b2c_buyer :: "ban \<Rightarrow> bool" where
  "is_b2c_buyer b \<longleftrightarrow> ban_str b = B2C_BUYER"

definition wf_ban :: "ban \<Rightarrow> bool" where
  "wf_ban b \<longleftrightarrow> 8 \<le> length (ban_str b) \<and> length (ban_str b) \<le> 10 \<and>
     list_all is_ascii_digit (as_bytes (ban_str b))"

lemma ban_parse_Inr: "ban_parse v = Inr b \<longleftrightarrow> b = Ban v \<and> wf_ban (Ban v)"
  by (auto simp: ban_parse_def wf_ban_def)

section \<open>MessageCode\<close>

datatype message_code = MessageCode (message_code_str: string)

datatype message_code_error = MessageCodeError

text \<open>\<open>bytes[0]\<close> and \<open>bytes[1..]\<close> are read only after the length test.\<close>

definition message_code_parse :: "string \<Rightarrow> message_code_error + message_code" where
  "message_code_parse value =
     (let bytes = as_bytes value;
          valid = (length bytes = 5 \<and> is_ascii_uppercase (bytes ! 0) \<and>
                   list_all is_ascii_digit (drop 1 bytes))
      in if valid then Inr (MessageCode value) else Inl MessageCodeError)"

definition message_code_as_str :: "message_code \<Rightarrow> string" where
  "message_code_as_str c = message_code_str c"

section \<open>SubmissionState\<close>

datatype submission_state =
    SCreated | SValidated | SQueued | SPackaged | SSigned | SUploaded | SEnqueued
  | SPlatformProcessing | SAccepted | SRejected

end
