(* ===== verification/Mig_Primitives.thy ===== *)
theory Mig_Primitives
  imports Einvoice_Core
begin

text \<open>
  \<open>crates/einvoice-mig/src/primitives.rs\<close>: the lexical data elements of MIG 4.1 and the
  enumerations with their wire values.
\<close>

section \<open>Errors\<close>

datatype primitive_error =
    InvalidInvoiceNumber
  | InvalidDate
  | InvalidTime
  | InvalidDecimal
  | NegativeDecimal
  | DecimalPrecision (max_total_digits: nat) (max_fraction_digits: nat)
  | InvalidZeroTaxRateReason
  | InvalidCurrencyCode

fun primitive_error_to_string :: "primitive_error \<Rightarrow> string" where
  "primitive_error_to_string InvalidInvoiceNumber =
     ''invoice number must be two uppercase letters followed by eight digits''"
| "primitive_error_to_string InvalidDate =
     ''MIG date must use YYYYMMDD with valid month/day ranges''"
| "primitive_error_to_string InvalidTime = ''MIG time must use canonical HH:MM:SS''"
| "primitive_error_to_string InvalidDecimal = ''value is not a canonical XML decimal''"
| "primitive_error_to_string NegativeDecimal = ''decimal value must not be negative''"
| "primitive_error_to_string (DecimalPrecision t f) =
     ''decimal exceeds '' @ dec t @ '' total digits or '' @ dec f @ '' fractional digits''"
| "primitive_error_to_string InvalidZeroTaxRateReason =
     ''zero-tax-rate reason must be in 71 through 79''"
| "primitive_error_to_string InvalidCurrencyCode =
     ''currency code must contain exactly three uppercase ASCII letters''"

section \<open>InvoiceNumber\<close>

datatype invoice_number = InvoiceNumber (invoice_number_str: string)

definition invoice_number_parse :: "string \<Rightarrow> primitive_error + invoice_number" where
  "invoice_number_parse value =
     (let bytes = as_bytes value;
          valid = (length bytes = 10 \<and> list_all is_ascii_uppercase (take 2 bytes) \<and>
                   list_all is_ascii_digit (drop 2 bytes))
      in if valid then Inr (InvoiceNumber value) else Inl InvalidInvoiceNumber)"

section \<open>MigDate\<close>

datatype mig_date = MigDate (mig_date_str: string)

text \<open>\<open>u8\<close> arithmetic, wrapping; the callers pass two digits.\<close>

definition parse_two :: "bytes \<Rightarrow> u8" where
  "parse_two bytes = (bytes ! 0 - 48) * 10 + (bytes ! 1 - 48)"

definition slice :: "nat \<Rightarrow> nat \<Rightarrow> 'a list \<Rightarrow> 'a list" where
  "slice i j xs = take (j - i) (drop i xs)"

definition mig_date_parse :: "string \<Rightarrow> primitive_error + mig_date" where
  "mig_date_parse value =
     (let bytes = as_bytes value in
      if length bytes \<noteq> 8 \<or> \<not> list_all is_ascii_digit bytes then Inl InvalidDate
      else
        let month = parse_two (slice 4 6 bytes);
            day = parse_two (slice 6 8 bytes)
        in if \<not> (1 \<le> month \<and> month \<le> 12) \<or> \<not> (1 \<le> day \<and> day \<le> 31) then Inl InvalidDate
           else Inr (MigDate value))"

definition is_leap_year :: "u32 \<Rightarrow> bool" where
  "is_leap_year year \<longleftrightarrow> year mod 400 = 0 \<or> (year mod 4 = 0 \<and> \<not> year mod 100 = 0)"

definition is_calendar_date :: "mig_date \<Rightarrow> bool" where
  "is_calendar_date d =
     (let bytes = as_bytes (mig_date_str d);
          year = (ucast (bytes ! 0 - 48) * 1000 + ucast (bytes ! 1 - 48) * 100
                  + ucast (bytes ! 2 - 48) * 10 + ucast (bytes ! 3 - 48) :: u32);
          month = parse_two (slice 4 6 bytes);
          day = parse_two (slice 6 8 bytes)
      in if month \<in> {1, 3, 5, 7, 8, 10, 12} then day \<le> 31
         else if month \<in> {4, 6, 9, 11} then day \<le> 30
         else if month = 2 then (if is_leap_year year then day \<le> 29 else day \<le> 28)
         else False)"

section \<open>MigTime\<close>

datatype mig_time = MigTime (mig_time_str: string)

definition mig_time_parse :: "string \<Rightarrow> primitive_error + mig_time" where
  "mig_time_parse value =
     (let bytes = as_bytes value in
      if length bytes \<noteq> 8 \<or> bytes ! 2 \<noteq> 58 \<or> bytes ! 5 \<noteq> 58 \<or>
         \<not> list_all (\<lambda>index. is_ascii_digit (bytes ! index)) [0, 1, 3, 4, 6, 7]
      then Inl InvalidTime
      else
        let hour = parse_two (slice 0 2 bytes);
            minute = parse_two (slice 3 5 bytes);
            second = parse_two (slice 6 8 bytes)
        in if hour > 23 \<or> minute > 59 \<or> second > 59 then Inl InvalidTime
           else Inr (MigTime value))"

section \<open>MigDecimal\<close>

datatype mig_decimal = MigDecimal (mig_decimal_str: string)

definition mig_decimal_parse :: "string \<Rightarrow> nat \<Rightarrow> nat \<Rightarrow> bool \<Rightarrow> primitive_error + mig_decimal" where
  "mig_decimal_parse value max_total max_fraction non_negative =
     (let unsigned = (if starts_with value ''-'' then drop 1 value else value) in
      if unsigned = [] \<or> starts_with value ''+'' then Inl InvalidDecimal
      else if non_negative \<and> starts_with value ''-'' then Inl NegativeDecimal
      else
        let parts = split_on CHR ''.'' unsigned;
            integer = (case parts of [] \<Rightarrow> [] | p # _ \<Rightarrow> p);
            fraction = (case parts of _ # q # _ \<Rightarrow> Some q | _ \<Rightarrow> None)
        in if 2 < length parts \<or> integer = [] \<or>
              \<not> list_all is_ascii_digit (as_bytes integer) \<or>
              (case fraction of None \<Rightarrow> False
               | Some digits \<Rightarrow> digits = [] \<or> \<not> list_all is_ascii_digit (as_bytes digits))
           then Inl InvalidDecimal
           else
             let fraction_len = (case fraction of None \<Rightarrow> 0 | Some digits \<Rightarrow> length digits);
                 total_digits = length integer + fraction_len
             in if max_total < total_digits \<or> max_fraction < fraction_len
                then Inl (DecimalPrecision max_total max_fraction)
                else Inr (MigDecimal value))"

definition mig_decimal_is_negative :: "mig_decimal \<Rightarrow> bool" where
  "mig_decimal_is_negative d \<longleftrightarrow> starts_with (mig_decimal_str d) ''-''"

section \<open>Enumerations and their wire values\<close>

datatype invoice_type = GeneralTax | InvSpecialTax

fun invoice_type_wire :: "invoice_type \<Rightarrow> string" where
  "invoice_type_wire GeneralTax = ''07''"
| "invoice_type_wire InvSpecialTax = ''08''"

datatype donate_mark = NotDonated | Donated

fun donate_mark_wire :: "donate_mark \<Rightarrow> string" where
  "donate_mark_wire NotDonated = ''0''"
| "donate_mark_wire Donated = ''1''"

datatype print_mark = Print | DoNotPrint

fun print_mark_wire :: "print_mark \<Rightarrow> string" where
  "print_mark_wire Print = ''Y''"
| "print_mark_wire DoNotPrint = ''N''"

datatype tax_type = Taxable | ZeroRated | TaxFree | SpecialTax | Mixed

fun tax_type_wire :: "tax_type \<Rightarrow> string" where
  "tax_type_wire Taxable = ''1''"
| "tax_type_wire ZeroRated = ''2''"
| "tax_type_wire TaxFree = ''3''"
| "tax_type_wire SpecialTax = ''4''"
| "tax_type_wire Mixed = ''9''"

datatype tax_rate =
  ZeroPercent | OnePercent | TwoPercent | FivePercent | FifteenPercent | TwentyFivePercent

fun tax_rate_wire :: "tax_rate \<Rightarrow> string" where
  "tax_rate_wire ZeroPercent = ''0''"
| "tax_rate_wire OnePercent = ''0.01''"
| "tax_rate_wire TwoPercent = ''0.02''"
| "tax_rate_wire FivePercent = ''0.05''"
| "tax_rate_wire FifteenPercent = ''0.15''"
| "tax_rate_wire TwentyFivePercent = ''0.25''"

datatype buyer_remark =
  DeductibleExpense | DeductibleFixedAsset | NonDeductibleExpense | NonDeductibleFixedAsset

fun buyer_remark_wire :: "buyer_remark \<Rightarrow> string" where
  "buyer_remark_wire DeductibleExpense = ''1''"
| "buyer_remark_wire DeductibleFixedAsset = ''2''"
| "buyer_remark_wire NonDeductibleExpense = ''3''"
| "buyer_remark_wire NonDeductibleFixedAsset = ''4''"

datatype customs_clearance_mark = NotThroughCustoms | ThroughCustoms

fun customs_clearance_wire :: "customs_clearance_mark \<Rightarrow> string" where
  "customs_clearance_wire NotThroughCustoms = ''1''"
| "customs_clearance_wire ThroughCustoms = ''2''"

datatype bonded_area = Article7Paragraph4 | Article7Paragraph7 | FreeTradeZone | OtherArea

fun bonded_area_wire :: "bonded_area \<Rightarrow> string" where
  "bonded_area_wire Article7Paragraph4 = ''1''"
| "bonded_area_wire Article7Paragraph7 = ''2''"
| "bonded_area_wire FreeTradeZone = ''3''"
| "bonded_area_wire OtherArea = ''4''"

lemma invoice_type_wire_inject [simp]: "invoice_type_wire i = invoice_type_wire i' \<longleftrightarrow> i = i'"
  by (cases i; cases i') simp_all

lemma donate_mark_wire_inject [simp]: "donate_mark_wire d = donate_mark_wire d' \<longleftrightarrow> d = d'"
  by (cases d; cases d') simp_all

lemma print_mark_wire_inject [simp]: "print_mark_wire p = print_mark_wire p' \<longleftrightarrow> p = p'"
  by (cases p; cases p') simp_all

lemma tax_type_wire_inject [simp]: "tax_type_wire t = tax_type_wire t' \<longleftrightarrow> t = t'"
  by (cases t; cases t') simp_all

lemma tax_rate_wire_inject [simp]: "tax_rate_wire r = tax_rate_wire r' \<longleftrightarrow> r = r'"
  by (cases r; cases r') simp_all

lemma buyer_remark_wire_inject [simp]: "buyer_remark_wire b = buyer_remark_wire b' \<longleftrightarrow> b = b'"
  by (cases b; cases b') simp_all

lemma customs_clearance_wire_inject [simp]: "customs_clearance_wire c = customs_clearance_wire c' \<longleftrightarrow> c = c'"
  by (cases c; cases c') simp_all

lemma bonded_area_wire_inject [simp]: "bonded_area_wire a = bonded_area_wire a' \<longleftrightarrow> a = a'"
  by (cases a; cases a') simp_all

section \<open>ZeroTaxRateReason, CurrencyCode\<close>

datatype zero_tax_rate_reason = ZeroTaxRateReason (zero_tax_rate_reason_value: u8)

definition zero_tax_rate_reason_new :: "u8 \<Rightarrow> primitive_error + zero_tax_rate_reason" where
  "zero_tax_rate_reason_new value =
     (if 71 \<le> value \<and> value \<le> 79 then Inr (ZeroTaxRateReason value)
      else Inl InvalidZeroTaxRateReason)"

definition zero_tax_rate_reason_wire :: "zero_tax_rate_reason \<Rightarrow> string" where
  "zero_tax_rate_reason_wire r = dec (unat (zero_tax_rate_reason_value r))"

lemma zero_tax_rate_reason_wire_inject [simp]:
  "zero_tax_rate_reason_wire r = zero_tax_rate_reason_wire r' \<longleftrightarrow> r = r'"
  by (cases r; cases r') (simp add: zero_tax_rate_reason_wire_def word_unat_eq_iff)

datatype currency_code = CurrencyCode (currency_code_str: string)

definition currency_code_parse :: "string \<Rightarrow> primitive_error + currency_code" where
  "currency_code_parse value =
     (if length value = 3 \<and> list_all is_ascii_uppercase (as_bytes value)
      then Inr (CurrencyCode value) else Inl InvalidCurrencyCode)"

section \<open>Digit strings\<close>

lemma digit_byte: "is_ascii_digit (of_char c) \<longleftrightarrow> (\<exists>d < 10. c = digit_char d)"
proof
  assume "is_ascii_digit (of_char c)"
  then have "48 \<le> (of_char c :: nat)" "(of_char c :: nat) \<le> 57"
    by (simp_all add: is_ascii_digit_unat)
  then have "c = digit_char (of_char c - 48)" "of_char c - 48 < (10::nat)"
    by (simp_all add: digit_char_def)
  then show "\<exists>d < 10. c = digit_char d" by blast
qed (auto simp: is_ascii_digit_unat of_char_digit_char)

lemma digit_string:
  "list_all is_ascii_digit (as_bytes v) \<longleftrightarrow>
     (\<exists>ds. v = map digit_char ds \<and> list_all (\<lambda>d. d < 10) ds)"
proof
  assume "list_all is_ascii_digit (as_bytes v)"
  then show "\<exists>ds. v = map digit_char ds \<and> list_all (\<lambda>d. d < 10) ds"
  proof (induction v)
    case (Cons c v)
    then obtain d ds where "d < 10" "c = digit_char d" "v = map digit_char ds" "list_all (\<lambda>d. d < 10) ds"
      by (auto simp: digit_byte)
    then show ?case by (intro exI [of _ "d # ds"]) simp
  qed simp
next
  assume "\<exists>ds. v = map digit_char ds \<and> list_all (\<lambda>d. d < 10) ds"
  then obtain ds where "v = map digit_char ds" "list_all (\<lambda>d. d < 10) ds" by blast
  then show "list_all is_ascii_digit (as_bytes v)"
    by (induction ds arbitrary: v) (auto simp: digit_byte)
qed

lemma of_char_digit_word [simp]: "d < 10 \<Longrightarrow> (of_char (digit_char d) :: u8) = 48 + of_nat d"
proof -
  assume d: "d < 10"
  have "unat (of_char (digit_char d) :: u8) = unat (48 + of_nat d :: u8)"
    using d by (simp add: of_char_digit_char unat_word_ariths unat_of_nat)
  then show ?thesis by (rule word_unat_eq_iff [THEN iffD2])
qed

text \<open>\<open>parse_two\<close> on two digits never leaves the range of \<open>u8\<close> and is their decimal value.\<close>

lemma parse_two_digits:
  assumes "a < 10" "b < 10"
  shows "parse_two [of_char (digit_char a), of_char (digit_char b)] = of_nat (10 * a + b)"
    and "unat (parse_two [of_char (digit_char a), of_char (digit_char b)]) = 10 * a + b"
proof -
  show eq: "parse_two [of_char (digit_char a), of_char (digit_char b)] = of_nat (10 * a + b)"
    using assms by (simp add: parse_two_def)
  show "unat (parse_two [of_char (digit_char a), of_char (digit_char b)]) = 10 * a + b"
    unfolding eq using assms by (simp add: unat_of_nat del: of_nat_add of_nat_mult)
qed

definition two_digits :: "nat \<Rightarrow> string" where
  "two_digits n = [digit_char (n div 10), digit_char (n mod 10)]"

definition date_text :: "nat \<Rightarrow> nat \<Rightarrow> nat \<Rightarrow> string" where
  "date_text y m d = two_digits (y div 100) @ two_digits (y mod 100) @ two_digits m @ two_digits d"

definition time_text :: "nat \<Rightarrow> nat \<Rightarrow> nat \<Rightarrow> string" where
  "time_text h m s = two_digits h @ '':'' @ two_digits m @ '':'' @ two_digits s"

definition leap :: "nat \<Rightarrow> bool" where
  "leap y \<longleftrightarrow> 4 dvd y \<and> (100 dvd y \<longrightarrow> 400 dvd y)"

definition days_in_month :: "nat \<Rightarrow> nat \<Rightarrow> nat" where
  "days_in_month y m =
     (if m = 2 then (if leap y then 29 else 28)
      else if m \<in> {4, 6, 9, 11} then 30 else 31)"

lemma two_digits_pair: "a < 10 \<Longrightarrow> b < 10 \<Longrightarrow> two_digits (10 * a + b) = [digit_char a, digit_char b]"
  by (simp add: two_digits_def)

lemma list8: "length xs = 8 \<longleftrightarrow> (\<exists>a b c d e f g h. xs = [a, b, c, d, e, f, g, h])"
  by (auto simp: eval_nat_numeral length_Suc_conv)

lemma digit_string8:
  "length v = 8 \<and> list_all is_ascii_digit (as_bytes v) \<longleftrightarrow>
     (\<exists>a b c d e f g h. v = map digit_char [a, b, c, d, e, f, g, h] \<and>
        list_all (\<lambda>d. d < 10) [a, b, c, d, e, f, g, h])"
  unfolding digit_string by (metis length_map list8)

lemma decimal4:
  "1000 * (y div 1000) + 100 * (y div 100 mod 10) + 10 * (y div 10 mod 10) + y mod 10 = (y :: nat)"
proof -
  have "y div 10 = 10 * (y div 100) + y div 10 mod 10"
    using div_mult_mod_eq [of "y div 10" 10] by (simp add: div_mult2_eq [symmetric])
  moreover have "y div 100 = 10 * (y div 1000) + y div 100 mod 10"
    using div_mult_mod_eq [of "y div 100" 10] by (simp add: div_mult2_eq [symmetric])
  moreover have "y = 10 * (y div 10) + y mod 10" by simp
  ultimately show ?thesis by linarith
qed

lemma date_text_map:
  assumes "y < 10000" "m < 100" "k < 100"
  shows "date_text y m k = map digit_char
    [y div 1000, y div 100 mod 10, y div 10 mod 10, y mod 10, m div 10, m mod 10, k div 10, k mod 10]"
proof -
  have "y mod 100 = 10 * (y div 10 mod 10) + y mod 10"
    using mod_mult2_eq [of y 10 10] by simp
  then have "y mod 100 div 10 = y div 10 mod 10" "y mod 100 mod 10 = y mod 10" by simp_all
  then show ?thesis by (simp add: date_text_def two_digits_def div_mult2_eq [symmetric])
qed

lemma date_text_digits:
  assumes "a < 10" "b < 10" "c < 10" "d < 10" "e < 10" "f < 10" "g < 10" "h < 10"
  shows "date_text (1000 * a + 100 * b + 10 * c + d) (10 * e + f) (10 * g + h) =
    map digit_char [a, b, c, d, e, f, g, h]"
proof -
  have r: "10 * c + d < 100" using assms by simp
  have n: "1000 * a + 100 * b + 10 * c + d = (10 * c + d) + (10 * a + b) * 100" by simp
  have "(1000 * a + 100 * b + 10 * c + d) div 100 = 10 * a + b"
    "(1000 * a + 100 * b + 10 * c + d) mod 100 = 10 * c + d"
    unfolding n using r by (simp_all only: div_mult_self1 mod_mult_self1) simp_all
  then show ?thesis unfolding date_text_def using assms by (simp add: two_digits_pair)
qed

lemma mig_date_parse_digits:
  assumes "a < 10" "b < 10" "c < 10" "d < 10" "e < 10" "f < 10" "g < 10" "h < 10"
  shows "mig_date_parse (map digit_char [a, b, c, d, e, f, g, h]) =
    (if 1 \<le> 10 * e + f \<and> 10 * e + f \<le> 12 \<and> 1 \<le> 10 * g + h \<and> 10 * g + h \<le> 31
     then Inr (MigDate (map digit_char [a, b, c, d, e, f, g, h])) else Inl InvalidDate)"
proof -
  let ?v = "map digit_char [a, b, c, d, e, f, g, h]"
  have "length ?v = 8 \<and> list_all is_ascii_digit (as_bytes ?v)"
    unfolding digit_string using assms by (intro conjI exI) (simp, rule refl, simp)
  moreover have "slice 4 6 (as_bytes ?v) = [of_char (digit_char e), of_char (digit_char f)]"
    "slice 6 8 (as_bytes ?v) = [of_char (digit_char g), of_char (digit_char h)]"
    by (simp_all add: slice_def)
  ultimately show ?thesis
    unfolding mig_date_parse_def Let_def
    using parse_two_digits(2) [of e f] parse_two_digits(2) [of g h] assms
    by (auto simp add: word_le_nat_alt simp del: of_char_digit_word list.map)
qed

lemma mig_date_parse_cases: "mig_date_parse v = Inr (MigDate v) \<or> mig_date_parse v = Inl InvalidDate"
  by (simp add: mig_date_parse_def Let_def)

lemma mig_date_parse_text:
  assumes "y < 10000" "1 \<le> m" "m \<le> 12" "1 \<le> k" "k \<le> 31"
  shows "mig_date_parse (date_text y m k) = Inr (MigDate (date_text y m k))"
proof -
  have lt: "m < 100" "k < 100" using assms by simp_all
  show ?thesis
    unfolding date_text_map [OF assms(1) lt]
    by (subst mig_date_parse_digits) (use assms in simp_all)
qed

lemma mig_date_parse_Inr:
  assumes "mig_date_parse v = Inr d"
  obtains y m k where "y < 10000" "1 \<le> m" "m \<le> 12" "1 \<le> k" "k \<le> 31" "v = date_text y m k"
    "d = MigDate v"
proof -
  from assms have "length v = 8 \<and> list_all is_ascii_digit (as_bytes v)"
    by (auto simp: mig_date_parse_def Let_def split: if_splits)
  then obtain a b c i e f g h where v: "v = map digit_char [a, b, c, i, e, f, g, h]"
    and lt: "a < 10" "b < 10" "c < 10" "i < 10" "e < 10" "f < 10" "g < 10" "h < 10"
    unfolding digit_string8 by auto
  with assms mig_date_parse_digits [OF lt]
  have "1 \<le> 10 * e + f" "10 * e + f \<le> 12" "1 \<le> 10 * g + h" "10 * g + h \<le> 31" "d = MigDate v"
    by (auto split: if_splits)
  then show thesis
    using that [of "1000 * a + 100 * b + 10 * c + i"] v lt date_text_digits [OF lt] by simp
qed

text \<open>
  \<open>MigDate::parse\<close> accepts exactly the texts \<open>YYYYMMDD\<close> of a four-digit year, a month
  in 1-12 and a day in 1-31, keeps the text unchanged, and rejects every other input with
  \<open>InvalidDate\<close>.
\<close>

theorem mig_date_parse_spec:
  "mig_date_parse v =
     (if \<exists>y m d. y < 10000 \<and> 1 \<le> m \<and> m \<le> 12 \<and> 1 \<le> d \<and> d \<le> 31 \<and> v = date_text y m d
      then Inr (MigDate v) else Inl InvalidDate)"
proof (cases "mig_date_parse v = Inr (MigDate v)")
  case True
  then show ?thesis by (metis mig_date_parse_Inr)
next
  case False
  then show ?thesis using mig_date_parse_text mig_date_parse_cases by metis
qed

lemma month_cases_unat:
  "(if mo \<in> {1, 3, 5, 7, 8, 10, 12} then da \<le> 31 else if mo \<in> {4, 6, 9, 11} then da \<le> 30
    else if mo = 2 then (if l then da \<le> 29 else da \<le> 28) else False) \<longleftrightarrow>
   (if unat mo \<in> {1, 3, 5, 7, 8, 10, 12} then unat da \<le> 31
    else if unat mo \<in> {4, 6, 9, 11} then unat da \<le> 30
    else if unat mo = 2 then (if l then unat da \<le> 29 else unat da \<le> 28) else False)"
  for mo da :: u8
  by (simp add: word_unat_eq_iff word_le_nat_alt)

text \<open>
  C30.  The calendar check on a parsed date is the Gregorian calendar.
\<close>

theorem is_calendar_date_gregorian:
  assumes "y < 10000" "1 \<le> m" "m \<le> 12" "1 \<le> k" "k \<le> 31"
  shows "is_calendar_date (MigDate (date_text y m k)) \<longleftrightarrow> k \<le> days_in_month y m"
proof -
  have lt: "m < 100" "k < 100" using assms by simp_all
  define a b c d where "a = y div 1000" and "b = y div 100 mod 10" and "c = y div 10 mod 10"
    and "d = y mod 10"
  have digits: "a < 10" "b < 10" "c < 10" "d < 10"
    using assms(1) by (auto simp: a_def b_def c_def d_def)
  have y: "1000 * a + 100 * b + 10 * c + d = y" by (simp add: a_def b_def c_def d_def decimal4)
  let ?v = "date_text y m k"
  have v: "?v = map digit_char [a, b, c, d, m div 10, m mod 10, k div 10, k mod 10]"
    unfolding date_text_map [OF assms(1) lt] a_def b_def c_def d_def ..
  have month: "unat (parse_two (slice 4 6 (as_bytes ?v))) = m"
    unfolding v using parse_two_digits(2) [of "m div 10" "m mod 10"] lt
    by (simp add: slice_def del: of_char_digit_word)
  have day: "unat (parse_two (slice 6 8 (as_bytes ?v))) = k"
    unfolding v using parse_two_digits(2) [of "k div 10" "k mod 10"] lt
    by (simp add: slice_def del: of_char_digit_word)
  let ?year = "ucast (as_bytes ?v ! 0 - 48) * 1000 + ucast (as_bytes ?v ! 1 - 48) * 100
      + ucast (as_bytes ?v ! 2 - 48) * 10 + ucast (as_bytes ?v ! 3 - 48) :: u32"
  have "?year = of_nat y"
    unfolding v using digits by (simp add: y [symmetric] unsigned_of_nat take_bit_nat_eq_self)
  then have year: "unat ?year = y" using assms(1) by (simp add: unat_of_nat)
  have "400 dvd y \<Longrightarrow> 4 dvd y" by (rule dvd_trans [of 4 400]) simp_all
  then have leap: "is_leap_year ?year = leap y"
    unfolding is_leap_year_def leap_def word_unat_eq_iff unat_mod_distrib year dvd_eq_mod_eq_0
    by auto
  have step: "is_calendar_date (MigDate ?v) \<longleftrightarrow>
      (if m \<in> {1, 3, 5, 7, 8, 10, 12} then k \<le> 31 else if m \<in> {4, 6, 9, 11} then k \<le> 30
       else if m = 2 then (if leap y then k \<le> 29 else k \<le> 28) else False)"
    unfolding is_calendar_date_def Let_def mig_date.sel leap month_cases_unat month day ..
  have "m = 1 \<or> m = 2 \<or> m = 3 \<or> m = 4 \<or> m = 5 \<or> m = 6 \<or> m = 7 \<or> m = 8 \<or> m = 9 \<or> m = 10 \<or>
      m = 11 \<or> m = 12"
    using assms(2,3) by arith
  then show ?thesis unfolding step by (elim disjE) (simp_all add: days_in_month_def)
qed

theorem is_calendar_date_gregorian_witness:
  "is_calendar_date (MigDate (date_text 2024 2 29)) \<and> \<not> is_calendar_date (MigDate (date_text 2023 2 29))"
  using is_calendar_date_gregorian [of 2024 2 29] is_calendar_date_gregorian [of 2023 2 29]
  by (simp add: days_in_month_def leap_def)

text \<open>
  \<open>MigTime::parse\<close> accepts exactly the texts \<open>HH:MM:SS\<close> of a clock time.
\<close>

lemma two_digits_parse:
  assumes "n < 100"
  shows "as_bytes (two_digits n) = [of_char (digit_char (n div 10)), of_char (digit_char (n mod 10))]"
    and "unat (parse_two (as_bytes (two_digits n))) = n"
    and "list_all is_ascii_digit (as_bytes (two_digits n))"
proof -
  have lt: "n div 10 < 10" "n mod 10 < 10" using assms by simp_all
  show eq: "as_bytes (two_digits n) = [of_char (digit_char (n div 10)), of_char (digit_char (n mod 10))]"
    by (simp add: two_digits_def)
  show "unat (parse_two (as_bytes (two_digits n))) = n"
    unfolding eq parse_two_digits(2) [OF lt] by simp
  show "list_all is_ascii_digit (as_bytes (two_digits n))"
    unfolding digit_string two_digits_def using lt
    by (intro exI [of _ "[n div 10, n mod 10]"]) simp
qed

lemma two_digit_bytes:
  assumes "is_ascii_digit (of_char a)" "is_ascii_digit (of_char b)"
  shows "[a, b] = two_digits (unat (parse_two [of_char a, of_char b]))"
    and "unat (parse_two [of_char a, of_char b]) < 100"
proof -
  obtain d e where "d < 10" "e < 10" "a = digit_char d" "b = digit_char e"
    using assms by (auto simp: digit_byte)
  then show "[a, b] = two_digits (unat (parse_two [of_char a, of_char b]))"
    "unat (parse_two [of_char a, of_char b]) < 100"
    using parse_two_digits(2) [of d e] two_digits_pair [of d e] by (simp_all del: of_char_digit_word)
qed

lemma of_char_colon: "of_char c = (58 :: u8) \<longleftrightarrow> c = CHR '':''"
proof
  assume h: "of_char c = (58 :: u8)"
  have "(of_char c :: nat) = unat (of_char c :: u8)" by simp
  also have "\<dots> = 58" by (simp add: h del: unat_of_char)
  finally have n: "(of_char c :: nat) = 58" .
  have "c = char_of (of_char c :: nat)" by simp
  also have "\<dots> = char_of (58 :: nat)" unfolding n ..
  also have "\<dots> = CHR '':''" by (simp add: char_of_def bit_0)
  finally show "c = CHR '':''" .
qed simp

lemma mig_time_parse_text:
  assumes "h < 24" "m < 60" "s < 60"
  shows "mig_time_parse (time_text h m s) = Inr (MigTime (time_text h m s))"
proof -
  have lt: "h < 100" "m < 100" "s < 100" using assms by simp_all
  have len: "length (as_bytes (two_digits n)) = 2" for n by (simp add: two_digits_def)
  have b: "as_bytes (time_text h m s) =
      as_bytes (two_digits h) @ 58 # as_bytes (two_digits m) @ 58 # as_bytes (two_digits s)"
    by (simp add: time_text_def)
  note d = two_digits_parse(3) [OF lt(1)] two_digits_parse(3) [OF lt(2)] two_digits_parse(3) [OF lt(3)]
  have "slice 0 2 (as_bytes (time_text h m s)) = as_bytes (two_digits h)"
    "slice 3 5 (as_bytes (time_text h m s)) = as_bytes (two_digits m)"
    "slice 6 8 (as_bytes (time_text h m s)) = as_bytes (two_digits s)"
    "length (as_bytes (time_text h m s)) = 8"
    "as_bytes (time_text h m s) ! 2 = 58" "as_bytes (time_text h m s) ! 5 = 58"
    "list_all (\<lambda>index. is_ascii_digit (as_bytes (time_text h m s) ! index)) [0, 1, 3, 4, 6, 7]"
    unfolding b slice_def using d by (simp_all add: two_digits_def)
  then show ?thesis
    unfolding mig_time_parse_def Let_def
    using assms two_digits_parse(2) [OF lt(1)] two_digits_parse(2) [OF lt(2)] two_digits_parse(2) [OF lt(3)]
    by (simp add: word_less_nat_alt)
qed

lemma mig_time_parse_Inr:
  assumes "mig_time_parse v = Inr t"
  obtains h m s where "h < 24" "m < 60" "s < 60" "v = time_text h m s" "t = MigTime v"
proof -
  from assms have "length v = 8" by (auto simp: mig_time_parse_def Let_def split: if_splits)
  then obtain a b c d e f g h where v: "v = [a, b, c, d, e, f, g, h]" by (auto simp: list8)
  have t: "t = MigTime v" and c: "c = CHR '':''" "f = CHR '':''" and
    dg: "is_ascii_digit (of_char a)" "is_ascii_digit (of_char b)" "is_ascii_digit (of_char d)"
      "is_ascii_digit (of_char e)" "is_ascii_digit (of_char g)" "is_ascii_digit (of_char h)"
    and b: "unat (parse_two [of_char a, of_char b]) \<le> 23" "unat (parse_two [of_char d, of_char e]) \<le> 59"
      "unat (parse_two [of_char g, of_char h]) \<le> 59"
    using assms by (auto simp: v mig_time_parse_def Let_def slice_def of_char_colon
        word_less_nat_alt not_less split: if_splits)
  have "v = time_text (unat (parse_two [of_char a, of_char b])) (unat (parse_two [of_char d, of_char e]))
      (unat (parse_two [of_char g, of_char h]))"
    unfolding time_text_def two_digit_bytes(1) [OF dg(1,2), symmetric]
      two_digit_bytes(1) [OF dg(3,4), symmetric] two_digit_bytes(1) [OF dg(5,6), symmetric]
    using c by (simp add: v)
  with b t show thesis by (intro that) simp_all
qed

text \<open>
   \<open>MigTime::parse\<close> accepts exactly the texts \<open>HH:MM:SS\<close> of a clock time, keeps the text,
  and rejects every other input with \<open>InvalidTime\<close>.
\<close>

theorem mig_time_parse_spec:
  "mig_time_parse v =
     (if \<exists>h m s. h < 24 \<and> m < 60 \<and> s < 60 \<and> v = time_text h m s
      then Inr (MigTime v) else Inl InvalidTime)"
proof (cases "mig_time_parse v = Inr (MigTime v)")
  case True
  then show ?thesis by (metis mig_time_parse_Inr)
next
  case False
  moreover have "mig_time_parse v = Inr (MigTime v) \<or> mig_time_parse v = Inl InvalidTime"
    by (simp add: mig_time_parse_def Let_def)
  ultimately show ?thesis using mig_time_parse_text by metis
qed

section \<open>The decimal grammar\<close>

definition all_digits :: "string \<Rightarrow> bool" where
  "all_digits s \<longleftrightarrow> s \<noteq> [] \<and> list_all is_ascii_digit (as_bytes s)"

fun decimal_text :: "bool \<Rightarrow> string \<Rightarrow> string option \<Rightarrow> string" where
  "decimal_text neg i None = (if neg then ''-'' else []) @ i"
| "decimal_text neg i (Some f) = (if neg then ''-'' else []) @ i @ ''.'' @ f"

fun fraction_length :: "string option \<Rightarrow> nat" where
  "fraction_length None = 0"
| "fraction_length (Some f) = length f"

lemma all_digits_notin:
  assumes "all_digits s" and "\<not> is_ascii_digit (of_char c)"
  shows "c \<notin> set s"
  using assms by (induction s) (auto simp: all_digits_def list_all_iff as_bytes_def)

lemma not_digit_chars [simp]:
  "\<not> is_ascii_digit 46" "\<not> is_ascii_digit 45" "\<not> is_ascii_digit 43"
  by (simp_all add: is_ascii_digit_def)

lemma all_digits_hd:
  assumes "all_digits s" and "\<not> is_ascii_digit (of_char c)"
  shows "\<not> starts_with (s @ t) [c]"
proof -
  from assms(1) obtain d r where "s = d # r" by (cases s) (auto simp: all_digits_def)
  with all_digits_notin [OF assms] show ?thesis by (auto simp: starts_with_def)
qed

lemma split_on_decimal:
  assumes "all_digits i" and "case f of None \<Rightarrow> True | Some q \<Rightarrow> all_digits q"
  shows "split_on CHR ''.'' (decimal_text False i f) = (case f of None \<Rightarrow> [i] | Some q \<Rightarrow> [i, q])"
  using assms all_digits_notin [of i "CHR ''.''"] all_digits_notin [of "the f" "CHR ''.''"]
  by (cases f) (auto simp: split_on_notin split_on_append)

lemma mig_decimal_parse_text:
  assumes "all_digits i" and "case f of None \<Rightarrow> True | Some q \<Rightarrow> all_digits q"
    and "non_negative \<longrightarrow> \<not> neg"
    and "length i + fraction_length f \<le> mt" and "fraction_length f \<le> mf"
  shows "mig_decimal_parse (decimal_text neg i f) mt mf non_negative = Inr (MigDecimal (decimal_text neg i f))"
proof -
  let ?v = "decimal_text neg i f" and ?u = "decimal_text False i f"
  have v: "?v = (if neg then ''-'' else []) @ ?u" by (cases f) simp_all
  obtain t where u: "?u = i @ t" by (cases f) auto
  have minus: "starts_with ?v ''-'' \<longleftrightarrow> neg" and plus: "\<not> starts_with ?v ''+''"
    using all_digits_hd [OF assms(1), of "CHR ''-''" t] all_digits_hd [OF assms(1), of "CHR ''+''" t]
    by (auto simp: v u starts_with_def)
  have unsigned: "(if neg then drop 1 ?v else ?v) = ?u" by (cases f) simp_all
  have ne: "?u \<noteq> []" using assms(1) by (auto simp: u all_digits_def)
  show ?thesis
    unfolding mig_decimal_parse_def Let_def minus unsigned split_on_decimal [OF assms(1,2)]
    using assms plus ne by (cases f) (auto simp: all_digits_def)
qed

lemma mig_decimal_parse_Inr:
  assumes "mig_decimal_parse v mt mf non_negative = Inr d"
  obtains neg i f where "v = decimal_text neg i f" "d = MigDecimal v" "all_digits i"
    "case f of None \<Rightarrow> True | Some q \<Rightarrow> all_digits q" "non_negative \<longrightarrow> \<not> neg"
    "length i + fraction_length f \<le> mt" "fraction_length f \<le> mf"
proof -
  define neg where "neg = starts_with v ''-''"
  define u where "u = (if neg then drop 1 v else v)"
  have v: "v = (if neg then ''-'' else []) @ u"
    by (auto simp: neg_def u_def starts_with_iff)
  have j: "join ''.'' (split_on CHR ''.'' u) = u" by simp
  have len: "\<not> 2 < length (split_on CHR ''.'' u)" and d: "d = MigDecimal v" and nn: "non_negative \<longrightarrow> \<not> neg"
    using assms unfolding mig_decimal_parse_def Let_def neg_def [symmetric] u_def [symmetric]
    by (auto split: if_splits)
  then consider i where "split_on CHR ''.'' u = [i]" | i q where "split_on CHR ''.'' u = [i, q]"
    using split_on_not_Nil [of "CHR ''.''" u]
    by (cases "split_on CHR ''.'' u"; cases "tl (split_on CHR ''.'' u)") auto
  then show thesis
  proof cases
    case 1
    then have "u = i" using j by simp
    then show thesis
      using that [of neg i None] assms 1 d nn v
      unfolding mig_decimal_parse_def Let_def neg_def [symmetric] u_def [symmetric]
      by (auto simp: all_digits_def split: if_splits)
  next
    case 2
    then have "u = i @ ''.'' @ q" using j by simp
    then show thesis
      using that [of neg i "Some q"] assms 2 d nn v
      unfolding mig_decimal_parse_def Let_def neg_def [symmetric] u_def [symmetric]
      by (auto simp: all_digits_def split: if_splits)
  qed
qed

text \<open>
  C31.  \<open>MigDecimal::parse\<close> accepts exactly the canonical decimals: an optional minus sign
  (none when a non-negative value is asked for), a non-empty digit string, optionally a
  point and a non-empty digit string, within the total and fraction digit bounds; and it
  keeps the text.
\<close>

theorem mig_decimal_parse_spec:
  "mig_decimal_parse v mt mf non_negative = Inr d \<longleftrightarrow>
     d = MigDecimal v \<and>
     (\<exists>neg i f. v = decimal_text neg i f \<and> all_digits i \<and>
        (case f of None \<Rightarrow> True | Some q \<Rightarrow> all_digits q) \<and> \<not> (non_negative \<and> neg) \<and>
        length i + fraction_length f \<le> mt \<and> fraction_length f \<le> mf)"
proof
  assume "mig_decimal_parse v mt mf non_negative = Inr d"
  then show "d = MigDecimal v \<and>
     (\<exists>neg i f. v = decimal_text neg i f \<and> all_digits i \<and>
        (case f of None \<Rightarrow> True | Some q \<Rightarrow> all_digits q) \<and> \<not> (non_negative \<and> neg) \<and>
        length i + fraction_length f \<le> mt \<and> fraction_length f \<le> mf)"
    by (elim mig_decimal_parse_Inr) blast
qed (auto simp: mig_decimal_parse_text)

end
