(* ===== verification/Mig_Catalog.thy ===== *)
theory Mig_Catalog
  imports Einvoice_Core
begin

text \<open>
  \<open>crates/einvoice-mig/src/catalog.rs\<close>: the 21 message codes of MIG 4.1 and their text
  form.
\<close>

datatype mig41_code =
    A0101 | A0102 | A0201 | A0202 | A0301 | A0302
  | B0101 | B0102 | B0201 | B0202
  | E0401 | E0402 | E0501 | E0502 | E0503 | E0504
  | F0401 | F0501 | F0701 | G0401 | G0501

definition mig41_ALL :: "mig41_code list" where
  "mig41_ALL =
     [A0101, A0102, A0201, A0202, A0301, A0302,
      B0101, B0102, B0201, B0202,
      E0401, E0402, E0501, E0502, E0503, E0504,
      F0401, F0501, F0701, G0401, G0501]"

fun mig41_as_str :: "mig41_code \<Rightarrow> string" where
  "mig41_as_str A0101 = ''A0101''"
| "mig41_as_str A0102 = ''A0102''"
| "mig41_as_str A0201 = ''A0201''"
| "mig41_as_str A0202 = ''A0202''"
| "mig41_as_str A0301 = ''A0301''"
| "mig41_as_str A0302 = ''A0302''"
| "mig41_as_str B0101 = ''B0101''"
| "mig41_as_str B0102 = ''B0102''"
| "mig41_as_str B0201 = ''B0201''"
| "mig41_as_str B0202 = ''B0202''"
| "mig41_as_str E0401 = ''E0401''"
| "mig41_as_str E0402 = ''E0402''"
| "mig41_as_str E0501 = ''E0501''"
| "mig41_as_str E0502 = ''E0502''"
| "mig41_as_str E0503 = ''E0503''"
| "mig41_as_str E0504 = ''E0504''"
| "mig41_as_str F0401 = ''F0401''"
| "mig41_as_str F0501 = ''F0501''"
| "mig41_as_str F0701 = ''F0701''"
| "mig41_as_str G0401 = ''G0401''"
| "mig41_as_str G0501 = ''G0501''"

datatype unknown_mig41_code = UnknownMig41MessageCode string

definition mig41_from_str :: "string \<Rightarrow> unknown_mig41_code + mig41_code" where
  "mig41_from_str value =
     ok_or (UnknownMig41MessageCode value) (List.find (\<lambda>code. mig41_as_str code = value) mig41_ALL)"

lemma mig41_ALL_complete: "code \<in> set mig41_ALL"
  by (cases code) (simp_all add: mig41_ALL_def)

lemma mig41_from_as_str: "mig41_from_str (mig41_as_str code) = Inr code"
  by (cases code) (simp_all add: mig41_from_str_def mig41_ALL_def)

lemma mig41_from_str_Inr: "mig41_from_str s = Inr code \<longleftrightarrow> s = mig41_as_str code"
  by (metis (mono_tags, lifting) find_Some_iff mig41_from_as_str mig41_from_str_def ok_or_Inr)

text \<open>
  The catalog is complete and its text form is a bijection: \<open>FromStr\<close> accepts exactly
  the strings \<open>as_str\<close> produces, inverts it, and each is a lexically valid message code.
\<close>

theorem mig41_catalog_bijection:
  "set mig41_ALL = UNIV \<and> length mig41_ALL = 21 \<and> distinct mig41_ALL \<and>
   (mig41_from_str s = Inr code \<longleftrightarrow> s = mig41_as_str code) \<and>
   message_code_parse (mig41_as_str code) = Inr (MessageCode (mig41_as_str code))"
proof (intro conjI)
  show "set mig41_ALL = UNIV" using mig41_ALL_complete by blast
  show "length mig41_ALL = 21" "distinct mig41_ALL" by (simp_all add: mig41_ALL_def)
  show "mig41_from_str s = Inr code \<longleftrightarrow> s = mig41_as_str code" by (rule mig41_from_str_Inr)
  show "message_code_parse (mig41_as_str code) = Inr (MessageCode (mig41_as_str code))"
    by (cases code) (simp_all add: message_code_parse_def is_ascii_uppercase_def is_ascii_digit_def)
qed

end
