(* ===== verification/Envelope.thy ===== *)
theory Envelope
  imports Einvoice_Core
begin

text \<open>
  \<open>crates/einvoice-envelope\<close>: the batch of MIG payloads with its routing (\<open>lib.rs\<close>) and its
  serialisation in the wire profile of the Linux Turnkey (\<open>wire.rs\<close>).
\<close>

section \<open>The envelope\<close>

record party_info =
  pin_identifier :: string
  pin_description :: "string option"

record routing_info =
  ri_identifier :: string
  ri_description :: "string option"

record envelope_routing =
  er_from :: party_info
  er_from_vac :: routing_info
  er_to :: party_info
  er_to_vac :: routing_info

record invoice_pack_metadata =
  ipm_message_type :: string
  ipm_version :: mig_version

datatype mig_payload = MigPayload (payload_bytes: bytes)

record invoice_envelope =
  env_routing :: envelope_routing
  env_metadata :: invoice_pack_metadata
  env_payloads :: "mig_payload list"

datatype envelope_error =
    EmptyPayload
  | NoPayloads
  | TooManyPayloads nat nat

definition mig_payload_new :: "bytes \<Rightarrow> envelope_error + mig_payload" where
  "mig_payload_new bytes = (if bytes = [] then Inl EmptyPayload else Inr (MigPayload bytes))"

definition MAX_PAYLOADS :: nat where
  "MAX_PAYLOADS = 1000"

definition envelope_new ::
  "envelope_routing \<Rightarrow> invoice_pack_metadata \<Rightarrow> mig_payload list \<Rightarrow> envelope_error + invoice_envelope" where
  "envelope_new routing metadata payloads =
     (if length payloads = 0 then Inl NoPayloads
      else if length payloads > MAX_PAYLOADS
      then Inl (TooManyPayloads (length payloads) MAX_PAYLOADS)
      else Inr \<lparr>env_routing = routing, env_metadata = metadata, env_payloads = payloads\<rparr>)"

definition envelope_count :: "invoice_envelope \<Rightarrow> nat" where
  "envelope_count env = length (env_payloads env)"

section \<open>Serialisation\<close>

datatype envelope_serialize_error =
    PayloadNotUtf8 nat
  | EmbeddedXmlDeclaration nat

definition XSI_NAMESPACE :: string where
  "XSI_NAMESPACE = ''http://www.w3.org/2001/XMLSchema-instance''"

definition ENVELOPE_NAMESPACE_V41 :: string where
  "ENVELOPE_NAMESPACE_V41 = ''urn:GEINV:InvoiceEnvelope:4.1''"

definition ENVELOPE_SCHEMA :: string where
  "ENVELOPE_SCHEMA = ''InvoiceEnvelope.xsd''"

fun envelope_profile :: "mig_version \<Rightarrow> string \<times> string" where
  "envelope_profile V4_1 = (ENVELOPE_NAMESPACE_V41, ''v41'')"

text \<open>The constant \<^term>\<open>CHR 0x22\<close> is the double quote, \<^const>\<open>lf\<close> the line feed.\<close>

fun push_text_escaped :: "string \<Rightarrow> string \<Rightarrow> string" where
  "push_text_escaped out [] = out"
| "push_text_escaped out (c # cs) = push_text_escaped
     (if c = CHR ''&'' then out @ ''&amp;''
      else if c = CHR ''<'' then out @ ''&lt;''
      else if c = CHR ''>'' then out @ ''&gt;''
      else out @ [c]) cs"

fun push_attribute_escaped :: "string \<Rightarrow> string \<Rightarrow> string" where
  "push_attribute_escaped out [] = out"
| "push_attribute_escaped out (c # cs) = push_attribute_escaped
     (if c = CHR ''&'' then out @ ''&amp;''
      else if c = CHR ''<'' then out @ ''&lt;''
      else if c = CHR ''>'' then out @ ''&gt;''
      else if c = CHR 0x22 then out @ ''&quot;''
      else if c = CHR 0x27 then out @ ''&apos;''
      else out @ [c]) cs"

definition push_description :: "string \<Rightarrow> string option \<Rightarrow> string" where
  "push_description out description =
     (case description of
        None \<Rightarrow> out
      | Some d \<Rightarrow>
          (let out = out @ ''    <Description>'';
               out = push_text_escaped out d
           in out @ ''</Description>'' @ [lf]))"

definition push_party :: "string \<Rightarrow> string \<Rightarrow> party_info \<Rightarrow> string" where
  "push_party out tag party =
     (let out = out @ ''  <'' @ tag @ ''>'' @ [lf] @ ''    <PartyId>'';
          out = push_text_escaped out (pin_identifier party);
          out = out @ ''</PartyId>'' @ [lf];
          out = push_description out (pin_description party)
      in out @ ''  </'' @ tag @ ''>'' @ [lf])"

definition push_routing :: "string \<Rightarrow> string \<Rightarrow> routing_info \<Rightarrow> string" where
  "push_routing out tag routing =
     (let out = out @ ''  <'' @ tag @ ''>'' @ [lf] @ ''    <RoutingId>'';
          out = push_text_escaped out (ri_identifier routing);
          out = out @ ''</RoutingId>'' @ [lf];
          out = push_description out (ri_description routing)
      in out @ ''  </'' @ tag @ ''>'' @ [lf])"

definition append_like_java_read_line :: "string \<Rightarrow> string \<Rightarrow> string" where
  "append_like_java_read_line out input =
     (let normalized = replace_cr (replace_crlf input) in
      if normalized = [] then out @ [lf]
      else foldl (\<lambda>out line. out @ line @ [lf]) out (split_terminator lf normalized))"

text \<open>The loop over the payloads, from index \<open>index\<close> on.\<close>

fun push_payloads ::
  "nat \<Rightarrow> mig_payload list \<Rightarrow> string \<Rightarrow> envelope_serialize_error + string" where
  "push_payloads index [] out = Inr out"
| "push_payloads index (payload # payloads) out =
     and_then (ok_or (PayloadNotUtf8 index) (from_utf8 (payload_bytes payload))) (\<lambda>body.
       if starts_with (trim_start body) ''<?xml'' then Inl (EmbeddedXmlDeclaration index)
       else push_payloads (Suc index) payloads (append_like_java_read_line out body))"

definition push_envelope_header :: "invoice_envelope \<Rightarrow> string" where
  "push_envelope_header env =
     (let (namespace, version_token) = envelope_profile (ipm_version (env_metadata env));
          out = [lf];
          out = out @ ''<InvoiceEnvelope xmlns='' @ [CHR 0x22];
          out = push_attribute_escaped out namespace;
          out = out @ [CHR 0x22] @ '' xmlns:xsi='' @ [CHR 0x22];
          out = push_attribute_escaped out XSI_NAMESPACE;
          out = out @ [CHR 0x22] @ '' xsi:schemaLocation='' @ [CHR 0x22];
          out = push_attribute_escaped out namespace;
          out = out @ '' '';
          out = push_attribute_escaped out ENVELOPE_SCHEMA;
          out = out @ [CHR 0x22] @ ''>'' @ [lf];
          out = push_party out ''From'' (er_from (env_routing env));
          out = push_routing out ''FromVAC'' (er_from_vac (env_routing env));
          out = push_party out ''To'' (er_to (env_routing env));
          out = push_routing out ''ToVAC'' (er_to_vac (env_routing env));
          out = out @ ''  <InvoicePack count='' @ [CHR 0x22];
          out = out @ dec (length (env_payloads env));
          out = out @ [CHR 0x22] @ '' messageType='' @ [CHR 0x22];
          out = push_attribute_escaped out (ipm_message_type (env_metadata env));
          out = out @ [CHR 0x22] @ '' version='' @ [CHR 0x22];
          out = push_attribute_escaped out version_token
      in out @ [CHR 0x22] @ ''>'' @ [lf])"

definition to_turnkey_xml :: "invoice_envelope \<Rightarrow> envelope_serialize_error + bytes" where
  "to_turnkey_xml env =
     (let out = push_envelope_header env in
      and_then (push_payloads 0 (env_payloads env) out) (\<lambda>out.
        let out = out @ ''</InvoicePack>'' @ [lf] @ ''</InvoiceEnvelope>'' @ [lf]
        in Inr (as_bytes out)))"

section \<open>Lines\<close>

text \<open>The text of a payload as the pack carries it: LF line endings, the last line terminated.\<close>

definition unix_text :: "string \<Rightarrow> string" where
  "unix_text s = (let t = replace_cr (replace_crlf s) in if t \<noteq> [] \<and> last t = lf then t else t @ [lf])"

lemma foldl_lines: "foldl (\<lambda>out line. out @ line @ [c]) out ls = out @ concat (map (\<lambda>l. l @ [c]) ls)"
  by (induction ls arbitrary: out) simp_all

lemma append_lines: "append_like_java_read_line out s = out @ unix_text s"
  using split_terminator_join [of "replace_cr (replace_crlf s)" lf]
  by (simp add: append_like_java_read_line_def unix_text_def foldl_lines Let_def)

lemma replace_cr_id: "CHR 0x0D \<notin> set s \<Longrightarrow> replace_cr s = s"
  by (induction s) (auto simp: replace_cr_def)

lemma replace_crlf_id: "CHR 0x0D \<notin> set s \<Longrightarrow> replace_crlf s = s"
  by (induction s rule: replace_crlf.induct) auto

lemma unix_text_no_cr: "CHR 0x0D \<notin> set (unix_text s)"
  using replace_cr_no_cr [of "replace_crlf s"] by (simp add: unix_text_def lf_def Let_def)

lemma unix_text_last: "unix_text s \<noteq> [] \<and> last (unix_text s) = lf"
  by (auto simp: unix_text_def Let_def)

lemma unix_text_id:
  "CHR 0x0D \<notin> set s \<Longrightarrow> unix_text s = (if s \<noteq> [] \<and> last s = lf then s else s @ [lf])"
  by (simp add: unix_text_def replace_crlf_id replace_cr_id)

lemma unix_text_idem: "unix_text (unix_text s) = unix_text s"
  using unix_text_id [OF unix_text_no_cr] unix_text_last by simp


section \<open>Errors and output\<close>

definition payload_error :: "nat \<Rightarrow> mig_payload \<Rightarrow> envelope_serialize_error option" where
  "payload_error index payload =
     (if \<not> utf8_valid (payload_bytes payload) then Some (PayloadNotUtf8 index)
      else if starts_with (trim_start (of_bytes (payload_bytes payload))) ''<?xml''
      then Some (EmbeddedXmlDeclaration index) else None)"

definition payload_text :: "mig_payload \<Rightarrow> string" where
  "payload_text payload = unix_text (of_bytes (payload_bytes payload))"

lemma push_payloads_cons:
  "push_payloads index (payload # payloads) out =
     (case payload_error index payload of
        Some e \<Rightarrow> Inl e
      | None \<Rightarrow> push_payloads (Suc index) payloads (out @ payload_text payload))"
  by (simp add: payload_error_def from_utf8_def payload_text_def append_lines)

lemma push_payloads_Inr:
  "push_payloads k ps out = Inr res \<longleftrightarrow>
     (\<forall>i < length ps. payload_error (k + i) (ps ! i) = None) \<and>
     res = out @ concat (map payload_text ps)"
proof (induction ps arbitrary: k out)
  case (Cons p ps)
  show ?case
    unfolding push_payloads_cons
    by (cases "payload_error k p") (auto simp: Cons.IH All_less_Suc2)
qed auto

lemma push_payloads_Inl:
  "push_payloads k ps out = Inl e \<longleftrightarrow>
     (\<exists>i < length ps. (\<forall>j < i. payload_error (k + j) (ps ! j) = None) \<and>
        payload_error (k + i) (ps ! i) = Some e)"
proof (induction ps arbitrary: k out)
  case (Cons p ps)
  show ?case
    unfolding push_payloads_cons
    by (cases "payload_error k p") (auto simp: Cons.IH Ex_less_Suc2 All_less_Suc2)
qed simp

lemma to_turnkey_xml_Inr:
  "to_turnkey_xml env = Inr bs \<longleftrightarrow>
     (\<forall>i < length (env_payloads env). payload_error i (env_payloads env ! i) = None) \<and>
     bs = as_bytes (push_envelope_header env @ concat (map payload_text (env_payloads env)) @
       ''</InvoicePack>'' @ [lf] @ ''</InvoiceEnvelope>'' @ [lf])"
  by (auto simp: to_turnkey_xml_def Let_def and_then_Inr push_payloads_Inr)


definition sample_bad_envelope :: invoice_envelope where
  "sample_bad_envelope =
     \<lparr>env_routing = \<lparr>er_from = \<lparr>pin_identifier = ''12345678'', pin_description = None\<rparr>,
                     er_from_vac = \<lparr>ri_identifier = ''FROM'', ri_description = None\<rparr>,
                     er_to = \<lparr>pin_identifier = ''0000000000'', pin_description = None\<rparr>,
                     er_to_vac = \<lparr>ri_identifier = ''TO'', ri_description = None\<rparr>\<rparr>,
      env_metadata = \<lparr>ipm_message_type = ''F0401'', ipm_version = V4_1\<rparr>,
      env_payloads = [MigPayload [60, 97, 47, 62], MigPayload [0xff, 0xfe]]\<rparr>"


section \<open>The header\<close>

lemma push_text_escaped_prefix: "push_text_escaped out s = out @ push_text_escaped [] s"
proof (induction s arbitrary: out)
  case (Cons c s)
  show ?case
    by (simp only: push_text_escaped.simps) (subst (1 2) Cons.IH, simp)
qed simp

lemma push_attribute_escaped_prefix: "push_attribute_escaped out s = out @ push_attribute_escaped [] s"
proof (induction s arbitrary: out)
  case (Cons c s)
  show ?case
    by (simp only: push_attribute_escaped.simps) (subst (1 2) Cons.IH, simp)
qed simp

text \<open>A payload that passes the declaration check although it starts with one: a byte order mark hides it.\<close>

lemma declaration_behind_bom:
  assumes "utf8_valid (as_bytes (''<?xml'' @ s))"
  shows "payload_error i (MigPayload (0xEF # 0xBB # 0xBF # as_bytes (''<?xml'' @ s))) = None"
proof -
  have bom: "of_bytes (0xEF # 0xBB # 0xBF # as_bytes t) = CHR 0xEF # CHR 0xBB # CHR 0xBF # t" for t
    using of_bytes_as_bytes [of t] by (simp add: of_bytes_def char_of_def bit_0)
  have "\<not> starts_with (trim_start (of_bytes (0xEF # 0xBB # 0xBF # as_bytes (''<?xml'' @ s)))) ''<?xml''"
    unfolding bom by (simp add: ws1_def ws2_def ws3_def starts_with_def)
  then show ?thesis
    using assms by (simp add: payload_error_def is_cont_def)
qed

end
