(* ===== verification/Domain_Values.thy ===== *)
theory Domain_Values
  imports Mig_Primitives Mig_Catalog Envelope
begin

text \<open>
  The values that the checked constructors of \<open>einvoice-core\<close>, \<open>einvoice-mig\<close> and
  \<open>einvoice-envelope\<close> let into the program: the types with private fields.
\<close>

definition digits :: "nat \<Rightarrow> string \<Rightarrow> bool" where
  "digits n s \<longleftrightarrow> (\<exists>ds. length ds = n \<and> list_all (\<lambda>d. d < 10) ds \<and> s = map digit_char ds)"

definition upper :: "char \<Rightarrow> bool" where
  "upper c \<longleftrightarrow> 65 \<le> (of_char c :: nat) \<and> (of_char c :: nat) \<le> 90"

lemma digits_bytes: "length s = n \<and> list_all is_ascii_digit (as_bytes s) \<longleftrightarrow> digits n s"
  unfolding digit_string digits_def by auto

lemma upper_byte: "is_ascii_uppercase (of_char c) \<longleftrightarrow> upper c"
  by (simp add: is_ascii_uppercase_def upper_def word_le_nat_alt unat_of_char)

lemma ban_values: "ban_parse v = Inr b \<longleftrightarrow> b = Ban v \<and> (\<exists>n \<in> {8..10}. digits n v)"
  by (auto simp: ban_parse_Inr wf_ban_def simp flip: digits_bytes)

lemma message_code_values:
  "message_code_parse v = Inr c \<longleftrightarrow> c = MessageCode v \<and> (\<exists>a s. v = a # s \<and> upper a \<and> digits 4 s)"
  by (cases v) (auto simp: message_code_parse_def Let_def upper_byte simp flip: digits_bytes)

lemma invoice_number_values:
  "invoice_number_parse v = Inr n \<longleftrightarrow>
     n = InvoiceNumber v \<and> (\<exists>a b s. v = a # b # s \<and> upper a \<and> upper b \<and> digits 8 s)"
  by (cases v; cases "tl v") (auto simp: invoice_number_parse_def Let_def upper_byte simp flip: digits_bytes)

lemma date_values:
  "mig_date_parse v = Inr d \<longleftrightarrow> d = MigDate v \<and>
     (\<exists>y m k. y < 10000 \<and> 1 \<le> m \<and> m \<le> 12 \<and> 1 \<le> k \<and> k \<le> 31 \<and> v = date_text y m k)"
  by (meson mig_date_parse_Inr mig_date_parse_text)

lemma time_values:
  "mig_time_parse v = Inr t \<longleftrightarrow> t = MigTime v \<and> (\<exists>h m s. h < 24 \<and> m < 60 \<and> s < 60 \<and> v = time_text h m s)"
  by (meson mig_time_parse_Inr mig_time_parse_text)

lemma currency_values:
  "currency_code_parse v = Inr c \<longleftrightarrow> c = CurrencyCode v \<and> length v = 3 \<and> list_all upper v"
  by (auto simp: currency_code_parse_def as_bytes_def list_all_iff upper_byte)

lemma zero_tax_values:
  "zero_tax_rate_reason_new r = Inr z \<longleftrightarrow> z = ZeroTaxRateReason r \<and> 71 \<le> unat r \<and> unat r \<le> 79"
  by (auto simp: zero_tax_rate_reason_new_def word_le_nat_alt)

lemma envelope_values:
  "envelope_new routing metadata ps = Inr e \<longleftrightarrow> 1 \<le> length ps \<and> length ps \<le> 1000 \<and>
     e = \<lparr>env_routing = routing, env_metadata = metadata, env_payloads = ps\<rparr>"
  by (cases ps) (auto simp: envelope_new_def MAX_PAYLOADS_def)

text \<open>
  C24.  What each checked constructor lets in, exactly; the value is the text
  itself.  A BAN has 8 to 10 digits, a message code a capital and four digits, an invoice number two
  capitals and eight digits; dates and times are \<open>YYYYMMDD\<close> and \<open>HH:MM:SS\<close> in their ranges, a
  currency three capitals, a zero-tax-rate reason 71 to 79, a MIG 4.1 code one of the 21 texts; an
  envelope has 1 to 1000 payloads and a payload at least one byte.
\<close>

theorem domain_values_exact:
  "(ban_parse v = Inr b \<longleftrightarrow> b = Ban v \<and> (\<exists>n \<in> {8..10}. digits n v)) \<and>
   (message_code_parse v = Inr c \<longleftrightarrow> c = MessageCode v \<and> (\<exists>a s. v = a # s \<and> upper a \<and> digits 4 s)) \<and>
   (invoice_number_parse v = Inr n \<longleftrightarrow>
      n = InvoiceNumber v \<and> (\<exists>a b s. v = a # b # s \<and> upper a \<and> upper b \<and> digits 8 s)) \<and>
   (mig_date_parse v = Inr d \<longleftrightarrow> d = MigDate v \<and>
      (\<exists>y m k. y < 10000 \<and> 1 \<le> m \<and> m \<le> 12 \<and> 1 \<le> k \<and> k \<le> 31 \<and> v = date_text y m k)) \<and>
   (mig_time_parse v = Inr t \<longleftrightarrow> t = MigTime v \<and> (\<exists>h m s. h < 24 \<and> m < 60 \<and> s < 60 \<and> v = time_text h m s)) \<and>
   (currency_code_parse v = Inr cc \<longleftrightarrow> cc = CurrencyCode v \<and> length v = 3 \<and> list_all upper v) \<and>
   (zero_tax_rate_reason_new r = Inr z \<longleftrightarrow> z = ZeroTaxRateReason r \<and> 71 \<le> unat r \<and> unat r \<le> 79) \<and>
   (mig41_from_str v = Inr code \<longleftrightarrow> v = mig41_as_str code) \<and>
   (mig_payload_new bytes = Inr payload \<longleftrightarrow> bytes \<noteq> [] \<and> payload = MigPayload bytes) \<and>
   (envelope_new routing metadata ps = Inr e \<longleftrightarrow> 1 \<le> length ps \<and> length ps \<le> 1000 \<and>
      e = \<lparr>env_routing = routing, env_metadata = metadata, env_payloads = ps\<rparr>)"
proof (intro conjI)
  show "mig_payload_new bytes = Inr payload \<longleftrightarrow> bytes \<noteq> [] \<and> payload = MigPayload bytes"
    by (auto simp: mig_payload_new_def)
qed (rule ban_values message_code_values invoice_number_values date_values time_values currency_values
  zero_tax_values mig41_from_str_Inr envelope_values)+

end
