(* ===== verification/Results.thy ===== *)
theory Results
  imports Text_Utils
begin

text \<open>
  \<open>crates/einvoice-results\<close>: the \<open>ProcessResult\<close>/\<open>SummaryResult\<close> model, its conversion from
  the deserialised wire structures, and the count validation of a summary.  The XML
  deserialiser (\<open>quick_xml::de::from_str\<close>) is a parameter.

  \<open>i32\<close> arithmetic depends on the build: with overflow checks (\<open>Debug\<close>) an overflowing
  addition panics, without them (\<open>Release\<close>) it wraps.  A panic is \<^const>\<open>None\<close>.
\<close>

section \<open>Build profiles\<close>

datatype profile = Debug | Release

definition add_i32 :: "profile \<Rightarrow> i32 \<Rightarrow> i32 \<Rightarrow> i32 option" where
  "add_i32 p a b =
     (if p = Debug \<and> \<not> (- (2 ^ 31) \<le> sint a + sint b \<and> sint a + sint b < 2 ^ 31)
      then None else Some (a + b))"

text \<open>\<open>usize::try_from\<close> and \<open>u32::try_from\<close> on an \<open>i32\<close>.\<close>

definition usize_try_from :: "i32 \<Rightarrow> nat option" where
  "usize_try_from c = (if sint c < 0 then None else Some (nat (sint c)))"

definition u32_try_from :: "i32 \<Rightarrow> u32 option" where
  "u32_try_from c = (if sint c < 0 then None else Some (word_of_int (sint c)))"

section \<open>The public model\<close>

record result_party =
  party_id :: string
  party_description :: "string option"

record result_route =
  routing_id :: string
  route_description :: "string option"

record result_routing =
  rt_from :: result_party
  rt_from_vac :: result_route
  rt_to :: result_party
  rt_to_vac :: result_route

record process_message_info =
  pmi_id :: string
  pmi_size :: string
  pmi_message_type :: string
  pmi_service :: string
  pmi_action :: string

text \<open>\<open>parameters\<close> is an array of five.\<close>

record process_diagnostic =
  diag_code :: string
  diag_description :: "string option"
  diag_parameters :: "string option list"

record process_result =
  pr_routing :: result_routing
  pr_message :: process_message_info
  pr_diagnostics :: "process_diagnostic list"

record summary_message_info =
  smi_id :: string
  smi_size :: string
  smi_message_type :: string
  smi_service :: string
  smi_action :: string

record invoice_reference =
  reference_number :: string
  ref_invoice_date :: string

record result_detail =
  detail_count :: i32
  detail_invoices :: "invoice_reference list"

record result_breakdown =
  rb_total :: result_detail
  rb_good :: result_detail
  rb_failed :: result_detail

record summary_message =
  sm_info :: summary_message_info
  sm_result :: result_breakdown

record summary_result =
  sr_routing :: result_routing
  sr_messages :: "summary_message list"

datatype result_bucket = TotalBucket | GoodBucket | FailedBucket

datatype summary_issue =
    NegativeCount result_bucket i32
  | TotalMismatch i32 i32 i32
  | ExpectedQuantityMismatch u32 i32
  | InvoiceListCountMismatch result_bucket i32 nat

section \<open>Validation\<close>

definition bucket_issues :: "result_bucket \<Rightarrow> result_detail \<Rightarrow> summary_issue list" where
  "bucket_issues bucket detail =
     (if sint (detail_count detail) < 0
      then [NegativeCount bucket (detail_count detail)] else []) @
     (if detail_invoices detail \<noteq> [] \<and>
         usize_try_from (detail_count detail) \<noteq> Some (length (detail_invoices detail))
      then [InvoiceListCountMismatch bucket (detail_count detail) (length (detail_invoices detail))]
      else [])"

definition validation_issues ::
  "profile \<Rightarrow> summary_message \<Rightarrow> u32 option \<Rightarrow> summary_issue list option" where
  "validation_issues p m expected_quantity =
     (let total = rb_total (sm_result m); good = rb_good (sm_result m);
          failed = rb_failed (sm_result m);
          issues = concat (map (\<lambda>(bucket, detail). bucket_issues bucket detail)
                     [(TotalBucket, total), (GoodBucket, good), (FailedBucket, failed)])
      in case add_i32 p (detail_count good) (detail_count failed) of
           None \<Rightarrow> None
         | Some good_failed \<Rightarrow> Some (issues @
             (if detail_count total \<noteq> good_failed
              then [TotalMismatch (detail_count total) (detail_count good) (detail_count failed)]
              else []) @
             (case expected_quantity of
                None \<Rightarrow> []
              | Some expected \<Rightarrow>
                  if sint (detail_count total) \<noteq> uint expected
                  then [ExpectedQuantityMismatch expected (detail_count total)] else [])))"

definition is_consistent :: "profile \<Rightarrow> summary_message \<Rightarrow> u32 option \<Rightarrow> bool option" where
  "is_consistent p m expected_quantity =
     map_option (\<lambda>issues. issues = []) (validation_issues p m expected_quantity)"

text \<open>What consistency means, over the integers.\<close>

definition detail_ok :: "result_detail \<Rightarrow> bool" where
  "detail_ok d \<longleftrightarrow> 0 \<le> sint (detail_count d) \<and>
     (detail_invoices d = [] \<or> int (length (detail_invoices d)) = sint (detail_count d))"

definition summary_ok :: "summary_message \<Rightarrow> u32 option \<Rightarrow> bool" where
  "summary_ok m expected \<longleftrightarrow>
     (let r = sm_result m in
      detail_ok (rb_total r) \<and> detail_ok (rb_good r) \<and> detail_ok (rb_failed r) \<and>
      sint (detail_count (rb_total r)) = sint (detail_count (rb_good r)) + sint (detail_count (rb_failed r)) \<and>
      (case expected of None \<Rightarrow> True | Some e \<Rightarrow> sint (detail_count (rb_total r)) = uint e))"

lemma bucket_issues_empty: "bucket_issues b d = [] \<longleftrightarrow> detail_ok d"
  by (auto simp: bucket_issues_def detail_ok_def usize_try_from_def)

lemma sint_add_i32:
  fixes a b :: i32
  assumes "0 \<le> sint a" "0 \<le> sint b"
  shows "sint (a + b) = (if sint a + sint b < 2 ^ 31 then sint a + sint b else sint a + sint b - 2 ^ 32)"
proof -
  let ?s = "sint a + sint b"
  have m: "(?s + 2 ^ 31) mod 2 ^ 32 = ?s + 2 ^ 31 - 2 ^ 32" if "2 ^ 31 \<le> ?s"
    using that sint_i32_range(2) [of a] sint_i32_range(2) [of b]
      minus_mod_self2 [of "?s + 2 ^ 31" "2 ^ 32"]
    by (simp add: mod_pos_pos_trivial)
  show ?thesis
    using assms m by (auto simp: sint_word_ariths signed_take_bit_eq_take_bit_shift take_bit_eq_mod
        mod_pos_pos_trivial)
qed

text \<open>With non-negative summands a wrapped sum is negative, so it never equals a non-negative total.\<close>

lemma wrapped_sum_eq:
  fixes a b t :: i32
  assumes "0 \<le> sint a" "0 \<le> sint b" "0 \<le> sint t"
  shows "t = a + b \<longleftrightarrow> sint t = sint a + sint b"
proof
  assume "t = a + b"
  then show "sint t = sint a + sint b"
    using assms sint_add_i32 [OF assms(1,2)] sint_i32_range(2) [of a] sint_i32_range(2) [of b]
    by (auto split: if_splits)
next
  assume s: "sint t = sint a + sint b"
  then have "sint (a + b) = sint t"
    using sint_add_i32 [OF assms(1,2)] sint_i32_range(2) [of t] by simp
  then show "t = a + b" by (metis signed_word_eqI)
qed

lemma validation_issues_Release:
  "\<exists>issues. validation_issues Release m e = Some issues \<and> (issues = [] \<longleftrightarrow> summary_ok m e)"
proof -
  let ?r = "sm_result m"
  have "(detail_ok (rb_total ?r) \<and> detail_ok (rb_good ?r) \<and> detail_ok (rb_failed ?r) \<and>
      detail_count (rb_total ?r) = detail_count (rb_good ?r) + detail_count (rb_failed ?r)) \<longleftrightarrow>
    (detail_ok (rb_total ?r) \<and> detail_ok (rb_good ?r) \<and> detail_ok (rb_failed ?r) \<and>
      sint (detail_count (rb_total ?r)) = sint (detail_count (rb_good ?r)) + sint (detail_count (rb_failed ?r)))"
    using wrapped_sum_eq by (auto simp: detail_ok_def)
  then show ?thesis
    by (auto simp: validation_issues_def add_i32_def Let_def bucket_issues_empty summary_ok_def
        split: option.splits)
qed

text \<open>
  C29.  A release build's summary check accepts exactly the consistent summaries: all three
  counts non-negative, the listed invoices (where listed) as many as declared, the total the
  exact sum of good and failed over the integers even though the code adds wrapping \<open>i32\<close>s,
  and the total the expected quantity.
\<close>

theorem is_consistent_release: "is_consistent Release m e = Some (summary_ok m e)"
  using validation_issues_Release [of m e] by (auto simp: is_consistent_def)

text \<open>
  A build with overflow checks panics on exactly the summaries whose good and failed
  counts add up outside \<open>i32\<close> - a platform reply can make it do so - and agrees with the
  release build everywhere else.
\<close>

theorem validation_issues_debug:
  "validation_issues Debug m e =
     (let g = sint (detail_count (rb_good (sm_result m))); f = sint (detail_count (rb_failed (sm_result m)))
      in if - (2 ^ 31) \<le> g + f \<and> g + f < 2 ^ 31 then validation_issues Release m e else None)"
  by (simp add: validation_issues_def add_i32_def Let_def)

section \<open>The wire structures and their conversion\<close>

record wire_party =
  wp_party_id :: string
  wp_description :: "string option"

record wire_route =
  wr_routing_id :: string
  wr_description :: "string option"

record wire_routing =
  wrt_from :: wire_party
  wrt_from_vac :: wire_route
  wrt_to :: wire_party
  wrt_to_vac :: wire_route

record wire_process_message_info =
  wpm_id :: string
  wpm_size :: string
  wpm_message_type :: string
  wpm_service :: string
  wpm_action :: string

record wire_process_diagnostic =
  wd_code :: string
  wd_description :: "string option"
  wd_parameter0 :: "string option"
  wd_parameter1 :: "string option"
  wd_parameter2 :: "string option"
  wd_parameter3 :: "string option"
  wd_parameter4 :: "string option"

record wire_process_result =
  wpr_routing_info :: wire_routing
  wpr_message_info :: wire_process_message_info
  wpr_result :: "wire_process_diagnostic list"

record wire_summary_message_info =
  wsm_id :: string
  wsm_size :: string
  wsm_message_type :: string
  wsm_service :: string
  wsm_action :: string

record wire_invoice_reference =
  wi_reference_number :: string
  wi_invoice_date :: string

record wire_result_detail =
  wd_count :: i32
  wd_invoices :: "wire_invoice_reference list option"

record wire_result_breakdown =
  wb_total :: wire_result_detail
  wb_good :: wire_result_detail
  wb_failed :: wire_result_detail

record wire_summary_message =
  ws_info :: wire_summary_message_info
  ws_result_type :: wire_result_breakdown

record wire_summary_result =
  wsr_routing_info :: wire_routing
  wsr_detail_list :: "wire_summary_message list"

definition party_from_wire :: "wire_party \<Rightarrow> result_party" where
  "party_from_wire w = \<lparr>party_id = wp_party_id w, party_description = wp_description w\<rparr>"

definition route_from_wire :: "wire_route \<Rightarrow> result_route" where
  "route_from_wire w = \<lparr>routing_id = wr_routing_id w, route_description = wr_description w\<rparr>"

definition routing_from_wire :: "wire_routing \<Rightarrow> result_routing" where
  "routing_from_wire w =
     \<lparr>rt_from = party_from_wire (wrt_from w), rt_from_vac = route_from_wire (wrt_from_vac w),
      rt_to = party_from_wire (wrt_to w), rt_to_vac = route_from_wire (wrt_to_vac w)\<rparr>"

definition diagnostic_from_wire :: "wire_process_diagnostic \<Rightarrow> process_diagnostic" where
  "diagnostic_from_wire w =
     \<lparr>diag_code = wd_code w, diag_description = wd_description w,
      diag_parameters = [wd_parameter0 w, wd_parameter1 w, wd_parameter2 w,
                         wd_parameter3 w, wd_parameter4 w]\<rparr>"

definition process_from_wire :: "wire_process_result \<Rightarrow> process_result" where
  "process_from_wire w =
     \<lparr>pr_routing = routing_from_wire (wpr_routing_info w),
      pr_message =
        \<lparr>pmi_id = wpm_id (wpr_message_info w), pmi_size = wpm_size (wpr_message_info w),
         pmi_message_type = wpm_message_type (wpr_message_info w),
         pmi_service = wpm_service (wpr_message_info w), pmi_action = wpm_action (wpr_message_info w)\<rparr>,
      pr_diagnostics = map diagnostic_from_wire (wpr_result w)\<rparr>"

definition reference_from_wire :: "wire_invoice_reference \<Rightarrow> invoice_reference" where
  "reference_from_wire w =
     \<lparr>reference_number = wi_reference_number w, ref_invoice_date = wi_invoice_date w\<rparr>"

definition detail_from_wire :: "wire_result_detail \<Rightarrow> result_detail" where
  "detail_from_wire w =
     \<lparr>detail_count = wd_count w,
      detail_invoices = (case wd_invoices w of None \<Rightarrow> [] | Some invoices \<Rightarrow> map reference_from_wire invoices)\<rparr>"

definition breakdown_from_wire :: "wire_result_breakdown \<Rightarrow> result_breakdown" where
  "breakdown_from_wire w =
     \<lparr>rb_total = detail_from_wire (wb_total w), rb_good = detail_from_wire (wb_good w),
      rb_failed = detail_from_wire (wb_failed w)\<rparr>"

definition summary_message_from_wire :: "wire_summary_message \<Rightarrow> summary_message" where
  "summary_message_from_wire w =
     \<lparr>sm_info =
        \<lparr>smi_id = wsm_id (ws_info w), smi_size = wsm_size (ws_info w),
         smi_message_type = wsm_message_type (ws_info w), smi_service = wsm_service (ws_info w),
         smi_action = wsm_action (ws_info w)\<rparr>,
      sm_result = breakdown_from_wire (ws_result_type w)\<rparr>"

definition summary_from_wire :: "wire_summary_result \<Rightarrow> summary_result" where
  "summary_from_wire w =
     \<lparr>sr_routing = routing_from_wire (wsr_routing_info w),
      sr_messages = map summary_message_from_wire (wsr_detail_list w)\<rparr>"

datatype 'x result_parse_error = XmlError 'x

text \<open>The deserialiser \<open>de\<close> is \<open>quick_xml::de::from_str\<close> at the wire type.\<close>

definition process_result_parse ::
  "(string \<Rightarrow> 'x + wire_process_result) \<Rightarrow> string \<Rightarrow> 'x result_parse_error + process_result" where
  "process_result_parse de xml =
     and_then (map_err XmlError (de xml)) (\<lambda>wire. Inr (process_from_wire wire))"

definition summary_result_parse ::
  "(string \<Rightarrow> 'x + wire_summary_result) \<Rightarrow> string \<Rightarrow> 'x result_parse_error + summary_result" where
  "summary_result_parse de xml =
     and_then (map_err XmlError (de xml)) (\<lambda>wire. Inr (summary_from_wire wire))"

text \<open>The conversion loses nothing of a process result.\<close>

lemma process_from_wire_inject: "process_from_wire v = process_from_wire w \<longleftrightarrow> v = w"
proof -
  have party: "inj party_from_wire" and route: "inj route_from_wire"
    by (auto intro!: injI simp: party_from_wire_def route_from_wire_def)
  have "inj diagnostic_from_wire" by (auto intro!: injI simp: diagnostic_from_wire_def)
  moreover have "inj routing_from_wire"
    using party route by (auto intro!: injI simp: routing_from_wire_def inj_eq)
  ultimately show ?thesis
    by (auto simp: process_from_wire_def inj_eq inj_map_eq_map)
qed

end
