(* ===== verification/Submission.thy ===== *)
theory Submission
  imports Results
begin

text \<open>
  \<open>crates/einvoice-state\<close>: the durable record of one submission.  Methods that take
  \<open>&mut self\<close> return their result and the new record; \<^const>\<open>None\<close> is a panic.
\<close>

section \<open>TransportState\<close>

datatype transport_state =
  Created | Prepared | Uploaded | Enqueued | ProcessObserved | SummaryObserved

fun transport_rank :: "transport_state \<Rightarrow> nat" where
  "transport_rank Created = 0"
| "transport_rank Prepared = 1"
| "transport_rank Uploaded = 2"
| "transport_rank Enqueued = 3"
| "transport_rank ProcessObserved = 4"
| "transport_rank SummaryObserved = 5"

lemma transport_rank_inject [simp]: "transport_rank a = transport_rank b \<longleftrightarrow> a = b"
  by (cases a; cases b) simp_all

text \<open>The derived \<open>Ord\<close>: by position of the variant.\<close>

instantiation transport_state :: linorder
begin

definition less_eq_transport_state :: "transport_state \<Rightarrow> transport_state \<Rightarrow> bool" where
  "a \<le> b \<longleftrightarrow> transport_rank a \<le> transport_rank b"

definition less_transport_state :: "transport_state \<Rightarrow> transport_state \<Rightarrow> bool" where
  "a < b \<longleftrightarrow> transport_rank a < transport_rank b"

instance
  by standard (auto simp: less_eq_transport_state_def less_transport_state_def)

end

lemma transport_order [simp]:
  "t \<le> SummaryObserved" "SummaryObserved \<le> t \<longleftrightarrow> t = SummaryObserved" "Created \<le> t"
  by (cases t; simp add: less_eq_transport_state_def)+

datatype transport_advance =
    Advanced transport_state transport_state
  | Unchanged
  | IgnoredStale transport_state transport_state

section \<open>TerminalSummary\<close>

datatype terminal_disposition = AllGood | AllFailed | PartialSuccess

record terminal_summary =
  disposition :: terminal_disposition
  ts_total :: u32
  ts_good :: u32
  ts_failed :: u32
  good_invoices :: "invoice_reference list"
  failed_invoices :: "invoice_reference list"
  ts_message :: summary_message

definition from_validated_message :: "summary_message \<Rightarrow> terminal_summary option" where
  "from_validated_message m =
     (let r = sm_result m in
      case (u32_try_from (detail_count (rb_total r)), u32_try_from (detail_count (rb_good r)),
            u32_try_from (detail_count (rb_failed r))) of
        (Some t, Some g, Some f) \<Rightarrow>
          Some \<lparr>disposition =
                 (if f = 0 then AllGood else if g = 0 then AllFailed else PartialSuccess),
                ts_total = t, ts_good = g, ts_failed = f,
                good_invoices = detail_invoices (rb_good r),
                failed_invoices = detail_invoices (rb_failed r),
                ts_message = m\<rparr>
      | _ \<Rightarrow> None)"

datatype apply_outcome = Changed | UnchangedReplay

section \<open>SubmissionRecord\<close>

record submission_record =
  message_id :: string
  expected_quantity :: u32
  transport :: transport_state
  process_results :: "process_result list"
  terminal :: "terminal_summary option"

datatype submission_init_error = EmptyMessageId | ZeroExpectedQuantity

datatype apply_error =
    MessageIdMismatch string string
  | SummaryMessageMissing string
  | DuplicateSummaryMessage string nat
  | InconsistentSummary string "summary_issue list"
  | ConflictingTerminalSummary string terminal_summary terminal_summary

definition submission_new :: "string \<Rightarrow> u32 \<Rightarrow> submission_init_error + submission_record" where
  "submission_new mid expected =
     (if mid = [] then Inl EmptyMessageId
      else if expected = 0 then Inl ZeroExpectedQuantity
      else Inr \<lparr>message_id = mid, expected_quantity = expected, transport = Created,
                process_results = [], terminal = None\<rparr>)"

definition advance_transport ::
  "transport_state \<Rightarrow> submission_record \<Rightarrow> transport_advance \<times> submission_record" where
  "advance_transport target rec =
     (if target > transport rec
      then (Advanced (transport rec) target, rec\<lparr>transport := target\<rparr>)
      else if target = transport rec then (Unchanged, rec)
      else (IgnoredStale (transport rec) target, rec))"

definition ensure_message_id :: "submission_record \<Rightarrow> string \<Rightarrow> apply_error + unit" where
  "ensure_message_id rec actual =
     (if actual = message_id rec then Inr () else Inl (MessageIdMismatch (message_id rec) actual))"

definition apply_process_result ::
  "process_result \<Rightarrow> submission_record \<Rightarrow> (apply_error + apply_outcome) \<times> submission_record" where
  "apply_process_result result rec =
     (case ensure_message_id rec (pmi_id (pr_message result)) of
        Inl e \<Rightarrow> (Inl e, rec)
      | Inr _ \<Rightarrow>
          if result \<in> set (process_results rec) then (Inr UnchangedReplay, rec)
          else
            (let rec1 = rec\<lparr>process_results := process_results rec @ [result]\<rparr>;
                 rec2 = snd (advance_transport ProcessObserved rec1)
             in (Inr Changed, rec2)))"

definition apply_summary_message ::
  "profile \<Rightarrow> summary_message \<Rightarrow> submission_record \<Rightarrow>
     ((apply_error + apply_outcome) \<times> submission_record) option" where
  "apply_summary_message p m rec =
     (case ensure_message_id rec (smi_id (sm_info m)) of
        Inl e \<Rightarrow> Some (Inl e, rec)
      | Inr _ \<Rightarrow>
          (case validation_issues p m (Some (expected_quantity rec)) of
             None \<Rightarrow> None
           | Some issues \<Rightarrow>
               if issues \<noteq> [] then Some (Inl (InconsistentSummary (message_id rec) issues), rec)
               else
                 (case from_validated_message m of
                    None \<Rightarrow> None
                  | Some incoming \<Rightarrow>
                      (case terminal rec of
                         Some existing \<Rightarrow>
                           if existing = incoming then Some (Inr UnchangedReplay, rec)
                           else Some (Inl (ConflictingTerminalSummary (message_id rec) existing incoming), rec)
                       | None \<Rightarrow>
                           (let rec1 = rec\<lparr>terminal := Some incoming\<rparr>;
                                rec2 = snd (advance_transport SummaryObserved rec1)
                            in Some (Inr Changed, rec2))))))"

definition apply_summary_result ::
  "profile \<Rightarrow> summary_result \<Rightarrow> submission_record \<Rightarrow>
     ((apply_error + apply_outcome) \<times> submission_record) option" where
  "apply_summary_result p result rec =
     (case filter (\<lambda>message. smi_id (sm_info message) = message_id rec) (sr_messages result) of
        [] \<Rightarrow> Some (Inl (SummaryMessageMissing (message_id rec)), rec)
      | message # rest \<Rightarrow>
          if rest \<noteq> []
          then Some (Inl (DuplicateSummaryMessage (message_id rec)
                 (length (filter (\<lambda>candidate. smi_id (sm_info candidate) = message_id rec)
                    (sr_messages result)))), rec)
          else apply_summary_message p message rec)"

section \<open>Histories of a record\<close>

datatype record_event =
    AdvanceTo transport_state
  | ProcessArrived process_result
  | SummaryMessageArrived summary_message
  | SummaryArrived summary_result

text \<open>The record after one call, whatever the call returned; \<^const>\<open>None\<close> if it panicked.\<close>

fun record_step :: "profile \<Rightarrow> record_event \<Rightarrow> submission_record \<Rightarrow> submission_record option" where
  "record_step p (AdvanceTo t) rec = Some (snd (advance_transport t rec))"
| "record_step p (ProcessArrived r) rec = Some (snd (apply_process_result r rec))"
| "record_step p (SummaryMessageArrived m) rec = map_option snd (apply_summary_message p m rec)"
| "record_step p (SummaryArrived s) rec = map_option snd (apply_summary_result p s rec)"

inductive evolves :: "profile \<Rightarrow> submission_record \<Rightarrow> submission_record \<Rightarrow> bool" for p where
  evolves_refl: "evolves p rec rec"
| evolves_step: "evolves p rec mid \<Longrightarrow> record_step p ev mid = Some rec' \<Longrightarrow> evolves p rec rec'"

definition terminal_ok :: "submission_record \<Rightarrow> terminal_summary \<Rightarrow> bool" where
  "terminal_ok rec t \<longleftrightarrow>
     transport rec = SummaryObserved \<and> smi_id (sm_info (ts_message t)) = message_id rec \<and>
     summary_ok (ts_message t) (Some (expected_quantity rec)) \<and>
     from_validated_message (ts_message t) = Some t"

definition wf_record :: "submission_record \<Rightarrow> bool" where
  "wf_record rec \<longleftrightarrow>
     message_id rec \<noteq> [] \<and> expected_quantity rec \<noteq> 0 \<and>
     distinct (process_results rec) \<and>
     (\<forall>r \<in> set (process_results rec). pmi_id (pr_message r) = message_id rec) \<and>
     (process_results rec \<noteq> [] \<longrightarrow> ProcessObserved \<le> transport rec) \<and>
     (\<forall>t. terminal rec = Some t \<longrightarrow> terminal_ok rec t)"

definition later_record :: "submission_record \<Rightarrow> submission_record \<Rightarrow> bool" where
  "later_record rec rec' \<longleftrightarrow>
     message_id rec' = message_id rec \<and> expected_quantity rec' = expected_quantity rec \<and>
     transport rec \<le> transport rec' \<and>
     (\<exists>new. process_results rec' = process_results rec @ new) \<and>
     (terminal rec \<noteq> None \<longrightarrow> terminal rec' = terminal rec)"

subsection \<open>The operations, branch by branch\<close>

lemma advance_transport_snd:
  "snd (advance_transport t rec) = rec\<lparr>transport := max (transport rec) t\<rparr>"
  by (auto simp: advance_transport_def max_def)

lemma u32_try_from_Some: "u32_try_from c = Some v \<longleftrightarrow> 0 \<le> sint c \<and> uint v = sint c"
proof -
  have "uint (word_of_int (sint c) :: u32) = sint c" if "0 \<le> sint c"
    unfolding uint_word_of_int using that sint_i32_range(2) [of c]
    by (simp add: mod_pos_pos_trivial)
  then show ?thesis by (auto simp: u32_try_from_def word_uint_eq_iff)
qed

lemma summary_ok_details:
  "summary_ok m e \<Longrightarrow> detail_ok (rb_total (sm_result m)) \<and> detail_ok (rb_good (sm_result m)) \<and>
     detail_ok (rb_failed (sm_result m))"
  by (simp add: summary_ok_def Let_def)

lemma from_validated_message_ok:
  assumes "summary_ok m e"
  shows "\<exists>t. from_validated_message m = Some t \<and> ts_message t = m"
  using summary_ok_details [OF assms]
  by (auto simp: from_validated_message_def u32_try_from_def detail_ok_def Let_def)

lemma from_validated_message_Some:
  assumes "from_validated_message m = Some t"
  shows "ts_message t = m"
    and "uint (ts_total t) = sint (detail_count (rb_total (sm_result m)))"
    and "uint (ts_good t) = sint (detail_count (rb_good (sm_result m)))"
    and "uint (ts_failed t) = sint (detail_count (rb_failed (sm_result m)))"
    and "good_invoices t = detail_invoices (rb_good (sm_result m))"
    and "failed_invoices t = detail_invoices (rb_failed (sm_result m))"
    and "disposition t = (if ts_failed t = 0 then AllGood else if ts_good t = 0 then AllFailed
           else PartialSuccess)"
  using assms
  by (auto simp: from_validated_message_def Let_def u32_try_from_Some split: option.splits)

text \<open>The specification of one summary entry applied to a record, panics excluded.\<close>

definition summary_outcome ::
  "summary_message \<Rightarrow> submission_record \<Rightarrow> submission_record" where
  "summary_outcome m rec =
     (if smi_id (sm_info m) = message_id rec \<and> summary_ok m (Some (expected_quantity rec)) \<and> terminal rec = None
      then rec\<lparr>terminal := from_validated_message m, transport := SummaryObserved\<rparr> else rec)"

lemma max_SummaryObserved [simp]: "max t SummaryObserved = SummaryObserved"
  by (simp add: max_def)

lemma validation_issues_cases:
  obtains "validation_issues p m e = None" "p = Debug"
  | issues where "validation_issues p m e = Some issues" "issues = [] \<longleftrightarrow> summary_ok m e"
  using validation_issues_Release [of m e] validation_issues_debug [of m e]
  by (cases p) (auto simp: Let_def split: if_splits)

lemma apply_summary_message_snd:
  assumes "apply_summary_message p m rec = Some (r, rec')"
  shows "rec' = summary_outcome m rec"
proof (cases rule: validation_issues_cases [of p m "Some (expected_quantity rec)"])
  case 1
  with assms show ?thesis
    by (auto simp: apply_summary_message_def summary_outcome_def ensure_message_id_def
        split: if_splits)
next
  case (2 issues)
  then show ?thesis
    using assms from_validated_message_ok [of m "Some (expected_quantity rec)"]
    by (auto simp: apply_summary_message_def summary_outcome_def ensure_message_id_def
        advance_transport_snd Let_def split: if_splits option.splits)
qed

lemma apply_summary_result_snd:
  assumes "apply_summary_result p s rec = Some (r, rec')"
  shows "rec' = rec \<or> (\<exists>m \<in> set (sr_messages s). rec' = summary_outcome m rec)"
proof -
  let ?ms = "filter (\<lambda>m. smi_id (sm_info m) = message_id rec) (sr_messages s)"
  show ?thesis
  proof (cases ?ms)
    case (Cons m rest)
    then have "m \<in> set ?ms" by simp
    then have "m \<in> set (sr_messages s)" by simp
    with Cons assms show ?thesis
      by (auto simp: apply_summary_result_def split: if_splits dest: apply_summary_message_snd)
  qed (use assms in \<open>simp add: apply_summary_result_def\<close>)
qed

lemma summary_outcome_later: "later_record rec (summary_outcome m rec)"
  by (auto simp: summary_outcome_def later_record_def)

lemma apply_process_result_snd:
  "snd (apply_process_result r rec) =
     (if pmi_id (pr_message r) = message_id rec \<and> r \<notin> set (process_results rec)
      then rec\<lparr>process_results := process_results rec @ [r],
               transport := max (transport rec) ProcessObserved\<rparr> else rec)"
  by (auto simp: apply_process_result_def ensure_message_id_def advance_transport_snd Let_def)

lemma later_record_refl [simp]: "later_record rec rec"
  by (simp add: later_record_def)

lemma record_step_later: "record_step p ev rec = Some rec' \<Longrightarrow> later_record rec rec'"
proof (cases ev)
  case (SummaryMessageArrived m)
  moreover assume "record_step p ev rec = Some rec'"
  ultimately show ?thesis
    by (auto dest: apply_summary_message_snd simp: summary_outcome_later)
next
  case (SummaryArrived s)
  moreover assume "record_step p ev rec = Some rec'"
  ultimately show ?thesis
    using later_record_refl by (auto dest!: apply_summary_result_snd simp: summary_outcome_later)
qed (auto simp: advance_transport_snd apply_process_result_snd later_record_def)

lemma later_record_trans: "later_record a b \<Longrightarrow> later_record b c \<Longrightarrow> later_record a c"
  by (auto simp: later_record_def intro: order_trans)

lemma evolves_later: "evolves p rec rec' \<Longrightarrow> later_record rec rec'"
proof (induction rule: evolves.induct)
  case (evolves_step rec mid ev rec')
  then show ?case by (blast intro: later_record_trans record_step_later)
qed (simp add: later_record_def)

lemma summary_outcome_wf: "wf_record rec \<Longrightarrow> wf_record (summary_outcome m rec)"
  using from_validated_message_ok [of m "Some (expected_quantity rec)"]
  by (auto simp: wf_record_def summary_outcome_def terminal_ok_def)

lemma advance_wf: "wf_record rec \<Longrightarrow> wf_record (rec\<lparr>transport := max (transport rec) t\<rparr>)"
  by (auto simp: wf_record_def terminal_ok_def max_def)

lemma record_step_wf: "record_step p ev rec = Some rec' \<Longrightarrow> wf_record rec \<Longrightarrow> wf_record rec'"
proof (cases ev)
  case (AdvanceTo t)
  moreover assume "record_step p ev rec = Some rec'" "wf_record rec"
  ultimately show ?thesis by (auto simp: advance_transport_snd advance_wf)
next
  case (ProcessArrived r)
  moreover assume "record_step p ev rec = Some rec'" "wf_record rec"
  ultimately show ?thesis
    by (auto simp: apply_process_result_snd wf_record_def terminal_ok_def max_def split: if_splits)
next
  case (SummaryMessageArrived m)
  moreover assume "record_step p ev rec = Some rec'" "wf_record rec"
  ultimately show ?thesis by (auto dest: apply_summary_message_snd simp: summary_outcome_wf)
next
  case (SummaryArrived s)
  moreover assume "record_step p ev rec = Some rec'" "wf_record rec"
  ultimately show ?thesis by (auto dest!: apply_summary_result_snd simp: summary_outcome_wf)
qed

lemma submission_new_Inr:
  "submission_new mid n = Inr rec \<longleftrightarrow> mid \<noteq> [] \<and> n \<noteq> 0 \<and>
     rec = \<lparr>message_id = mid, expected_quantity = n, transport = Created,
            process_results = [], terminal = None\<rparr>"
  by (auto simp: submission_new_def)

lemma evolves_wf: "evolves p rec rec' \<Longrightarrow> wf_record rec \<Longrightarrow> wf_record rec'"
  by (induction rule: evolves.induct) (auto intro: record_step_wf)

lemma new_evolves_wf: "submission_new mid n = Inr rec0 \<Longrightarrow> evolves p rec0 rec \<Longrightarrow> wf_record rec"
  by (erule evolves_wf) (auto simp: submission_new_Inr wf_record_def)

lemma new_evolves:
  assumes "submission_new mid n = Inr rec0" and "evolves p rec0 rec"
  shows "wf_record rec \<and> message_id rec = mid \<and> expected_quantity rec = n"
  using new_evolves_wf [OF assms] evolves_later [OF assms(2)] assms(1)
  by (auto simp: submission_new_Inr later_record_def)

section \<open>Properties of a submission record\<close>

text \<open>
  C6.  Every record that any sequence of calls makes out of a
  freshly created one keeps its identity and expected quantity and is well formed: its
  process results are distinct, all about this message, and acknowledged in the transport
  state; a terminal summary is a consistent summary of this very message whose total is the
  expected quantity, and only a record in state \<open>SummaryObserved\<close> holds one.
\<close>

theorem submission_history_invariant:
  assumes "submission_new mid n = Inr rec0" and "evolves p rec0 rec"
  shows "wf_record rec \<and> message_id rec = mid \<and> expected_quantity rec = n"
  using assms by (rule new_evolves)

text \<open>
  C15.  Along any sequence of calls the transport state never goes
  back, no process result is lost or reordered, and a terminal summary, once recorded, is
  never replaced or removed.
\<close>

theorem submission_history_monotone:
  assumes "evolves p rec rec'"
  shows "transport rec \<le> transport rec' \<and> (\<exists>new. process_results rec' = process_results rec @ new) \<and>
    (\<forall>t. terminal rec = Some t \<longrightarrow> terminal rec' = Some t)"
  using evolves_later [OF assms] by (auto simp: later_record_def)

text \<open>
  C8.  The terminal disposition of a submission of \<open>n\<close> invoices is
  exact: the recorded counts add up to \<open>n\<close>, \<open>AllGood\<close> means all \<open>n\<close> are good, \<open>AllFailed\<close> that
  all \<open>n\<close> failed, and \<open>PartialSuccess\<close> that both kinds occur.
\<close>

theorem terminal_disposition_exact:
  assumes "submission_new mid n = Inr rec0" and "evolves p rec0 rec" and "terminal rec = Some t"
  shows "ts_total t = n \<and> uint (ts_good t) + uint (ts_failed t) = uint n \<and>
    (disposition t = AllGood \<longleftrightarrow> ts_good t = n) \<and>
    (disposition t = AllFailed \<longleftrightarrow> ts_failed t = n) \<and>
    (disposition t = PartialSuccess \<longleftrightarrow> ts_good t \<noteq> 0 \<and> ts_failed t \<noteq> 0)"
proof -
  from new_evolves [OF assms(1,2)]
  have wf: "terminal_ok rec t" "expected_quantity rec = n" "n \<noteq> 0"
    using assms(1,3) by (auto simp: wf_record_def submission_new_Inr)
  then have v: "from_validated_message (ts_message t) = Some t"
    and ok: "summary_ok (ts_message t) (Some n)" by (auto simp: terminal_ok_def)
  note f = from_validated_message_Some [OF v]
  have tot: "uint (ts_total t) = uint n" and
    split: "uint (ts_good t) + uint (ts_failed t) = uint n"
    using ok f(2-4) by (auto simp: summary_ok_def Let_def)
  have "ts_good t = n \<longleftrightarrow> uint (ts_failed t) = 0" "ts_failed t = n \<longleftrightarrow> uint (ts_good t) = 0"
    using split by (auto simp: word_uint_eq_iff)
  then show ?thesis using tot split f(7) wf(3) by (auto simp: word_uint_eq_iff)
qed

text \<open>
  C25.  The complete behaviour of \<open>apply_summary_message\<close> in a
  release build: it never panics - in particular the conversions that \<open>expect\<close> a validated
  count succeed - and returns, in this order of checks, the identity mismatch, the list of
  inconsistencies, the replay, the conflict, or records the summary.
\<close>

theorem apply_summary_message_spec:
  "\<exists>issues t. validation_issues Release m (Some (expected_quantity rec)) = Some issues \<and>
     (summary_ok m (Some (expected_quantity rec)) \<longrightarrow> from_validated_message m = Some t) \<and>
     apply_summary_message Release m rec = Some
       (if smi_id (sm_info m) \<noteq> message_id rec
        then (Inl (MessageIdMismatch (message_id rec) (smi_id (sm_info m))), rec)
        else if \<not> summary_ok m (Some (expected_quantity rec))
        then (Inl (InconsistentSummary (message_id rec) issues), rec)
        else (case terminal rec of
            None \<Rightarrow> (Inr Changed, rec\<lparr>terminal := Some t, transport := SummaryObserved\<rparr>)
          | Some existing \<Rightarrow>
              if existing = t then (Inr UnchangedReplay, rec)
              else (Inl (ConflictingTerminalSummary (message_id rec) existing t), rec)))"
proof -
  obtain issues where i: "validation_issues Release m (Some (expected_quantity rec)) = Some issues"
    "issues = [] \<longleftrightarrow> summary_ok m (Some (expected_quantity rec))"
    using validation_issues_Release by blast
  show ?thesis
  proof (cases "summary_ok m (Some (expected_quantity rec))")
    case True
    then obtain t where "from_validated_message m = Some t" using from_validated_message_ok by blast
    with i True show ?thesis
      by (intro exI [of _ issues] exI [of _ t])
        (auto simp: apply_summary_message_def ensure_message_id_def advance_transport_snd Let_def
          split: option.splits)
  next
    case False
    with i show ?thesis
      by (intro exI [of _ issues] exI [of _ undefined])
        (auto simp: apply_summary_message_def ensure_message_id_def)
  qed
qed

text \<open>
  C26.  A call that returns an error or reports a replay leaves the record
  unchanged; a call that reports \<open>Changed\<close> changes it.  This holds of both kinds of result,
  in both builds.
\<close>

theorem apply_failure_atomic:
  "(case apply_process_result r rec of
      (Inr Changed, rec') \<Rightarrow> rec' \<noteq> rec
    | (_, rec') \<Rightarrow> rec' = rec) \<and>
   (case apply_summary_result p s rec of
      None \<Rightarrow> p = Debug
    | Some (Inr Changed, rec') \<Rightarrow> rec' \<noteq> rec \<and> terminal rec = None \<and> terminal rec' \<noteq> None
    | Some (_, rec') \<Rightarrow> rec' = rec)"
proof (rule conjI)
  have "process_results (rec\<lparr>process_results := process_results rec @ [r], transport := t\<rparr>)
      \<noteq> process_results rec" for t by simp
  then have "rec\<lparr>process_results := process_results rec @ [r], transport := t\<rparr> \<noteq> rec" for t
    by metis
  then show "case apply_process_result r rec of (Inr Changed, rec') \<Rightarrow> rec' \<noteq> rec | (_, rec') \<Rightarrow> rec' = rec"
    by (auto simp: apply_process_result_def ensure_message_id_def advance_transport_snd Let_def)
next
  have m: "case apply_summary_message p m rec of
      None \<Rightarrow> p = Debug
    | Some (Inr Changed, rec') \<Rightarrow> rec' \<noteq> rec \<and> terminal rec = None \<and> terminal rec' \<noteq> None
    | Some (_, rec') \<Rightarrow> rec' = rec" for m
  proof -
    have ne: "terminal rec = None \<Longrightarrow> rec\<lparr>terminal := Some t, transport := u\<rparr> \<noteq> rec" for t u
      by (metis option.distinct(1) submission_record.select_convs(5) submission_record.surjective
          submission_record.update_convs(3,5))
    show ?thesis
      using from_validated_message_ok [of m "Some (expected_quantity rec)"] ne
      by (cases rule: validation_issues_cases [of p m "Some (expected_quantity rec)"])
        (auto simp: apply_summary_message_def ensure_message_id_def advance_transport_snd Let_def
          split: option.splits)
  qed
  show "case apply_summary_result p s rec of
      None \<Rightarrow> p = Debug
    | Some (Inr Changed, rec') \<Rightarrow> rec' \<noteq> rec \<and> terminal rec = None \<and> terminal rec' \<noteq> None
    | Some (_, rec') \<Rightarrow> rec' = rec"
    unfolding apply_summary_result_def using m by (auto split: list.splits)
qed

lemma apply_summary_message_replay:
  assumes "apply_summary_message p m rec = Some (Inr out, rec')"
  shows "apply_summary_message p m rec' = Some (Inr UnchangedReplay, rec')"
  using assms
  by (auto simp: apply_summary_message_def ensure_message_id_def advance_transport_snd Let_def
      split: if_splits option.splits)

text \<open>Replays, immediate or after other calls.\<close>

lemma process_replay:
  assumes a: "apply_process_result r rec = (Inr out, rec1)" and e: "evolves p rec1 rec2"
  shows "apply_process_result r rec2 = (Inr UnchangedReplay, rec2)"
proof -
  from a have "pmi_id (pr_message r) = message_id rec1" "r \<in> set (process_results rec1)"
    by (auto simp: apply_process_result_def ensure_message_id_def advance_transport_snd Let_def
        split: if_splits)
  with evolves_later [OF e] have "pmi_id (pr_message r) = message_id rec2" "r \<in> set (process_results rec2)"
    by (auto simp: later_record_def)
  then show ?thesis by (simp add: apply_process_result_def ensure_message_id_def)
qed

lemma summary_message_replay:
  assumes a: "apply_summary_message p m rec = Some (Inr out, rec1)" and e: "evolves p rec1 rec2"
  shows "apply_summary_message p m rec2 = Some (Inr UnchangedReplay, rec2)"
proof -
  from apply_summary_message_replay [OF a] obtain t where
    "smi_id (sm_info m) = message_id rec1" "terminal rec1 = Some t"
    "validation_issues p m (Some (expected_quantity rec1)) = Some []"
    "from_validated_message m = Some t"
    by (auto simp: apply_summary_message_def ensure_message_id_def Let_def split: if_splits option.splits)
  with evolves_later [OF e] have
    "smi_id (sm_info m) = message_id rec2" "terminal rec2 = Some t"
    "validation_issues p m (Some (expected_quantity rec2)) = Some []"
    "from_validated_message m = Some t"
    by (auto simp: later_record_def)
  then show ?thesis by (simp add: apply_summary_message_def ensure_message_id_def)
qed

lemma summary_result_replay:
  assumes a: "apply_summary_result p s rec = Some (Inr out, rec1)" and e: "evolves p rec1 rec2"
  shows "apply_summary_result p s rec2 = Some (Inr UnchangedReplay, rec2)"
proof -
  from a obtain m where m: "filter (\<lambda>m. smi_id (sm_info m) = message_id rec) (sr_messages s) = [m]"
    "apply_summary_message p m rec = Some (Inr out, rec1)"
    by (auto simp: apply_summary_result_def split: list.splits if_splits)
  from apply_summary_message_snd [OF m(2)] evolves_later [OF e] have "message_id rec2 = message_id rec"
    by (simp add: summary_outcome_def later_record_def split: if_splits)
  with m(1) summary_message_replay [OF m(2) e] show ?thesis by (simp add: apply_summary_result_def)
qed

text \<open>
  C27.  Replay is harmless: after a result has been applied successfully,
  applying the same result again succeeds as \<open>UnchangedReplay\<close> and changes nothing - also
  when other results arrived in between.
\<close>

theorem replay_idempotent:
  "(apply_process_result r rec = (Inr out, rec1) \<and> evolves p rec1 rec2 \<longrightarrow>
      apply_process_result r rec2 = (Inr UnchangedReplay, rec2)) \<and>
   (apply_summary_message p m rec' = Some (Inr out', rec1') \<and> evolves p rec1' rec2' \<longrightarrow>
      apply_summary_message p m rec2' = Some (Inr UnchangedReplay, rec2'))"
  using process_replay summary_message_replay by blast

section \<open>Abstract specification\<close>

text \<open>
  What a record promises, without lists, replays and counts: how far the protocol has come,
  which process results were seen, and the first consistent summary.
\<close>

record submission_spec =
  sp_stage :: transport_state
  sp_seen :: "process_result set"
  sp_verdict :: "summary_message option"

definition abs_record :: "submission_record \<Rightarrow> submission_spec" where
  "abs_record rec = \<lparr>sp_stage = transport rec, sp_seen = set (process_results rec),
     sp_verdict = map_option ts_message (terminal rec)\<rparr>"

definition spec_summary :: "string \<Rightarrow> u32 \<Rightarrow> summary_message \<Rightarrow> submission_spec \<Rightarrow> submission_spec" where
  "spec_summary mid n m s =
     (if smi_id (sm_info m) = mid \<and> summary_ok m (Some n) \<and> sp_verdict s = None
      then s\<lparr>sp_verdict := Some m, sp_stage := SummaryObserved\<rparr> else s)"

fun spec_step :: "string \<Rightarrow> u32 \<Rightarrow> record_event \<Rightarrow> submission_spec \<Rightarrow> submission_spec" where
  "spec_step mid n (AdvanceTo t) s = s\<lparr>sp_stage := max (sp_stage s) t\<rparr>"
| "spec_step mid n (ProcessArrived r) s =
     (if pmi_id (pr_message r) = mid
      then s\<lparr>sp_stage := max (sp_stage s) ProcessObserved, sp_seen := insert r (sp_seen s)\<rparr> else s)"
| "spec_step mid n (SummaryMessageArrived m) s = spec_summary mid n m s"
| "spec_step mid n (SummaryArrived res) s =
     (case filter (\<lambda>m. smi_id (sm_info m) = mid) (sr_messages res) of
        [m] \<Rightarrow> spec_summary mid n m s | _ \<Rightarrow> s)"

lemma abs_summary_outcome:
  "abs_record (summary_outcome m rec) =
     spec_summary (message_id rec) (expected_quantity rec) m (abs_record rec)"
  using from_validated_message_ok [of m "Some (expected_quantity rec)"]
  by (auto simp: abs_record_def summary_outcome_def spec_summary_def)

text \<open>
  C9.  The record implements its specification: on every well-formed
  record and every event, abstracting the record after the call gives the specification's
  step from the abstracted record.  Lists, replay detection, stale transport events and the
  order of checks are invisible.
\<close>

theorem record_refines_spec:
  assumes "wf_record rec" and "record_step p ev rec = Some rec'"
  shows "abs_record rec' = spec_step (message_id rec) (expected_quantity rec) ev (abs_record rec)"
proof (cases ev)
  case (AdvanceTo t)
  with assms(2) show ?thesis by (auto simp: advance_transport_snd abs_record_def)
next
  case (ProcessArrived r)
  have "r \<in> set (process_results rec) \<Longrightarrow> max (transport rec) ProcessObserved = transport rec"
    using assms(1) by (auto simp: wf_record_def max_def)
  with ProcessArrived assms(2) show ?thesis
    by (cases "r \<in> set (process_results rec)")
      (auto simp: apply_process_result_snd abs_record_def insert_absorb)
next
  case (SummaryMessageArrived m)
  with assms(2) show ?thesis
    by (auto dest!: apply_summary_message_snd simp: abs_summary_outcome)
next
  case (SummaryArrived s)
  with assms(2) obtain r where s: "apply_summary_result p s rec = Some (r, rec')" by auto
  show ?thesis
    using s unfolding SummaryArrived
    by (auto simp: apply_summary_result_def abs_summary_outcome split: list.splits if_splits
        dest!: apply_summary_message_snd)
qed

definition summary_result_outcome :: "summary_result \<Rightarrow> submission_record \<Rightarrow> submission_record" where
  "summary_result_outcome s rec =
     (case filter (\<lambda>m. smi_id (sm_info m) = message_id rec) (sr_messages s) of
        [m] \<Rightarrow> summary_outcome m rec | _ \<Rightarrow> rec)"

lemma apply_summary_message_Release: "\<exists>r. apply_summary_message Release m rec = Some (r, summary_outcome m rec)"
proof -
  obtain r rec' where "apply_summary_message Release m rec = Some (r, rec')"
    using validation_issues_Release [of m "Some (expected_quantity rec)"]
      from_validated_message_ok [of m "Some (expected_quantity rec)"]
    by (cases "apply_summary_message Release m rec")
      (auto simp: apply_summary_message_def Let_def split: sum.splits if_splits option.splits)
  with apply_summary_message_snd show ?thesis by blast
qed

lemma apply_summary_result_Release:
  "\<exists>r. apply_summary_result Release s rec = Some (r, summary_result_outcome s rec)"
  using apply_summary_message_Release
  by (auto simp: apply_summary_result_def summary_result_outcome_def split: list.splits)

lemma commute_outcomes:
  "summary_outcome m (snd (apply_process_result r rec)) = snd (apply_process_result r (summary_outcome m rec))"
  by (auto simp: summary_outcome_def apply_process_result_snd max_def)

lemma apply_process_message_id [simp]: "message_id (snd (apply_process_result r rec)) = message_id rec"
  by (simp add: apply_process_result_snd)

text \<open>
  C28.  A delayed process result and a summary may arrive in either order:
  the record ends up the same.
\<close>

theorem late_results_commute:
  "map_option snd (apply_summary_result Release s (snd (apply_process_result r rec))) =
   map_option (\<lambda>x. snd (apply_process_result r (snd x))) (apply_summary_result Release s rec)"
proof -
  have "summary_result_outcome s (snd (apply_process_result r rec)) =
      snd (apply_process_result r (summary_result_outcome s rec))"
    by (auto simp: summary_result_outcome_def commute_outcomes split: list.splits)
  then show ?thesis
    using apply_summary_result_Release [of s rec]
      apply_summary_result_Release [of s "snd (apply_process_result r rec)"] by auto
qed

end
