(* ===== verification/Submission_Store.thy ===== *)
theory Submission_Store
  imports Submission
begin

text \<open>
  The persistence boundary of \<open>crates/einvoice-state\<close>: the \<open>SubmissionStore\<close> trait is the
  locale \<open>submission_store\<close>, its laws the compare-and-swap contract documented with the
  trait and in \<open>docs/state-persistence.md\<close>; the crate's \<open>MemoryStore\<close> interprets it.
\<close>

record versioned_submission =
  revision :: u64
  vs_record :: submission_record

datatype store_write_outcome =
    Stored u64
  | StoreConflict "u64 option"

locale submission_store =
  fixes load :: "'s \<Rightarrow> string \<Rightarrow> 'e + versioned_submission option"
    and compare_and_swap ::
      "u64 option \<Rightarrow> submission_record \<Rightarrow> 's \<Rightarrow> ('e + store_write_outcome) \<times> 's"
  assumes cas_stored: "compare_and_swap expected rec s = (Inr (Stored r), s') \<Longrightarrow>
      load s (message_id rec) = Inr cur \<Longrightarrow>
      map_option revision cur = expected \<and> Some r \<noteq> expected \<and>
      load s' (message_id rec) = Inr (Some \<lparr>revision = r, vs_record = rec\<rparr>)"
    and cas_conflict: "compare_and_swap expected rec s = (Inr (StoreConflict c), s') \<Longrightarrow>
      load s (message_id rec) = Inr cur \<Longrightarrow>
      c = map_option revision cur \<and> c \<noteq> expected \<and> load s' (message_id rec) = Inr cur"
    and cas_frame: "compare_and_swap expected rec s = (out, s') \<Longrightarrow> k \<noteq> message_id rec \<Longrightarrow>
      load s' k = load s k"
begin

text \<open>A writer whose expected revision is the stored one is never turned away.\<close>

lemma fresh_writer_stores:
  assumes "load s (message_id rec) = Inr cur"
    and "compare_and_swap (map_option revision cur) rec s = (Inr out, s')"
  shows "\<exists>r. out = Stored r"
proof (cases out)
  case (StoreConflict c)
  with assms cas_conflict [of "map_option revision cur" rec s c s' cur] show ?thesis by auto
qed blast

text \<open>Of two writers that loaded the same revision the second gets a conflict.\<close>

lemma second_writer_conflicts:
  assumes "load s (message_id rec1) = Inr cur" and "message_id rec2 = message_id rec1"
    and "compare_and_swap expected rec1 s = (Inr (Stored r), s1)"
    and "compare_and_swap expected rec2 s1 = (Inr out, s2)"
  shows "out = StoreConflict (Some r) \<and>
    load s2 (message_id rec1) = Inr (Some \<lparr>revision = r, vs_record = rec1\<rparr>)"
proof -
  from cas_stored [OF assms(3), of cur] assms(1)
  have new: "load s1 (message_id rec2) = Inr (Some \<lparr>revision = r, vs_record = rec1\<rparr>)"
    and ne: "Some r \<noteq> expected"
    by (simp_all add: assms(2))
  show ?thesis
  proof (cases out)
    case (Stored r')
    with cas_stored [of expected rec2 s1 r' s2 "Some \<lparr>revision = r, vs_record = rec1\<rparr>"] assms(4) new ne
    show ?thesis by simp
  next
    case (StoreConflict c)
    with cas_conflict [of expected rec2 s1 c s2] assms(2,4) new show ?thesis by simp
  qed
qed

text \<open>A terminal summary in the store survives every read-modify-write, whatever its outcome.\<close>

lemma terminal_survives:
  assumes "load s mid = Inr (Some v)" and "message_id (vs_record v) = mid"
    and "terminal (vs_record v) = Some t"
    and "evolves p (vs_record v) rec"
    and "compare_and_swap (Some (revision v)) rec s = (Inr out, s')"
  shows "\<exists>v'. load s' mid = Inr (Some v') \<and> terminal (vs_record v') = Some t"
proof -
  from evolves_later [OF assms(4)] assms(2,3)
  have rec: "message_id rec = mid" "terminal rec = Some t" by (auto simp: later_record_def)
  show ?thesis
  proof (cases out)
    case (Stored r)
    with cas_stored [of "Some (revision v)" rec s r s' "Some v"] assms(1,5) rec show ?thesis by auto
  next
    case (StoreConflict c)
    with cas_conflict [of "Some (revision v)" rec s c s' "Some v"] assms(1,3,5) rec show ?thesis by auto
  qed
qed

end

section \<open>MemoryStore\<close>

type_synonym memory_store = "string \<Rightarrow> versioned_submission option"

definition memory_load :: "memory_store \<Rightarrow> string \<Rightarrow> unit + versioned_submission option" where
  "memory_load rows mid = Inr (rows mid)"

definition memory_compare_and_swap ::
  "u64 option \<Rightarrow> submission_record \<Rightarrow> memory_store \<Rightarrow> (unit + store_write_outcome) \<times> memory_store" where
  "memory_compare_and_swap expected_revision rec rows =
     (let current = map_option revision (rows (message_id rec)) in
      if current \<noteq> expected_revision then (Inr (StoreConflict current), rows)
      else
        (let rev = (case current of None \<Rightarrow> 0 | Some value \<Rightarrow> value + 1)
         in (Inr (Stored rev), rows(message_id rec \<mapsto> \<lparr>revision = rev, vs_record = rec\<rparr>))))"

interpretation memory: submission_store memory_load memory_compare_and_swap
proof unfold_locales
  fix expected rec and s s' :: memory_store and r cur
  assume "memory_compare_and_swap expected rec s = (Inr (Stored r), s')"
    and "memory_load s (message_id rec) = Inr cur"
  then show "map_option revision cur = expected \<and> Some r \<noteq> expected \<and>
      memory_load s' (message_id rec) = Inr (Some \<lparr>revision = r, vs_record = rec\<rparr>)"
    by (auto simp: memory_compare_and_swap_def memory_load_def Let_def
        split: if_splits option.splits)
qed (auto simp: memory_compare_and_swap_def memory_load_def Let_def split: if_splits)

text \<open>
  Optimistic concurrency: when two writers loaded the same
  revision of a submission and the first one's write is stored, the second is answered with a
  conflict that names the new revision, and the first one's record stays in place.
\<close>

theorem memory_store_no_lost_update:
  assumes "memory_load s (message_id rec1) = Inr cur" and "message_id rec2 = message_id rec1"
    and "memory_compare_and_swap (map_option revision cur) rec1 s = (Inr (Stored r), s1)"
    and "memory_compare_and_swap (map_option revision cur) rec2 s1 = (Inr out, s2)"
  shows "out = StoreConflict (Some r) \<and>
    memory_load s2 (message_id rec1) = Inr (Some \<lparr>revision = r, vs_record = rec1\<rparr>)"
  using assms by (rule memory.second_writer_conflicts)

text \<open>
  Terminal history cannot be lost through the store: after
  a client loads a record with a terminal summary, applies any calls to it and writes it back
  with the loaded revision, the stored record still has that summary, stored or conflict.
\<close>

theorem memory_store_terminal_survives:
  assumes "memory_load s mid = Inr (Some v)" and "message_id (vs_record v) = mid"
    and "terminal (vs_record v) = Some t"
    and "evolves p (vs_record v) rec"
    and "memory_compare_and_swap (Some (revision v)) rec s = (Inr out, s')"
  shows "\<exists>v'. memory_load s' mid = Inr (Some v') \<and> terminal (vs_record v') = Some t"
  using assms by (rule memory.terminal_survives)

section \<open>Witnesses\<close>

text \<open>A submission of two invoices and the summaries of two, one and no good invoices.\<close>

definition sample_record :: submission_record where
  "sample_record = \<lparr>message_id = ''m1'', expected_quantity = 2, transport = Created,
     process_results = [], terminal = None\<rparr>"

definition sample_summary :: "i32 \<Rightarrow> i32 \<Rightarrow> summary_message" where
  "sample_summary good failed =
     \<lparr>sm_info = \<lparr>smi_id = ''m1'', smi_size = ''1'', smi_message_type = ''F0401'',
                 smi_service = ''S'', smi_action = ''C0401''\<rparr>,
      sm_result = \<lparr>rb_total = \<lparr>detail_count = good + failed, detail_invoices = []\<rparr>,
                   rb_good = \<lparr>detail_count = good, detail_invoices = []\<rparr>,
                   rb_failed = \<lparr>detail_count = failed, detail_invoices = []\<rparr>\<rparr>\<rparr>"

definition sample_terminal :: terminal_summary where
  "sample_terminal = \<lparr>disposition = PartialSuccess, ts_total = 2, ts_good = 1, ts_failed = 1,
     good_invoices = [], failed_invoices = [], ts_message = sample_summary 1 1\<rparr>"

definition sample_done :: submission_record where
  "sample_done = sample_record\<lparr>transport := SummaryObserved, terminal := Some sample_terminal\<rparr>"

lemma sample_new: "submission_new ''m1'' 2 = Inr sample_record"
  by (simp add: submission_new_def sample_record_def)

lemma sample_step: "record_step Release (SummaryMessageArrived (sample_summary 1 1)) sample_record = Some sample_done"
  by (simp add: apply_summary_message_def ensure_message_id_def validation_issues_def add_i32_def
      bucket_issues_def from_validated_message_def u32_try_from_def advance_transport_def
      sample_record_def sample_summary_def sample_terminal_def sample_done_def
      less_transport_state_def Let_def)

lemma sample_evolves: "evolves Release sample_record sample_done"
  by (rule evolves_step [OF evolves_refl sample_step])

text \<open>A process result that arrives after the summary.\<close>

definition sample_process :: process_result where
  "sample_process =
     \<lparr>pr_routing = \<lparr>rt_from = \<lparr>party_id = ''12345678'', party_description = None\<rparr>,
                     rt_from_vac = \<lparr>routing_id = ''FROM'', route_description = None\<rparr>,
                     rt_to = \<lparr>party_id = ''PLATFORM'', party_description = None\<rparr>,
                     rt_to_vac = \<lparr>routing_id = ''TO'', route_description = None\<rparr>\<rparr>,
      pr_message = \<lparr>pmi_id = ''m1'', pmi_size = ''1'', pmi_message_type = ''F0401'',
                    pmi_service = ''S'', pmi_action = ''C0401''\<rparr>,
      pr_diagnostics = []\<rparr>"

definition sample_finished :: submission_record where
  "sample_finished = sample_done\<lparr>process_results := [sample_process]\<rparr>"

lemma sample_late: "apply_process_result sample_process sample_done = (Inr Changed, sample_finished)"
  by (simp add: apply_process_result_def ensure_message_id_def advance_transport_def
      sample_process_def sample_done_def sample_record_def sample_finished_def
      less_transport_state_def Let_def)

lemma sample_evolves1: "evolves Release sample_done sample_finished"
  by (rule evolves_step [OF evolves_refl, where ev = "ProcessArrived sample_process"])
    (simp add: sample_late)

lemma sample_evolves2: "evolves Release sample_record sample_finished"
  by (rule evolves_step [OF sample_evolves, where ev = "ProcessArrived sample_process"])
    (simp add: sample_late)

theorem submission_history_invariant_witness:
  "wf_record sample_done \<and> message_id sample_done = ''m1'' \<and> expected_quantity sample_done = 2"
  by (rule submission_history_invariant [OF sample_new sample_evolves])

theorem submission_history_monotone_witness:
  "transport sample_record \<le> transport sample_finished \<and>
   (\<exists>new. process_results sample_finished = process_results sample_record @ new) \<and>
   terminal sample_finished = Some sample_terminal"
  using submission_history_monotone [OF sample_evolves2] submission_history_monotone [OF sample_evolves1]
  by (simp add: sample_done_def)

theorem terminal_disposition_exact_witness:
  "ts_total sample_terminal = 2 \<and> disposition sample_terminal = PartialSuccess \<and>
   uint (ts_good sample_terminal) + uint (ts_failed sample_terminal) = uint (2 :: u32)"
  using terminal_disposition_exact [OF sample_new sample_evolves, of sample_terminal]
  by (simp add: sample_done_def sample_terminal_def)

theorem apply_summary_message_spec_witness:
  "apply_summary_message Release (sample_summary 1 1) sample_record = Some (Inr Changed, sample_done)"
  using apply_summary_message_spec [of "sample_summary 1 1" sample_record] sample_step
  by (auto simp: sample_record_def sample_summary_def sample_done_def sample_terminal_def
      summary_ok_def detail_ok_def Let_def from_validated_message_def u32_try_from_def)

theorem replay_idempotent_witness:
  "apply_process_result sample_process sample_finished = (Inr UnchangedReplay, sample_finished) \<and>
   apply_summary_message Release (sample_summary 1 1) sample_finished =
     Some (Inr UnchangedReplay, sample_finished)"
proof -
  have m: "apply_summary_message Release (sample_summary 1 1) sample_record = Some (Inr Changed, sample_done)"
    using sample_step apply_summary_message_Release [of "sample_summary 1 1" sample_record]
    by (simp add: apply_summary_message_def ensure_message_id_def validation_issues_def add_i32_def
      bucket_issues_def from_validated_message_def u32_try_from_def advance_transport_def
      sample_record_def sample_summary_def sample_terminal_def sample_done_def
      less_transport_state_def Let_def)
  show ?thesis
    using replay_idempotent [of sample_process sample_done Changed sample_finished Release sample_finished
        "sample_summary 1 1" sample_record Changed sample_done sample_finished]
      sample_late m sample_evolves1 evolves_refl by blast
qed

lemma sample_wf: "wf_record sample_record"
  by (simp add: wf_record_def sample_record_def)

theorem record_refines_spec_witness:
  "abs_record sample_done =
     spec_step ''m1'' 2 (SummaryMessageArrived (sample_summary 1 1)) (abs_record sample_record)"
  using record_refines_spec [OF sample_wf sample_step] by (simp add: sample_record_def)

theorem memory_store_no_lost_update_witness:
  "snd (memory_compare_and_swap None sample_done
     (snd (memory_compare_and_swap None sample_record (\<lambda>_. None)))) ''m1'' =
   Some \<lparr>revision = 0, vs_record = sample_record\<rparr>"
proof -
  let ?s1 = "snd (memory_compare_and_swap None sample_record (\<lambda>_. None))"
  let ?w2 = "memory_compare_and_swap None sample_done ?s1"
  have "memory_load (snd ?w2) (message_id sample_record) =
      Inr (Some \<lparr>revision = 0, vs_record = sample_record\<rparr>)"
    using memory_store_no_lost_update [of "\<lambda>_. None" sample_record None sample_done 0 ?s1
        "StoreConflict (Some 0)" "snd ?w2"]
    by (simp add: memory_load_def memory_compare_and_swap_def sample_record_def sample_done_def)
  then show ?thesis by (simp add: memory_load_def sample_record_def)
qed

theorem memory_store_terminal_survives_witness:
  "\<exists>v'. memory_load (snd (memory_compare_and_swap (Some 0) sample_finished
      [''m1'' \<mapsto> \<lparr>revision = 0, vs_record = sample_done\<rparr>])) ''m1'' = Inr (Some v') \<and>
    terminal (vs_record v') = Some sample_terminal"
proof -
  let ?v = "\<lparr>revision = 0, vs_record = sample_done\<rparr>"
  let ?w = "memory_compare_and_swap (Some 0) sample_finished [''m1'' \<mapsto> ?v]"
  show ?thesis
  proof (rule memory_store_terminal_survives
      [of "[''m1'' \<mapsto> ?v]" _ ?v _ Release sample_finished "Stored 1" "snd ?w"])
    show "evolves Release (vs_record ?v) sample_finished" by (simp add: sample_evolves1)
    show "memory_compare_and_swap (Some (revision ?v)) sample_finished [''m1'' \<mapsto> ?v] =
        (Inr (Stored 1), snd ?w)"
      by (simp add: memory_compare_and_swap_def sample_finished_def sample_done_def sample_record_def)
  qed (simp_all add: memory_load_def sample_done_def sample_record_def)
qed

end
