(* ===== verification/Store_Concurrency.thy ===== *)
theory Store_Concurrency
  imports Submission_Store
begin

text \<open>
  Many clients on one store.  Each loads a submission or creates one, calls the record's
  operations on its copy, and writes the copy back by \<open>compare_and_swap\<close> with the revision it
  loaded (the operational rules of \<open>docs/state-persistence.md\<close>); the steps of different clients
  interleave in any order, and a client may stop at any point.  The clients' successful writes
  then behave as if they had been executed one after the other.
\<close>

section \<open>Clients\<close>

text \<open>A client's copy, with the revision it was loaded at and the calls made on it since.\<close>

record store_client =
  cl_expected :: "u64 option"
  cl_events :: "record_event list"
  cl_record :: submission_record

text \<open>A successful write: the submission and the calls it brings in.\<close>

record commit =
  cm_id :: string
  cm_quantity :: u32
  cm_events :: "record_event list"

inductive interleaving ::
  "('s \<Rightarrow> string \<Rightarrow> 'e + versioned_submission option) \<Rightarrow>
   (u64 option \<Rightarrow> submission_record \<Rightarrow> 's \<Rightarrow> ('e + store_write_outcome) \<times> 's) \<Rightarrow> profile \<Rightarrow> 's \<Rightarrow>
   commit list \<Rightarrow> 's \<Rightarrow> ('c \<Rightarrow> store_client option) \<Rightarrow> bool"
  for load cas p s0 where
  il_start: "interleaving load cas p s0 [] s0 (\<lambda>_. None)"
| il_new: "interleaving load cas p s0 log s cs \<Longrightarrow> submission_new mid n = Inr rec \<Longrightarrow>
    interleaving load cas p s0 log s (cs(c \<mapsto> \<lparr>cl_expected = None, cl_events = [], cl_record = rec\<rparr>))"
| il_load: "interleaving load cas p s0 log s cs \<Longrightarrow> load s mid = Inr (Some v) \<Longrightarrow>
    interleaving load cas p s0 log s
      (cs(c \<mapsto> \<lparr>cl_expected = Some (revision v), cl_events = [], cl_record = vs_record v\<rparr>))"
| il_call: "interleaving load cas p s0 log s cs \<Longrightarrow> cs c = Some k \<Longrightarrow>
    record_step p ev (cl_record k) = Some rec \<Longrightarrow>
    interleaving load cas p s0 log s (cs(c \<mapsto> k\<lparr>cl_events := cl_events k @ [ev], cl_record := rec\<rparr>))"
| il_stored: "interleaving load cas p s0 log s cs \<Longrightarrow> cs c = Some k \<Longrightarrow>
    cas (cl_expected k) (cl_record k) s = (Inr (Stored r), s') \<Longrightarrow>
    interleaving load cas p s0
      (log @ [\<lparr>cm_id = message_id (cl_record k), cm_quantity = expected_quantity (cl_record k), cm_events = cl_events k\<rparr>])
      s' (cs(c \<mapsto> k\<lparr>cl_expected := Some r, cl_events := []\<rparr>))"
| il_conflict: "interleaving load cas p s0 log s cs \<Longrightarrow> cs c = Some k \<Longrightarrow>
    cas (cl_expected k) (cl_record k) s = (Inr (StoreConflict current), s') \<Longrightarrow>
    interleaving load cas p s0 log s' (cs(c := None))"
| il_stop: "interleaving load cas p s0 log s cs \<Longrightarrow> interleaving load cas p s0 log s (cs(c := None))"

section \<open>Serial execution\<close>

fun run_events :: "profile \<Rightarrow> record_event list \<Rightarrow> submission_record \<Rightarrow> submission_record option" where
  "run_events p [] rec = Some rec"
| "run_events p (ev # evs) rec = Option.bind (record_step p ev rec) (run_events p evs)"

text \<open>The calls of all commits, one commit after the other, on one new record.\<close>

definition serial_record :: "profile \<Rightarrow> string \<Rightarrow> commit list \<Rightarrow> submission_record option" where
  "serial_record p mid commits =
     (case commits of
        [] \<Rightarrow> None
      | c # _ \<Rightarrow>
          (case submission_new mid (cm_quantity c) of
             Inl _ \<Rightarrow> None
           | Inr rec \<Rightarrow> run_events p (concat (map cm_events commits)) rec))"

definition commits_of :: "string \<Rightarrow> commit list \<Rightarrow> commit list" where
  "commits_of mid log = filter (\<lambda>c. cm_id c = mid) log"

text \<open>What the store should answer: nothing before the first commit, then the last revision.\<close>

definition serial_row :: "profile \<Rightarrow> string \<Rightarrow> commit list \<Rightarrow> versioned_submission option" where
  "serial_row p mid commits =
     map_option (\<lambda>rec. \<lparr>revision = of_nat (length commits - 1), vs_record = rec\<rparr>) (serial_record p mid commits)"

lemma run_events_append:
  "run_events p (evs @ evs') rec = Option.bind (run_events p evs rec) (run_events p evs')"
  by (induction evs arbitrary: rec) (auto split: Option.bind_splits)

lemma run_events_later: "run_events p evs rec = Some rec' \<Longrightarrow> later_record rec rec'"
  by (induction evs arbitrary: rec)
    (auto simp: bind_eq_Some_conv intro: later_record_trans record_step_later)

lemma run_events_ids:
  assumes "run_events p evs rec = Some rec'"
  shows "message_id rec' = message_id rec" "expected_quantity rec' = expected_quantity rec"
  using run_events_later [OF assms] by (simp_all add: later_record_def)

lemma submission_new_ids:
  assumes "submission_new mid n = Inr rec"
  shows "message_id rec = mid" "expected_quantity rec = n"
  using assms by (auto simp: submission_new_def split: if_splits)

lemma serial_record_id:
  assumes "serial_record p mid commits = Some rec"
  shows "message_id rec = mid"
  using assms run_events_ids(1) submission_new_ids(1)
  by (fastforce simp: serial_record_def split: list.splits sum.splits)

lemma serial_record_nonempty: "serial_record p mid commits = Some rec \<Longrightarrow> commits \<noteq> []"
  by (auto simp: serial_record_def)

lemma serial_record_append:
  assumes "commits \<noteq> []"
  shows "serial_record p mid (commits @ rest) =
    Option.bind (serial_record p mid commits) (run_events p (concat (map cm_events rest)))"
  using assms by (cases commits) (auto simp: serial_record_def run_events_append split: sum.splits Option.bind_splits)

lemma serial_record_take:
  assumes "serial_record p mid commits = Some rec" "0 < j"
  shows "\<exists>old. serial_record p mid (take j commits) = Some old \<and> later_record old rec"
proof -
  have "take j commits \<noteq> []" using assms serial_record_nonempty by auto
  then have "Option.bind (serial_record p mid (take j commits)) (run_events p (concat (map cm_events (drop j commits)))) = Some rec"
    using serial_record_append [of "take j commits" p mid "drop j commits"] assms(1) by simp
  then show ?thesis by (auto simp: bind_eq_Some_conv intro: run_events_later)
qed

section \<open>The invariant\<close>

text \<open>A client's copy is the serial record of the revision it expects, followed by its own calls.\<close>

definition client_ok :: "profile \<Rightarrow> commit list \<Rightarrow> store_client \<Rightarrow> bool" where
  "client_ok p log k \<longleftrightarrow>
     (let rec = cl_record k; commits = commits_of (message_id rec) log in
      case cl_expected k of
        None \<Rightarrow> \<exists>rec0. submission_new (message_id rec) (expected_quantity rec) = Inr rec0 \<and>
          run_events p (cl_events k) rec0 = Some rec
      | Some r \<Rightarrow> \<exists>j old. j < length commits \<and> r = of_nat j \<and>
          serial_record p (message_id rec) (take (Suc j) commits) = Some old \<and>
          run_events p (cl_events k) old = Some rec)"

lemma client_ok_log:
  assumes "client_ok p log k"
  shows "client_ok p (log @ rest) k"
proof (cases "cl_expected k")
  case None
  with assms show ?thesis by (simp add: client_ok_def)
next
  case (Some r)
  with assms obtain j old where "j < length (commits_of (message_id (cl_record k)) log)" "r = of_nat j"
    "serial_record p (message_id (cl_record k)) (take (Suc j) (commits_of (message_id (cl_record k)) log)) = Some old"
    "run_events p (cl_events k) old = Some (cl_record k)"
    by (auto simp: client_ok_def Let_def)
  with Some show ?thesis
    by (auto simp: client_ok_def commits_of_def Let_def intro!: exI [of _ j])
qed

lemma client_ok_call:
  assumes "client_ok p log k" "record_step p ev (cl_record k) = Some rec"
  shows "client_ok p log (k\<lparr>cl_events := cl_events k @ [ev], cl_record := rec\<rparr>)"
proof -
  from record_step_later [OF assms(2)]
  have "message_id rec = message_id (cl_record k)" "expected_quantity rec = expected_quantity (cl_record k)"
    by (simp_all add: later_record_def)
  with assms show ?thesis
    by (auto simp: client_ok_def Let_def run_events_append split: option.splits)
qed

lemma client_ok_current:
  assumes "serial_row p (message_id rec) (commits_of (message_id rec) log) = Some v" "vs_record v = rec"
  shows "client_ok p log \<lparr>cl_expected = Some (revision v), cl_events = [], cl_record = rec\<rparr>"
proof -
  let ?commits = "commits_of (message_id rec) log"
  from assms(1) obtain rec' where z: "serial_record p (message_id rec) ?commits = Some rec'"
    "v = \<lparr>revision = of_nat (length ?commits - 1), vs_record = rec'\<rparr>"
    by (auto simp: serial_row_def)
  with assms(2) have s: "serial_record p (message_id rec) ?commits = Some rec"
    and r: "revision v = of_nat (length ?commits - 1)" by simp_all
  from serial_record_nonempty [OF s] have "length ?commits - 1 < length ?commits" by simp
  moreover from this s have "serial_record p (message_id rec) (take (Suc (length ?commits - 1)) ?commits) = Some rec"
    by simp
  ultimately show ?thesis
    using r unfolding client_ok_def Let_def by auto
qed

text \<open>A client that is up to date extends the serial record by its own calls.\<close>

lemma client_commit:
  fixes log k
  defines "mid \<equiv> message_id (cl_record k)"
  defines "commits \<equiv> commits_of mid log"
  assumes ok: "client_ok p log k" and short: "length log < 2 ^ 64"
    and current: "map_option revision (serial_row p mid commits) = cl_expected k"
    and total: "commits \<noteq> [] \<longrightarrow> serial_record p mid commits \<noteq> None"
    and q: "cm_quantity c = expected_quantity (cl_record k)" "cm_events c = cl_events k"
  shows "serial_record p mid (commits @ [c]) = Some (cl_record k)"
proof (cases "cl_expected k")
  case None
  with current total have empty: "commits = []" by (auto simp: serial_row_def)
  from None ok obtain rec0 where "submission_new mid (expected_quantity (cl_record k)) = Inr rec0"
    "run_events p (cl_events k) rec0 = Some (cl_record k)"
    by (auto simp: client_ok_def Let_def mid_def)
  with empty q show ?thesis by (simp add: serial_record_def)
next
  case (Some r)
  with ok obtain j old where j: "j < length commits" "r = of_nat j"
    and old: "serial_record p mid (take (Suc j) commits) = Some old" "run_events p (cl_events k) old = Some (cl_record k)"
    by (auto simp: client_ok_def Let_def mid_def commits_def)
  from Some current have "r = of_nat (length commits - 1)" by (auto simp: serial_row_def)
  moreover have "length commits < 2 ^ 64"
    using short length_filter_le [of "\<lambda>c. cm_id c = mid" log] unfolding commits_def commits_of_def by linarith
  ultimately have "(of_nat j :: u64) = of_nat (length commits - 1)" "j < 2 ^ LENGTH(64)" "length commits - 1 < 2 ^ LENGTH(64)"
    using j by simp_all
  then have "j = length commits - 1" by (metis of_nat_inverse)
  with j(1) old q show ?thesis
    by (subst serial_record_append) auto
qed

definition serialised ::
  "('s \<Rightarrow> string \<Rightarrow> 'e + versioned_submission option) \<Rightarrow> profile \<Rightarrow> commit list \<Rightarrow> 's \<Rightarrow>
     ('c \<Rightarrow> store_client option) \<Rightarrow> bool" where
  "serialised load p log s cs \<longleftrightarrow>
     (\<forall>mid. load s mid = Inr (serial_row p mid (commits_of mid log))) \<and>
     (\<forall>mid. commits_of mid log \<noteq> [] \<longrightarrow> serial_record p mid (commits_of mid log) \<noteq> None) \<and>
     (\<forall>c k. cs c = Some k \<longrightarrow> client_ok p log k)"

text \<open>A store whose revisions count the writes.\<close>

locale counting_store = submission_store load compare_and_swap
  for load :: "'s \<Rightarrow> string \<Rightarrow> 'e + versioned_submission option"
    and compare_and_swap :: "u64 option \<Rightarrow> submission_record \<Rightarrow> 's \<Rightarrow> ('e + store_write_outcome) \<times> 's" +
  assumes cas_next: "compare_and_swap expected rec s = (Inr (Stored r), s') \<Longrightarrow>
      load s (message_id rec) = Inr cur \<Longrightarrow>
      r = (case cur of None \<Rightarrow> 0 | Some v \<Rightarrow> revision v + 1)"
begin

lemma serialised_stored:
  assumes inv: "serialised load p log s cs" and k: "cs c = Some k" and short: "length log < 2 ^ 64"
    and cas: "compare_and_swap (cl_expected k) (cl_record k) s = (Inr (Stored r), s')"
  shows "serialised load p
      (log @ [\<lparr>cm_id = message_id (cl_record k), cm_quantity = expected_quantity (cl_record k), cm_events = cl_events k\<rparr>])
      s' (cs(c \<mapsto> k\<lparr>cl_expected := Some r, cl_events := []\<rparr>))"
proof -
  let ?rec = "cl_record k" and ?mid = "message_id (cl_record k)"
  let ?c = "\<lparr>cm_id = ?mid, cm_quantity = expected_quantity ?rec, cm_events = cl_events k\<rparr>"
  let ?old = "commits_of ?mid log"
  have cur: "load s ?mid = Inr (serial_row p ?mid ?old)" using inv by (simp add: serialised_def)
  note stored = cas_stored [OF cas cur]
  have total: "?old \<noteq> [] \<longrightarrow> serial_record p ?mid ?old \<noteq> None" using inv by (simp add: serialised_def)
  have new: "serial_record p ?mid (?old @ [?c]) = Some ?rec"
    by (rule client_commit [OF _ short]) (use inv k stored total in \<open>simp_all add: serialised_def\<close>)
  have r: "r = of_nat (length ?old)"
  proof (cases "?old = []")
    case True
    then have "serial_row p ?mid ?old = None" by (simp add: serial_row_def serial_record_def)
    with cas_next [OF cas cur] True show ?thesis by simp
  next
    case False
    with total obtain rec where "serial_record p ?mid ?old = Some rec" by auto
    then have "serial_row p ?mid ?old = Some \<lparr>revision = of_nat (length ?old - 1), vs_record = rec\<rparr>"
      by (simp add: serial_row_def)
    with cas_next [OF cas cur] False show ?thesis
      by (cases "length ?old") simp_all
  qed
  have log: "commits_of mid (log @ [?c]) = commits_of mid log @ (if mid = ?mid then [?c] else [])" for mid
    by (simp add: commits_of_def)
  have row: "serial_row p ?mid (commits_of ?mid (log @ [?c])) = Some \<lparr>revision = r, vs_record = ?rec\<rparr>"
    unfolding log by (simp add: serial_row_def new r)
  have load: "load s' mid = Inr (serial_row p mid (commits_of mid (log @ [?c])))" for mid
  proof (cases "mid = ?mid")
    case True
    with stored row show ?thesis by simp
  next
    case False
    with cas_frame [OF cas False] inv show ?thesis unfolding log by (simp add: serialised_def)
  qed
  have total': "serial_record p mid (commits_of mid (log @ [?c])) \<noteq> None" if "commits_of mid (log @ [?c]) \<noteq> []" for mid
    using that inv new unfolding log by (auto simp: serialised_def split: if_splits)
  have "client_ok p (log @ [?c]) (k\<lparr>cl_expected := Some r, cl_events := []\<rparr>)"
    using client_ok_current [OF row] by (cases k) simp
  moreover have "client_ok p (log @ [?c]) k'" if "cs c' = Some k'" for c' k'
    using that inv client_ok_log by (auto simp: serialised_def)
  ultimately show ?thesis using load total' unfolding serialised_def by auto
qed

lemma interleaving_serialised:
  assumes "interleaving load compare_and_swap p s0 log s cs" "\<And>mid. load s0 mid = Inr None"
  shows "length log < 2 ^ 64 \<Longrightarrow> serialised load p log s cs"
  using assms(1)
proof (induction rule: interleaving.induct)
  case il_start
  then show ?case by (simp add: serialised_def commits_of_def serial_row_def serial_record_def assms(2))
next
  case (il_new log s cs mid n rec c)
  then have inv: "serialised load p log s cs" by simp
  from il_new have "client_ok p log \<lparr>cl_expected = None, cl_events = [], cl_record = rec\<rparr>"
    using submission_new_ids by (auto simp: client_ok_def)
  with inv show ?case by (simp add: serialised_def)
next
  case (il_load log s cs mid v c)
  then have inv: "serialised load p log s cs" by simp
  from inv il_load have row: "serial_row p mid (commits_of mid log) = Some v" by (simp add: serialised_def)
  then have "message_id (vs_record v) = mid" by (auto simp: serial_row_def serial_record_id)
  with row client_ok_current [of p "vs_record v" log v] inv show ?case by (simp add: serialised_def)
next
  case (il_call log s cs c k ev rec)
  then show ?case using client_ok_call [of p log k ev rec] by (simp add: serialised_def)
next
  case (il_stored log s cs c k r s')
  then show ?case by (intro serialised_stored) simp_all
next
  case (il_conflict log s cs c k current s')
  then have inv: "serialised load p log s cs" by simp
  have "load s' mid = load s mid" for mid
  proof (cases "mid = message_id (cl_record k)")
    case True
    obtain cur where "load s mid = Inr cur" using inv by (simp add: serialised_def)
    with True cas_conflict [OF il_conflict.hyps(3)] show ?thesis by simp
  qed (rule cas_frame [OF il_conflict.hyps(3)])
  with inv show ?case by (simp add: serialised_def)
next
  case (il_stop log s cs c)
  then show ?case by (simp add: serialised_def)
qed

end

interpretation memory_counting: counting_store memory_load memory_compare_and_swap
  by unfold_locales
    (auto simp: memory_compare_and_swap_def memory_load_def Let_def split: if_splits option.splits)

section \<open>Properties\<close>

text \<open>
  C13.  Optimistic concurrency is serialisable.  Any number of clients create,
  load, modify and write submissions in any interleaving, with conflicts and with clients that
  stop half way.  After fewer than 2^64 successful writes the store holds, for every submission,
  exactly the record that the calls of the successful writes produce when they are executed one
  write after the other on one new record, under the revision that counts the writes from 0; and
  the record of every earlier write is a past of it: no result, terminal summary or transport
  step of a successful write is ever lost.
\<close>

theorem store_serialises:
  assumes "interleaving memory_load memory_compare_and_swap p (\<lambda>_. None) log s cs"
    and "length log < 2 ^ 64"
  shows "memory_load s mid = Inr (map_option
       (\<lambda>rec. \<lparr>revision = of_nat (length (commits_of mid log) - 1), vs_record = rec\<rparr>) (serial_record p mid (commits_of mid log))) \<and>
     (commits_of mid log \<noteq> [] \<longrightarrow> serial_record p mid (commits_of mid log) \<noteq> None) \<and>
     (\<forall>j rec. 0 < j \<and> serial_record p mid (commits_of mid log) = Some rec \<longrightarrow>
       (\<exists>old. serial_record p mid (take j (commits_of mid log)) = Some old \<and> later_record old rec))"
proof -
  have "serialised memory_load p log s cs"
    by (rule memory_counting.interleaving_serialised [OF assms(1) _ assms(2)]) (simp add: memory_load_def)
  then show ?thesis
    using serial_record_take by (simp add: serialised_def serial_row_def)
qed

section \<open>Witness\<close>

text \<open>
  One client creates the submission; both work on revision 0; the second stores the summary, the
  first gets a conflict with its process result, loads again and stores it.
\<close>

definition sample_row :: "u64 \<Rightarrow> submission_record \<Rightarrow> memory_store" where
  "sample_row r rec = [''m1'' \<mapsto> \<lparr>revision = r, vs_record = rec\<rparr>]"

definition sample_commit :: "record_event list \<Rightarrow> commit" where
  "sample_commit evs = \<lparr>cm_id = ''m1'', cm_quantity = 2, cm_events = evs\<rparr>"

definition sample_events :: "record_event \<times> record_event" where
  "sample_events = (SummaryMessageArrived (sample_summary 1 1), ProcessArrived sample_process)"

definition sample_log :: "commit list" where
  "sample_log = [sample_commit [], sample_commit [fst sample_events], sample_commit [snd sample_events]]"

lemma sample_row_load: "memory_load (sample_row r rec) ''m1'' = Inr (Some \<lparr>revision = r, vs_record = rec\<rparr>)"
  by (simp add: sample_row_def memory_load_def)

lemma sample_ids [simp]:
  "message_id sample_record = ''m1''" "message_id sample_done = ''m1''" "message_id sample_finished = ''m1''"
  "expected_quantity sample_record = 2" "expected_quantity sample_done = 2" "expected_quantity sample_finished = 2"
  by (simp_all add: sample_record_def sample_done_def sample_finished_def)

lemma sample_write:
  assumes "message_id rec = ''m1''"
  shows "memory_compare_and_swap None rec (\<lambda>_. None) = (Inr (Stored 0), sample_row 0 rec)"
    and "memory_compare_and_swap (Some r) rec (sample_row r old) = (Inr (Stored (r + 1)), sample_row (r + 1) rec)"
    and "r \<noteq> q \<Longrightarrow> memory_compare_and_swap (Some q) rec (sample_row r old) = (Inr (StoreConflict (Some r)), sample_row r old)"
  using assms by (simp_all add: memory_compare_and_swap_def sample_row_def Let_def)

lemma sample_steps:
  "record_step Release (fst sample_events) sample_record = Some sample_done"
  "record_step Release (snd sample_events) sample_done = Some sample_finished"
  "\<exists>rec. record_step Release (snd sample_events) sample_record = Some rec \<and> message_id rec = ''m1''"
  using sample_step by (simp_all add: sample_events_def sample_late)

lemma case_bool_upd [simp]:
  "(case_bool a b)(True := x) = case_bool x b" "(case_bool a b)(False := x) = case_bool a x"
  by (simp_all add: fun_eq_iff split: bool.splits)

lemma sample_interleaving:
  "\<exists>cs :: bool \<Rightarrow> store_client option.
     interleaving memory_load memory_compare_and_swap Release (\<lambda>_. None) sample_log (sample_row 2 sample_finished) cs"
proof -
  let ?il = "interleaving memory_load memory_compare_and_swap Release (\<lambda>_. None) :: commit list \<Rightarrow> memory_store \<Rightarrow> (bool \<Rightarrow> store_client option) \<Rightarrow> bool"
  let ?k = "\<lambda>e evs rec. Some \<lparr>cl_expected = e, cl_events = evs, cl_record = rec\<rparr>"
  let ?s0 = "sample_row 0 sample_record" and ?s1 = "sample_row 1 sample_done"
  let ?l0 = "[sample_commit []]" and ?l1 = "[sample_commit [], sample_commit [fst sample_events]]"
  let ?ev = "fst sample_events" and ?ev' = "snd sample_events"
  obtain rec where rec: "record_step Release ?ev' sample_record = Some rec" "message_id rec = ''m1''"
    using sample_steps(3) by blast
  have none: "(\<lambda>_. None) = case_bool None None" by (simp add: fun_eq_iff split: bool.splits)
  have 0: "?il [] (\<lambda>_. None) (case_bool (?k None [] sample_record) None)"
    using il_new [OF il_start sample_new, where c = True] unfolding none case_bool_upd .
  have 1: "?il ?l0 ?s0 (case_bool (?k (Some 0) [] sample_record) None)"
    using il_stored [OF 0, of True _ 0 ?s0] by (simp add: sample_write(1) sample_commit_def)
  have 2: "?il ?l0 ?s0 (case_bool (?k (Some 0) [] sample_record) (?k (Some 0) [] sample_record))"
    using il_load [OF 1, of "''m1''" "\<lparr>revision = 0, vs_record = sample_record\<rparr>" False] by (simp add: sample_row_load)
  have 3: "?il ?l0 ?s0 (case_bool (?k (Some 0) [?ev'] rec) (?k (Some 0) [] sample_record))"
    using il_call [OF 2, of True _ ?ev' rec] rec(1) by simp
  have 4: "?il ?l0 ?s0 (case_bool (?k (Some 0) [?ev'] rec) (?k (Some 0) [?ev] sample_done))"
    using il_call [OF 3, of False _ ?ev sample_done] sample_steps(1) by simp
  have 5: "?il ?l1 ?s1 (case_bool (?k (Some 0) [?ev'] rec) (?k (Some 1) [] sample_done))"
    using il_stored [OF 4, of False _ 1 ?s1] sample_write(2) [of sample_done 0 sample_record] by (simp add: sample_commit_def)
  have 6: "?il ?l1 ?s1 (case_bool None (?k (Some 1) [] sample_done))"
    using il_conflict [OF 5, of True _ "Some 1" ?s1] sample_write(3) [OF rec(2), of 1 0 sample_done] by simp
  have 7: "?il ?l1 ?s1 (case_bool (?k (Some 1) [] sample_done) (?k (Some 1) [] sample_done))"
    using il_load [OF 6, of "''m1''" "\<lparr>revision = 1, vs_record = sample_done\<rparr>" True] by (simp add: sample_row_load)
  have 8: "?il ?l1 ?s1 (case_bool (?k (Some 1) [?ev'] sample_finished) (?k (Some 1) [] sample_done))"
    using il_call [OF 7, of True _ ?ev' sample_finished] sample_steps(2) by simp
  have "?il sample_log (sample_row 2 sample_finished) (case_bool (?k (Some 2) [] sample_finished) (?k (Some 1) [] sample_done))"
    using il_stored [OF 8, of True _ 2 "sample_row 2 sample_finished"] sample_write(2) [of sample_finished 1 sample_done]
    by (simp add: sample_commit_def sample_log_def)
  then show ?thesis by blast
qed

theorem store_serialises_witness:
  "memory_load (sample_row 2 sample_finished) ''m1'' =
     Inr (map_option (\<lambda>rec. \<lparr>revision = 2, vs_record = rec\<rparr>) (serial_record Release ''m1'' sample_log)) \<and>
   serial_record Release ''m1'' sample_log = Some sample_finished"
proof -
  obtain cs :: "bool \<Rightarrow> store_client option" where
    "interleaving memory_load memory_compare_and_swap Release (\<lambda>_. None) sample_log (sample_row 2 sample_finished) cs"
    using sample_interleaving by blast
  from store_serialises [OF this, of "''m1''"]
  have "memory_load (sample_row 2 sample_finished) ''m1'' =
     Inr (map_option (\<lambda>rec. \<lparr>revision = 2, vs_record = rec\<rparr>) (serial_record Release ''m1'' sample_log))"
    by (simp add: commits_of_def sample_log_def sample_commit_def)
  then show ?thesis by (cases "serial_record Release ''m1'' sample_log") (simp_all add: sample_row_load)
qed

end
