(* ===== verification/File_System.thy ===== *)
theory File_System
  imports Text_Utils
begin

text \<open>
  What the code uses of \<open>std::fs\<close> and \<open>std::path\<close>.  Directory entries and file contents exist
  twice: as the process sees them and as they are on disk; only \<open>sync_all\<close> on a file and on a
  directory moves one to the other.  The environment is a schedule of events: every system call
  consumes one and may be told to fail, so a property proved for all schedules holds for every
  pattern of I/O errors.
\<close>

section \<open>Computations\<close>

text \<open>A computation on a state that may fail; \<open>None\<close> is a computation that does not return.\<close>

type_synonym ('s, 'e, 'a) io = "'s \<Rightarrow> (('e + 'a) \<times> 's) option"

definition io_return :: "'a \<Rightarrow> ('s, 'e, 'a) io" where
  "io_return a s = Some (Inr a, s)"

definition io_result :: "'e + 'a \<Rightarrow> ('s, 'e, 'a) io" where
  "io_result r s = Some (r, s)"

definition io_bind :: "('s, 'e, 'a) io \<Rightarrow> ('a \<Rightarrow> ('s, 'e, 'b) io) \<Rightarrow> ('s, 'e, 'b) io" where
  "io_bind p f s =
     (case p s of
        None \<Rightarrow> None
      | Some (r, s') \<Rightarrow> (case r of Inl e \<Rightarrow> Some (Inl e, s') | Inr a \<Rightarrow> f a s'))"

definition io_map_err :: "('e \<Rightarrow> 'f) \<Rightarrow> ('s, 'e, 'a) io \<Rightarrow> ('s, 'f, 'a) io" where
  "io_map_err g p s = map_option (\<lambda>(r, s'). (map_err g r, s')) (p s)"

definition on_fst :: "('s, 'e, 'a) io \<Rightarrow> ('s \<times> 't, 'e, 'a) io" where
  "on_fst p s = map_option (\<lambda>(r, s'). (r, (s', snd s))) (p (fst s))"

definition on_snd :: "('t, 'e, 'a) io \<Rightarrow> ('s \<times> 't, 'e, 'a) io" where
  "on_snd p s = map_option (\<lambda>(r, t'). (r, (fst s, t'))) (p (snd s))"

named_theorems io_iff \<open>how a computation returns\<close>

text \<open>\<open>Drop\<close>: runs on every exit, its own result is ignored.\<close>

definition io_finally :: "('s, 'e, 'a) io \<Rightarrow> ('s, 'f, 'b) io \<Rightarrow> ('s, 'e, 'a) io" where
  "io_finally p q s =
     (case p s of None \<Rightarrow> None | Some (r, s') \<Rightarrow> map_option (\<lambda>(_, s''). (r, s'')) (q s'))"

lemma io_finally_iff [io_iff]:
  "io_finally p q s = Some (r, t) \<longleftrightarrow> (\<exists>u x. p s = Some (r, u) \<and> q u = Some (x, t))"
  by (auto simp: io_finally_def split: option.splits)

lemma io_return_iff [io_iff]: "io_return a s = Some (r, t) \<longleftrightarrow> r = Inr a \<and> t = s"
  by (auto simp: io_return_def)

lemma io_result_iff [io_iff]: "io_result q s = Some (r, t) \<longleftrightarrow> r = q \<and> t = s"
  by (auto simp: io_result_def)

lemma io_bind_iff [io_iff]:
  "io_bind p f s = Some (r, t) \<longleftrightarrow>
     (\<exists>e. p s = Some (Inl e, t) \<and> r = Inl e) \<or> (\<exists>a u. p s = Some (Inr a, u) \<and> f a u = Some (r, t))"
  by (auto simp: io_bind_def split: option.splits prod.splits sum.splits)

lemma io_map_err_iff [io_iff]:
  "io_map_err g p s = Some (r, t) \<longleftrightarrow> (\<exists>q. p s = Some (q, t) \<and> r = map_err g q)"
  by (auto simp: io_map_err_def)

lemma on_fst_iff [io_iff]:
  "on_fst p s = Some (r, t) \<longleftrightarrow> (\<exists>u. p (fst s) = Some (r, u) \<and> t = (u, snd s))"
  by (auto simp: on_fst_def)

lemma on_snd_iff [io_iff]:
  "on_snd p s = Some (r, t) \<longleftrightarrow> (\<exists>u. p (snd s) = Some (r, u) \<and> t = (fst s, u))"
  by (auto simp: on_snd_def)

lemma io_bind_run: "p s = Some (Inr a, u) \<Longrightarrow> io_bind p f s = f a u"
  "p s = Some (Inl e, u) \<Longrightarrow> io_bind p f s = Some (Inl e, u)"
  by (simp_all add: io_bind_def)

section \<open>Paths\<close>

definition path_join :: "string \<Rightarrow> string \<Rightarrow> string" where
  "path_join dir name =
     (if starts_with name ''/'' then name
      else if dir = [] \<or> ends_with dir ''/'' then dir @ name
      else dir @ ''/'' @ name)"

text \<open>\<open>Path::file_name\<close>: the last component when it is a normal one.\<close>

definition path_file_name :: "string \<Rightarrow> string option" where
  "path_file_name path =
     (case rev (filter (\<lambda>c. c \<noteq> [] \<and> c \<noteq> ''.'') (split_on CHR ''/'' path)) of
        [] \<Rightarrow> None
      | c # cs \<Rightarrow> if c = ''..'' then None else Some c)"

definition in_directory :: "string \<Rightarrow> string \<Rightarrow> bool" where
  "in_directory dir path \<longleftrightarrow> path = path_join dir (last (split_on CHR ''/'' path))"

section \<open>State\<close>

datatype io_error = NotFound | AlreadyExists | InvalidInput | FileTooLarge | OtherError nat

text \<open>
  \<open>Fault e n\<close>: the call fails with \<open>e\<close> (a write has then moved \<open>n\<close> bytes); \<open>Short n\<close>: a read
  returns at most \<open>n\<close> bytes.
\<close>

datatype io_event = Pass | Fault io_error nat | Short nat

record machine =
  m_dir :: "string \<Rightarrow> nat option"
  m_disk_dir :: "string \<Rightarrow> nat option"
  m_data :: "nat \<Rightarrow> bytes"
  m_disk_data :: "nat \<Rightarrow> bytes option"
  m_fresh :: nat
  m_events :: "io_event list"
  m_process_id :: u32
  m_next_temp_id :: u64

definition next_event :: "machine \<Rightarrow> io_event \<times> machine" where
  "next_event m = (case m_events m of [] \<Rightarrow> (Pass, m) | e # es \<Rightarrow> (e, m\<lparr>m_events := es\<rparr>))"

definition attempt :: "(machine \<Rightarrow> (io_error + 'a) \<times> machine) \<Rightarrow> (machine, io_error, 'a) io" where
  "attempt call m =
     (case next_event m of (Fault e n, m) \<Rightarrow> Some (Inl e, m) | (_, m) \<Rightarrow> Some (call m))"

section \<open>System calls\<close>

definition valid_path :: "string \<Rightarrow> bool" where
  "valid_path path \<longleftrightarrow> \<not> contains path CHR 0x00"

definition new_file :: "string \<Rightarrow> machine \<Rightarrow> (io_error + nat) \<times> machine" where
  "new_file path m =
     (Inr (m_fresh m),
      m\<lparr>m_dir := (m_dir m)(path \<mapsto> m_fresh m), m_data := (m_data m)(m_fresh m := []),
        m_disk_data := (m_disk_data m)(m_fresh m := None), m_fresh := Suc (m_fresh m)\<rparr>)"

definition fs_create_new :: "string \<Rightarrow> (machine, io_error, nat) io" where
  "fs_create_new path = attempt (\<lambda>m.
     if \<not> valid_path path then (Inl InvalidInput, m)
     else if m_dir m path \<noteq> None then (Inl AlreadyExists, m)
     else new_file path m)"

definition fs_create_truncate :: "string \<Rightarrow> (machine, io_error, nat) io" where
  "fs_create_truncate path = attempt (\<lambda>m.
     if \<not> valid_path path then (Inl InvalidInput, m)
     else case m_dir m path of
            None \<Rightarrow> new_file path m
          | Some i \<Rightarrow> (Inr i, m\<lparr>m_data := (m_data m)(i := [])\<rparr>))"

definition fs_write_all :: "nat \<Rightarrow> bytes \<Rightarrow> (machine, io_error, unit) io" where
  "fs_write_all i bs m =
     (case next_event m of
        (Fault e n, m) \<Rightarrow> Some (Inl e, m\<lparr>m_data := (m_data m)(i := m_data m i @ take n bs)\<rparr>)
      | (_, m) \<Rightarrow> Some (Inr (), m\<lparr>m_data := (m_data m)(i := m_data m i @ bs)\<rparr>))"

definition fs_flush :: "nat \<Rightarrow> (machine, io_error, unit) io" where
  "fs_flush i = attempt (\<lambda>m. (Inr (), m))"

definition fs_sync_all :: "nat \<Rightarrow> (machine, io_error, unit) io" where
  "fs_sync_all i = attempt (\<lambda>m. (Inr (), m\<lparr>m_disk_data := (m_disk_data m)(i \<mapsto> m_data m i)\<rparr>))"

definition file_length :: "nat \<Rightarrow> machine \<Rightarrow> io_error + u64" where
  "file_length i m =
     (if length (m_data m i) < 2 ^ 64 then Inr (of_nat (length (m_data m i))) else Inl FileTooLarge)"

definition fs_file_len :: "nat \<Rightarrow> (machine, io_error, u64) io" where
  "fs_file_len i = attempt (\<lambda>m. (file_length i m, m))"

definition fs_lookup :: "string \<Rightarrow> machine \<Rightarrow> io_error + nat" where
  "fs_lookup path m = (if \<not> valid_path path then Inl InvalidInput else ok_or NotFound (m_dir m path))"

definition fs_metadata_len :: "string \<Rightarrow> (machine, io_error, u64) io" where
  "fs_metadata_len path = attempt (\<lambda>m. (and_then (fs_lookup path m) (\<lambda>i. file_length i m), m))"

definition fs_open :: "string \<Rightarrow> (machine, io_error, nat) io" where
  "fs_open path = attempt (\<lambda>m. (fs_lookup path m, m))"

text \<open>\<open>Read::read\<close> at an offset into a buffer of \<open>n > 0\<close> bytes: nothing only at the end.\<close>

definition fs_read_at :: "nat \<Rightarrow> nat \<Rightarrow> nat \<Rightarrow> (machine, io_error, bytes) io" where
  "fs_read_at i pos n m =
     (case next_event m of
        (Fault e k, m) \<Rightarrow> Some (Inl e, m)
      | (Short k, m) \<Rightarrow> Some (Inr (take (max 1 (min k n)) (drop pos (m_data m i))), m)
      | (Pass, m) \<Rightarrow> Some (Inr (take n (drop pos (m_data m i))), m))"

definition fs_read :: "string \<Rightarrow> (machine, io_error, bytes) io" where
  "fs_read path = attempt (\<lambda>m. (and_then (fs_lookup path m) (\<lambda>i. Inr (m_data m i)), m))"

definition fs_hard_link :: "string \<Rightarrow> string \<Rightarrow> (machine, io_error, unit) io" where
  "fs_hard_link source destination = attempt (\<lambda>m.
     if \<not> valid_path destination then (Inl InvalidInput, m)
     else case fs_lookup source m of
            Inl e \<Rightarrow> (Inl e, m)
          | Inr i \<Rightarrow>
              if m_dir m destination \<noteq> None then (Inl AlreadyExists, m)
              else (Inr (), m\<lparr>m_dir := (m_dir m)(destination \<mapsto> i)\<rparr>))"

definition fs_remove_file :: "string \<Rightarrow> (machine, io_error, unit) io" where
  "fs_remove_file path = attempt (\<lambda>m.
     case fs_lookup path m of
       Inl e \<Rightarrow> (Inl e, m)
     | Inr i \<Rightarrow> (Inr (), m\<lparr>m_dir := (m_dir m)(path := None)\<rparr>))"

definition fs_create_dir_all :: "string \<Rightarrow> (machine, io_error, unit) io" where
  "fs_create_dir_all dir = attempt (\<lambda>m. (Inr (), m))"

definition flushed_directory :: "string \<Rightarrow> machine \<Rightarrow> string \<Rightarrow> nat option" where
  "flushed_directory dir m = (\<lambda>p. if in_directory dir p then m_dir m p else m_disk_dir m p)"

definition fs_sync_directory :: "string \<Rightarrow> (machine, io_error, unit) io" where
  "fs_sync_directory dir =
     io_bind (attempt (\<lambda>m. (Inr (), m))) (\<lambda>_.
     attempt (\<lambda>m. (Inr (), m\<lparr>m_disk_dir := flushed_directory dir m\<rparr>)))"

section \<open>What the calls change\<close>

text \<open>Two states with the same files; the schedule and the temporary-name counter may have advanced.\<close>

definition same_files :: "machine \<Rightarrow> machine \<Rightarrow> bool" where
  "same_files m m' \<longleftrightarrow>
     m_dir m' = m_dir m \<and> m_disk_dir m' = m_disk_dir m \<and> m_data m' = m_data m \<and>
     m_disk_data m' = m_disk_data m \<and> m_fresh m' = m_fresh m \<and> m_process_id m' = m_process_id m"

lemma same_files_refl [simp, intro]: "same_files m m"
  by (simp add: same_files_def)

lemma same_files_events [simp, intro]: "same_files m (m\<lparr>m_events := es\<rparr>)"
  by (auto simp: same_files_def)

lemma same_files_trans [trans]: "same_files m m' \<Longrightarrow> same_files m' m'' \<Longrightarrow> same_files m m''"
  by (auto simp: same_files_def)

lemma same_filesD:
  assumes "same_files m m'"
  shows "m_dir m' = m_dir m" "m_disk_dir m' = m_disk_dir m" "m_data m' = m_data m"
    "m_disk_data m' = m_disk_data m" "m_fresh m' = m_fresh m" "m_process_id m' = m_process_id m"
  using assms by (auto simp: same_files_def)

lemma next_event_same: "next_event m = (e, u) \<Longrightarrow> same_files m u"
  by (auto simp: next_event_def split: list.splits)

lemma attempt_cases:
  assumes "attempt call m = Some (r, m')"
  obtains e where "r = Inl e" "same_files m m'"
  | u where "same_files m u" "call u = (r, m')"
proof -
  obtain ev u where ev: "next_event m = (ev, u)" by (cases "next_event m")
  with assms have "(\<exists>e. r = Inl e \<and> m' = u) \<or> call u = (r, m')"
    by (cases ev) (auto simp: attempt_def)
  with next_event_same [OF ev] that show thesis by auto
qed

lemma quiet_calls:
  "fs_flush i m = Some (r, m') \<Longrightarrow> same_files m m'"
  "fs_file_len i m = Some (r', m') \<Longrightarrow> same_files m m'"
  "fs_metadata_len path m = Some (r', m') \<Longrightarrow> same_files m m'"
  "fs_open path m = Some (r'', m') \<Longrightarrow> same_files m m'"
  "fs_read path m = Some (q, m') \<Longrightarrow> same_files m m'"
  "fs_create_dir_all path m = Some (r, m') \<Longrightarrow> same_files m m'"
  unfolding fs_flush_def fs_file_len_def fs_metadata_len_def fs_open_def fs_read_def fs_create_dir_all_def
  by (erule attempt_cases; simp)+

lemma read_at_quiet: "fs_read_at i pos n m = Some (r, m') \<Longrightarrow> same_files m m'"
  by (auto simp: fs_read_at_def split: prod.splits io_event.splits dest: next_event_same)

text \<open>The effect of each writing call, up to the schedule.\<close>

definition with_data :: "nat \<Rightarrow> bytes \<Rightarrow> machine \<Rightarrow> machine" where
  "with_data i bs m = m\<lparr>m_data := (m_data m)(i := bs)\<rparr>"

lemma write_all_cases:
  assumes "fs_write_all i bs m = Some (r, m')"
  obtains n where "same_files (with_data i (m_data m i @ take n bs) m) m'" "r = Inr () \<Longrightarrow> take n bs = bs"
proof -
  obtain ev u where ev: "next_event m = (ev, u)" by (cases "next_event m")
  note u = next_event_same [OF ev]
  show thesis
  proof (cases "\<exists>e n. ev = Fault e n")
    case True
    then obtain e n where "ev = Fault e n" by blast
    with assms ev u that [of n] show thesis by (auto simp: fs_write_all_def with_data_def same_files_def)
  next
    case False
    then have "m' = u\<lparr>m_data := (m_data u)(i := m_data u i @ bs)\<rparr>"
      using assms ev by (cases ev) (auto simp: fs_write_all_def)
    with u that [of "length bs"] show thesis by (auto simp: with_data_def same_files_def)
  qed
qed

lemma sync_all_cases:
  assumes "fs_sync_all i m = Some (r, m')"
  obtains e where "r = Inl e" "same_files m m'"
  | "r = Inr ()" "same_files (m\<lparr>m_disk_data := (m_disk_data m)(i \<mapsto> m_data m i)\<rparr>) m'"
  using assms unfolding fs_sync_all_def
  by (elim attempt_cases) (auto simp: same_files_def)

lemma create_new_cases:
  assumes "fs_create_new path m = Some (r, m')"
  obtains e where "r = Inl e" "same_files m m'"
  | "r = Inr (m_fresh m)" "m_dir m path = None" "same_files (snd (new_file path m)) m'"
  using assms unfolding fs_create_new_def
  by (elim attempt_cases) (auto simp: same_files_def new_file_def split: if_splits)

lemma hard_link_cases:
  assumes "fs_hard_link source destination m = Some (r, m')"
  obtains e where "r = Inl e" "same_files m m'"
  | i where "r = Inr ()" "m_dir m source = Some i" "m_dir m destination = None"
      "same_files (m\<lparr>m_dir := (m_dir m)(destination \<mapsto> i)\<rparr>) m'"
proof (cases r)
  case (Inl e)
  with assms that(1) show thesis unfolding fs_hard_link_def
    by (elim attempt_cases) (auto simp: same_files_def split: if_splits sum.splits)
next
  case (Inr a)
  with assms that(2) show thesis unfolding fs_hard_link_def
    by (elim attempt_cases)
      (auto simp: same_files_def fs_lookup_def ok_or_def split: if_splits sum.splits option.splits)
qed

lemma remove_file_cases:
  assumes "fs_remove_file path m = Some (r, m')"
  obtains "same_files m m'" | "same_files (m\<lparr>m_dir := (m_dir m)(path := None)\<rparr>) m'"
  using assms unfolding fs_remove_file_def
  by (elim attempt_cases) (auto simp: same_files_def split: sum.splits)

lemma flushed_directory_same: "same_files m u \<Longrightarrow> flushed_directory dir u = flushed_directory dir m"
  by (intro ext) (simp add: same_files_def flushed_directory_def)

lemma sync_directory_cases:
  assumes "fs_sync_directory dir m = Some (r, m')"
  obtains e where "r = Inl e" "same_files m m'"
  | "r = Inr ()" "same_files (m\<lparr>m_disk_dir := flushed_directory dir m\<rparr>) m'"
proof -
  consider e where "r = Inl e" "attempt (\<lambda>m. (Inr () :: io_error + unit, m)) m = Some (Inl e, m')"
    | x u where "attempt (\<lambda>m. (Inr x :: io_error + unit, m)) m = Some (Inr x, u)"
        "attempt (\<lambda>m. (Inr (), m\<lparr>m_disk_dir := flushed_directory dir m\<rparr>)) u = Some (r, m')"
    using assms unfolding fs_sync_directory_def io_bind_iff by fastforce
  then show thesis
  proof cases
    case 1
    with that(1) show thesis by (auto elim: attempt_cases)
  next
    case (2 x u)
    have u: "same_files m u" using 2(1) by (auto elim: attempt_cases)
    show thesis using 2(2)
    proof (cases rule: attempt_cases)
      case (1 e)
      with u that(1) same_files_trans show thesis by blast
    next
      case (2 v)
      with u same_files_trans have v: "same_files m v" by blast
      have "same_files (m\<lparr>m_disk_dir := flushed_directory dir m\<rparr>) m'"
        using 2(2) v flushed_directory_same [OF v] by (auto simp: same_files_def)
      with 2(2) that(2) show thesis by simp
    qed
  qed
qed

section \<open>Paths in a directory\<close>

lemma path_file_name_plain:
  assumes "name \<noteq> []" "name \<noteq> ''.''" "name \<noteq> ''..''" "CHR ''/'' \<notin> set name"
  shows "path_file_name name = Some name"
  using assms by (simp add: path_file_name_def split_on_notin)

text \<open>A file name joined to a directory lies in that directory.\<close>

lemma last_split_on_join: "CHR ''/'' \<notin> set name \<Longrightarrow> last (split_on CHR ''/'' (dir @ ''/'' @ name)) = name"
  using split_on_append_general [of "CHR ''/''" dir name] by (simp add: split_on_notin)

lemma path_join_plain:
  assumes "CHR ''/'' \<notin> set name"
  shows "path_join dir name = (if dir = [] \<or> ends_with dir ''/'' then dir @ name else dir @ ''/'' @ name)"
proof -
  have "\<not> starts_with name ''/''" using assms by (cases name) (auto simp: starts_with_def)
  then show ?thesis by (simp add: path_join_def)
qed

lemma in_directory_join:
  assumes "CHR ''/'' \<notin> set name"
  shows "in_directory dir (path_join dir name)"
proof -
  have "last (split_on CHR ''/'' (path_join dir name)) = name"
  proof (cases "dir = [] \<or> \<not> ends_with dir ''/''")
    case True
    with assms show ?thesis
      using last_split_on_join [OF assms, of dir] by (auto simp: path_join_plain split_on_notin)
  next
    case False
    then obtain d where "dir = d @ ''/''" by (auto simp: ends_with_iff)
    with assms False show ?thesis
      using last_split_on_join [OF assms, of d] by (simp add: path_join_plain)
  qed
  then show ?thesis by (simp add: in_directory_def)
qed

lemma path_join_inject:
  assumes "CHR ''/'' \<notin> set a" "CHR ''/'' \<notin> set b"
  shows "path_join dir a = path_join dir b \<longleftrightarrow> a = b"
  using assms by (simp add: path_join_plain)

end
