(* ===== verification/Receiver.thy ===== *)
theory Receiver
  imports File_System
begin

text \<open>
  \<open>crates/einvoice-transport/src/receiver.rs\<close>: the durable receiver of the remote inbox.  The
  trait \<open>RemoteInbox\<close> is a record of operations; its contract is the locale \<open>remote_inbox\<close>.
\<close>

section \<open>Data\<close>

record remote_object =
  ro_name :: string
  ro_size :: u64

text \<open>
  A download is handed the writer of the incoming file; deleting does not involve local files.
\<close>

record ('w, 'e) remote_ops =
  rmt_download :: "remote_object \<Rightarrow> (bytes \<Rightarrow> (machine, io_error, unit) io) \<Rightarrow> (machine \<times> 'w, 'e, unit) io"
  rmt_delete :: "remote_object \<Rightarrow> ('w, 'e, unit) io"

datatype receive_outcome = Persisted string | AlreadyPersisted string

datatype remote_operation = Download | Delete

datatype 'e receive_error =
    InvalidRemoteName string
  | EmptyObject string
  | SizeMismatch string u64 u64
  | ConflictingLocalObject string string
  | ReceiveIo io_error
  | RemoteError remote_operation 'e

record ('w, 'e) durable_receiver =
  dr_remote :: "('w, 'e) remote_ops"
  dr_inbox_dir :: string

definition durable_receiver_new ::
  "('w, 'e) remote_ops \<Rightarrow> string \<Rightarrow> (machine, io_error, ('w, 'e) durable_receiver) io" where
  "durable_receiver_new remote inbox_dir =
     io_bind (fs_create_dir_all inbox_dir) (\<lambda>_.
       io_return \<lparr>dr_remote = remote, dr_inbox_dir = inbox_dir\<rparr>)"

definition validate_remote_name :: "string \<Rightarrow> 'e receive_error + unit" where
  "validate_remote_name name =
     (let safe = name \<noteq> [] \<and> name \<noteq> ''.'' \<and> name \<noteq> ''..'' \<and> \<not> contains name CHR ''/'' \<and>
            \<not> contains name CHR 0x5C \<and> path_file_name name = Some name
      in if safe then Inr () else Inl (InvalidRemoteName name))"

section \<open>The incoming file\<close>

record incoming_file =
  inc_path :: string
  inc_file :: nat

definition incoming_name :: "u32 \<Rightarrow> u64 \<Rightarrow> string" where
  "incoming_name pid n = ''.incoming-'' @ dec (unat pid) @ ''-'' @ dec (unat n)"

partial_function (option) incoming_create :: "string \<Rightarrow> machine \<Rightarrow> ((io_error + incoming_file) \<times> machine) option" where
  "incoming_create directory m =
     (let n = m_next_temp_id m;
          path = path_join directory (incoming_name (m_process_id m) n)
      in Option.bind (fs_create_new path (m\<lparr>m_next_temp_id := n + 1\<rparr>)) (\<lambda>(r, m).
           case r of
             Inr file \<Rightarrow> Some (Inr \<lparr>inc_path = path, inc_file = file\<rparr>, m)
           | Inl error \<Rightarrow>
               if error = AlreadyExists then incoming_create directory m else Some (Inl error, m)))"

definition flush_and_sync :: "incoming_file \<Rightarrow> (machine, io_error, unit) io" where
  "flush_and_sync self = io_bind (fs_flush (inc_file self)) (\<lambda>_. fs_sync_all (inc_file self))"

definition incoming_size :: "incoming_file \<Rightarrow> (machine, io_error, u64) io" where
  "incoming_size self = fs_file_len (inc_file self)"

definition incoming_drop :: "incoming_file \<Rightarrow> (machine, io_error, unit) io" where
  "incoming_drop self = fs_remove_file (inc_path self)"

section \<open>Comparing and publishing\<close>

definition publish_no_clobber :: "string \<Rightarrow> string \<Rightarrow> (machine, io_error, unit) io" where
  "publish_no_clobber source destination = fs_hard_link source destination"

definition sync_parent_directory :: "string \<Rightarrow> (machine, io_error, unit) io" where
  "sync_parent_directory path = fs_sync_directory path"

definition BUFFER :: nat where "BUFFER = 16 * 1024"

text \<open>The loop of \<open>files_equal\<close>: files and offsets of the two open handles.\<close>

function compare_loop :: "nat \<Rightarrow> nat \<Rightarrow> nat \<Rightarrow> nat \<Rightarrow> (machine, io_error, bool) io" where
  "compare_loop left right lpos rpos m =
     (case fs_read_at left lpos BUFFER m of
        None \<Rightarrow> None
      | Some (Inl e, m) \<Rightarrow> Some (Inl e, m)
      | Some (Inr left_read, m1) \<Rightarrow>
          (case fs_read_at right rpos BUFFER m1 of
             None \<Rightarrow> None
           | Some (Inl e, m) \<Rightarrow> Some (Inl e, m)
           | Some (Inr right_read, m2) \<Rightarrow>
               if length left_read \<noteq> length right_read then Some (Inr False, m2)
               else if length left_read = 0 then Some (Inr True, m2)
               else if left_read \<noteq> right_read then Some (Inr False, m2)
               else compare_loop left right (lpos + length left_read) (rpos + length right_read) m2))"
  by pat_completeness auto

lemma read_at_progress:
  assumes "fs_read_at i pos n m = Some (Inr bs, m')" "bs \<noteq> []"
  shows "length (m_data m' i) - (pos + length bs) < length (m_data m i) - pos"
proof -
  obtain k where bs: "bs = take k (drop pos (m_data m i))"
    using assms(1)
    by (auto simp: fs_read_at_def split: prod.splits io_event.splits dest: same_filesD(3) [OF next_event_same])
  with assms(2) have "pos < length (m_data m i)" by (metis drop_eq_Nil linorder_not_less take_Nil)
  moreover have "0 < length bs" using assms(2) by simp
  ultimately show ?thesis
    using same_filesD(3) [OF read_at_quiet [OF assms(1)]] by (simp del: length_greater_0_conv)
qed

lemma two_reads_progress:
  assumes "fs_read_at i pos n m = Some (Inr bs, m1)" "fs_read_at j pos' n' m1 = Some (r, m2)" "bs \<noteq> []"
  shows "length (m_data m2 i) - (pos + length bs) < length (m_data m i) - pos"
  using read_at_progress [OF assms(1,3)] same_filesD(3) [OF read_at_quiet [OF assms(2)]] by simp

termination compare_loop
  by (relation "measure (\<lambda>(left, right, lpos, rpos, m). length (m_data m left) - lpos)")
    (auto intro: two_reads_progress)

declare compare_loop.simps [simp del]

definition files_equal :: "string \<Rightarrow> string \<Rightarrow> (machine, io_error, bool) io" where
  "files_equal left right =
     io_bind (fs_metadata_len left) (\<lambda>left_len.
     io_bind (fs_metadata_len right) (\<lambda>right_len.
       if left_len \<noteq> right_len then io_return False
       else
         io_bind (fs_open left) (\<lambda>left.
         io_bind (fs_open right) (\<lambda>right.
           compare_loop left right 0 0))))"

section \<open>Receiving\<close>

definition publish_outcome ::
  "string \<Rightarrow> remote_object \<Rightarrow> string \<Rightarrow> incoming_file \<Rightarrow> (machine, 'e receive_error, receive_outcome) io" where
  "publish_outcome inbox_dir object final_path incoming m =
     (case publish_no_clobber (inc_path incoming) final_path m of
        None \<Rightarrow> None
      | Some (Inr _, m) \<Rightarrow>
          io_bind (io_map_err ReceiveIo (sync_parent_directory inbox_dir)) (\<lambda>_.
            io_return (Persisted final_path)) m
      | Some (Inl error, m) \<Rightarrow>
          if error = AlreadyExists then
            io_bind (io_map_err ReceiveIo (files_equal (inc_path incoming) final_path)) (\<lambda>equal.
              if equal then io_return (AlreadyPersisted final_path)
              else io_result (Inl (ConflictingLocalObject (ro_name object) final_path))) m
          else Some (Inl (ReceiveIo error), m))"

definition publish_and_delete ::
  "('w, 'e) durable_receiver \<Rightarrow> remote_object \<Rightarrow> string \<Rightarrow> incoming_file \<Rightarrow>
     (machine \<times> 'w, 'e receive_error, receive_outcome) io" where
  "publish_and_delete self object final_path incoming =
     io_bind (on_fst (publish_outcome (dr_inbox_dir self) object final_path incoming)) (\<lambda>outcome.
     io_bind (io_map_err (RemoteError Delete) (on_snd (rmt_delete (dr_remote self) object))) (\<lambda>_.
       io_return outcome))"

definition receive_sized ::
  "('w, 'e) durable_receiver \<Rightarrow> remote_object \<Rightarrow> string \<Rightarrow> incoming_file \<Rightarrow> u64 \<Rightarrow>
     (machine \<times> 'w, 'e receive_error, receive_outcome) io" where
  "receive_sized self object final_path incoming actual_size =
     (if actual_size = 0 then io_result (Inl (EmptyObject (ro_name object)))
      else if actual_size \<noteq> ro_size object then
        io_result (Inl (SizeMismatch (ro_name object) (ro_size object) actual_size))
      else publish_and_delete self object final_path incoming)"

definition receive_into ::
  "('w, 'e) durable_receiver \<Rightarrow> remote_object \<Rightarrow> string \<Rightarrow> incoming_file \<Rightarrow>
     (machine \<times> 'w, 'e receive_error, receive_outcome) io" where
  "receive_into self object final_path incoming =
     io_bind (io_map_err (RemoteError Download)
                (rmt_download (dr_remote self) object (fs_write_all (inc_file incoming)))) (\<lambda>_.
     io_bind (io_map_err ReceiveIo (on_fst (flush_and_sync incoming))) (\<lambda>_.
     io_bind (io_map_err ReceiveIo (on_fst (incoming_size incoming)))
       (receive_sized self object final_path incoming)))"

definition receive ::
  "('w, 'e) durable_receiver \<Rightarrow> remote_object \<Rightarrow> (machine \<times> 'w, 'e receive_error, receive_outcome) io" where
  "receive self object =
     io_bind (io_result (validate_remote_name (ro_name object))) (\<lambda>_.
       let final_path = path_join (dr_inbox_dir self) (ro_name object) in
       io_bind (io_map_err ReceiveIo (on_fst (incoming_create (dr_inbox_dir self)))) (\<lambda>incoming.
         io_finally (receive_into self object final_path incoming) (on_fst (incoming_drop incoming))))"

section \<open>The comparison\<close>

lemma read_at_chunk:
  assumes "fs_read_at i pos n m = Some (Inr bs, m')"
  obtains k where "bs = take k (drop pos (m_data m i))" "0 < n \<Longrightarrow> 0 < k"
  using assms
  by (auto simp: fs_read_at_def split: prod.splits io_event.splits
      dest: same_filesD(3) [OF next_event_same])

lemma read_at_returns: "\<exists>q m'. fs_read_at i pos n m = Some (q, m')"
  by (cases "next_event m"; cases "fst (next_event m)") (auto simp: fs_read_at_def)

lemma compare_loop_cases:
  assumes "compare_loop l r lp rp m = Some (q, m')"
  obtains (failed) e where "q = Inl e" "same_files m m'"
  | (last) a m1 b where "fs_read_at l lp BUFFER m = Some (Inr a, m1)" "fs_read_at r rp BUFFER m1 = Some (Inr b, m')"
      "q = Inr (a = b \<and> a = [])"
  | (more) a m1 m2 where "fs_read_at l lp BUFFER m = Some (Inr a, m1)" "fs_read_at r rp BUFFER m1 = Some (Inr a, m2)"
      "a \<noteq> []" "compare_loop l r (lp + length a) (rp + length a) m2 = Some (q, m')"
proof -
  obtain ra m1 where a: "fs_read_at l lp BUFFER m = Some (ra, m1)"
    using assms by (subst (asm) compare_loop.simps) (auto split: option.splits prod.splits)
  obtain rb m2 where b: "fs_read_at r rp BUFFER m1 = Some (rb, m2)"
    using read_at_returns by blast
  note step = assms [unfolded compare_loop.simps [of l r lp rp m] a option.case prod.case]
  show thesis
  proof (cases ra)
    case (Inl e)
    with step read_at_quiet [OF a] failed show thesis by auto
  next
    case ra: (Inr x)
    show thesis
    proof (cases rb)
      case (Inl e)
      with step ra b read_at_quiet [OF a] read_at_quiet [OF b] failed same_files_trans show thesis by auto
    next
      case rb: (Inr y)
      from step ra rb b have "(if length x \<noteq> length y then Some (Inr False, m2)
          else if length x = 0 then Some (Inr True, m2)
          else if x \<noteq> y then Some (Inr False, m2)
          else compare_loop l r (lp + length x) (rp + length y) m2) = Some (q, m')" by simp
      then have "(q = Inr (x = y \<and> x = []) \<and> m' = m2) \<or>
          (x = y \<and> x \<noteq> [] \<and> compare_loop l r (lp + length x) (rp + length x) m2 = Some (q, m'))"
        by (auto split: if_splits)
      with last [of x m1 y] more [of x m1 m2] a b ra rb show thesis by blast
    qed
  qed
qed

lemma compare_loop_quiet: "compare_loop l r lp rp m = Some (q, m') \<Longrightarrow> same_files m m'"
proof (induction l r lp rp m rule: compare_loop.induct)
  case (1 l r lp rp m)
  from 1(2) show ?case
  proof (cases rule: compare_loop_cases)
    case (last a m1 b)
    then show ?thesis by (blast dest: read_at_quiet intro: same_files_trans)
  next
    case (more a m1 m2)
    then have "same_files m2 m'" using 1(1) by simp
    with more show ?thesis by (blast dest: read_at_quiet intro: same_files_trans)
  qed
qed

lemma compare_loop_True:
  "compare_loop l r lp rp m = Some (Inr True, m') \<Longrightarrow> drop lp (m_data m l) = drop rp (m_data m r)"
proof (induction l r lp rp m rule: compare_loop.induct)
  case (1 l r lp rp m)
  have chunk: "\<exists>k. bs = take k (drop pos (m_data u i)) \<and> 0 < k"
    if "fs_read_at i pos BUFFER u = Some (Inr bs, u')" for i pos u bs u'
    using that by (rule read_at_chunk) (auto simp: BUFFER_def)
  from 1(2) show ?case
  proof (cases rule: compare_loop_cases)
    case (last a m1 b)
    with chunk [OF last(1)] chunk [OF last(2)] same_filesD(3) [OF read_at_quiet [OF last(1)]]
    show ?thesis by auto
  next
    case (more a m1 m2)
    have same: "m_data m1 = m_data m" "m_data m2 = m_data m"
      using same_filesD(3) [OF read_at_quiet [OF more(1)]] same_filesD(3) [OF read_at_quiet [OF more(2)]]
      by simp_all
    have "drop (lp + length a) (m_data m l) = drop (rp + length a) (m_data m r)"
      using 1(1) [OF more(1) refl refl more(2) refl refl] more(3,4) same by simp
    then have "drop (length a) (drop lp (m_data m l)) = drop (length a) (drop rp (m_data m r))"
      by (simp add: add.commute)
    moreover have "a = take (length a) (drop lp (m_data m l))" "a = take (length a) (drop rp (m_data m r))"
      using chunk [OF more(1)] chunk [OF more(2)] unfolding same
      by (metis append_eq_conv_conj append_take_drop_id)+
    ultimately show ?thesis by (metis append_take_drop_id)
  qed simp
qed

lemma files_equal_cases:
  assumes "files_equal a b m = Some (q, m')"
  obtains "same_files m m'" "q \<noteq> Inr True"
  | i j where "same_files m m'" "m_dir m a = Some i" "m_dir m b = Some j" "m_data m i = m_data m j" "q = Inr True"
proof -
  have quiet: "same_files m m'"
    using assms unfolding files_equal_def
    by (auto simp: io_iff same_files_def split: if_splits dest!: quiet_calls(3,4) compare_loop_quiet)
  show thesis
  proof (cases "q = Inr True")
    case True
    then obtain i j m1 m2 m3 where m1: "same_files m m1" and i: "fs_open a m1 = Some (Inr i, m2)"
      and j: "fs_open b m2 = Some (Inr j, m3)" and c: "compare_loop i j 0 0 m3 = Some (Inr True, m')"
      using assms unfolding files_equal_def
      by (auto simp: io_iff split: if_splits dest!: quiet_calls(3) dest: same_files_trans)
    have "m_dir m1 a = Some i" "m_dir m2 b = Some j"
      using i j unfolding fs_open_def
      by (auto elim!: attempt_cases simp: fs_lookup_def ok_or_def same_files_def split: if_splits option.splits)
    with that(2) quiet True m1 quiet_calls(4) [OF i] quiet_calls(4) [OF j] compare_loop_True [OF c] show thesis
      by (auto simp: same_files_def)
  qed (use that(1) quiet in blast)
qed

end
