(* ===== verification/Receiver_Safety.thy ===== *)
theory Receiver_Safety
  imports Receiver
begin

text \<open>
  What the durable receiver guarantees: the contract of a remote inbox as a locale, the phases
  of \<open>receive\<close> as lemmas about the file system, and what is on disk when the remote copy goes.
\<close>

section \<open>The contract of a remote inbox\<close>

text \<open>A download touches local files only through the writer it is handed.\<close>

inductive writes :: "(bytes \<Rightarrow> (machine, io_error, unit) io) \<Rightarrow> machine \<Rightarrow> machine \<Rightarrow> bool"
  for wr :: "bytes \<Rightarrow> (machine, io_error, unit) io" where
  writes_nothing: "writes wr m m"
| writes_more: "wr bs m = Some (r, u) \<Longrightarrow> writes wr u m' \<Longrightarrow> writes wr m m'"

lemma writes_trans: "writes wr m u \<Longrightarrow> writes wr u m' \<Longrightarrow> writes wr m m'"
  by (induction rule: writes.induct) (auto intro: writes.intros)

lemma writes_file:
  assumes "writes (fs_write_all i) m m'"
  shows "\<exists>bs. same_files (with_data i (m_data m i @ bs) m) m'"
  using assms
proof induction
  case (writes_nothing m)
  show ?case by (rule exI [of _ "[]"]) (simp add: with_data_def same_files_def)
next
  case (writes_more bs m r u m')
  from writes_more(3) obtain cs where cs: "same_files (with_data i (m_data u i @ cs) u) m'" by blast
  obtain n where u: "same_files (with_data i (m_data m i @ take n bs) m) u"
    using writes_more(1) by (rule write_all_cases)
  have "same_files (with_data i (m_data m i @ take n bs @ cs) m) m'"
    using u cs by (auto simp: same_files_def with_data_def)
  then show ?case by blast
qed

locale remote_inbox =
  fixes remote :: "('w, 'e) remote_ops"
  assumes download_writes: "rmt_download remote object wr (m, w) = Some (r, (m', w')) \<Longrightarrow> writes wr m m'"

section \<open>Phases\<close>

lemma io_bind_map_err_iff:
  "io_bind (io_map_err g p) f s = Some (r, t) \<longleftrightarrow>
     (\<exists>e. p s = Some (Inl e, t) \<and> r = Inl (g e)) \<or> (\<exists>a u. p s = Some (Inr a, u) \<and> f a u = Some (r, t))"
  unfolding io_bind_iff io_map_err_iff by (fastforce simp: map_err_def split: sum.splits)

definition with_incoming :: "string \<Rightarrow> bytes \<Rightarrow> bytes option \<Rightarrow> machine \<Rightarrow> machine" where
  "with_incoming tmp bs disk m =
     m\<lparr>m_dir := (m_dir m)(tmp \<mapsto> m_fresh m), m_data := (m_data m)(m_fresh m := bs),
       m_disk_data := (m_disk_data m)(m_fresh m := disk), m_fresh := Suc (m_fresh m)\<rparr>"

definition with_entry :: "string \<Rightarrow> nat \<Rightarrow> machine \<Rightarrow> machine" where
  "with_entry path i m = m\<lparr>m_dir := (m_dir m)(path \<mapsto> i)\<rparr>"

definition with_flushed :: "string \<Rightarrow> machine \<Rightarrow> machine" where
  "with_flushed dir m = m\<lparr>m_disk_dir := flushed_directory dir m\<rparr>"

definition created :: "string \<Rightarrow> machine \<Rightarrow> (io_error + incoming_file) \<times> machine \<Rightarrow> bool" where
  "created dir m y \<longleftrightarrow>
     (case fst y of
        Inl e \<Rightarrow> same_files m (snd y)
      | Inr inc \<Rightarrow>
          (\<exists>n. inc_path inc = path_join dir (incoming_name (m_process_id m) n)) \<and>
          inc_file inc = m_fresh m \<and> m_dir m (inc_path inc) = None \<and>
          same_files (with_incoming (inc_path inc) [] None m) (snd y))"

lemma created_same:
  assumes "same_files m u" "created dir u y"
  shows "created dir m y"
proof -
  have "same_files (with_incoming p [] None m) (snd y)" if "same_files (with_incoming p [] None u) (snd y)" for p
    using that assms(1) by (auto simp: same_files_def with_incoming_def)
  with assms show ?thesis
    by (cases "fst y") (auto simp: created_def same_filesD [OF assms(1)] intro: same_files_trans)
qed

lemma incoming_create_phase:
  assumes "incoming_create dir m = Some y"
  shows "created dir m y"
  using _ assms
proof (rule incoming_create.raw_induct [where P = created])
  fix "rec" dir m y
  assume IH: "\<And>dir m y. rec dir m = Some y \<Longrightarrow> created dir m y"
    and body: "(let n = m_next_temp_id m; path = path_join dir (incoming_name (m_process_id m) n)
      in Option.bind (fs_create_new path (m\<lparr>m_next_temp_id := n + 1\<rparr>)) (\<lambda>(r, m).
           case r of
             Inl error \<Rightarrow> if error = AlreadyExists then rec dir m else Some (Inl error, m)
           | Inr file \<Rightarrow> Some (Inr \<lparr>inc_path = path, inc_file = file\<rparr>, m))) = Some y"
  let ?n = "m_next_temp_id m"
  let ?path = "path_join dir (incoming_name (m_process_id m) ?n)"
  define m0 where "m0 = m\<lparr>m_next_temp_id := ?n + 1\<rparr>"
  have m0: "same_files m m0" by (simp add: m0_def same_files_def)
  obtain q u where c: "fs_create_new ?path m0 = Some (q, u)"
    and rest: "(case q of
        Inr file \<Rightarrow> Some (Inr \<lparr>inc_path = ?path, inc_file = file\<rparr>, u)
      | Inl error \<Rightarrow> if error = AlreadyExists then rec dir u else Some (Inl error, u)) = Some y"
    using body by (auto simp: Let_def bind_eq_Some_conv m0_def)
  from c show "created dir m y"
  proof (cases rule: create_new_cases)
    case (1 e)
    have u: "same_files m u" using m0 1(2) by (rule same_files_trans)
    show ?thesis
    proof (cases "e = AlreadyExists")
      case True
      with rest 1 have "rec dir u = Some y" by simp
      with u show ?thesis by (blast intro: created_same IH)
    next
      case False
      with rest 1 u show ?thesis by (auto simp: created_def)
    qed
  next
    case 2
    with rest m0 show ?thesis
      by (auto simp: created_def same_files_def with_incoming_def new_file_def)
  qed
qed

lemma sync_phase:
  assumes "flush_and_sync inc m' = Some (r, m'')" "same_files (with_incoming tmp bs None m) m'"
    "inc_file inc = m_fresh m"
  obtains e where "r = Inl e" "same_files (with_incoming tmp bs None m) m''"
  | "r = Inr ()" "same_files (with_incoming tmp bs (Some bs) m) m''"
proof -
  consider e where "fs_flush (inc_file inc) m' = Some (Inl e, m'')" "r = Inl e"
    | x u where "fs_flush (inc_file inc) m' = Some (Inr x, u)" "fs_sync_all (inc_file inc) u = Some (r, m'')"
    using assms(1) unfolding flush_and_sync_def io_bind_iff by blast
  then show thesis
  proof cases
    case (1 e)
    with that(1) assms(2) show thesis by (blast dest: quiet_calls(1) intro: same_files_trans)
  next
    case (2 x u)
    have u: "same_files (with_incoming tmp bs None m) u"
      using 2(1) assms(2) by (blast dest: quiet_calls(1) intro: same_files_trans)
    from 2(2) show thesis
    proof (cases rule: sync_all_cases)
      case (1 e)
      with that(1) u show thesis by (blast intro: same_files_trans)
    next
      case 2
      with u assms(3) have "same_files (with_incoming tmp bs (Some bs) m) m''"
        by (auto simp: same_files_def with_incoming_def)
      with 2 that(2) show thesis by simp
    qed
  qed
qed

lemma publish_phase:
  assumes "publish_outcome dir object path inc m = Some (r, m')" "same_files u m"
    "m_dir u (inc_path inc) = Some k"
  obtains (refused) "\<And>x. r \<noteq> Inr x" "same_files u m'"
  | (unsynced) e where "r = Inl (ReceiveIo e)" "m_dir u path = None" "same_files (with_entry path k u) m'"
  | (persisted) "r = Inr (Persisted path)" "m_dir u path = None"
      "same_files (with_flushed dir (with_entry path k u)) m'"
  | (existing) j where "r = Inr (AlreadyPersisted path)" "m_dir u path = Some j" "m_data u j = m_data u k"
      "same_files u m'"
proof -
  obtain q m1 where l: "fs_hard_link (inc_path inc) path m = Some (q, m1)"
    using assms(1) by (auto simp: publish_outcome_def publish_no_clobber_def split: option.splits)
  note step = assms(1) [unfolded publish_outcome_def publish_no_clobber_def l option.case prod.case]
  from l show thesis
  proof (cases rule: hard_link_cases)
    case (1 e)
    have m1: "same_files u m1" using assms(2) 1(2) by (rule same_files_trans)
    show thesis
    proof (cases "e = AlreadyExists")
      case False
      with step 1 m1 refused show thesis by auto
    next
      case True
      with step 1 have "io_bind (io_map_err ReceiveIo (files_equal (inc_path inc) path)) (\<lambda>equal.
          if equal then io_return (AlreadyPersisted path)
          else io_result (Inl (ConflictingLocalObject (ro_name object) path))) m1 = Some (r, m')" by simp
      then obtain eq where f: "files_equal (inc_path inc) path m1 = Some (eq, m')"
        and r: "r = (case eq of Inl e \<Rightarrow> Inl (ReceiveIo e)
          | Inr equal \<Rightarrow> if equal then Inr (AlreadyPersisted path)
              else Inl (ConflictingLocalObject (ro_name object) path))"
        unfolding io_bind_map_err_iff by (auto simp: io_iff split: if_splits)
      from f show thesis
      proof (cases rule: files_equal_cases)
        case 1
        with r refused m1 show thesis
          by (auto split: sum.splits if_splits intro: same_files_trans)
      next
        case (2 i j)
        with r m1 assms(3) existing [of j] show thesis
          by (auto simp: same_files_def)
      qed
    qed
  next
    case (2 i)
    have k: "i = k" "m_dir u path = None" using 2 assms(2,3) by (auto simp: same_files_def)
    have m1: "same_files (with_entry path k u) m1"
      using 2(4) assms(2) k by (auto simp: same_files_def with_entry_def)
    from step 2 obtain q where s: "fs_sync_directory dir m1 = Some (q, m')"
      and r: "r = (case q of Inl e \<Rightarrow> Inl (ReceiveIo e) | Inr _ \<Rightarrow> Inr (Persisted path))"
      unfolding sync_parent_directory_def by (auto simp: io_bind_map_err_iff io_return_def)
    from s show thesis
    proof (cases rule: sync_directory_cases)
      case (1 e)
      with r k m1 unsynced show thesis by (auto intro: same_files_trans)
    next
      case 2
      have "same_files (with_flushed dir (with_entry path k u)) m'"
        using 2(2) m1 flushed_directory_same [OF m1]
        by (auto simp: same_files_def with_flushed_def)
      with 2 r k persisted show thesis by auto
    qed
  qed
qed

section \<open>The states of a call\<close>

text \<open>
  What a call of \<open>receive\<close> leaves behind, once its incoming file \<open>tmp\<close> (inode \<open>m_fresh m\<close>, holding
  \<open>bs\<close>) is created: the five ways it ends, before the temporary name is dropped.
\<close>

datatype progress = Unpublished | Unsynced | Durable | Present nat

fun progress_state :: "progress \<Rightarrow> string \<Rightarrow> string \<Rightarrow> string \<Rightarrow> bytes \<Rightarrow> bytes option \<Rightarrow> machine \<Rightarrow> machine" where
  "progress_state Unpublished dir tmp path bs disk m = with_incoming tmp bs disk m"
| "progress_state Unsynced dir tmp path bs disk m = with_entry path (m_fresh m) (with_incoming tmp bs disk m)"
| "progress_state Durable dir tmp path bs disk m =
     with_flushed dir (with_entry path (m_fresh m) (with_incoming tmp bs disk m))"
| "progress_state (Present j) dir tmp path bs disk m = with_incoming tmp bs disk m"

definition progress_ok :: "progress \<Rightarrow> remote_object \<Rightarrow> string \<Rightarrow> string \<Rightarrow> bytes \<Rightarrow> bytes option \<Rightarrow> machine \<Rightarrow> bool" where
  "progress_ok p object tmp path bs disk m \<longleftrightarrow>
     (p = Unpublished \<and> disk \<in> {None, Some bs} \<or>
      p \<noteq> Unpublished \<and> disk = Some bs \<and> 0 < unat (ro_size object) \<and> length bs = unat (ro_size object)) \<and>
     (p \<in> {Unsynced, Durable} \<longrightarrow> m_dir m path = None \<and> path \<noteq> tmp) \<and>
     (\<forall>j. p = Present j \<longrightarrow> m_dir (with_incoming tmp bs disk m) path = Some j \<and>
        m_data (with_incoming tmp bs disk m) j = bs)"

definition dropped :: "string \<Rightarrow> machine \<Rightarrow> machine \<Rightarrow> bool" where
  "dropped tmp m m' \<longleftrightarrow> same_files m m' \<or> same_files (m\<lparr>m_dir := (m_dir m)(tmp := None)\<rparr>) m'"

lemma dropped_same: "same_files m u \<Longrightarrow> dropped tmp u m' \<Longrightarrow> dropped tmp m m'"
  by (auto simp: dropped_def same_files_def)

definition reached_delete :: "progress \<Rightarrow> bool" where
  "reached_delete p \<longleftrightarrow> (case p of Durable \<Rightarrow> True | Present _ \<Rightarrow> True | _ \<Rightarrow> False)"

definition outcome_of :: "progress \<Rightarrow> string \<Rightarrow> receive_outcome" where
  "outcome_of p path = (case p of Present _ \<Rightarrow> AlreadyPersisted path | _ \<Rightarrow> Persisted path)"

text \<open>Inodes in use are below the next fresh one.\<close>

definition wf_machine :: "machine \<Rightarrow> bool" where
  "wf_machine m \<longleftrightarrow> (\<forall>p i. m_dir m p = Some i \<or> m_disk_dir m p = Some i \<longrightarrow> i < m_fresh m)"

lemma incoming_name_chars: "CHR ''/'' \<notin> set (incoming_name pid n)"
proof -
  have "CHR ''/'' \<noteq> digit_char d" if "d < 10" for d
  proof
    assume "CHR ''/'' = digit_char d"
    then have "(of_char (CHR ''/'') :: nat) = 48 + d" using of_char_digit_char [OF that] by metis
    then show False by simp
  qed
  then have "CHR ''/'' \<notin> set (dec k)" for k
    by (blast dest: dec_digits)
  then show ?thesis by (simp add: incoming_name_def)
qed

lemma validated_name:
  assumes "validate_remote_name name = (Inr () :: 'e receive_error + unit)"
  shows "name \<noteq> []" "CHR ''/'' \<notin> set name"
  using assms by (auto simp: validate_remote_name_def contains_def list_ex_iff Let_def split: if_splits)

lemma not_incoming:
  assumes "validate_remote_name name = (Inr () :: 'e receive_error + unit)" "\<not> starts_with name ''.incoming-''"
  shows "path_join dir name \<noteq> path_join dir (incoming_name pid n)"
proof -
  have "starts_with (incoming_name pid n) ''.incoming-''"
    by (simp add: incoming_name_def starts_with_def)
  with assms(2) have "name \<noteq> incoming_name pid n" by blast
  with validated_name(2) [OF assms(1)] incoming_name_chars show ?thesis by (simp add: path_join_inject)
qed

text \<open>What a call leaves of the files that existed, and what it may add.\<close>

definition inbox_extended :: "string \<Rightarrow> remote_object \<Rightarrow> machine \<Rightarrow> machine \<Rightarrow> bool" where
  "inbox_extended dir object m m' \<longleftrightarrow>
     (\<forall>p i. m_dir m p = Some i \<longrightarrow>
        m_dir m' p = Some i \<and> m_data m' i = m_data m i \<and> m_disk_data m' i = m_disk_data m i) \<and>
     (\<forall>p i. m_dir m p = None \<and> m_dir m' p = Some i \<longrightarrow>
        p = path_join dir (ro_name object) \<and> length (m_data m' i) = unat (ro_size object) \<and>
          m_disk_data m' i = Some (m_data m' i) \<or>
        (\<exists>n. p = path_join dir (incoming_name (m_process_id m) n)))"

text \<open>The local copy that justifies deleting the remote object.\<close>

definition local_copy :: "string \<Rightarrow> remote_object \<Rightarrow> bytes \<Rightarrow> machine \<Rightarrow> machine \<Rightarrow> bool" where
  "local_copy path object content m m' \<longleftrightarrow>
     (\<exists>i. m_dir m' path = Some i \<and> m_data m' i = content \<and> content \<noteq> [] \<and>
        length content = unat (ro_size object) \<and>
        (case m_dir m path of
           None \<Rightarrow> m_disk_dir m' path = Some i \<and> m_disk_data m' i = Some content
         | Some j \<Rightarrow> i = j \<and> m_data m j = content \<and> m_disk_data m' i = m_disk_data m j \<and>
             m_disk_dir m' path = m_disk_dir m path))"

context remote_inbox
begin

text \<open>The deletion of a call and what it reports; before it, no success is reported.\<close>

definition remote_end :: "remote_object \<Rightarrow> progress \<Rightarrow> string \<Rightarrow> ('e receive_error + receive_outcome) \<Rightarrow>
    'w \<Rightarrow> 'w \<Rightarrow> bool" where
  "remote_end object p path r w w' \<longleftrightarrow>
     (if reached_delete p
      then \<exists>d. rmt_delete remote object w = Some (d, w') \<and>
             r = (case d of Inl e \<Rightarrow> Inl (RemoteError Delete e) | Inr _ \<Rightarrow> Inr (outcome_of p path))
      else w' = w \<and> (\<forall>x. r \<noteq> Inr x))"

lemma remote_end_simps [simp]:
  "remote_end object Unpublished path r w w' \<longleftrightarrow> w' = w \<and> (\<forall>x. r \<noteq> Inr x)"
  "remote_end object Unsynced path r w w' \<longleftrightarrow> w' = w \<and> (\<forall>x. r \<noteq> Inr x)"
  "remote_end object Durable path r w w' \<longleftrightarrow> (\<exists>d. rmt_delete remote object w = Some (d, w') \<and>
     r = (case d of Inl e \<Rightarrow> Inl (RemoteError Delete e) | Inr _ \<Rightarrow> Inr (Persisted path)))"
  "remote_end object (Present j) path r w w' \<longleftrightarrow> (\<exists>d. rmt_delete remote object w = Some (d, w') \<and>
     r = (case d of Inl e \<Rightarrow> Inl (RemoteError Delete e) | Inr _ \<Rightarrow> Inr (AlreadyPersisted path)))"
  by (simp_all add: remote_end_def reached_delete_def outcome_of_def [abs_def] cong: sum.case_cong)

abbreviation "receiver dir \<equiv> \<lparr>dr_remote = remote, dr_inbox_dir = dir\<rparr>"

lemma publish_and_delete_phase:
  assumes run: "publish_and_delete (receiver dir) object path inc (m3, w) = Some (r, (m', w'))"
    and m3: "same_files (with_incoming tmp bs (Some bs) m) m3"
    and inc: "inc_path inc = tmp" "inc_file inc = m_fresh m"
    and size: "0 < unat (ro_size object)" "length bs = unat (ro_size object)"
  shows "\<exists>p. progress_ok p object tmp path bs (Some bs) m \<and>
     same_files (progress_state p dir tmp path bs (Some bs) m) m' \<and> remote_end object p path r w w'"
proof -
  let ?u = "with_incoming tmp bs (Some bs) m"
  obtain q m4 where pub: "publish_outcome dir object path inc m3 = Some (q, m4)"
    and rest: "case q of Inl e \<Rightarrow> r = Inl e \<and> m' = m4 \<and> w' = w
       | Inr out \<Rightarrow> m' = m4 \<and> (\<exists>d. rmt_delete remote object w = Some (d, w') \<and>
           r = (case d of Inl e \<Rightarrow> Inl (RemoteError Delete e) | Inr _ \<Rightarrow> Inr out))"
    using run unfolding publish_and_delete_def
    by (auto simp: io_bind_iff [of "on_fst _"] io_bind_map_err_iff on_fst_iff on_snd_iff io_return_iff)
  have tmp: "m_dir ?u (inc_path inc) = Some (m_fresh m)" by (simp add: inc with_incoming_def)
  from pub m3 tmp show ?thesis
  proof (cases rule: publish_phase)
    case refused
    with rest show ?thesis
      by (intro exI [of _ Unpublished]) (auto simp: progress_ok_def split: sum.splits)
  next
    case (unsynced e)
    with rest tmp inc size show ?thesis
      by (intro exI [of _ Unsynced]) (auto simp: progress_ok_def with_incoming_def split: if_splits)
  next
    case persisted
    with rest tmp inc size show ?thesis
      by (intro exI [of _ Durable])
        (auto simp: progress_ok_def with_incoming_def split: if_splits)
  next
    case (existing j)
    with rest size show ?thesis
      by (intro exI [of _ "Present j"])
        (auto simp: progress_ok_def with_incoming_def)
  qed
qed

lemma receive_into_phase:
  assumes run: "receive_into (receiver dir) object path inc (m0, w) = Some (r, (m', w'))"
    and m0: "same_files (with_incoming tmp [] None m) m0"
    and inc: "inc_path inc = tmp" "inc_file inc = m_fresh m"
  shows "\<exists>p bs disk q m1 w1. progress_ok p object tmp path bs disk m \<and>
     same_files (progress_state p dir tmp path bs disk m) m' \<and>
     rmt_download remote object (fs_write_all (m_fresh m)) (m0, w) = Some (q, (m1, w1)) \<and>
     m_data m1 (m_fresh m) = bs \<and> (reached_delete p \<longrightarrow> q = Inr ()) \<and> remote_end object p path r w1 w'"
proof -
  let ?k = "m_fresh m"
  obtain q m1 w1 where dl: "rmt_download remote object (fs_write_all ?k) (m0, w) = Some (q, (m1, w1))"
    using run inc(2) by (auto simp: receive_into_def io_bind_map_err_iff)
  obtain bs where "same_files (with_data ?k (m_data m0 ?k @ bs) m0) m1"
    using writes_file [OF download_writes [OF dl]] by blast
  then have m1: "same_files (with_incoming tmp bs None m) m1"
    using m0 by (auto simp: same_files_def with_incoming_def with_data_def)
  have data: "m_data m1 ?k = bs" using m1 by (auto simp: same_files_def with_incoming_def)
  have unpublished: ?thesis
    if "same_files (with_incoming tmp bs disk m) m'" "disk \<in> {None, Some bs}" "w' = w1" "\<And>x. r \<noteq> Inr x" for disk
    using that dl data
    by (intro exI [of _ Unpublished] exI [of _ bs] exI [of _ disk] exI [of _ q] exI [of _ m1] exI [of _ w1])
      (auto simp: progress_ok_def reached_delete_def)
  consider e where "q = Inl e" "m' = m1" "w' = w1" "r = Inl (RemoteError Download e)"
    | e where "flush_and_sync inc m1 = Some (Inl e, m')" "w' = w1" "r = Inl (ReceiveIo e)"
    | y m2 e where "flush_and_sync inc m1 = Some (Inr y, m2)" "incoming_size inc m2 = Some (Inl e, m')"
        "w' = w1" "r = Inl (ReceiveIo e)"
    | y m2 n m3 where "flush_and_sync inc m1 = Some (Inr y, m2)" "incoming_size inc m2 = Some (Inr n, m3)"
        "receive_sized (receiver dir) object path inc n (m3, w1) = Some (r, (m', w'))" "q = Inr ()"
    using run dl inc by (cases q) (auto simp: receive_into_def io_bind_map_err_iff on_fst_iff)
  then show ?thesis
  proof cases
    case 1
    with m1 unpublished [of None] show ?thesis by auto
  next
    case (2 e)
    from 2(1) m1 inc(2) show ?thesis
      by (rule sync_phase) (use 2 unpublished [of None] in auto)
  next
    case (3 y m2 e)
    from 3(1) m1 inc(2) have m2: "same_files (with_incoming tmp bs (Some bs) m) m2"
      by (rule sync_phase) auto
    with 3(2) have "same_files (with_incoming tmp bs (Some bs) m) m'"
      unfolding incoming_size_def by (blast dest: quiet_calls(2) intro: same_files_trans)
    with 3 unpublished [of "Some bs"] show ?thesis by simp
  next
    case (4 y m2 n m3)
    from 4(1) m1 inc(2) have m2: "same_files (with_incoming tmp bs (Some bs) m) m2"
      by (rule sync_phase) auto
    with 4(2) have m3: "same_files (with_incoming tmp bs (Some bs) m) m3"
      unfolding incoming_size_def by (blast dest: quiet_calls(2) intro: same_files_trans)
    have n: "unat n = length bs"
      using 4(2) m2 inc(2) unfolding incoming_size_def fs_file_len_def
      by (auto elim!: attempt_cases simp: file_length_def same_files_def with_incoming_def unat_of_nat split: if_splits)
    show ?thesis
    proof (cases "n = 0 \<or> n \<noteq> ro_size object")
      case True
      with 4(3) m3 unpublished [of "Some bs"] show ?thesis
        by (auto simp: receive_sized_def io_result_iff split: if_splits)
    next
      case False
      then have n0: "(n = 0) = False" "(n \<noteq> ro_size object) = False" by blast+
      have pd: "publish_and_delete (receiver dir) object path inc (m3, w1) = Some (r, (m', w'))"
        using 4(3) unfolding receive_sized_def n0 if_False .
      have len: "length bs = unat (ro_size object)" using n0(2) n by simp
      have "0 < unat (ro_size object)" using n0 by (cases "unat (ro_size object)") (auto simp: word_unat_eq_iff)
      from publish_and_delete_phase [OF pd m3 inc this len] dl data 4(4) show ?thesis by blast
    qed
  qed
qed

lemma receive_phases:
  assumes run: "receive (receiver dir) object (m, w) = Some (r, (m', w'))"
  shows "same_files m m' \<and> w' = w \<and> (\<forall>x. r \<noteq> Inr x) \<or>
    (\<exists>n tmp p bs disk q m0 m1 w1. tmp = path_join dir (incoming_name (m_process_id m) n) \<and>
       m_dir m tmp = None \<and> validate_remote_name (ro_name object) = (Inr () :: 'e receive_error + unit) \<and>
       progress_ok p object tmp (path_join dir (ro_name object)) bs disk m \<and>
       dropped tmp (progress_state p dir tmp (path_join dir (ro_name object)) bs disk m) m' \<and>
       rmt_download remote object (fs_write_all (m_fresh m)) (m0, w) = Some (q, (m1, w1)) \<and>
       m_data m1 (m_fresh m) = bs \<and> (reached_delete p \<longrightarrow> q = Inr ()) \<and>
       remote_end object p (path_join dir (ro_name object)) r w1 w')"
proof -
  let ?path = "path_join dir (ro_name object)"
  consider "same_files m m'" "w' = w" "\<And>x. r \<noteq> Inr x"
    | inc m0 m2 x where "validate_remote_name (ro_name object) = (Inr () :: 'e receive_error + unit)"
        "incoming_create dir m = Some (Inr inc, m0)"
        "receive_into (receiver dir) object ?path inc (m0, w) = Some (r, (m2, w'))"
        "incoming_drop inc m2 = Some (x, m')"
    using run incoming_create_phase [of dir m]
    by (auto simp: receive_def io_iff io_bind_map_err_iff Let_def created_def split: sum.splits)
  then show ?thesis
  proof cases
    case (2 inc m0 m2 x)
    define tmp where "tmp = inc_path inc"
    from incoming_create_phase [OF 2(2)] obtain n where tmp: "tmp = path_join dir (incoming_name (m_process_id m) n)"
      "inc_file inc = m_fresh m" "m_dir m tmp = None" "same_files (with_incoming tmp [] None m) m0"
      by (auto simp: created_def tmp_def)
    have "dropped tmp m2 m'"
      using 2(4) unfolding incoming_drop_def tmp_def dropped_def by (rule remove_file_cases) auto
    with receive_into_phase [OF 2(3) tmp(4) tmp_def [symmetric] tmp(2)] tmp(1,3) 2(1) dropped_same
    show ?thesis by blast
  qed blast
qed

lemma receive_wf:
  assumes "receive (receiver dir) object (m, w) = Some (r, (m', w'))" "wf_machine m"
  shows "wf_machine m'"
  using receive_phases [OF assms(1)]
proof (elim disjE exE conjE)
  fix tmp p bs disk q m1
  assume "progress_ok p object tmp (path_join dir (ro_name object)) bs disk m"
    "dropped tmp (progress_state p dir tmp (path_join dir (ro_name object)) bs disk m) m'"
  with assms(2) show ?thesis
    by (cases p)
      (auto simp: wf_machine_def dropped_def same_files_def with_incoming_def with_entry_def with_flushed_def
        flushed_directory_def less_Suc_eq split: if_splits)
qed (use assms(2) in \<open>auto simp: wf_machine_def same_files_def\<close>)

lemma receive_extends:
  assumes "receive (receiver dir) object (m, w) = Some (r, (m', w'))" "wf_machine m"
  shows "inbox_extended dir object m m'"
  using receive_phases [OF assms(1)]
proof (elim disjE exE conjE)
  fix n tmp p bs disk q m1
  assume tmp: "tmp = path_join dir (incoming_name (m_process_id m) n)" "m_dir m tmp = None"
    and p: "progress_ok p object tmp (path_join dir (ro_name object)) bs disk m"
      "dropped tmp (progress_state p dir tmp (path_join dir (ro_name object)) bs disk m) m'"
  have old: "i \<noteq> m_fresh m" if "m_dir m x = Some i" for x i
    using that assms(2) by (auto simp: wf_machine_def)
  from p tmp(2) show ?thesis unfolding inbox_extended_def tmp(1)
    by (cases p)
      (auto simp: progress_ok_def dropped_def same_files_def with_incoming_def with_entry_def with_flushed_def
        dest: old split: if_splits)
qed (auto simp: inbox_extended_def same_files_def)

lemma receive_deletes:
  assumes run: "receive (receiver dir) object (m, w) = Some (r, (m', w'))" and wf: "wf_machine m"
    and name: "\<not> starts_with (ro_name object) ''.incoming-''"
  defines "path \<equiv> path_join dir (ro_name object)"
  shows "(\<forall>x. r \<noteq> Inr x) \<and>
       (w' = w \<or> (\<exists>m0 q m1. rmt_download remote object (fs_write_all (m_fresh m)) (m0, w) = Some (q, (m1, w')))) \<or>
     (\<exists>m0 m1 w1 d. rmt_download remote object (fs_write_all (m_fresh m)) (m0, w) = Some (Inr (), (m1, w1)) \<and>
       rmt_delete remote object w1 = Some (d, w') \<and> local_copy path object (m_data m1 (m_fresh m)) m m' \<and>
       r = (case d of Inl e \<Rightarrow> Inl (RemoteError Delete e)
            | Inr _ \<Rightarrow> Inr (if m_dir m path = None then Persisted path else AlreadyPersisted path)))"
  using receive_phases [OF run]
proof (elim disjE exE conjE)
  fix n tmp p bs disk q m0 m1 w1
  assume tmp: "tmp = path_join dir (incoming_name (m_process_id m) n)" "m_dir m tmp = None"
    and valid: "validate_remote_name (ro_name object) = (Inr () :: 'e receive_error + unit)"
    and p: "progress_ok p object tmp (path_join dir (ro_name object)) bs disk m"
      "dropped tmp (progress_state p dir tmp (path_join dir (ro_name object)) bs disk m) m'"
    and dl: "rmt_download remote object (fs_write_all (m_fresh m)) (m0, w) = Some (q, (m1, w1))"
      "m_data m1 (m_fresh m) = bs" "reached_delete p \<longrightarrow> q = Inr ()"
    and last: "remote_end object p (path_join dir (ro_name object)) r w1 w'"
  have path: "path \<noteq> tmp"
    unfolding path_def tmp(1) by (rule not_incoming [OF valid name])
  have copy: "local_copy path object bs m m'" if "reached_delete p"
  proof (cases p)
    case Durable
    have "in_directory dir path"
      unfolding path_def by (rule in_directory_join [OF validated_name(2) [OF valid]])
    with Durable p path show ?thesis unfolding path_def [symmetric]
      by (auto simp: local_copy_def progress_ok_def dropped_def same_files_def with_incoming_def with_entry_def
          with_flushed_def flushed_directory_def)
  next
    case (Present j)
    with p path wf show ?thesis unfolding path_def [symmetric]
      by (auto simp: local_copy_def progress_ok_def dropped_def same_files_def with_incoming_def wf_machine_def
          split: if_splits)
  qed (use that in \<open>auto simp: reached_delete_def\<close>)
  have new: "m_dir m path = None" if "p = Durable"
    using that p(1) by (auto simp: progress_ok_def path_def)
  have old: "m_dir m path \<noteq> None" if "p = Present j" for j
    using that p(1) path by (auto simp: progress_ok_def path_def with_incoming_def)
  show ?thesis
  proof (cases p)
    case Durable
    with last dl copy new show ?thesis unfolding path_def [symmetric]
      by (auto simp: reached_delete_def)
  next
    case (Present j)
    with last dl copy old show ?thesis unfolding path_def [symmetric]
      by (auto simp: reached_delete_def)
  qed (use last dl in auto)
qed auto

end

end
