(* ===== verification/Gateway.thy ===== *)
theory Gateway
  imports Text_Utils
begin

text \<open>
  \<open>crates/einvoice-transport/src/gateway.rs\<close>: the PFS001 upload notification, its JSON shape
  and the HTTP client.  The crates \<open>serde_json\<close> and \<open>reqwest\<close> are arguments; effects pass an
  explicit world \<open>'w\<close>.
\<close>

section \<open>Notification\<close>

datatype service_type = Exchange | Store

fun service_type_wire :: "service_type \<Rightarrow> string" where
  "service_type_wire Exchange = ''E''"
| "service_type_wire Store = ''S''"

datatype zip_mode = Plain | Zip

fun zip_mode_wire :: "zip_mode \<Rightarrow> string" where
  "zip_mode_wire Plain = ''0''"
| "zip_mode_wire Zip = ''1''"

record gateway_party =
  gp_party_id :: string
  gp_party_description :: "string option"
  gp_routing_id :: string
  gp_routing_description :: "string option"

record gateway_credentials =
  gc_login_id :: string
  gc_login_password :: string

definition gateway_credentials_new :: "string \<Rightarrow> string \<Rightarrow> gateway_credentials" where
  [simp]: "gateway_credentials_new login_id login_password =
     \<lparr>gc_login_id = login_id, gc_login_password = login_password\<rparr>"

record upload_notification =
  un_from :: gateway_party
  un_to :: gateway_party
  un_service_type :: service_type
  un_zip_mode :: zip_mode
  un_message_type :: string
  un_action :: string
  un_quantity :: u32
  un_mig_version :: string
  un_filename :: string
  un_size :: u64
  un_retry :: u32
  un_api_version :: string
  un_turnkey_version :: string

definition INITIAL_RETRY :: u32 where
  "INITIAL_RETRY = 0"

datatype 'j gateway_encode_error =
    IntegerOutOfRange string u64
  | JsonError 'j

definition checked_i32 :: "string \<Rightarrow> u64 \<Rightarrow> 'j gateway_encode_error + i32" where
  "checked_i32 field v = (if uint v < 2 ^ 31 then Inr (ucast v) else Inl (IntegerOutOfRange field v))"

record wire_pfs_party =
  wpp_party_id :: string
  wpp_description :: "string option"

record wire_pfs_routing =
  wpr_routing_id :: string
  wpr_description :: "string option"

record wire_trans =
  wt_party_info :: wire_pfs_party
  wt_routing_info :: wire_pfs_routing

record wire_invoice_event =
  wie_login_id :: string
  wie_login_password :: string
  wie_trans_from :: wire_trans
  wie_trans_to :: wire_trans
  wie_service_type :: string
  wie_message_type :: string
  wie_action :: string
  wie_quantity :: i32
  wie_mig_version :: string
  wie_filename :: string
  wie_size :: i32
  wie_zip :: string
  wie_retry :: i32
  wie_api_version :: string
  wie_turnkey_version :: string

definition wire_trans_of :: "gateway_party \<Rightarrow> wire_trans" where
  "wire_trans_of p =
     \<lparr>wt_party_info = \<lparr>wpp_party_id = gp_party_id p, wpp_description = gp_party_description p\<rparr>,
      wt_routing_info = \<lparr>wpr_routing_id = gp_routing_id p, wpr_description = gp_routing_description p\<rparr>\<rparr>"

text \<open>The argument \<open>to_vec\<close> is \<open>serde_json::to_vec\<close>.\<close>

definition to_pfs001_json ::
  "(wire_invoice_event \<Rightarrow> 'j + bytes) \<Rightarrow> upload_notification \<Rightarrow> gateway_credentials \<Rightarrow>
     'j gateway_encode_error + bytes" where
  "to_pfs001_json to_vec self credentials =
     and_then (checked_i32 ''quantity'' (ucast (un_quantity self))) (\<lambda>quantity.
     and_then (checked_i32 ''size'' (un_size self)) (\<lambda>size.
     and_then (checked_i32 ''retry'' (ucast (un_retry self))) (\<lambda>retry.
       let request =
         \<lparr>wie_login_id = gc_login_id credentials, wie_login_password = gc_login_password credentials,
          wie_trans_from = wire_trans_of (un_from self), wie_trans_to = wire_trans_of (un_to self),
          wie_service_type = service_type_wire (un_service_type self),
          wie_message_type = un_message_type self, wie_action = un_action self,
          wie_quantity = quantity, wie_mig_version = un_mig_version self,
          wie_filename = un_filename self, wie_size = size, wie_zip = zip_mode_wire (un_zip_mode self),
          wie_retry = retry, wie_api_version = un_api_version self,
          wie_turnkey_version = un_turnkey_version self\<rparr>
       in map_err JsonError (to_vec request))))"

section \<open>Status\<close>

record gateway_status_detail =
  gsd_code :: string
  gsd_description :: "string option"
  gsd_parameters :: "string list"

record gateway_process_status =
  gps_status_code :: i32
  gps_details :: "gateway_status_detail list"

definition is_accepted :: "gateway_process_status \<Rightarrow> bool" where
  "is_accepted s \<longleftrightarrow> gps_status_code s = 0"

section \<open>HTTP client\<close>

text \<open>
  \<open>String::from_utf8_lossy\<close>: every maximal invalid prefix of a sequence becomes U+FFFD.
\<close>

definition REPLACEMENT :: bytes where
  "REPLACEMENT = [0xEF, 0xBF, 0xBD]"

fun utf8_lossy :: "bytes \<Rightarrow> bytes" where
  "utf8_lossy [] = []"
| "utf8_lossy (a # s) =
     (if a \<le> 0x7F then a # utf8_lossy s
      else if 0xC2 \<le> a \<and> a \<le> 0xDF then
        (case s of
           [] \<Rightarrow> REPLACEMENT
         | b # t \<Rightarrow> if is_cont b then a # b # utf8_lossy t else REPLACEMENT @ utf8_lossy s)
      else if 0xE0 \<le> a \<and> a \<le> 0xEF then
        (case s of
           [] \<Rightarrow> REPLACEMENT
         | b # t \<Rightarrow>
             if is_cont b \<and> (a = 0xE0 \<longrightarrow> 0xA0 \<le> b) \<and> (a = 0xED \<longrightarrow> b \<le> 0x9F) then
               (case t of
                  [] \<Rightarrow> REPLACEMENT
                | c # u \<Rightarrow> if is_cont c then a # b # c # utf8_lossy u else REPLACEMENT @ utf8_lossy t)
             else REPLACEMENT @ utf8_lossy s)
      else if 0xF0 \<le> a \<and> a \<le> 0xF4 then
        (case s of
           [] \<Rightarrow> REPLACEMENT
         | b # t \<Rightarrow>
             if is_cont b \<and> (a = 0xF0 \<longrightarrow> 0x90 \<le> b) \<and> (a = 0xF4 \<longrightarrow> b \<le> 0x8F) then
               (case t of
                  [] \<Rightarrow> REPLACEMENT
                | c # u \<Rightarrow>
                    if is_cont c then
                      (case u of
                         [] \<Rightarrow> REPLACEMENT
                       | d # v \<Rightarrow>
                           if is_cont d then a # b # c # d # utf8_lossy v
                           else REPLACEMENT @ utf8_lossy u)
                    else REPLACEMENT @ utf8_lossy t)
             else REPLACEMENT @ utf8_lossy s)
      else REPLACEMENT @ utf8_lossy s)"

text \<open>What the client uses of \<open>reqwest\<close> and \<open>serde_json\<close>.\<close>

record ('client, 'status, 'q, 'j, 'w) http_backend =
  hb_build :: "nat \<Rightarrow> nat \<Rightarrow> 'q + 'client"
  hb_post :: "'client \<Rightarrow> string \<Rightarrow> (string \<times> string option) \<Rightarrow> string \<Rightarrow> bytes \<Rightarrow> 'w \<Rightarrow>
                ('q + ('status \<times> ('q + bytes))) \<times> 'w"
  hb_is_success :: "'status \<Rightarrow> bool"
  hb_to_vec :: "wire_invoice_event \<Rightarrow> 'j + bytes"
  hb_from_slice :: "bytes \<Rightarrow> 'j + gateway_process_status"

datatype ('status, 'q, 'j) pfs001_http_error =
    ClientBuildError 'q
  | EncodeError "'j gateway_encode_error"
  | RequestError 'q
  | HttpStatusError 'status string
  | DecodeError 'j

record 'client pfs001_http_client =
  phc_client :: 'client
  phc_endpoint :: string
  phc_credentials :: gateway_credentials

definition DEFAULT_TIMEOUT :: nat where "DEFAULT_TIMEOUT = 120"

definition CONNECT_TIMEOUT :: nat where "CONNECT_TIMEOUT = 10"

definition pfs001_with_timeout ::
  "('client, 'status, 'q, 'j, 'w) http_backend \<Rightarrow> string \<Rightarrow> gateway_credentials \<Rightarrow> nat \<Rightarrow>
     ('status, 'q, 'j) pfs001_http_error + 'client pfs001_http_client" where
  "pfs001_with_timeout hb base_url credentials timeout =
     (let endpoint = trim_end_matches CHR ''/'' base_url @ ''/pfs001i/uploadInvoiceMessage'' in
      and_then (map_err ClientBuildError (hb_build hb CONNECT_TIMEOUT timeout)) (\<lambda>client.
        Inr \<lparr>phc_client = client, phc_endpoint = endpoint, phc_credentials = credentials\<rparr>))"

definition pfs001_new ::
  "('client, 'status, 'q, 'j, 'w) http_backend \<Rightarrow> string \<Rightarrow> gateway_credentials \<Rightarrow>
     ('status, 'q, 'j) pfs001_http_error + 'client pfs001_http_client" where
  "pfs001_new hb base_url credentials = pfs001_with_timeout hb base_url credentials DEFAULT_TIMEOUT"

definition pfs001_notify ::
  "('client, 'status, 'q, 'j, 'w) http_backend \<Rightarrow> 'client pfs001_http_client \<Rightarrow> upload_notification \<Rightarrow>
     'w \<Rightarrow> (('status, 'q, 'j) pfs001_http_error + gateway_process_status) \<times> 'w" where
  "pfs001_notify hb self notification w =
     (case to_pfs001_json (hb_to_vec hb) notification (phc_credentials self) of
        Inl e \<Rightarrow> (Inl (EncodeError e), w)
      | Inr body \<Rightarrow>
          (case hb_post hb (phc_client self) (phc_endpoint self)
                  (gc_login_id (phc_credentials self), Some (gc_login_password (phc_credentials self)))
                  ''application/json'' body w of
             (Inl e, w') \<Rightarrow> (Inl (RequestError e), w')
           | (Inr (status, response), w') \<Rightarrow>
               (case response of
                  Inl e \<Rightarrow> (Inl (RequestError e), w')
                | Inr response_body \<Rightarrow>
                    if \<not> hb_is_success hb status
                    then (Inl (HttpStatusError status (of_bytes (utf8_lossy response_body))), w')
                    else (map_err DecodeError (hb_from_slice hb response_body), w'))))"

section \<open>Properties\<close>

lemma checked_i32_sint:
  assumes "uint v < 2 ^ 31"
  shows "\<exists>r. checked_i32 field v = Inr r \<and> sint r = uint v"
proof -
  have "uint (ucast v :: i32) = uint v"
    using assms by (simp add: unsigned_ucast_eq take_bit_int_eq_self)
  moreover have "- (2 ^ 31) \<le> uint v" by (rule order_trans [of _ 0]) simp_all
  ultimately have "sint (ucast v :: i32) = uint v"
    using assms signed_take_bit_int_eq_self [of 31 "uint v"] by (simp add: sint_uint)
  then show ?thesis using assms by (simp add: checked_i32_def)
qed

lemma uint_ucast_u32 [simp]: "uint (ucast (v :: u32) :: u64) = uint v"
  by (rule uint_up_ucast) (simp add: is_up)

text \<open>A wire event that says what the notification and the credentials say.\<close>

definition faithful_event :: "upload_notification \<Rightarrow> gateway_credentials \<Rightarrow> wire_invoice_event \<Rightarrow> bool" where
  "faithful_event n creds r \<longleftrightarrow>
     sint (wie_quantity r) = uint (un_quantity n) \<and> sint (wie_size r) = uint (un_size n) \<and>
     sint (wie_retry r) = uint (un_retry n) \<and> wie_filename r = un_filename n \<and>
     wie_message_type r = un_message_type n \<and> wie_action r = un_action n \<and>
     wie_mig_version r = un_mig_version n \<and> wie_zip r = zip_mode_wire (un_zip_mode n) \<and>
     wie_service_type r = service_type_wire (un_service_type n) \<and>
     wie_trans_from r = wire_trans_of (un_from n) \<and> wie_trans_to r = wire_trans_of (un_to n) \<and>
     wie_login_id r = gc_login_id creds \<and> wie_login_password r = gc_login_password creds"

text \<open>
  C38.  Numbers are never truncated on the way into the notification: when
  one of quantity, size and retry exceeds the range of the gateway's \<open>int32\<close> the first such
  field is reported and nothing is serialised; otherwise what is serialised says exactly what
  the notification says, numbers included, with the credentials of the call.
\<close>

theorem pfs001_numbers_exact:
  "case to_pfs001_json to_vec n creds of
     Inl (IntegerOutOfRange field v) \<Rightarrow>
       (field, v) = (if 2 ^ 31 \<le> uint (un_quantity n) then (''quantity'', ucast (un_quantity n))
          else if 2 ^ 31 \<le> uint (un_size n) then (''size'', un_size n)
          else (''retry'', ucast (un_retry n))) \<and>
       2 ^ 31 \<le> uint v
   | Inl (JsonError e) \<Rightarrow> \<exists>r. faithful_event n creds r \<and> to_vec r = Inl e
   | Inr body \<Rightarrow> \<exists>r. faithful_event n creds r \<and> to_vec r = Inr body"
proof -
  consider "2 ^ 31 \<le> uint (un_quantity n) \<or> 2 ^ 31 \<le> uint (un_size n) \<or> 2 ^ 31 \<le> uint (un_retry n)"
    | q s r where "uint (un_quantity n) < 2 ^ 31" "sint q = uint (un_quantity n)"
      "uint (un_size n) < 2 ^ 31" "sint s = uint (un_size n)"
      "uint (un_retry n) < 2 ^ 31" "sint r = uint (un_retry n)"
      "checked_i32 ''quantity'' (ucast (un_quantity n)) = (Inr q :: 'a gateway_encode_error + i32)"
      "checked_i32 ''size'' (un_size n) = (Inr s :: 'a gateway_encode_error + i32)"
      "checked_i32 ''retry'' (ucast (un_retry n)) = (Inr r :: 'a gateway_encode_error + i32)"
    using checked_i32_sint [of "ucast (un_quantity n)" "''quantity''"] checked_i32_sint [of "un_size n" "''size''"]
      checked_i32_sint [of "ucast (un_retry n)" "''retry''"]
    by (metis linorder_not_le uint_ucast_u32)
  then show ?thesis
  proof cases
    case 1
    then show ?thesis by (auto simp: to_pfs001_json_def checked_i32_def)
  next
    case (2 q s r)
    define w where "w =
         \<lparr>wie_login_id = gc_login_id creds, wie_login_password = gc_login_password creds,
          wie_trans_from = wire_trans_of (un_from n), wie_trans_to = wire_trans_of (un_to n),
          wie_service_type = service_type_wire (un_service_type n),
          wie_message_type = un_message_type n, wie_action = un_action n,
          wie_quantity = q, wie_mig_version = un_mig_version n,
          wie_filename = un_filename n, wie_size = s, wie_zip = zip_mode_wire (un_zip_mode n),
          wie_retry = r, wie_api_version = un_api_version n,
          wie_turnkey_version = un_turnkey_version n\<rparr>"
    have w: "faithful_event n creds w" "to_pfs001_json to_vec n creds = map_err JsonError (to_vec w)"
      using 2 by (simp_all add: to_pfs001_json_def faithful_event_def w_def)
    show ?thesis unfolding w(2) using w(1) by (cases "to_vec w") auto
  qed
qed

end
