(* ===== verification/Package.thy ===== *)
theory Package
  imports Gateway
begin

text \<open>
  \<open>crates/einvoice-transport/src/package.rs\<close>: the object uploaded over SFTP and the metadata
  derived from it.  The ZIP writer of the crate \<open>zip\<close> is an argument.
\<close>

definition MAX_SIGNED_SOURCE_BYTES :: nat where
  "MAX_SIGNED_SOURCE_BYTES = 20 * 1024 * 1024"

record prepared_upload_object =
  puo_remote_filename :: string
  puo_uploaded_bytes :: bytes
  puo_notification_size :: u64
  puo_zip_mode :: zip_mode

datatype ('z, 'io) prepare_upload_error =
    InvalidFilename string
  | SourceTooLarge nat nat
  | LengthOutOfRange
  | ZipError 'z
  | ZipIoError 'io

record ('h, 'z, 'io) zip_writer =
  zw_new :: 'h
  zw_start_file :: "string \<Rightarrow> 'h \<Rightarrow> 'z + 'h"
  zw_write_all :: "bytes \<Rightarrow> 'h \<Rightarrow> 'io + 'h"
  zw_finish :: "'h \<Rightarrow> 'z + bytes"

definition zip_single_entry ::
  "('h, 'z, 'io) zip_writer \<Rightarrow> string \<Rightarrow> bytes \<Rightarrow> ('z, 'io) prepare_upload_error + bytes" where
  "zip_single_entry zw filename bytes =
     and_then (map_err ZipError (zw_start_file zw filename (zw_new zw))) (\<lambda>writer.
     and_then (map_err ZipIoError (zw_write_all zw bytes writer)) (\<lambda>writer.
       map_err ZipError (zw_finish zw writer)))"

definition validate_basename :: "string \<Rightarrow> string \<Rightarrow> ('z, 'io) prepare_upload_error + unit" where
  "validate_basename field v =
     (if v = [] \<or> v = ''.'' \<or> v = ''..'' \<or> contains v CHR ''/'' \<or> contains v CHR 0x5C \<or> contains v CHR 0x00
      then Inl (InvalidFilename field) else Inr ())"

definition prepare_upload_object ::
  "('h, 'z, 'io) zip_writer \<Rightarrow> string \<Rightarrow> string \<Rightarrow> bytes \<Rightarrow> zip_mode \<Rightarrow>
     ('z, 'io) prepare_upload_error + prepared_upload_object" where
  "prepare_upload_object zw signed_local_filename remote_filename signed_bytes zip_mode =
     and_then (validate_basename ''signed local filename'' signed_local_filename) (\<lambda>_.
     and_then (validate_basename ''remote filename'' remote_filename) (\<lambda>_.
       if length signed_bytes > MAX_SIGNED_SOURCE_BYTES
       then Inl (SourceTooLarge (length signed_bytes) MAX_SIGNED_SOURCE_BYTES)
       else
         and_then (if length signed_bytes < 2 ^ 64 then Inr (of_nat (length signed_bytes))
                   else Inl LengthOutOfRange) (\<lambda>notification_size.
         and_then (case zip_mode of
                     Plain \<Rightarrow> Inr signed_bytes
                   | Zip \<Rightarrow> zip_single_entry zw signed_local_filename signed_bytes) (\<lambda>uploaded_bytes.
           Inr \<lparr>puo_remote_filename = remote_filename, puo_uploaded_bytes = uploaded_bytes,
                puo_notification_size = notification_size, puo_zip_mode = zip_mode\<rparr>))))"

section \<open>Properties\<close>

text \<open>A name that cannot leave its directory.\<close>

definition safe_basename :: "string \<Rightarrow> bool" where
  "safe_basename v \<longleftrightarrow> v \<notin> {[], ''.'', ''..''} \<and> set v \<inter> {CHR ''/'', CHR 0x5C, CHR 0x00} = {}"

lemma validate_basename_iff: "validate_basename field v = (if safe_basename v then Inr () else Inl (InvalidFilename field))"
  by (auto simp: validate_basename_def safe_basename_def)

definition upload_bytes_of :: "('h, 'z, 'io) zip_writer \<Rightarrow> string \<Rightarrow> bytes \<Rightarrow> zip_mode \<Rightarrow>
    ('z, 'io) prepare_upload_error + bytes" where
  "upload_bytes_of zw name bytes mode = (case mode of Plain \<Rightarrow> Inr bytes | Zip \<Rightarrow> zip_single_entry zw name bytes)"

lemma prepare_upload_Inr:
  "prepare_upload_object zw local remote bytes mode = Inr p \<longleftrightarrow>
     safe_basename local \<and> safe_basename remote \<and> length bytes \<le> MAX_SIGNED_SOURCE_BYTES \<and>
     (\<exists>up. upload_bytes_of zw local bytes mode = Inr up \<and>
        p = \<lparr>puo_remote_filename = remote, puo_uploaded_bytes = up,
             puo_notification_size = of_nat (length bytes), puo_zip_mode = mode\<rparr>)"
  by (auto simp: prepare_upload_object_def validate_basename_iff and_then_Inr upload_bytes_of_def
      MAX_SIGNED_SOURCE_BYTES_def split: if_splits)

lemma prepared_size:
  assumes "prepare_upload_object zw local remote bytes mode = Inr p"
  shows "uint (puo_notification_size p) = int (length bytes) \<and> uint (puo_notification_size p) < 2 ^ 31"
proof -
  from assms have "length bytes \<le> 20971520" and p: "puo_notification_size p = of_nat (length bytes)"
    by (auto simp: prepare_upload_Inr MAX_SIGNED_SOURCE_BYTES_def)
  moreover from this have "unat (of_nat (length bytes) :: u64) = length bytes"
    by (simp add: unat_of_nat)
  ultimately show ?thesis by (simp add: uint_nat)
qed

text \<open>
  Preparation succeeds exactly when both names are safe basenames, the
  signed source has at most 20 MiB and the ZIP writer (in ZIP mode) succeeds; it then uploads
  the very signed bytes, or the archive with one entry under the local name, under the remote
  name unchanged, and reports the length of the signed source, not of the archive.
\<close>

theorem prepare_upload_exact:
  "prepare_upload_object zw local remote bytes mode = Inr p \<longleftrightarrow>
     safe_basename local \<and> safe_basename remote \<and> length bytes \<le> 20971520 \<and>
     puo_remote_filename p = remote \<and> puo_zip_mode p = mode \<and>
     uint (puo_notification_size p) = int (length bytes) \<and>
     (case mode of
        Plain \<Rightarrow> puo_uploaded_bytes p = bytes
      | Zip \<Rightarrow> \<exists>h1 h2. zw_start_file zw local (zw_new zw) = Inr h1 \<and> zw_write_all zw bytes h1 = Inr h2 \<and>
          zw_finish zw h2 = Inr (puo_uploaded_bytes p))"
proof -
  have size: "puo_notification_size p = of_nat (length bytes) \<longleftrightarrow>
      uint (puo_notification_size p) = int (length bytes)" if "length bytes \<le> 20971520"
  proof -
    have "uint (of_nat (length bytes) :: u64) = int (length bytes)"
      using that by (simp add: unsigned_of_nat take_bit_nat_eq_self uint_nat)
    then show ?thesis by (simp add: word_uint_eq_iff)
  qed
  have "prepare_upload_object zw local remote bytes mode = Inr p \<longleftrightarrow>
     safe_basename local \<and> safe_basename remote \<and> length bytes \<le> 20971520 \<and>
     upload_bytes_of zw local bytes mode = Inr (puo_uploaded_bytes p) \<and> puo_remote_filename p = remote \<and>
     puo_notification_size p = of_nat (length bytes) \<and> puo_zip_mode p = mode"
    unfolding prepare_upload_Inr by (cases p) (auto simp: MAX_SIGNED_SOURCE_BYTES_def)
  with size show ?thesis
    by (cases mode) (auto simp: upload_bytes_of_def zip_single_entry_def and_then_Inr map_err_Inr)
qed

end
