(* ===== verification/Ber.thy ===== *)
theory Ber
  imports Prelude
begin

unbundle bit_operations_syntax

text \<open>
  \<open>crates/einvoice-signing/src/ber.rs\<close>: the single-signer CMS layout of the Turnkey, written
  with indefinite-length containers around definite-length values.  Lengths are \<open>usize\<close> (64
  bits): an encoded buffer always has fewer than \<open>2 ^ 64\<close> bytes.  Buffer capacities, which
  only pre-allocate, are modelled for \<open>tlv\<close> (\<open>encoded_length_size\<close>).
\<close>

section \<open>Encoding\<close>

datatype signature_algorithm = RsaPkcs1v15Sha256 | EcdsaSha256

fun signature_algorithm_oid :: "signature_algorithm \<Rightarrow> string" where
  "signature_algorithm_oid RsaPkcs1v15Sha256 = ''1.2.840.113549.1.1.11''"
| "signature_algorithm_oid EcdsaSha256 = ''1.2.840.10045.4.3.2''"

definition EOC :: bytes where "EOC = [0x00, 0x00]"

definition ASN1_NULL :: bytes where "ASN1_NULL = [0x05, 0x00]"

definition OID_SIGNED_DATA :: bytes where
  "OID_SIGNED_DATA = [0x06, 0x09, 0x2a, 0x86, 0x48, 0x86, 0xf7, 0x0d, 0x01, 0x07, 0x02]"

definition OID_DATA :: bytes where
  "OID_DATA = [0x06, 0x09, 0x2a, 0x86, 0x48, 0x86, 0xf7, 0x0d, 0x01, 0x07, 0x01]"

definition OID_SHA256 :: bytes where
  "OID_SHA256 = [0x06, 0x09, 0x60, 0x86, 0x48, 0x01, 0x65, 0x03, 0x04, 0x02, 0x01]"

definition OID_SHA256_WITH_RSA :: bytes where
  "OID_SHA256_WITH_RSA = [0x06, 0x09, 0x2a, 0x86, 0x48, 0x86, 0xf7, 0x0d, 0x01, 0x01, 0x0b]"

definition OID_ECDSA_WITH_SHA256 :: bytes where
  "OID_ECDSA_WITH_SHA256 = [0x06, 0x08, 0x2a, 0x86, 0x48, 0xce, 0x3d, 0x04, 0x03, 0x02]"

record cms_parts =
  cp_content :: bytes
  cp_certificate_der :: bytes
  cp_issuer_name_der :: bytes
  cp_serial_number :: bytes
  cp_signature_algorithm :: signature_algorithm
  cp_signature :: bytes

text \<open>The \<open>k\<close> low bytes of a number, most significant first; \<open>usize::to_be_bytes\<close> has eight.\<close>

fun be_bytes :: "nat \<Rightarrow> nat \<Rightarrow> bytes" where
  "be_bytes 0 n = []"
| "be_bytes (Suc k) n = be_bytes k (n div 256) @ [of_nat (n mod 256)]"

definition usize_to_be_bytes :: "nat \<Rightarrow> bytes" where
  "usize_to_be_bytes n = be_bytes 8 n"

text \<open>\<open>iter().position(..)\<close>.\<close>

fun position :: "('a \<Rightarrow> bool) \<Rightarrow> 'a list \<Rightarrow> nat option" where
  "position P [] = None"
| "position P (x # xs) = (if P x then Some 0 else map_option Suc (position P xs))"

text \<open>
  The \<open>expect\<close> of both functions is \<^const>\<open>the\<close>; lemma \<open>first_nonzero_exists\<close> shows that it
  never meets \<^const>\<open>None\<close> on a length of 128 or more.
\<close>

definition encoded_length_size :: "nat \<Rightarrow> nat" where
  "encoded_length_size len =
     (if len < 128 then 1
      else let bytes = usize_to_be_bytes len;
               first_nonzero = the (position (\<lambda>byte. byte \<noteq> 0) bytes)
           in 1 + length bytes - first_nonzero)"

definition write_length :: "nat \<Rightarrow> bytes \<Rightarrow> bytes" where
  "write_length len out =
     (if len < 128 then out @ [of_nat len]
      else
        let bytes = usize_to_be_bytes len;
            first_nonzero = the (position (\<lambda>byte. byte \<noteq> 0) bytes);
            significant = drop first_nonzero bytes;
            out = out @ [0x80 OR of_nat (length significant)]
        in out @ significant)"

definition tlv :: "u8 \<Rightarrow> bytes \<Rightarrow> bytes" where
  "tlv tag body = (let encoded = [tag]; encoded = write_length (length body) encoded in encoded @ body)"

definition constructed :: "u8 \<Rightarrow> bytes list \<Rightarrow> bytes" where
  "constructed tag elements = tlv tag (concat elements)"

definition ber_sequence :: "bytes list \<Rightarrow> bytes" where
  "ber_sequence elements = constructed 0x30 elements"

definition ber_set :: "bytes list \<Rightarrow> bytes" where
  "ber_set elements = constructed 0x31 elements"

definition octet_string :: "bytes \<Rightarrow> bytes" where
  "octet_string bytes = tlv 0x04 bytes"

definition integer_one :: bytes where
  "integer_one = [0x02, 0x01, 0x01]"

definition positive_integer :: "bytes \<Rightarrow> bytes" where
  "positive_integer bytes =
     (let body =
            (if bytes = [] then [0]
             else
               let first_nonzero =
                     (case position (\<lambda>byte. byte \<noteq> 0) bytes of
                        Some i \<Rightarrow> i | None \<Rightarrow> length bytes - 1)
               in drop first_nonzero bytes);
          body = (if body ! 0 AND 0x80 \<noteq> 0 then 0 # body else body)
      in tlv 0x02 body)"

definition algorithm_identifier :: "bytes \<Rightarrow> bytes" where
  "algorithm_identifier oid = ber_sequence [oid, ASN1_NULL]"

definition open_indefinite :: "u8 \<Rightarrow> bytes \<Rightarrow> bytes" where
  "open_indefinite tag out = out @ [tag, 0x80]"

definition close_indefinite :: "bytes \<Rightarrow> bytes" where
  "close_indefinite out = out @ EOC"

definition encode_turnkey_signed_data :: "cms_parts \<Rightarrow> bytes" where
  "encode_turnkey_signed_data parts =
     (let digest_algorithm = algorithm_identifier OID_SHA256;
          signature_algorithm =
            (case cp_signature_algorithm parts of
               RsaPkcs1v15Sha256 \<Rightarrow> algorithm_identifier OID_SHA256_WITH_RSA
             | EcdsaSha256 \<Rightarrow> algorithm_identifier OID_ECDSA_WITH_SHA256);
          issuer_and_serial =
            ber_sequence [cp_issuer_name_der parts, positive_integer (cp_serial_number parts)];
          signer_info =
            ber_sequence [integer_one, issuer_and_serial, digest_algorithm, signature_algorithm,
              octet_string (cp_signature parts)];
          out = [];
          out = open_indefinite 0x30 out;
          out = out @ OID_SIGNED_DATA;
          out = open_indefinite 0xa0 out;
          out = open_indefinite 0x30 out;
          out = out @ integer_one;
          out = out @ ber_set [digest_algorithm];
          out = open_indefinite 0x30 out;
          out = out @ OID_DATA;
          out = open_indefinite 0xa0 out;
          out = out @ octet_string (cp_content parts);
          out = close_indefinite out;
          out = close_indefinite out;
          out = open_indefinite 0xa0 out;
          out = out @ cp_certificate_der parts;
          out = close_indefinite out;
          out = out @ ber_set [signer_info];
          out = close_indefinite out;
          out = close_indefinite out;
          out = close_indefinite out
      in out)"

section \<open>Numbers in bytes\<close>

definition be_nat :: "bytes \<Rightarrow> nat" where
  "be_nat bs = foldl (\<lambda>n b. n * 256 + unat b) 0 bs"

lemma be_nat_snoc [simp]: "be_nat (bs @ [b]) = be_nat bs * 256 + unat b"
  by (simp add: be_nat_def)

lemma be_nat_Nil [simp]: "be_nat [] = 0"
  by (simp add: be_nat_def)

lemma length_be_bytes [simp]: "length (be_bytes k n) = k"
  by (induction k n rule: be_bytes.induct) simp_all

lemma unat_of_nat_u8: "unat (of_nat n :: u8) = n mod 256"
  by (simp add: unat_of_nat)

lemma be_nat_be_bytes: "be_nat (be_bytes k n) = n mod 256 ^ k"
proof (induction k n rule: be_bytes.induct)
  case (2 k n)
  have "n mod (256 * 256 ^ k) = 256 * (n div 256 mod 256 ^ k) + n mod 256"
    by (rule mod_mult2_eq)
  with 2 show ?case by (simp add: unat_of_nat_u8 mult.commute)
qed simp

lemma be_nat_usize: "n < 2 ^ 64 \<Longrightarrow> be_nat (usize_to_be_bytes n) = n"
  by (simp add: usize_to_be_bytes_def be_nat_be_bytes)

lemma be_nat_zero_cons [simp]: "be_nat (0 # bs) = be_nat bs"
  by (simp add: be_nat_def)

lemma be_nat_dropWhile [simp]: "be_nat (dropWhile (\<lambda>b. b = 0) bs) = be_nat bs"
  by (induction bs) auto

lemma be_nat_zeros: "\<forall>b \<in> set bs. b = 0 \<Longrightarrow> be_nat bs = 0"
  by (induction bs) auto

lemma position_None: "position P xs = None \<longleftrightarrow> (\<forall>x \<in> set xs. \<not> P x)"
  by (induction xs) auto

lemma drop_position: "position P xs = Some i \<Longrightarrow> drop i xs = dropWhile (\<lambda>x. \<not> P x) xs"
  by (induction xs arbitrary: i) (auto split: if_splits)

lemma position_less: "position P xs = Some i \<Longrightarrow> i < length xs"
  by (induction xs arbitrary: i) (auto split: if_splits)

lemma first_nonzero_exists:
  assumes "0 < n" and "n < 2 ^ 64"
  shows "\<exists>i. position (\<lambda>byte. byte \<noteq> 0) (usize_to_be_bytes n) = Some i"
proof (rule ccontr)
  assume "\<not> ?thesis"
  then have "position (\<lambda>byte. byte \<noteq> 0) (usize_to_be_bytes n) = None" by simp
  then have "\<forall>b \<in> set (usize_to_be_bytes n). b = 0" unfolding position_None by blast
  then have "be_nat (usize_to_be_bytes n) = 0" by (rule be_nat_zeros)
  with be_nat_usize [OF assms(2)] assms(1) show False by linarith
qed

definition significant_bytes :: "nat \<Rightarrow> bytes" where
  "significant_bytes n = dropWhile (\<lambda>b. b = 0) (usize_to_be_bytes n)"

lemma significant_drop:
  assumes "0 < n" and "n < 2 ^ 64"
  shows "drop (the (position (\<lambda>byte. byte \<noteq> 0) (usize_to_be_bytes n))) (usize_to_be_bytes n) =
    significant_bytes n"
  using first_nonzero_exists [OF assms] drop_position [of "\<lambda>byte. byte \<noteq> 0" "usize_to_be_bytes n"]
  by (auto simp: significant_bytes_def)

lemma significant_bytes_props:
  assumes "n < 2 ^ 64"
  shows "be_nat (significant_bytes n) = n" and "length (significant_bytes n) \<le> 8"
    and "0 < n \<Longrightarrow> significant_bytes n \<noteq> []"
proof -
  show v: "be_nat (significant_bytes n) = n"
    by (simp add: significant_bytes_def be_nat_usize [OF assms])
  show "length (significant_bytes n) \<le> 8"
    using length_dropWhile_le [of "\<lambda>b. b = 0" "usize_to_be_bytes n"]
    by (simp add: significant_bytes_def usize_to_be_bytes_def)
  show "0 < n \<Longrightarrow> significant_bytes n \<noteq> []" using v by auto
qed

section \<open>Lengths\<close>

text \<open>Reading a definite length: the short form, or a byte count and that many bytes.\<close>

fun read_length :: "bytes \<Rightarrow> (nat \<times> bytes) option" where
  "read_length [] = None"
| "read_length (b # bs) =
     (if b < 0x80 then Some (unat b, bs)
      else let k = unat b - 128 in
        if k = 0 \<or> length bs < k then None else Some (be_nat (take k bs), drop k bs))"

lemma long_form_byte:
  assumes "k \<le> 8"
  shows "unat (0x80 OR of_nat k :: u8) = 128 + k"
proof -
  have "k \<in> {0, 1, 2, 3, 4, 5, 6, 7, 8}" using assms by auto
  then show ?thesis by auto
qed

lemma write_length_long:
  "128 \<le> n \<Longrightarrow> n < 2 ^ 64 \<Longrightarrow>
     write_length n out = out @ (0x80 OR of_nat (length (significant_bytes n))) # significant_bytes n"
  using significant_drop [of n] by (simp add: write_length_def Let_def del: length_drop)

lemma write_length_prefix: "write_length n out = out @ write_length n []"
  by (simp add: write_length_def Let_def)

lemma read_write_length:
  assumes "n < 2 ^ 64"
  shows "read_length (write_length n [] @ rest) = Some (n, rest)"
proof (cases "n < 128")
  case True
  then have "(of_nat n :: u8) < 0x80" by (simp add: word_less_nat_alt unat_of_nat_u8)
  with True show ?thesis by (simp add: write_length_def unat_of_nat_u8)
next
  case False
  note p = significant_bytes_props [OF assms]
  let ?s = "significant_bytes n" and ?b = "0x80 OR of_nat (length (significant_bytes n)) :: u8"
  have b: "unat ?b = 128 + length ?s" by (rule long_form_byte [OF p(2)])
  then have "\<not> ?b < 0x80" by (simp add: word_less_nat_alt)
  moreover have "?s \<noteq> []" using p(3) False by simp
  ultimately show ?thesis
    using False assms b p(1) by (simp add: write_length_long)
qed

lemma length_write_length: "n < 2 ^ 64 \<Longrightarrow> length (write_length n []) = encoded_length_size n"
proof (cases "n < 128")
  case False
  assume n: "n < 2 ^ 64"
  with False obtain i where i: "position (\<lambda>byte. byte \<noteq> 0) (usize_to_be_bytes n) = Some i"
    using first_nonzero_exists [of n] by auto
  from position_less [OF i] show ?thesis
    using False i by (simp add: write_length_def encoded_length_size_def Let_def)
qed (simp add: write_length_def encoded_length_size_def)

text \<open>Reading one definite-length value: tag, contents, rest.\<close>

fun read_tlv :: "bytes \<Rightarrow> (u8 \<times> bytes \<times> bytes) option" where
  "read_tlv [] = None"
| "read_tlv (tag # bs) =
     (case read_length bs of
        None \<Rightarrow> None
      | Some (n, rest) \<Rightarrow> if length rest < n then None else Some (tag, take n rest, drop n rest))"

lemma tlv_bytes: "tlv tag body = tag # write_length (length body) [] @ body"
  using write_length_prefix [of "length body" "[tag]"] by (simp add: tlv_def)

lemma read_tlv_tlv: "length body < 2 ^ 64 \<Longrightarrow> read_tlv (tlv tag body @ rest) = Some (tag, body, rest)"
  by (simp add: tlv_bytes read_write_length)

lemma length_body_tlv: "length body < length (tlv tag body)"
  by (simp add: tlv_bytes)

text \<open>
  A tag-length-value is read back: decoding its definite length (short or
  long form) gives the tag, exactly the contents and what follows, and the capacity reserved
  for it is exactly its size; so the \<open>expect\<close>s on its length cannot fail.
\<close>

theorem tlv_roundtrip:
  assumes "length body < 2 ^ 64"
  shows "read_tlv (tlv tag body @ rest) = Some (tag, body, rest) \<and>
    length (tlv tag body) = 1 + encoded_length_size (length body) + length body"
  using assms read_tlv_tlv [of body tag rest] by (simp add: tlv_bytes length_write_length)

theorem tlv_roundtrip_witness:
  "read_tlv (tlv 0x04 (replicate 200 7) @ [1]) = Some (0x04, replicate 200 7, [1]) \<and>
   length (tlv 0x04 (replicate 200 (7 :: u8))) = 1 + encoded_length_size 200 + 200"
  using tlv_roundtrip [of "replicate 200 7" "0x04" "[1]"] by simp

end
