(* ===== verification/Signing.thy ===== *)
theory Signing
  imports Ber Text_Utils "HOL-Library.Monad_Syntax"
begin

text \<open>
  \<open>crates/einvoice-signing/src/lib.rs\<close> and \<open>pfx.rs\<close>: encoded CMS, its text armor, the
  \<open>CmsSigner\<close> boundary (locale \<open>cms_signer\<close>) and the PFX signer.  Base64 (crate \<open>base64\<close>) and
  OpenSSL are arguments of the definitions that call them.
\<close>

section \<open>Signing profile\<close>

datatype digest_algorithm = Sha256

fun digest_algorithm_oid :: "digest_algorithm \<Rightarrow> string" where
  "digest_algorithm_oid Sha256 = ''2.16.840.1.101.3.4.2.1''"

datatype cms_content_mode = Attached

datatype cms_encoding = BerIndefiniteLength

record turnkey_cms_profile =
  tcp_digest :: digest_algorithm
  tcp_content_mode :: cms_content_mode
  tcp_encoding :: cms_encoding
  tcp_include_certificate :: bool
  tcp_signed_attributes :: bool

definition default_cms_profile :: turnkey_cms_profile where
  "default_cms_profile =
     \<lparr>tcp_digest = Sha256, tcp_content_mode = Attached, tcp_encoding = BerIndefiniteLength,
      tcp_include_certificate = True, tcp_signed_attributes = False\<rparr>"

section \<open>CmsSignedData and its armor\<close>

datatype cms_signed_data = CmsSignedData (as_encoded: bytes)

datatype signed_data_error = EmptySignedData

definition cms_from_encoded :: "bytes \<Rightarrow> signed_data_error + cms_signed_data" where
  "cms_from_encoded bytes = (if bytes = [] then Inl EmptySignedData else Inr (CmsSignedData bytes))"

definition LINE_MASK :: nat where
  "LINE_MASK = 63"

fun armor_loop :: "nat \<Rightarrow> string \<Rightarrow> string \<Rightarrow> string" where
  "armor_loop index [] out = out"
| "armor_loop index (character # characters) out =
     (let out = out @ [character];
          out = (if (index + 1) AND LINE_MASK = 0 then out @ [lf] else out)
      in armor_loop (Suc index) characters out)"

text \<open>The argument \<open>encode\<close> is Base64's \<open>STANDARD.encode\<close>.\<close>

definition to_turnkey_armored :: "(bytes \<Rightarrow> string) \<Rightarrow> cms_signed_data \<Rightarrow> string" where
  "to_turnkey_armored encode cms =
     (let encoded = encode (as_encoded cms);
          out = armor_loop 0 encoded []
      in if length encoded AND LINE_MASK \<noteq> 0 then out @ [lf] else out)"

text \<open>Lines of 64 characters, the last one shorter if need be.\<close>

fun chunks :: "string \<Rightarrow> string list" where
  "chunks s = (if s = [] then [] else take 64 s # chunks (drop 64 s))"

declare chunks.simps [simp del]

lemma and_line_mask: "n AND LINE_MASK = n mod 64"
  using take_bit_eq_mask [of 6 n] by (simp add: LINE_MASK_def mask_eq_exp_minus_1 take_bit_eq_mod)

lemma armor_loop_out: "armor_loop i s out = out @ armor_loop i s []"
proof (induction s arbitrary: i out)
  case (Cons c s)
  show ?case by (simp only: armor_loop.simps Let_def) (subst (1 2) Cons.IH, simp)
qed simp

lemma armor_loop_append: "armor_loop i (s @ t) out = armor_loop (i + length s) t (armor_loop i s out)"
  by (induction s arbitrary: i out) (simp_all add: Let_def)

lemma armor_loop_short: "i mod 64 + length s < 64 \<Longrightarrow> armor_loop i s out = out @ s"
proof (induction s arbitrary: i out)
  case (Cons c s)
  then have "Suc i mod 64 = Suc (i mod 64)" by (simp add: mod_Suc)
  with Cons show ?case by (simp add: and_line_mask Let_def)
qed simp

lemma armor_loop_line:
  assumes "i mod 64 = 0" and "length s = 64"
  shows "armor_loop i s out = out @ s @ [lf]"
proof -
  obtain t c where s: "s = t @ [c]" using assms(2) by (cases s rule: rev_cases) auto
  then have "armor_loop i t out = out @ t" using assms by (simp add: armor_loop_short)
  moreover have "Suc (i + length t) mod 64 = 0" using assms s by (simp add: mod_Suc_eq)
  ultimately show ?thesis by (simp add: s armor_loop_append and_line_mask Let_def)
qed

lemma armor_chunks:
  "i mod 64 = 0 \<Longrightarrow>
     (let out = armor_loop i s [] in if length s mod 64 \<noteq> 0 then out @ [lf] else out) =
     concat (map (\<lambda>l. l @ [lf]) (chunks s))"
proof (induction s arbitrary: i rule: chunks.induct)
  case (1 s)
  consider "s = []" | "s \<noteq> []" "length s < 64" | "64 \<le> length s" by linarith
  then show ?case
  proof cases
    case 1
    then show ?thesis by (simp add: chunks.simps)
  next
    case 2
    with "1.prems" show ?thesis
      by (simp add: armor_loop_short chunks.simps [of s] chunks.simps [of "[]"] Let_def)
  next
    case 3
    then have s: "s \<noteq> []" "length (take 64 s) = 64" "(i + 64) mod 64 = 0"
      "length s mod 64 = length (drop 64 s) mod 64"
      using "1.prems" by (auto simp: le_mod_geq)
    have "armor_loop i s [] = armor_loop i (take 64 s @ drop 64 s) []" by simp
    also have "\<dots> = armor_loop (i + 64) (drop 64 s) (take 64 s @ [lf])"
      unfolding armor_loop_append using armor_loop_line [OF "1.prems" s(2)] s(2) by simp
    also have "\<dots> = (take 64 s @ [lf]) @ armor_loop (i + 64) (drop 64 s) []"
      by (rule armor_loop_out)
    finally show ?thesis
      using "1.IH" [OF s(1,3)] s by (simp add: chunks.simps [of s] Let_def split: if_splits)
  qed
qed

lemma armored_chunks: "to_turnkey_armored encode cms = concat (map (\<lambda>l. l @ [lf]) (chunks (encode (as_encoded cms))))"
  using armor_chunks [of 0 "encode (as_encoded cms)"]
  by (simp add: to_turnkey_armored_def and_line_mask Let_def)

lemma concat_chunks [simp]: "concat (chunks s) = s"
  by (induction s rule: chunks.induct) (subst chunks.simps, simp)

lemma chunk_length: "l \<in> set (chunks s) \<Longrightarrow> 1 \<le> length l \<and> length l \<le> 64"
proof (induction s rule: chunks.induct)
  case (1 s)
  from "1.prems" have "s \<noteq> []" "l = take 64 s \<or> l \<in> set (chunks (drop 64 s))"
    by (subst (asm) chunks.simps; auto split: if_splits)+
  with "1.IH" show ?case by (cases s) auto
qed

lemma chunk_full: "l \<in> set (butlast (chunks s)) \<Longrightarrow> length l = 64"
proof (induction s rule: chunks.induct)
  case (1 s)
  from "1.prems" have s: "s \<noteq> []" by (subst (asm) chunks.simps) (auto split: if_splits)
  then have c: "chunks s = take 64 s # chunks (drop 64 s)" by (simp add: chunks.simps [of s])
  show ?case
  proof (cases "chunks (drop 64 s) = []")
    case False
    then have "drop 64 s \<noteq> []" by (auto simp: chunks.simps [of "[]"])
    with "1.prems" "1.IH" [OF s] False c show ?thesis by auto
  qed (use "1.prems" c in simp)
qed

lemma filter_armor:
  "lf \<notin> set (concat ls) \<Longrightarrow> filter (\<lambda>c. c \<noteq> lf) (concat (map (\<lambda>l. l @ [lf]) ls)) = concat ls"
proof (induction ls)
  case (Cons l ls)
  then have "filter (\<lambda>c. c \<noteq> lf) l = l" by (auto simp: filter_id_conv)
  with Cons show ?case by simp
qed simp

text \<open>
  The armor of a signed message is its Base64 text cut into lines of 64
  characters, only the last of which may be shorter (but not empty), each ended by LF; no
  header, no trailer.
\<close>

theorem armor_lines_exact:
  "\<exists>ls. to_turnkey_armored encode cms = concat (map (\<lambda>l. l @ [lf]) ls) \<and>
     concat ls = encode (as_encoded cms) \<and>
     list_all (\<lambda>l. length l = 64) (butlast ls) \<and>
     list_all (\<lambda>l. 1 \<le> length l \<and> length l \<le> 64) ls"
  using armored_chunks [of encode cms] chunk_full chunk_length
  by (intro exI [of _ "chunks (encode (as_encoded cms))"]) (auto simp: list_all_iff)

lemma armor_dearmor:
  assumes "lf \<notin> set (encode (as_encoded cms))"
  shows "filter (\<lambda>c. c \<noteq> lf) (to_turnkey_armored encode cms) = encode (as_encoded cms)"
  using filter_armor [of "chunks (encode (as_encoded cms))"] assms by (simp add: armored_chunks)

section \<open>Reading a signed message back\<close>

fun strip :: "bytes \<Rightarrow> bytes \<Rightarrow> bytes option" where
  "strip [] bs = Some bs"
| "strip (p # ps) [] = None"
| "strip (p # ps) (b # bs) = (if p = b then strip ps bs else None)"

definition guard :: "bool \<Rightarrow> unit option" where
  "guard b = (if b then Some () else None)"

definition raw_tlv :: "bytes \<Rightarrow> (bytes \<times> bytes) option" where
  "raw_tlv bs =
     (case read_tlv bs of None \<Rightarrow> None
      | Some (_, _, rest) \<Rightarrow> Some (take (length bs - length rest) bs, rest))"

definition algorithm_bytes :: "signature_algorithm \<Rightarrow> bytes" where
  "algorithm_bytes a =
     (case a of RsaPkcs1v15Sha256 \<Rightarrow> algorithm_identifier OID_SHA256_WITH_RSA
      | EcdsaSha256 \<Rightarrow> algorithm_identifier OID_ECDSA_WITH_SHA256)"

definition read_algorithm :: "bytes \<Rightarrow> (signature_algorithm \<times> bytes) option" where
  "read_algorithm bs =
     (case strip (algorithm_bytes RsaPkcs1v15Sha256) bs of
        Some rest \<Rightarrow> Some (RsaPkcs1v15Sha256, rest)
      | None \<Rightarrow> map_option (Pair EcdsaSha256) (strip (algorithm_bytes EcdsaSha256) bs))"

record read_cms =
  rc_content :: bytes
  rc_certificate :: bytes
  rc_issuer :: bytes
  rc_serial :: nat
  rc_algorithm :: signature_algorithm
  rc_signature :: bytes

definition cms_head :: bytes where
  "cms_head = [0x30, 0x80] @ OID_SIGNED_DATA @ [0xa0, 0x80] @ [0x30, 0x80] @ integer_one @
     ber_set [algorithm_identifier OID_SHA256] @ [0x30, 0x80] @ OID_DATA @ [0xa0, 0x80]"

definition read_signer_info :: "bytes \<Rightarrow> (bytes \<times> nat \<times> signature_algorithm \<times> bytes) option" where
  "read_signer_info bs =
     do { bs \<leftarrow> strip integer_one bs;
          (t, issuer_and_serial, bs) \<leftarrow> read_tlv bs; guard (t = 0x30);
          (issuer, n) \<leftarrow> raw_tlv issuer_and_serial;
          (t, serial, rest) \<leftarrow> read_tlv n; guard (t = 0x02 \<and> rest = []);
          bs \<leftarrow> strip (algorithm_identifier OID_SHA256) bs;
          (algorithm, bs) \<leftarrow> read_algorithm bs;
          (t, signature, rest) \<leftarrow> read_tlv bs; guard (t = 0x04 \<and> rest = []);
          Some (issuer, be_nat serial, algorithm, signature) }"

definition attached_content :: "bytes \<Rightarrow> bytes option" where
  "attached_content bs =
     do { bs \<leftarrow> strip cms_head bs;
          (t, content, bs) \<leftarrow> read_tlv bs; guard (t = 0x04);
          Some content }"

definition read_signed_data :: "bytes \<Rightarrow> read_cms option" where
  "read_signed_data bs =
     do { bs \<leftarrow> strip cms_head bs;
          (t, content, bs) \<leftarrow> read_tlv bs; guard (t = 0x04);
          bs \<leftarrow> strip (EOC @ EOC @ [0xa0, 0x80]) bs;
          (certificate, bs) \<leftarrow> raw_tlv bs;
          bs \<leftarrow> strip EOC bs;
          (t, signers, bs) \<leftarrow> read_tlv bs; guard (t = 0x31 \<and> bs = EOC @ EOC @ EOC);
          (t, signer, rest) \<leftarrow> read_tlv signers; guard (t = 0x30 \<and> rest = []);
          (issuer, serial, algorithm, signature) \<leftarrow> read_signer_info signer;
          Some \<lparr>rc_content = content, rc_certificate = certificate, rc_issuer = issuer,
                rc_serial = serial, rc_algorithm = algorithm, rc_signature = signature\<rparr> }"

lemma strip_append [simp]: "strip p (p @ bs) = Some bs"
  by (induction p) simp_all

lemma guard_True [simp]: "guard True = Some ()"
  by (simp add: guard_def)

lemma raw_tlv_tlv: "length body < 2 ^ 64 \<Longrightarrow> raw_tlv (tlv tag body @ rest) = Some (tlv tag body, rest)"
  by (simp add: raw_tlv_def read_tlv_tlv)

lemma read_algorithm_append [simp]: "read_algorithm (algorithm_bytes a @ bs) = Some (a, bs)"
proof (cases a)
  case EcdsaSha256
  have "strip (algorithm_bytes RsaPkcs1v15Sha256) (algorithm_bytes EcdsaSha256 @ bs) = None"
    by (simp add: algorithm_bytes_def algorithm_identifier_def ber_sequence_def constructed_def
        tlv_def write_length_def OID_SHA256_WITH_RSA_def OID_ECDSA_WITH_SHA256_def ASN1_NULL_def)
  with EcdsaSha256 show ?thesis by (simp add: read_algorithm_def)
qed (simp add: read_algorithm_def)

definition signer_info_body :: "cms_parts \<Rightarrow> bytes" where
  "signer_info_body parts =
     integer_one @ tlv 0x30 (cp_issuer_name_der parts @ positive_integer (cp_serial_number parts)) @
     algorithm_identifier OID_SHA256 @ algorithm_bytes (cp_signature_algorithm parts) @
     tlv 0x04 (cp_signature parts)"

lemma encode_layout:
  "encode_turnkey_signed_data parts =
     cms_head @ tlv 0x04 (cp_content parts) @ (EOC @ EOC @ [0xa0, 0x80]) @ cp_certificate_der parts @ EOC @
     tlv 0x31 (tlv 0x30 (signer_info_body parts)) @ EOC @ EOC @ EOC"
  by (cases "cp_signature_algorithm parts")
    (simp_all add: encode_turnkey_signed_data_def cms_head_def signer_info_body_def open_indefinite_def
      close_indefinite_def octet_string_def ber_set_def ber_sequence_def constructed_def
      algorithm_bytes_def Let_def)

lemma drop_last_one: "xs \<noteq> [] \<Longrightarrow> drop (length xs - Suc 0) xs = [last xs]"
  by (induction xs rule: rev_induct) simp_all

lemma positive_integer_body:
  "\<exists>body. positive_integer s = tlv 0x02 body \<and> be_nat body = be_nat s \<and> length body \<le> length s + 1 \<and>
     body \<noteq> [] \<and> hd body AND 0x80 = 0"
proof -
  define b where "b = (if s = [] then [0]
       else drop (case position (\<lambda>byte. byte \<noteq> 0) s of Some i \<Rightarrow> i | None \<Rightarrow> length s - 1) s)"
  have b: "be_nat b = be_nat s \<and> b \<noteq> [] \<and> (b = [0] \<or> length b \<le> length s)"
  proof (cases "position (\<lambda>byte. byte \<noteq> 0) s")
    case None
    then have z: "\<forall>x \<in> set s. x = 0" by (simp add: position_None)
    then have "b = [0]"
      using last_in_set [of s] by (cases "s = []") (simp_all add: b_def None drop_last_one)
    with be_nat_zeros [OF z] show ?thesis by simp
  next
    case (Some i)
    then have "s \<noteq> []" by auto
    with Some have i: "b = drop i s" by (simp add: b_def)
    have "b \<noteq> []" "length b \<le> length s" unfolding i using position_less [OF Some] by simp_all
    moreover have "be_nat b = be_nat s" unfolding i drop_position [OF Some] by simp
    ultimately show ?thesis by simp
  qed
  define body where "body = (if b ! 0 AND 0x80 \<noteq> 0 then 0 # b else b)"
  have "positive_integer s = tlv 0x02 body"
    by (simp add: positive_integer_def b_def body_def Let_def)
  moreover have "be_nat body = be_nat s" "body \<noteq> []" "hd body AND 0x80 = 0"
    "length body \<le> length s + 1"
    using b by (auto simp: body_def hd_conv_nth)
  ultimately show ?thesis by blast
qed

text \<open>A single definite-length value, as DER-encoded certificates and names are.\<close>

definition is_der :: "bytes \<Rightarrow> bool" where
  "is_der bs \<longleftrightarrow> (\<exists>tag body. bs = tlv tag body)"

lemma length_le_tlv: "length body \<le> length (tlv tag body)"
  using length_body_tlv [of body tag] by simp

lemma read_signer_info_body:
  assumes "length (signer_info_body parts) < 2 ^ 64" and "is_der (cp_issuer_name_der parts)"
  shows "read_signer_info (signer_info_body parts) =
    Some (cp_issuer_name_der parts, be_nat (cp_serial_number parts), cp_signature_algorithm parts,
      cp_signature parts)"
proof -
  obtain tag name where name: "cp_issuer_name_der parts = tlv tag name"
    using assms(2) by (auto simp: is_der_def)
  obtain serial where serial: "positive_integer (cp_serial_number parts) = tlv 0x02 serial"
    "be_nat serial = be_nat (cp_serial_number parts)"
    using positive_integer_body by blast
  let ?ias = "tlv tag name @ tlv 0x02 serial"
  have "length (tlv 0x30 ?ias) + length (tlv 0x04 (cp_signature parts)) < 2 ^ 64"
    using assms(1) by (simp add: signer_info_body_def name serial)
  with length_le_tlv [of ?ias "0x30"] length_le_tlv [of "cp_signature parts" "0x04"]
    length_le_tlv [of name tag] length_le_tlv [of serial "0x02"]
  have len: "length ?ias < 2 ^ 64" "length (cp_signature parts) < 2 ^ 64" "length name < 2 ^ 64"
    "length serial < 2 ^ 64"
    by simp_all
  show ?thesis
    using read_tlv_tlv [OF len(4), of "0x02" "[]"] read_tlv_tlv [OF len(2), of "0x04" "[]"]
    by (simp add: read_signer_info_def signer_info_body_def name serial read_tlv_tlv [OF len(1)]
        raw_tlv_tlv [OF len(3)])
qed

lemma attached_content_encode:
  assumes "length (encode_turnkey_signed_data parts) < 2 ^ 64"
  shows "attached_content (encode_turnkey_signed_data parts) = Some (cp_content parts)"
proof -
  have "length (cp_content parts) < 2 ^ 64"
    using assms length_le_tlv [of "cp_content parts" "0x04"] by (simp add: encode_layout)
  then show ?thesis by (simp add: attached_content_def encode_layout read_tlv_tlv)
qed

lemma read_encode:
  assumes "length (encode_turnkey_signed_data parts) < 2 ^ 64"
    and "is_der (cp_certificate_der parts)" and "is_der (cp_issuer_name_der parts)"
  shows "read_signed_data (encode_turnkey_signed_data parts) =
    Some \<lparr>rc_content = cp_content parts, rc_certificate = cp_certificate_der parts,
          rc_issuer = cp_issuer_name_der parts, rc_serial = be_nat (cp_serial_number parts),
          rc_algorithm = cp_signature_algorithm parts, rc_signature = cp_signature parts\<rparr>"
proof -
  obtain tag cert where cert: "cp_certificate_der parts = tlv tag cert"
    using assms(2) by (auto simp: is_der_def)
  let ?info = "signer_info_body parts"
  have "length (tlv 0x04 (cp_content parts)) + length (tlv tag cert) +
      length (tlv 0x31 (tlv 0x30 ?info)) < 2 ^ 64"
    using assms(1) by (simp add: encode_layout cert)
  with length_le_tlv [of "cp_content parts" "0x04"] length_le_tlv [of cert tag]
    length_le_tlv [of "tlv 0x30 ?info" "0x31"] length_le_tlv [of ?info "0x30"]
  have len: "length (cp_content parts) < 2 ^ 64" "length cert < 2 ^ 64"
    "length (tlv 0x30 ?info) < 2 ^ 64" "length ?info < 2 ^ 64"
    by simp_all
  have strip: "strip (EOC @ EOC @ [0xa0, 0x80]) (EOC @ EOC @ 0xa0 # 0x80 # bs) = Some bs" for bs
    using strip_append [of "EOC @ EOC @ [0xa0, 0x80]" bs] by (simp del: strip_append)
  show ?thesis
    using read_tlv_tlv [OF len(4), of "0x30" "[]"]
    by (simp add: read_signed_data_def encode_layout cert strip read_tlv_tlv [OF len(1)]
        raw_tlv_tlv [OF len(2)] read_tlv_tlv [OF len(3)] read_signer_info_body [OF len(4) assms(3)])
qed


definition sample_parts :: cms_parts where
  "sample_parts =
     \<lparr>cp_content = [60, 97, 62], cp_certificate_der = tlv 0x30 [1, 2], cp_issuer_name_der = tlv 0x30 [],
      cp_serial_number = [0, 0xff], cp_signature_algorithm = EcdsaSha256, cp_signature = [7, 8, 9]\<rparr>"

lemma sample_parts_length: "length (encode_turnkey_signed_data sample_parts) < 200"
  by (simp add: encode_layout sample_parts_def signer_info_body_def positive_integer_def
      algorithm_bytes_def algorithm_identifier_def ber_sequence_def ber_set_def constructed_def
      tlv_def write_length_def cms_head_def OID_SIGNED_DATA_def OID_DATA_def OID_SHA256_def
      OID_ECDSA_WITH_SHA256_def ASN1_NULL_def EOC_def integer_one_def)


section \<open>The signing boundary\<close>

text \<open>
  The trait \<open>CmsSigner\<close>; its documentation promises attached CMS in the profile of the
  Turnkey, of which the clients need that the signed content can be read back.
\<close>

locale cms_signer =
  fixes algorithm :: "'s \<Rightarrow> signature_algorithm"
    and sign_attached :: "'s \<Rightarrow> bytes \<Rightarrow> 'e + cms_signed_data"
  assumes attached: "sign_attached s content = Inr cms \<Longrightarrow> length (as_encoded cms) < 2 ^ 64 \<Longrightarrow>
      attached_content (as_encoded cms) = Some content"
begin

text \<open>A signer never gives two contents the same message.\<close>

lemma sign_inject:
  assumes "sign_attached s c1 = Inr cms" and "sign_attached s c2 = Inr cms"
    and "length (as_encoded cms) < 2 ^ 64"
  shows "c1 = c2"
  using attached [OF assms(1,3)] attached [OF assms(2,3)] by simp

end

section \<open>PfxSigner\<close>

datatype key_id = KeyRsa | KeyEc | KeyOther

text \<open>What the signer uses of the crate \<open>openssl\<close>; \<open>'e\<close> is its \<open>ErrorStack\<close>.\<close>

record ('p, 'k, 'c, 'u, 's, 'e) openssl =
  pkcs12_from_der :: "bytes \<Rightarrow> 'e + 'p"
  pkcs12_parse2 :: "'p \<Rightarrow> string \<Rightarrow> 'e + ('k option \<times> 'c option)"
  x509_public_key :: "'c \<Rightarrow> 'e + 'u"
  public_eq :: "'u \<Rightarrow> 'k \<Rightarrow> bool"
  pkey_id :: "'k \<Rightarrow> key_id"
  signer_new_sha256 :: "'k \<Rightarrow> 'e + 's"
  set_rsa_padding_pkcs1 :: "'s \<Rightarrow> 'e + 's"
  signer_update :: "'s \<Rightarrow> bytes \<Rightarrow> 'e + 's"
  sign_to_vec :: "'s \<Rightarrow> 'e + bytes"
  x509_to_der :: "'c \<Rightarrow> 'e + bytes"
  issuer_name_to_der :: "'c \<Rightarrow> 'e + bytes"
  serial_number_to_vec :: "'c \<Rightarrow> 'e + bytes"

record ('k, 'c) pfx_signer =
  ps_private_key :: 'k
  ps_certificate :: 'c
  ps_signature_algorithm :: signature_algorithm

datatype 'e pfx_signer_error =
    OpenSslError 'e
  | MissingPrivateKey
  | MissingCertificate
  | MismatchedKeyPair
  | UnsupportedPrivateKey

definition pfx_from_der ::
  "('p, 'k, 'c, 'u, 's, 'e) openssl \<Rightarrow> bytes \<Rightarrow> string \<Rightarrow> 'e pfx_signer_error + ('k, 'c) pfx_signer" where
  "pfx_from_der ossl pfx_der password =
     and_then (map_err OpenSslError (pkcs12_from_der ossl pfx_der)) (\<lambda>p12.
     and_then (map_err OpenSslError (pkcs12_parse2 ossl p12 password)) (\<lambda>(pkey, cert).
     and_then (ok_or MissingPrivateKey pkey) (\<lambda>private_key.
     and_then (ok_or MissingCertificate cert) (\<lambda>certificate.
     and_then (map_err OpenSslError (x509_public_key ossl certificate)) (\<lambda>certificate_key.
       if \<not> public_eq ossl certificate_key private_key then Inl MismatchedKeyPair
       else
         and_then
           (case pkey_id ossl private_key of
              KeyRsa \<Rightarrow> Inr RsaPkcs1v15Sha256
            | KeyEc \<Rightarrow> Inr EcdsaSha256
            | KeyOther \<Rightarrow> Inl UnsupportedPrivateKey) (\<lambda>algorithm.
         Inr \<lparr>ps_private_key = private_key, ps_certificate = certificate,
              ps_signature_algorithm = algorithm\<rparr>))))))"

definition pfx_sign_attached ::
  "('p, 'k, 'c, 'u, 's, 'e) openssl \<Rightarrow> ('k, 'c) pfx_signer \<Rightarrow> bytes \<Rightarrow> 'e pfx_signer_error + cms_signed_data" where
  "pfx_sign_attached ossl self content = map_err OpenSslError
     (and_then (signer_new_sha256 ossl (ps_private_key self)) (\<lambda>signer.
      and_then
        (if ps_signature_algorithm self = RsaPkcs1v15Sha256 then set_rsa_padding_pkcs1 ossl signer
         else Inr signer) (\<lambda>signer.
      and_then (signer_update ossl signer content) (\<lambda>signer.
      and_then (sign_to_vec ossl signer) (\<lambda>signature.
      and_then (x509_to_der ossl (ps_certificate self)) (\<lambda>certificate_der.
      and_then (issuer_name_to_der ossl (ps_certificate self)) (\<lambda>issuer_name_der.
      and_then (serial_number_to_vec ossl (ps_certificate self)) (\<lambda>serial_number.
        Inr (CmsSignedData (encode_turnkey_signed_data
          \<lparr>cp_content = content, cp_certificate_der = certificate_der,
           cp_issuer_name_der = issuer_name_der, cp_serial_number = serial_number,
           cp_signature_algorithm = ps_signature_algorithm self,
           cp_signature = signature\<rparr>))))))))))"

lemma pfx_sign_attached_Inr:
  assumes "pfx_sign_attached ossl self content = Inr cms"
  obtains parts where "as_encoded cms = encode_turnkey_signed_data parts" "cp_content parts = content"
    "x509_to_der ossl (ps_certificate self) = Inr (cp_certificate_der parts)"
    "issuer_name_to_der ossl (ps_certificate self) = Inr (cp_issuer_name_der parts)"
    "serial_number_to_vec ossl (ps_certificate self) = Inr (cp_serial_number parts)"
    "cp_signature_algorithm parts = ps_signature_algorithm self"
  using assms unfolding pfx_sign_attached_def map_err_Inr and_then_Inr
  by (elim exE conjE) (rule that, auto)

interpretation pfx: cms_signer ps_signature_algorithm "pfx_sign_attached ossl" for ossl
proof
  fix s content cms
  assume "pfx_sign_attached ossl s content = Inr cms" and len: "length (as_encoded cms) < 2 ^ 64"
  then obtain parts where "as_encoded cms = encode_turnkey_signed_data parts" "cp_content parts = content"
    by (elim pfx_sign_attached_Inr)
  with attached_content_encode [of parts] len show "attached_content (as_encoded cms) = Some content"
    by simp
qed

text \<open>
  C35.  A PFX identity is usable only when its key belongs to its certificate
  and is RSA or EC, and what it signs is readable: the message carries the content, that
  certificate, its issuer and serial number, and the algorithm of the key's type.  OpenSSL is
  assumed to write certificates and names in DER, as documented.
\<close>

theorem pfx_signer_message:
  assumes "pfx_from_der ossl der password = Inr signer"
    and "pfx_sign_attached ossl signer content = Inr cms"
    and "length (as_encoded cms) < 2 ^ 64"
    and "\<And>c d. x509_to_der ossl c = Inr d \<Longrightarrow> is_der d"
    and "\<And>c d. issuer_name_to_der ossl c = Inr d \<Longrightarrow> is_der d"
  shows "\<exists>public_key m. x509_public_key ossl (ps_certificate signer) = Inr public_key \<and>
     public_eq ossl public_key (ps_private_key signer) \<and>
     read_signed_data (as_encoded cms) = Some m \<and> rc_content m = content \<and>
     Inr (rc_certificate m) = x509_to_der ossl (ps_certificate signer) \<and>
     Inr (rc_issuer m) = issuer_name_to_der ossl (ps_certificate signer) \<and>
     pkey_id ossl (ps_private_key signer) =
       (case rc_algorithm m of RsaPkcs1v15Sha256 \<Rightarrow> KeyRsa | EcdsaSha256 \<Rightarrow> KeyEc)"
proof -
  obtain public_key where "x509_public_key ossl (ps_certificate signer) = Inr public_key"
    "public_eq ossl public_key (ps_private_key signer)"
    "pkey_id ossl (ps_private_key signer) =
       (case ps_signature_algorithm signer of RsaPkcs1v15Sha256 \<Rightarrow> KeyRsa | EcdsaSha256 \<Rightarrow> KeyEc)"
    using assms(1)
    by (auto simp: pfx_from_der_def and_then_Inr map_err_Inr ok_or_Inr split: if_splits key_id.splits)
  moreover obtain parts where parts: "as_encoded cms = encode_turnkey_signed_data parts"
    "cp_content parts = content"
    "x509_to_der ossl (ps_certificate signer) = Inr (cp_certificate_der parts)"
    "issuer_name_to_der ossl (ps_certificate signer) = Inr (cp_issuer_name_der parts)"
    "cp_signature_algorithm parts = ps_signature_algorithm signer"
    using assms(2) by (elim pfx_sign_attached_Inr)
  ultimately show ?thesis
    using read_encode [of parts] assms(3,4,5) by auto
qed

text \<open>A toy backend whose keys and certificates are byte strings.\<close>

definition sample_ossl :: "(bytes, bytes, bytes, bytes, bytes, unit) openssl" where
  "sample_ossl =
     \<lparr>pkcs12_from_der = Inr, pkcs12_parse2 = \<lambda>p _. Inr (Some p, Some p), x509_public_key = Inr,
      public_eq = (=), pkey_id = \<lambda>_. KeyEc, signer_new_sha256 = \<lambda>k. Inr [],
      set_rsa_padding_pkcs1 = Inr, signer_update = \<lambda>s c. Inr (s @ c), sign_to_vec = \<lambda>s. Inr (rev s),
      x509_to_der = \<lambda>c. Inr (tlv 0x30 c), issuer_name_to_der = \<lambda>c. Inr (tlv 0x30 []),
      serial_number_to_vec = \<lambda>c. Inr [0, 0xff]\<rparr>"

definition sample_signer :: "(bytes, bytes) pfx_signer" where
  "sample_signer = \<lparr>ps_private_key = [1, 2], ps_certificate = [1, 2], ps_signature_algorithm = EcdsaSha256\<rparr>"

definition sample_signed :: cms_signed_data where
  "sample_signed = CmsSignedData (encode_turnkey_signed_data (sample_parts\<lparr>cp_signature := [62, 97, 60]\<rparr>))"

lemma sample_signed_length: "length (as_encoded sample_signed) < 200"
  by (simp add: sample_signed_def encode_layout sample_parts_def signer_info_body_def positive_integer_def
      algorithm_bytes_def algorithm_identifier_def ber_sequence_def ber_set_def constructed_def
      tlv_def write_length_def cms_head_def OID_SIGNED_DATA_def OID_DATA_def OID_SHA256_def
      OID_ECDSA_WITH_SHA256_def ASN1_NULL_def EOC_def integer_one_def)

theorem pfx_signer_message_witness:
  "\<exists>m. read_signed_data (as_encoded sample_signed) = Some m \<and> rc_content m = [60, 97, 62] \<and>
     rc_algorithm m = EcdsaSha256"
proof -
  have "\<exists>public_key m. x509_public_key sample_ossl (ps_certificate sample_signer) = Inr public_key \<and>
     public_eq sample_ossl public_key (ps_private_key sample_signer) \<and>
     read_signed_data (as_encoded sample_signed) = Some m \<and> rc_content m = [60, 97, 62] \<and>
     Inr (rc_certificate m) = x509_to_der sample_ossl (ps_certificate sample_signer) \<and>
     Inr (rc_issuer m) = issuer_name_to_der sample_ossl (ps_certificate sample_signer) \<and>
     pkey_id sample_ossl (ps_private_key sample_signer) =
       (case rc_algorithm m of RsaPkcs1v15Sha256 \<Rightarrow> KeyRsa | EcdsaSha256 \<Rightarrow> KeyEc)"
  proof (rule pfx_signer_message [of sample_ossl "[1, 2]" "[]"])
    show "pfx_from_der sample_ossl [1, 2] [] = Inr sample_signer"
      by (simp add: pfx_from_der_def sample_ossl_def sample_signer_def)
    show "pfx_sign_attached sample_ossl sample_signer [60, 97, 62] = Inr sample_signed"
      by (simp add: pfx_sign_attached_def sample_ossl_def sample_signer_def sample_signed_def sample_parts_def)
    show "length (as_encoded sample_signed) < 2 ^ 64" using sample_signed_length by simp
  qed (auto simp: sample_ossl_def is_der_def)
  then obtain m where m: "read_signed_data (as_encoded sample_signed) = Some m" "rc_content m = [60, 97, 62]"
    and k: "pkey_id sample_ossl (ps_private_key sample_signer) =
       (case rc_algorithm m of RsaPkcs1v15Sha256 \<Rightarrow> KeyRsa | EcdsaSha256 \<Rightarrow> KeyEc)"
    by blast
  from k have "rc_algorithm m = EcdsaSha256"
    by (cases "rc_algorithm m") (simp_all add: sample_ossl_def)
  with m show ?thesis by blast
qed

end
