(* ===== verification/Pack.thy ===== *)
theory Pack
  imports Envelope Signing
begin

text \<open>
  \<open>crates/einvoice-pack\<close>: the Pack step - serialise the envelope, sign exactly those bytes,
  apply the armor.  The signer is the \<open>CmsSigner\<close> boundary, Base64 an argument.
\<close>

record signed_artifact =
  sa_upload_bytes :: bytes
  sa_envelope_size :: nat
  sa_signature_algorithm :: signature_algorithm

definition turnkey_reported_size :: "signed_artifact \<Rightarrow> nat" where
  "turnkey_reported_size a = length (sa_upload_bytes a)"

datatype 'e pack_error =
    PackEnvelope envelope_serialize_error
  | PackSigning 'e

definition pack_and_sign ::
  "(bytes \<Rightarrow> string) \<Rightarrow> ('s \<Rightarrow> signature_algorithm) \<Rightarrow> ('s \<Rightarrow> bytes \<Rightarrow> 'e + cms_signed_data) \<Rightarrow>
     invoice_envelope \<Rightarrow> 's \<Rightarrow> 'e pack_error + signed_artifact" where
  "pack_and_sign encode algorithm sign_attached envelope signer =
     and_then (map_err PackEnvelope (to_turnkey_xml envelope)) (\<lambda>envelope_bytes.
       let envelope_size = length envelope_bytes;
           signature_algorithm = algorithm signer
       in and_then (map_err PackSigning (sign_attached signer envelope_bytes)) (\<lambda>cms.
            let upload_bytes = as_bytes (to_turnkey_armored encode cms)
            in Inr \<lparr>sa_upload_bytes = upload_bytes, sa_envelope_size = envelope_size,
                    sa_signature_algorithm = signature_algorithm\<rparr>))"

lemma pack_and_sign_Inr:
  "pack_and_sign encode algorithm sign envelope signer = Inr a \<longleftrightarrow>
     (\<exists>env cms. to_turnkey_xml envelope = Inr env \<and> sign signer env = Inr cms \<and>
        a = \<lparr>sa_upload_bytes = as_bytes (to_turnkey_armored encode cms), sa_envelope_size = length env,
             sa_signature_algorithm = algorithm signer\<rparr>)"
  by (auto simp: pack_and_sign_def Let_def and_then_Inr map_err_Inr)

text \<open>Base64 never emits a line feed and never shortens its input.\<close>

definition base64_like :: "(bytes \<Rightarrow> string) \<Rightarrow> bool" where
  "base64_like encode \<longleftrightarrow> (\<forall>b. lf \<notin> set (encode b) \<and> length b \<le> length (encode b))"

definition dearmored :: "signed_artifact \<Rightarrow> string" where
  "dearmored a = filter (\<lambda>c. c \<noteq> lf) (of_bytes (sa_upload_bytes a))"

context cms_signer
begin

lemma artifact_carries_envelope:
  assumes "pack_and_sign encode algorithm sign_attached envelope signer = Inr a"
    and "base64_like encode" and "length (sa_upload_bytes a) < 2 ^ 64"
  shows "\<exists>env cms. to_turnkey_xml envelope = Inr env \<and> sa_envelope_size a = length env \<and>
    sa_signature_algorithm a = algorithm signer \<and>
    dearmored a = encode cms \<and> attached_content cms = Some env"
proof -
  from assms(1) obtain env cms where e: "to_turnkey_xml envelope = Inr env"
    "sign_attached signer env = Inr cms"
    and a: "a = \<lparr>sa_upload_bytes = as_bytes (to_turnkey_armored encode cms), sa_envelope_size = length env,
             sa_signature_algorithm = algorithm signer\<rparr>"
    unfolding pack_and_sign_Inr by blast
  have d: "dearmored a = encode (as_encoded cms)"
    using assms(2) armor_dearmor [of encode cms] by (simp add: dearmored_def a base64_like_def)
  have "length (as_encoded cms) \<le> length (dearmored a)"
    unfolding d using assms(2) by (simp add: base64_like_def)
  also have "\<dots> \<le> length (sa_upload_bytes a)"
    using length_filter_le [of "\<lambda>c. c \<noteq> lf" "of_bytes (sa_upload_bytes a)"]
    by (simp add: dearmored_def of_bytes_def)
  finally have "length (as_encoded cms) < 2 ^ 64" using assms(3) by simp
  from attached [OF e(2) this] e(1) d show ?thesis by (auto simp: a)
qed

end

text \<open>
  What a PFX-signed pack uploads carries the whole envelope:
  with the line feeds removed it is the Base64 text of a signed message whose content is the
  serialised envelope byte for byte, and the recorded sizes and algorithm are those of the
  envelope and the key.
\<close>

theorem pack_artifact_carries_envelope:
  assumes "pack_and_sign encode ps_signature_algorithm (pfx_sign_attached ossl) envelope signer = Inr a"
    and "base64_like encode" and "length (sa_upload_bytes a) < 2 ^ 64"
  shows "\<exists>env cms. to_turnkey_xml envelope = Inr env \<and> sa_envelope_size a = length env \<and>
    sa_signature_algorithm a = ps_signature_algorithm signer \<and>
    dearmored a = encode cms \<and> attached_content cms = Some env"
  using assms by (rule pfx.artifact_carries_envelope)

section \<open>Witness\<close>

definition hex_like :: "bytes \<Rightarrow> string" where
  "hex_like b = concat (map (\<lambda>x. [char_of (65 + unat x div 16), char_of (65 + unat x mod 16)]) b)"

lemma base64_like_hex: "base64_like hex_like"
proof -
  have "char_of (65 + d) \<noteq> lf" if "d < 16" for d :: nat
  proof
    assume "char_of (65 + d) = lf"
    then have "(of_char (char_of (65 + d)) :: nat) = of_char lf" by simp
    with that show False by (simp add: of_char_of lf_def)
  qed
  moreover have "unat x div 16 < 16" "unat x mod 16 < 16" for x :: u8
    using unsigned_less [of x, where 'a = nat] by auto
  ultimately have ne: "lf \<noteq> char_of (65 + unat x div 16)" "lf \<noteq> char_of (65 + unat x mod 16)" for x :: u8
    by metis+
  have "lf \<notin> set (hex_like b) \<and> length b \<le> length (hex_like b)" for b
    by (induction b) (use ne in \<open>auto simp: hex_like_def\<close>)
  then show ?thesis by (simp add: base64_like_def)
qed

definition sample_envelope :: invoice_envelope where
  "sample_envelope =
     \<lparr>env_routing = \<lparr>er_from = \<lparr>pin_identifier = ''12345678'', pin_description = None\<rparr>,
                     er_from_vac = \<lparr>ri_identifier = ''FROM'', ri_description = None\<rparr>,
                     er_to = \<lparr>pin_identifier = ''0000000000'', pin_description = None\<rparr>,
                     er_to_vac = \<lparr>ri_identifier = ''TO'', ri_description = None\<rparr>\<rparr>,
      env_metadata = \<lparr>ipm_message_type = ''F0401'', ipm_version = V4_1\<rparr>,
      env_payloads = [MigPayload (as_bytes ''<Invoice/>'')]\<rparr>"

lemma sample_envelope_xml:
  "to_turnkey_xml sample_envelope = Inr (as_bytes (push_envelope_header sample_envelope @
     ''<Invoice/>'' @ [lf] @ ''</InvoicePack>'' @ [lf] @ ''</InvoiceEnvelope>'' @ [lf]))"
proof -
  have p: "env_payloads sample_envelope = [MigPayload (as_bytes ''<Invoice/>'')]"
    by (simp add: sample_envelope_def)
  have b: "of_bytes (as_bytes ''<Invoice/>'') = ''<Invoice/>''" by (rule of_bytes_as_bytes)
  have e: "payload_error 0 (MigPayload (as_bytes ''<Invoice/>'')) = None"
    unfolding payload_error_def mig_payload.sel b
    by (simp add: starts_with_def ws1_def ws2_def ws3_def)
  have t: "payload_text (MigPayload (as_bytes ''<Invoice/>'')) = ''<Invoice/>'' @ [lf]"
    unfolding payload_text_def mig_payload.sel b
    by (subst unix_text_id) (simp_all add: lf_def)
  show ?thesis unfolding to_turnkey_xml_Inr p using e by (simp add: t del: as_bytes_simps)
qed

lemma sample_header_length: "length (push_envelope_header sample_envelope) < 2000"
  by code_simp

definition sample_cms :: cms_signed_data where
  "sample_cms = projr (pfx_sign_attached sample_ossl sample_signer (projr (to_turnkey_xml sample_envelope)))"

definition sample_artifact :: signed_artifact where
  "sample_artifact =
     \<lparr>sa_upload_bytes = as_bytes (to_turnkey_armored hex_like sample_cms),
      sa_envelope_size = length (projr (to_turnkey_xml sample_envelope)),
      sa_signature_algorithm = EcdsaSha256\<rparr>"

lemma length_tlv_bound: "length body < 2 ^ 64 \<Longrightarrow> length (tlv tag body) \<le> length body + 10"
  by (simp add: tlv_bytes length_write_length encoded_length_size_def usize_to_be_bytes_def Let_def)

lemma length_hex_like: "length (hex_like b) = 2 * length b"
  by (induction b) (simp_all add: hex_like_def)

lemma length_chunks: "length (chunks s) \<le> length s"
proof (induction s rule: chunks.induct)
  case (1 s)
  show ?case
  proof (cases "s = []")
    case False
    with 1 have "length (chunks (drop 64 s)) \<le> length s - 64" by simp
    moreover from False have "length s - 64 < length s" by simp
    ultimately have "Suc (length (chunks (drop 64 s))) \<le> length s" by (rule less_eq_Suc_le [THEN iffD1, OF le_less_trans])
    then show ?thesis using False by (simp add: chunks.simps [of s])
  qed (simp add: chunks.simps)
qed

lemma length_terminated: "length (concat (map (\<lambda>l. l @ [c]) ls)) = length (concat ls) + length ls"
  by (induction ls) simp_all

lemma length_armored_hex: "length (to_turnkey_armored hex_like cms) \<le> 4 * length (as_encoded cms)"
  using length_chunks [of "hex_like (as_encoded cms)"]
  by (simp add: armored_chunks length_terminated length_hex_like)

lemma sample_envelope_length: "length (projr (to_turnkey_xml sample_envelope)) < 3000"
  using sample_header_length by (simp add: sample_envelope_xml)

lemma sample_cms_parts:
  "sample_cms = CmsSignedData (encode_turnkey_signed_data
     (sample_parts\<lparr>cp_content := projr (to_turnkey_xml sample_envelope),
        cp_signature := rev (projr (to_turnkey_xml sample_envelope))\<rparr>))"
  by (simp add: sample_cms_def pfx_sign_attached_def sample_ossl_def sample_signer_def sample_parts_def)

lemma sample_cms_length: "length (as_encoded sample_cms) < 10000"
proof -
  let ?env = "projr (to_turnkey_xml sample_envelope)"
  let ?head = "integer_one @ tlv 0x30 (tlv 0x30 [] @ positive_integer [0, 0xff]) @
     algorithm_identifier OID_SHA256 @ algorithm_bytes EcdsaSha256"
  have "length ?head + length cms_head + length (tlv 0x30 [1, 2]) < 200"
    by (simp add: positive_integer_def algorithm_bytes_def algorithm_identifier_def ber_sequence_def
        ber_set_def constructed_def tlv_def write_length_def cms_head_def OID_SIGNED_DATA_def
        OID_DATA_def OID_SHA256_def OID_ECDSA_WITH_SHA256_def ASN1_NULL_def integer_one_def)
  moreover note sample_envelope_length length_tlv_bound [of ?env "0x04"] length_tlv_bound [of "rev ?env" "0x04"]
    length_tlv_bound [of "?head @ tlv 0x04 (rev ?env)" "0x30"]
    length_tlv_bound [of "tlv 0x30 (?head @ tlv 0x04 (rev ?env))" "0x31"]
  ultimately show ?thesis
    by (simp add: sample_cms_parts encode_layout signer_info_body_def sample_parts_def EOC_def)
qed

lemma sample_artifact_length: "length (sa_upload_bytes sample_artifact) < 2 ^ 64"
  using length_armored_hex [of sample_cms] sample_cms_length by (simp add: sample_artifact_def)

lemma sample_pack:
  "pack_and_sign hex_like ps_signature_algorithm (pfx_sign_attached sample_ossl) sample_envelope sample_signer =
     Inr sample_artifact"
proof -
  have "\<exists>cms. pfx_sign_attached sample_ossl sample_signer content = Inr cms" for content
    by (simp add: pfx_sign_attached_def sample_ossl_def sample_signer_def)
  then have "pfx_sign_attached sample_ossl sample_signer (projr (to_turnkey_xml sample_envelope)) = Inr sample_cms"
    unfolding sample_cms_def by (metis sum.sel(2))
  moreover obtain env where "to_turnkey_xml sample_envelope = Inr env" using sample_envelope_xml by blast
  moreover have "ps_signature_algorithm sample_signer = EcdsaSha256" by (simp add: sample_signer_def)
  ultimately show ?thesis by (simp add: pack_and_sign_Inr sample_artifact_def)
qed

theorem pack_artifact_carries_envelope_witness:
  "\<exists>env cms. to_turnkey_xml sample_envelope = Inr env \<and> sa_envelope_size sample_artifact = length env \<and>
    sa_signature_algorithm sample_artifact = ps_signature_algorithm sample_signer \<and>
    dearmored sample_artifact = hex_like cms \<and> attached_content cms = Some env"
  by (rule pack_artifact_carries_envelope [OF sample_pack base64_like_hex sample_artifact_length])

end
