(* ===== verification/Filename.thy ===== *)
theory Filename
  imports Text_Utils
begin

text \<open>
  \<open>crates/einvoice-transport/src/filename.rs\<close>: the Turnkey common name (remote object name)
  and the local pack filename around it.  \<open>format!\<close> is concatenation; lengths are bytes.
\<close>

section \<open>MessageCommonName\<close>

record message_common_name =
  mcn_mig_version :: string
  mcn_message_type :: string
  mcn_date :: string
  mcn_time :: string
  mcn_uuid :: string

datatype filename_error =
    InvalidPackFilename
  | InvalidPackCount
  | InvalidCommonNameParts nat
  | InvalidCommonSegmentLength nat nat nat

definition SEGMENT_LENGTHS :: "nat list" where
  "SEGMENT_LENGTHS = [3, 5, 8, 9, 8, 4, 4, 4, 12]"

text \<open>The loop over \<open>parts.iter().zip(&SEGMENT_LENGTHS).enumerate()\<close>, from \<open>index\<close> on.\<close>

fun check_segments :: "nat \<Rightarrow> string list \<Rightarrow> nat list \<Rightarrow> filename_error + unit" where
  "check_segments index (part # parts) (expected # lengths) =
     (if length part \<noteq> expected
      then Inl (InvalidCommonSegmentLength index expected (length part))
      else check_segments (Suc index) parts lengths)"
| "check_segments index _ _ = Inr ()"

definition common_name_parse :: "string \<Rightarrow> filename_error + message_common_name" where
  "common_name_parse value =
     (let parts = split_on CHR ''-'' value in
      if length parts \<noteq> length SEGMENT_LENGTHS then Inl (InvalidCommonNameParts (length parts))
      else and_then (check_segments 0 parts SEGMENT_LENGTHS) (\<lambda>_.
        Inr \<lparr>mcn_mig_version = parts ! 0, mcn_message_type = parts ! 1, mcn_date = parts ! 2,
             mcn_time = parts ! 3, mcn_uuid = join ''-'' (drop 4 parts)\<rparr>))"

definition common_name_render :: "message_common_name \<Rightarrow> string" where
  "common_name_render n =
     mcn_mig_version n @ ''-'' @ mcn_message_type n @ ''-'' @ mcn_date n @ ''-'' @
     mcn_time n @ ''-'' @ mcn_uuid n"

definition common_name_from_parts ::
  "string \<Rightarrow> string \<Rightarrow> string \<Rightarrow> string \<Rightarrow> string \<Rightarrow> filename_error + message_common_name" where
  "common_name_from_parts mig_version message_type date time uuid =
     (let rendered = mig_version @ ''-'' @ message_type @ ''-'' @ date @ ''-'' @ time @ ''-'' @ uuid
      in common_name_parse rendered)"

section \<open>TurnkeyPackFilename\<close>

record turnkey_pack_filename =
  tpf_source_name :: string
  tpf_from_party :: string
  tpf_to_party :: string
  tpf_common_name :: message_common_name
  tpf_pack_count :: i32

text \<open>The five \<open>parts.next().ok_or(..)?\<close> of the iterator, right to left.\<close>

fun next_part :: "string list \<Rightarrow> filename_error + (string \<times> string list)" where
  "next_part [] = Inl InvalidPackFilename"
| "next_part (p # ps) = Inr (p, ps)"

definition pack_filename_parse :: "string \<Rightarrow> filename_error + turnkey_pack_filename" where
  "pack_filename_parse value =
     and_then (next_part (rsplitn 5 CHR ''_'' value)) (\<lambda>(count, parts).
     and_then (next_part parts) (\<lambda>(common, parts).
     and_then (next_part parts) (\<lambda>(to_party, parts).
     and_then (next_part parts) (\<lambda>(from_party, parts).
     and_then (next_part parts) (\<lambda>(source_name, parts).
       if source_name = [] then Inl InvalidPackFilename
       else
         and_then (ok_or InvalidPackCount (parse_i32 count)) (\<lambda>pack_count.
         and_then (common_name_parse common) (\<lambda>common_name.
           Inr \<lparr>tpf_source_name = source_name, tpf_from_party = from_party,
                tpf_to_party = to_party, tpf_common_name = common_name,
                tpf_pack_count = pack_count\<rparr>)))))))"

definition pack_filename_render :: "turnkey_pack_filename \<Rightarrow> string" where
  "pack_filename_render f =
     tpf_source_name f @ ''_'' @ tpf_from_party f @ ''_'' @ tpf_to_party f @ ''_'' @
     common_name_render (tpf_common_name f) @ ''_'' @ i32_to_string (tpf_pack_count f)"

definition remote_filename :: "turnkey_pack_filename \<Rightarrow> string" where
  "remote_filename f = common_name_render (tpf_common_name f)"

section \<open>The grammar\<close>

definition wf_common_name :: "message_common_name \<Rightarrow> bool" where
  "wf_common_name n \<longleftrightarrow>
     list_all2 (\<lambda>part l. length part = l \<and> CHR ''-'' \<notin> set part)
       [mcn_mig_version n, mcn_message_type n, mcn_date n, mcn_time n] [3, 5, 8, 9] \<and>
     map length (split_on CHR ''-'' (mcn_uuid n)) = [8, 4, 4, 4, 12]"

lemma check_segments_Inr:
  "length parts = length lengths \<Longrightarrow>
     check_segments i parts lengths = Inr u \<longleftrightarrow> map length parts = lengths"
proof (induction i parts lengths rule: check_segments.induct)
  case (1 i part parts expected lengths)
  then show ?case by auto
qed auto

lemma check_segments_Inl:
  "length parts = length lengths \<Longrightarrow>
     check_segments k parts lengths = Inl e \<longleftrightarrow>
     (\<exists>i < length parts. take i (map length parts) = take i lengths \<and>
        length (parts ! i) \<noteq> lengths ! i \<and>
        e = InvalidCommonSegmentLength (k + i) (lengths ! i) (length (parts ! i)))"
proof (induction k parts lengths rule: check_segments.induct)
  case (1 k part parts expected lengths)
  then show ?case by (auto simp: Ex_less_Suc2)
qed auto

lemma length_9: "length xs = 9 \<longleftrightarrow>
  (\<exists>a b c d e f g h i. xs = [a, b, c, d, e, f, g, h, i])"
  by (auto simp: numeral_eq_Suc length_Suc_conv)

lemma common_name_split:
  assumes "CHR ''-'' \<notin> set a \<union> set b \<union> set c \<union> set d"
  shows "split_on CHR ''-'' (a @ ''-'' @ b @ ''-'' @ c @ ''-'' @ d @ ''-'' @ u) =
    [a, b, c, d] @ split_on CHR ''-'' u"
  using assms by (simp add: split_on_append)

lemma common_name_parse_Inr:
  "common_name_parse v = Inr n \<longleftrightarrow> wf_common_name n \<and> v = common_name_render n"
proof
  assume p: "common_name_parse v = Inr n"
  let ?parts = "split_on CHR ''-'' v"
  from p have len: "length ?parts = 9" and seg: "map length ?parts = SEGMENT_LENGTHS"
    and n: "n = \<lparr>mcn_mig_version = ?parts ! 0, mcn_message_type = ?parts ! 1, mcn_date = ?parts ! 2,
             mcn_time = ?parts ! 3, mcn_uuid = join ''-'' (drop 4 ?parts)\<rparr>"
    by (auto simp: common_name_parse_def Let_def result_iff check_segments_Inr SEGMENT_LENGTHS_def
        split: if_splits)
  from len obtain a b c d e f g h i where s: "?parts = [a, b, c, d, e, f, g, h, i]"
    unfolding length_9 by blast
  have no: "p \<in> set ?parts \<Longrightarrow> CHR ''-'' \<notin> set p" for p by (rule split_on_pieces)
  have v: "v = join ''-'' [a, b, c, d, e, f, g, h, i]" using s by (metis join_split_on)
  have u: "split_on CHR ''-'' (join ''-'' [e, f, g, h, i]) = [e, f, g, h, i]"
    using no s by (intro split_on_join) auto
  show "wf_common_name n \<and> v = common_name_render n"
    using seg no s u unfolding v n
    by (simp add: wf_common_name_def common_name_render_def SEGMENT_LENGTHS_def)
next
  assume wf: "wf_common_name n \<and> v = common_name_render n"
  let ?us = "split_on CHR ''-'' (mcn_uuid n)"
  have s: "split_on CHR ''-'' v =
      [mcn_mig_version n, mcn_message_type n, mcn_date n, mcn_time n] @ ?us"
    using wf common_name_split by (simp add: wf_common_name_def common_name_render_def)
  have lens: "map length ?us = [8, 4, 4, 4, 12]" using wf by (simp add: wf_common_name_def)
  then have "length (map length ?us) = 5" by simp
  then have len: "length ?us = 5" by simp
  from s have "length (split_on CHR ''-'' v) = 9" "map length (split_on CHR ''-'' v) = SEGMENT_LENGTHS"
    using len lens wf by (simp_all add: wf_common_name_def SEGMENT_LENGTHS_def)
  moreover have "n = \<lparr>mcn_mig_version = split_on CHR ''-'' v ! 0, mcn_message_type = split_on CHR ''-'' v ! 1,
      mcn_date = split_on CHR ''-'' v ! 2, mcn_time = split_on CHR ''-'' v ! 3,
      mcn_uuid = join ''-'' (drop 4 (split_on CHR ''-'' v))\<rparr>"
    unfolding s by simp
  ultimately show "common_name_parse v = Inr n"
    by (simp add: common_name_parse_def Let_def result_iff check_segments_Inr SEGMENT_LENGTHS_def)
qed

text \<open>
  C36.  \<open>MessageCommonName::parse\<close> accepts exactly the rendered
  well-formed common names and returns the name that was rendered; otherwise it reports the
  number of components when that is wrong, else the first component of the wrong length.
\<close>

theorem common_name_parse_exact:
  "case common_name_parse v of
     Inr n \<Rightarrow> wf_common_name n \<and> common_name_render n = v
   | Inl e \<Rightarrow>
       (\<nexists>n. wf_common_name n \<and> common_name_render n = v) \<and>
       (let parts = split_on CHR ''-'' v in
        if length parts \<noteq> 9 then e = InvalidCommonNameParts (length parts)
        else \<exists>i < 9. take i (map length parts) = take i SEGMENT_LENGTHS \<and>
          length (parts ! i) \<noteq> SEGMENT_LENGTHS ! i \<and>
          e = InvalidCommonSegmentLength i (SEGMENT_LENGTHS ! i) (length (parts ! i)))"
proof (cases "common_name_parse v")
  case (Inl e)
  then have "\<nexists>n. wf_common_name n \<and> common_name_render n = v"
    by (metis common_name_parse_Inr sum.distinct(1))
  moreover have "length SEGMENT_LENGTHS = 9" by (simp add: SEGMENT_LENGTHS_def)
  ultimately show ?thesis
    using Inl by (auto simp: common_name_parse_def Let_def result_iff check_segments_Inl)
next
  case (Inr n)
  then show ?thesis using common_name_parse_Inr [of v n] by simp
qed

text \<open>
  \<open>from_parts\<close> returns the very parts it was given exactly
  when they make a well-formed name, and whatever it returns renders to the parts joined by
  hyphens; when one of the first four parts contains a hyphen the returned fields are a
  different cut of the same text.
\<close>

theorem common_name_from_parts_exact:
  "(common_name_from_parts m t d h u =
      Inr \<lparr>mcn_mig_version = m, mcn_message_type = t, mcn_date = d, mcn_time = h, mcn_uuid = u\<rparr>
    \<longleftrightarrow> wf_common_name
         \<lparr>mcn_mig_version = m, mcn_message_type = t, mcn_date = d, mcn_time = h, mcn_uuid = u\<rparr>) \<and>
   (\<forall>n. common_name_from_parts m t d h u = Inr n \<longrightarrow>
      common_name_render n = join ''-'' [m, t, d, h, u] \<and>
      (CHR ''-'' \<notin> set (m @ t @ d @ h) \<longleftrightarrow>
         n = \<lparr>mcn_mig_version = m, mcn_message_type = t, mcn_date = d, mcn_time = h, mcn_uuid = u\<rparr>))"
  (is "(?l \<longleftrightarrow> ?r) \<and> ?q")
proof
  let ?n = "\<lparr>mcn_mig_version = m, mcn_message_type = t, mcn_date = d, mcn_time = h, mcn_uuid = u\<rparr>"
  have p: "common_name_from_parts m t d h u = common_name_parse (common_name_render ?n)"
    by (simp add: common_name_from_parts_def common_name_render_def)
  show "?l \<longleftrightarrow> ?r" unfolding p by (auto simp: common_name_parse_Inr)
  have j: "common_name_render ?n = join ''-'' [m, t, d, h, u]"
    by (simp add: common_name_render_def)
  show ?q
  proof (intro allI impI conjI)
    fix n assume n: "common_name_from_parts m t d h u = Inr n"
    then have wf: "wf_common_name n" and r: "common_name_render ?n = common_name_render n"
      unfolding p by (auto simp: common_name_parse_Inr)
    then show "common_name_render n = join ''-'' [m, t, d, h, u]" using j by simp
    show "CHR ''-'' \<notin> set (m @ t @ d @ h) \<longleftrightarrow> n = ?n"
    proof
      assume no: "CHR ''-'' \<notin> set (m @ t @ d @ h)"
      have "[m, t, d, h] @ split_on CHR ''-'' u = split_on CHR ''-'' (common_name_render ?n)"
        using no common_name_split [of m t d h u] by (simp add: common_name_render_def)
      also have "\<dots> = [mcn_mig_version n, mcn_message_type n, mcn_date n, mcn_time n] @
          split_on CHR ''-'' (mcn_uuid n)"
        unfolding r using wf common_name_split
        by (simp add: wf_common_name_def common_name_render_def)
      finally have "mcn_mig_version n = m" "mcn_message_type n = t" "mcn_date n = d" "mcn_time n = h"
        "split_on CHR ''-'' (mcn_uuid n) = split_on CHR ''-'' u"
        by simp_all
      moreover from this(5) have "mcn_uuid n = u" by (metis join_split_on)
      ultimately show "n = ?n" by simp
    qed (use wf in \<open>auto simp: wf_common_name_def\<close>)
  qed
qed

theorem common_name_from_parts_exact_witness:
  "\<exists>n. common_name_from_parts ''4.1-F0401'' ''20260824'' ''141623456'' ''550e8400'' ''e29b-41d4-a716-446655440000'' =
       Inr n \<and>
     n \<noteq> \<lparr>mcn_mig_version = ''4.1-F0401'', mcn_message_type = ''20260824'', mcn_date = ''141623456'',
          mcn_time = ''550e8400'', mcn_uuid = ''e29b-41d4-a716-446655440000''\<rparr>"
proof -
  let ?n = "\<lparr>mcn_mig_version = ''4.1'', mcn_message_type = ''F0401'', mcn_date = ''20260824'',
          mcn_time = ''141623456'', mcn_uuid = ''550e8400-e29b-41d4-a716-446655440000''\<rparr>"
  have "common_name_from_parts ''4.1-F0401'' ''20260824'' ''141623456'' ''550e8400'' ''e29b-41d4-a716-446655440000'' = Inr ?n"
    by (simp add: common_name_from_parts_def common_name_parse_def SEGMENT_LENGTHS_def)
  with common_name_from_parts_exact [of "''4.1-F0401''" "''20260824''" "''141623456''" "''550e8400''"
      "''e29b-41d4-a716-446655440000''"]
  show ?thesis by auto
qed

section \<open>The pack filename\<close>

definition wf_pack_filename :: "turnkey_pack_filename \<Rightarrow> bool" where
  "wf_pack_filename f \<longleftrightarrow>
     tpf_source_name f \<noteq> [] \<and> CHR ''_'' \<notin> set (tpf_from_party f) \<and>
     CHR ''_'' \<notin> set (tpf_to_party f) \<and> wf_common_name (tpf_common_name f) \<and>
     CHR ''_'' \<notin> set (common_name_render (tpf_common_name f))"

definition pack_filename_text :: "turnkey_pack_filename \<Rightarrow> string \<Rightarrow> string" where
  "pack_filename_text f count =
     tpf_source_name f @ CHR ''_'' #
       join ''_'' [tpf_from_party f, tpf_to_party f, common_name_render (tpf_common_name f), count]"

lemma pack_filename_render_text:
  "pack_filename_render f = pack_filename_text f (i32_to_string (tpf_pack_count f))"
  by (simp add: pack_filename_render_def pack_filename_text_def)

lemma digits_val_chars: "digits_val a s = Some n \<Longrightarrow> c \<in> set s \<Longrightarrow> digit_val c \<noteq> None"
  by (induction s arbitrary: a) (auto split: option.splits)

lemma parse_i32_chars: "parse_i32 s = Some x \<Longrightarrow> CHR ''_'' \<notin> set s"
proof -
  assume "parse_i32 s = Some x"
  then obtain n where n: "digits_val 0
      (if starts_with s ''-'' \<or> starts_with s ''+'' then tl s else s) = Some n"
    by (auto simp: parse_i32_def Let_def split: if_splits option.splits)
  have "digit_val CHR ''_'' = None" by (simp add: digit_val_def)
  with digits_val_chars [OF n, of "CHR ''_''"]
  have "CHR ''_'' \<notin> set (if starts_with s ''-'' \<or> starts_with s ''+'' then tl s else s)" by blast
  then show ?thesis by (cases s) (auto simp: starts_with_def split: if_splits)
qed

lemma i32_text_no_underscore: "CHR ''_'' \<notin> set (i32_to_string x)"
  using parse_i32_chars parse_i32_to_string by blast

lemma rsplitn_pieces: "x \<in> set (butlast (rsplitn n c s)) \<Longrightarrow> c \<notin> set x"
proof -
  assume x: "x \<in> set (butlast (rsplitn n c s))"
  have "x \<in> set (split_on c s)"
    using x by (auto simp: rsplitn_def Let_def butlast_append split: if_splits
        dest!: in_set_butlastD dest: in_set_dropD list.set_sel(2) [rotated])
  then show ?thesis by (rule split_on_pieces)
qed

lemma rsplitn_5:
  "rsplitn 5 CHR ''_'' v = [count, common, to_party, from_party, source] \<longleftrightarrow>
     CHR ''_'' \<notin> set count \<union> set common \<union> set to_party \<union> set from_party \<and>
     v = source @ CHR ''_'' # join ''_'' [from_party, to_party, common, count]"
proof
  assume r: "rsplitn 5 CHR ''_'' v = [count, common, to_party, from_party, source]"
  have "CHR ''_'' \<notin> set x" if "x \<in> {count, common, to_party, from_party}" for x
    using rsplitn_pieces [of x 5 "CHR ''_''" v] r that by auto
  moreover have "v = join ''_'' [source, from_party, to_party, common, count]"
    using rsplitn_join [of 5 "CHR ''_''" v] r by simp
  ultimately show "CHR ''_'' \<notin> set count \<union> set common \<union> set to_party \<union> set from_party \<and>
     v = source @ CHR ''_'' # join ''_'' [from_party, to_party, common, count]"
    by simp
next
  assume "CHR ''_'' \<notin> set count \<union> set common \<union> set to_party \<union> set from_party \<and>
     v = source @ CHR ''_'' # join ''_'' [from_party, to_party, common, count]"
  then show "rsplitn 5 CHR ''_'' v = [count, common, to_party, from_party, source]"
    using rsplitn_append [of "[from_party, to_party, common, count]" 5 "CHR ''_''" source] by simp
qed

lemma next_part_Inr [result_iff]: "next_part ps = Inr (p, qs) \<longleftrightarrow> ps = p # qs"
  by (cases ps) auto

lemma length_rsplitn: "0 < n \<Longrightarrow> length (rsplitn n c s) \<le> n"
  by (auto simp: rsplitn_def Let_def)

lemma pack_filename_parse_parts:
  assumes "rsplitn 5 CHR ''_'' v = [count, common, to_party, from_party, source]"
  shows "pack_filename_parse v =
     (if source = [] then Inl InvalidPackFilename
      else and_then (ok_or InvalidPackCount (parse_i32 count)) (\<lambda>pack_count.
           and_then (common_name_parse common) (\<lambda>common_name.
             Inr \<lparr>tpf_source_name = source, tpf_from_party = from_party, tpf_to_party = to_party,
                  tpf_common_name = common_name, tpf_pack_count = pack_count\<rparr>)))"
  by (simp add: pack_filename_parse_def assms)

lemma pack_filename_parse_few:
  assumes "length (rsplitn 5 CHR ''_'' v) < 5"
  shows "pack_filename_parse v = Inl InvalidPackFilename"
proof -
  have "length ps < 5 \<Longrightarrow> ps = [] \<or> (\<exists>a. ps = [a]) \<or> (\<exists>a b. ps = [a, b]) \<or>
      (\<exists>a b c. ps = [a, b, c]) \<or> (\<exists>a b c d. ps = [a, b, c, d])" for ps :: "string list"
    by (cases ps rule: remdups_adj.cases; cases "tl (tl ps)" rule: remdups_adj.cases) auto
  from this [OF assms] show ?thesis by (auto simp: pack_filename_parse_def)
qed

lemma length_5: "length xs = 5 \<longleftrightarrow> (\<exists>a b c d e. xs = [a, b, c, d, e])"
  by (auto simp: numeral_eq_Suc length_Suc_conv)

lemma pack_filename_parse_Inr_parts:
  "pack_filename_parse v = Inr f \<longleftrightarrow>
      (\<exists>count common. rsplitn 5 CHR ''_'' v =
          [count, common, tpf_to_party f, tpf_from_party f, tpf_source_name f] \<and>
        tpf_source_name f \<noteq> [] \<and> parse_i32 count = Some (tpf_pack_count f) \<and>
        common_name_parse common = Inr (tpf_common_name f))"
proof (cases "length (rsplitn 5 CHR ''_'' v) < 5")
  case True
  then have "rsplitn 5 CHR ''_'' v \<noteq> [a, b, c, d, e]" for a b c d e by auto
  with True show ?thesis by (simp add: pack_filename_parse_few)
next
  case False
  with length_rsplitn [of 5 "CHR ''_''" v] have "length (rsplitn 5 CHR ''_'' v) = 5" by simp
  then obtain count common to_party from_party source where
    ps: "rsplitn 5 CHR ''_'' v = [count, common, to_party, from_party, source]"
    unfolding length_5 by blast
  show ?thesis
    unfolding pack_filename_parse_parts [OF ps] ps by (cases f) (auto simp: result_iff)
qed

lemma pack_filename_parse_Inr:
  "pack_filename_parse v = Inr f \<longleftrightarrow>
     wf_pack_filename f \<and>
     (\<exists>count. parse_i32 count = Some (tpf_pack_count f) \<and> v = pack_filename_text f count)"
  unfolding pack_filename_parse_Inr_parts rsplitn_5 common_name_parse_Inr wf_pack_filename_def
    pack_filename_text_def
  using parse_i32_chars by blast

text \<open>
  C37.  \<open>TurnkeyPackFilename::parse\<close> is right-anchored: it accepts
  exactly the texts \<open>source_from_to_common_count\<close> whose last four fields are free of
  underscores, whose source (underscores allowed) is not empty, whose common name is well
  formed and whose count reads as an \<open>i32\<close>, and it returns those fields.
\<close>

theorem pack_filename_parse_exact:
  "pack_filename_parse v = Inr f \<longleftrightarrow>
     wf_pack_filename f \<and>
     (\<exists>count. parse_i32 count = Some (tpf_pack_count f) \<and>
        v = tpf_source_name f @ ''_'' @ tpf_from_party f @ ''_'' @ tpf_to_party f @ ''_'' @
            common_name_render (tpf_common_name f) @ ''_'' @ count)"
  unfolding pack_filename_parse_Inr by (simp add: pack_filename_text_def)

text \<open>
  A pack filename survives rendering and parsing exactly when it
  is well formed; every parsed one is, and the remote filename is the common name that stood
  in the text.
\<close>

theorem pack_filename_roundtrip:
  "(pack_filename_parse (pack_filename_render f) = Inr f \<longleftrightarrow> wf_pack_filename f) \<and>
   (case pack_filename_parse v of
      Inl _ \<Rightarrow> True
    | Inr g \<Rightarrow> pack_filename_parse (pack_filename_render g) = Inr g \<and>
        common_name_parse (remote_filename g) = Inr (tpf_common_name g) \<and>
        (\<exists>before count. v = before @ ''_'' @ remote_filename g @ ''_'' @ count))"
proof -
  have rt: "pack_filename_parse (pack_filename_render g) = Inr g \<longleftrightarrow> wf_pack_filename g" for g
    unfolding pack_filename_parse_Inr pack_filename_render_text
    using parse_i32_to_string by blast
  show ?thesis
  proof (cases "pack_filename_parse v")
    case (Inr g)
    then obtain count where g: "wf_pack_filename g" "v = pack_filename_text g count"
      by (auto simp: pack_filename_parse_Inr)
    have "v = (tpf_source_name g @ ''_'' @ tpf_from_party g @ ''_'' @ tpf_to_party g) @ ''_'' @
        remote_filename g @ ''_'' @ count"
      using g(2) by (simp add: pack_filename_text_def remote_filename_def)
    moreover have "common_name_parse (remote_filename g) = Inr (tpf_common_name g)"
      using g(1) by (simp add: common_name_parse_Inr remote_filename_def wf_pack_filename_def)
    ultimately have "\<exists>before count. v = before @ ''_'' @ remote_filename g @ ''_'' @ count"
      "common_name_parse (remote_filename g) = Inr (tpf_common_name g)"
      by blast+
    with Inr rt g(1) show ?thesis by simp
  qed (simp add: rt)
qed

end
