(* ===== verification/Native.thy ===== *)
theory Native
  imports Package Pack Filename
begin

text \<open>
  \<open>crates/einvoice-transport/src/native.rs\<close> and \<open>packed.rs\<close>: prepare, upload, notify.  The
  traits \<open>ObjectUploader\<close> and \<open>GatewayNotifier\<close> are operations on an explicit world \<open>'w\<close>.
\<close>

section \<open>Requests\<close>

record native_message_profile =
  nmp_message_type :: string
  nmp_action :: string
  nmp_quantity :: u32
  nmp_mig_version :: string

definition native_message_profile_new :: "string \<Rightarrow> string \<Rightarrow> u32 \<Rightarrow> string \<Rightarrow> native_message_profile" where
  [simp]: "native_message_profile_new message_type action quantity mig_version =
     \<lparr>nmp_message_type = message_type, nmp_action = action, nmp_quantity = quantity,
      nmp_mig_version = mig_version\<rparr>"

record gateway_version_profile =
  gvp_api_version :: string
  gvp_turnkey_version :: string

definition gateway_version_profile_new :: "string \<Rightarrow> string \<Rightarrow> gateway_version_profile" where
  [simp]: "gateway_version_profile_new api_version turnkey_version =
     \<lparr>gvp_api_version = api_version, gvp_turnkey_version = turnkey_version\<rparr>"

record native_submission_metadata =
  nsm_from :: gateway_party
  nsm_to :: gateway_party
  nsm_service_type :: service_type
  nsm_message :: native_message_profile
  nsm_retry :: u32
  nsm_versions :: gateway_version_profile

definition metadata_initial ::
  "gateway_party \<Rightarrow> gateway_party \<Rightarrow> service_type \<Rightarrow> native_message_profile \<Rightarrow>
     gateway_version_profile \<Rightarrow> native_submission_metadata" where
  "metadata_initial from to service_type message versions =
     \<lparr>nsm_from = from, nsm_to = to, nsm_service_type = service_type, nsm_message = message,
      nsm_retry = INITIAL_RETRY, nsm_versions = versions\<rparr>"

record native_submission_request =
  nsr_signed_local_filename :: string
  nsr_remote_filename :: string
  nsr_signed_bytes :: bytes
  nsr_zip_mode :: zip_mode
  nsr_metadata :: native_submission_metadata

record native_submission_receipt =
  rcp_remote_filename :: string
  rcp_gateway_status :: gateway_process_status

datatype ('p, 'u, 'n) native_submit_error =
    PrepareError 'p
  | UploadError string 'u
  | NotifyError string 'n
  | GatewayRejected string gateway_process_status

section \<open>Submission\<close>

type_synonym ('u, 'w) uploader = "string \<Rightarrow> bytes \<Rightarrow> 'w \<Rightarrow> ('u + unit) \<times> 'w"
type_synonym ('n, 'w) notifier = "upload_notification \<Rightarrow> 'w \<Rightarrow> ('n + gateway_process_status) \<times> 'w"

definition notification_of :: "native_submission_metadata \<Rightarrow> prepared_upload_object \<Rightarrow> upload_notification" where
  "notification_of metadata prepared =
     \<lparr>un_from = nsm_from metadata, un_to = nsm_to metadata,
      un_service_type = nsm_service_type metadata, un_zip_mode = puo_zip_mode prepared,
      un_message_type = nmp_message_type (nsm_message metadata),
      un_action = nmp_action (nsm_message metadata),
      un_quantity = nmp_quantity (nsm_message metadata),
      un_mig_version = nmp_mig_version (nsm_message metadata),
      un_filename = puo_remote_filename prepared, un_size = puo_notification_size prepared,
      un_retry = nsm_retry metadata, un_api_version = gvp_api_version (nsm_versions metadata),
      un_turnkey_version = gvp_turnkey_version (nsm_versions metadata)\<rparr>"

definition native_submit ::
  "('h, 'z, 'io) zip_writer \<Rightarrow> ('u, 'w) uploader \<Rightarrow> ('n, 'w) notifier \<Rightarrow> native_submission_request \<Rightarrow> 'w \<Rightarrow>
     ((('z, 'io) prepare_upload_error, 'u, 'n) native_submit_error + native_submission_receipt) \<times> 'w" where
  "native_submit zw upload notify request w =
     (case prepare_upload_object zw (nsr_signed_local_filename request) (nsr_remote_filename request)
             (nsr_signed_bytes request) (nsr_zip_mode request) of
        Inl e \<Rightarrow> (Inl (PrepareError e), w)
      | Inr prepared \<Rightarrow>
          (case upload (puo_remote_filename prepared) (puo_uploaded_bytes prepared) w of
             (Inl source, w) \<Rightarrow> (Inl (UploadError (puo_remote_filename prepared) source), w)
           | (Inr _, w) \<Rightarrow>
               (let notification = notification_of (nsr_metadata request) prepared in
                case notify notification w of
                  (Inl source, w) \<Rightarrow> (Inl (NotifyError (puo_remote_filename prepared) source), w)
                | (Inr gateway_status, w) \<Rightarrow>
                    if \<not> is_accepted gateway_status
                    then (Inl (GatewayRejected (puo_remote_filename prepared) gateway_status), w)
                    else (Inr \<lparr>rcp_remote_filename = puo_remote_filename prepared,
                               rcp_gateway_status = gateway_status\<rparr>, w))))"

section \<open>Pack artifacts\<close>

record pack_artifact_submission =
  pas_filename :: turnkey_pack_filename
  pas_artifact :: signed_artifact
  pas_zip_mode :: zip_mode
  pas_metadata :: native_submission_metadata

datatype ('p, 'u, 'n) pack_artifact_submit_error =
    NonPositivePackCount i32
  | QuantityMismatch u32 u32
  | NativeError "('p, 'u, 'n) native_submit_error"

definition u32_of_i32 :: "i32 \<Rightarrow> u32 option" where
  "u32_of_i32 c = (if 0 \<le> sint c then Some (word_of_int (sint c)) else None)"

definition submit_pack_artifact ::
  "('h, 'z, 'io) zip_writer \<Rightarrow> ('u, 'w) uploader \<Rightarrow> ('n, 'w) notifier \<Rightarrow> pack_artifact_submission \<Rightarrow> 'w \<Rightarrow>
     ((('z, 'io) prepare_upload_error, 'u, 'n) pack_artifact_submit_error + native_submission_receipt) \<times> 'w" where
  "submit_pack_artifact zw upload notify request w =
     (case Option.bind (u32_of_i32 (tpf_pack_count (pas_filename request)))
             (\<lambda>count. if count > 0 then Some count else None) of
        None \<Rightarrow> (Inl (NonPositivePackCount (tpf_pack_count (pas_filename request))), w)
      | Some filename_count \<Rightarrow>
          if filename_count \<noteq> nmp_quantity (nsm_message (pas_metadata request))
          then (Inl (QuantityMismatch filename_count (nmp_quantity (nsm_message (pas_metadata request)))), w)
          else
            (let native_request =
               \<lparr>nsr_signed_local_filename = pack_filename_render (pas_filename request),
                nsr_remote_filename = remote_filename (pas_filename request),
                nsr_signed_bytes = sa_upload_bytes (pas_artifact request),
                nsr_zip_mode = pas_zip_mode request, nsr_metadata = pas_metadata request\<rparr>
             in case native_submit zw upload notify native_request w of
                  (Inl e, w) \<Rightarrow> (Inl (NativeError e), w)
                | (Inr receipt, w) \<Rightarrow> (Inr receipt, w)))"

section \<open>Traces\<close>

text \<open>
  The boundary to the platform: whatever an uploader and a notifier do, each call is one event
  of the trace.  The submitter's ordering is proved once for every such pair.
\<close>

datatype effect = Uploaded string bytes | Notified upload_notification

locale platform_channel =
  fixes upload :: "('u, 'w) uploader"
    and notify :: "('n, 'w) notifier"
    and trace :: "'w \<Rightarrow> effect list"
  assumes trace_upload: "upload name bytes w = (r, w') \<Longrightarrow> trace w' = trace w @ [Uploaded name bytes]"
    and trace_notify: "notify n w = (r', w') \<Longrightarrow> trace w' = trace w @ [Notified n]"
begin

definition uploaded_only :: "string \<Rightarrow> 'w \<Rightarrow> 'w \<Rightarrow> bool" where
  "uploaded_only name w w' \<longleftrightarrow> (\<exists>bytes. trace w' = trace w @ [Uploaded name bytes])"

lemma submit_trace:
  assumes "native_submit zw upload notify request w = (r, w')"
  shows "case prepare_upload_object zw (nsr_signed_local_filename request) (nsr_remote_filename request)
             (nsr_signed_bytes request) (nsr_zip_mode request) of
      Inl e \<Rightarrow> r = Inl (PrepareError e) \<and> w' = w
    | Inr p \<Rightarrow>
        let name = puo_remote_filename p; n = notification_of (nsr_metadata request) p;
            up = Uploaded name (puo_uploaded_bytes p) in
        (case r of
           Inl (PrepareError e) \<Rightarrow> False
         | Inl (UploadError f e) \<Rightarrow> f = name \<and> trace w' = trace w @ [up]
         | Inl (NotifyError f e) \<Rightarrow> f = name \<and> trace w' = trace w @ [up, Notified n]
         | Inl (GatewayRejected f s) \<Rightarrow>
             f = name \<and> gps_status_code s \<noteq> 0 \<and> trace w' = trace w @ [up, Notified n]
         | Inr receipt \<Rightarrow>
             rcp_remote_filename receipt = name \<and> gps_status_code (rcp_gateway_status receipt) = 0 \<and>
             trace w' = trace w @ [up, Notified n])"
proof (cases "prepare_upload_object zw (nsr_signed_local_filename request) (nsr_remote_filename request)
             (nsr_signed_bytes request) (nsr_zip_mode request)")
  case (Inl e)
  with assms show ?thesis by (simp add: native_submit_def)
next
  case (Inr p)
  obtain ru w1 where u: "upload (puo_remote_filename p) (puo_uploaded_bytes p) w = (ru, w1)"
    by (cases "upload (puo_remote_filename p) (puo_uploaded_bytes p) w")
  note tu = trace_upload [OF u]
  show ?thesis
  proof (cases ru)
    case ru: (Inl e)
    with assms Inr u tu show ?thesis by (auto simp: native_submit_def Let_def)
  next
    case ru: (Inr x)
    obtain rn w2 where n: "notify (notification_of (nsr_metadata request) p) w1 = (rn, w2)"
      by (cases "notify (notification_of (nsr_metadata request) p) w1")
    note tn = trace_notify [OF n]
    have "(r, w') = (case rn of
        Inl source \<Rightarrow> (Inl (NotifyError (puo_remote_filename p) source), w2)
      | Inr status \<Rightarrow>
          if \<not> is_accepted status then (Inl (GatewayRejected (puo_remote_filename p) status), w2)
          else (Inr \<lparr>rcp_remote_filename = puo_remote_filename p, rcp_gateway_status = status\<rparr>, w2))"
      using assms u n by (cases x; cases rn) (simp_all add: native_submit_def Inr ru Let_def)
    with tu tn show ?thesis
      unfolding Inr sum.case Let_def by (cases rn) (simp_all add: is_accepted_def split: if_splits)
  qed
qed

end

text \<open>Any uploader and notifier, with their calls written down.\<close>

definition traced_upload :: "('u, 'w) uploader \<Rightarrow> ('u, effect list \<times> 'w) uploader" where
  "traced_upload upload name bytes lw =
     (let (r, w) = upload name bytes (snd lw) in (r, (fst lw @ [Uploaded name bytes], w)))"

definition traced_notify :: "('n, 'w) notifier \<Rightarrow> ('n, effect list \<times> 'w) notifier" where
  "traced_notify notify n lw = (let (r, w) = notify n (snd lw) in (r, (fst lw @ [Notified n], w)))"

interpretation traced: platform_channel "traced_upload upload" "traced_notify notify" fst for upload notify
  by unfold_locales (auto simp: traced_upload_def traced_notify_def Let_def split: prod.splits)


definition sample_zip :: "(bytes, unit, unit) zip_writer" where
  "sample_zip = \<lparr>zw_new = [], zw_start_file = (\<lambda>name h. Inr (h @ as_bytes name)),
     zw_write_all = (\<lambda>bytes h. Inr (h @ bytes)), zw_finish = Inr\<rparr>"

definition sample_party :: gateway_party where
  "sample_party = \<lparr>gp_party_id = ''12345678'', gp_party_description = None, gp_routing_id = ''R'',
     gp_routing_description = None\<rparr>"

definition sample_metadata :: native_submission_metadata where
  "sample_metadata = metadata_initial sample_party sample_party Exchange
     \<lparr>nmp_message_type = ''F0401'', nmp_action = ''UPLOAD'', nmp_quantity = 2, nmp_mig_version = ''4.1''\<rparr>
     \<lparr>gvp_api_version = ''1'', gvp_turnkey_version = ''2''\<rparr>"

definition sample_request :: native_submission_request where
  "sample_request = \<lparr>nsr_signed_local_filename = ''a'', nsr_remote_filename = ''b'',
     nsr_signed_bytes = [1, 2, 3], nsr_zip_mode = Plain, nsr_metadata = sample_metadata\<rparr>"

definition sample_status :: gateway_process_status where
  "sample_status = \<lparr>gps_status_code = 0, gps_details = []\<rparr>"

lemmas sample_defs = sample_zip_def sample_party_def sample_metadata_def sample_request_def sample_status_def
  metadata_initial_def traced_upload_def traced_notify_def

definition sample_uploader :: "(unit, unit) uploader" where
  "sample_uploader name bytes w = (Inr (), w)"

definition sample_notifier :: "(unit, unit) notifier" where
  "sample_notifier n w = (Inr sample_status, w)"


section \<open>Pack artifacts: the quantity\<close>

lemma positive_count:
  "Option.bind (u32_of_i32 c) (\<lambda>count. if count > 0 then Some count else None) = Some q \<longleftrightarrow>
     0 < sint c \<and> uint q = sint c"
proof -
  have u: "uint (word_of_int (sint c) :: u32) = sint c" if "0 \<le> sint c"
    unfolding uint_word_of_int using that sint_i32_range(2) [of c] by (simp add: mod_pos_pos_trivial)
  have pos: "0 < (word_of_int (sint c) :: u32) \<longleftrightarrow> 0 < sint c" if "0 \<le> sint c"
    using u [OF that] by (simp add: word_less_def)
  have eq: "q = word_of_int (sint c) \<longleftrightarrow> uint q = sint c" if "0 \<le> sint c"
    using u [OF that] by (metis word_uint_eq_iff)
  show ?thesis
  proof (cases "0 \<le> sint c")
    case True
    with pos eq show ?thesis by (auto simp: u32_of_i32_def)
  qed (auto simp: u32_of_i32_def)
qed

lemma submit_pack_artifact_run:
  "submit_pack_artifact zw upload notify request w =
     (let c = tpf_pack_count (pas_filename request); q = nmp_quantity (nsm_message (pas_metadata request));
          native = native_submit zw upload notify
            \<lparr>nsr_signed_local_filename = pack_filename_render (pas_filename request),
             nsr_remote_filename = remote_filename (pas_filename request),
             nsr_signed_bytes = sa_upload_bytes (pas_artifact request),
             nsr_zip_mode = pas_zip_mode request, nsr_metadata = pas_metadata request\<rparr> w
      in if sint c \<le> 0 then (Inl (NonPositivePackCount c), w)
         else if uint q \<noteq> sint c then (Inl (QuantityMismatch (word_of_int (sint c)) q), w)
         else (map_err NativeError (fst native), snd native))"
proof -
  let ?c = "tpf_pack_count (pas_filename request)" and ?q = "nmp_quantity (nsm_message (pas_metadata request))"
  let ?f = "Option.bind (u32_of_i32 ?c) (\<lambda>count. if count > 0 then Some count else None)"
  have "?f = (if sint ?c \<le> 0 then None else Some (word_of_int (sint ?c)))"
  proof (cases "sint ?c \<le> 0")
    case True
    then have "\<forall>q. ?f \<noteq> Some q" using positive_count [of ?c] by simp
    then have "?f = None" by (simp only: option.exhaust_sel not_Some_eq)
    with True show ?thesis by simp
  next
    case False
    moreover from this have "uint (word_of_int (sint ?c) :: u32) = sint ?c"
      unfolding uint_word_of_int using sint_i32_range(2) [of ?c] by (simp add: mod_pos_pos_trivial)
    ultimately show ?thesis using positive_count [of ?c "word_of_int (sint ?c)"] by simp
  qed
  moreover have "(word_of_int (sint ?c) \<noteq> ?q) = (uint ?q \<noteq> sint ?c)" if "\<not> sint ?c \<le> 0"
    using that positive_count [of ?c ?q] positive_count [of ?c "word_of_int (sint ?c)"]
      calculation by (metis option.inject)
  ultimately show ?thesis
    unfolding submit_pack_artifact_def Let_def
    by (auto simp: map_err_def split: prod.splits sum.splits)
qed

lemma pack_artifact_sent:
  assumes "submit_pack_artifact zw (traced_upload upload) (traced_notify notify) request ([], w) = (r, (log, w'))"
    and "Notified n \<in> set log"
  obtains p where "0 < sint (tpf_pack_count (pas_filename request))"
    "uint (nmp_quantity (nsm_message (pas_metadata request))) = sint (tpf_pack_count (pas_filename request))"
    "prepare_upload_object zw (pack_filename_render (pas_filename request)) (remote_filename (pas_filename request))
       (sa_upload_bytes (pas_artifact request)) (pas_zip_mode request) = Inr p"
    "n = notification_of (pas_metadata request) p"
    "log = [Uploaded (remote_filename (pas_filename request)) (puo_uploaded_bytes p), Notified n]"
proof -
  let ?c = "tpf_pack_count (pas_filename request)" and ?q = "nmp_quantity (nsm_message (pas_metadata request))"
  let ?req = "\<lparr>nsr_signed_local_filename = pack_filename_render (pas_filename request),
                nsr_remote_filename = remote_filename (pas_filename request),
                nsr_signed_bytes = sa_upload_bytes (pas_artifact request),
                nsr_zip_mode = pas_zip_mode request, nsr_metadata = pas_metadata request\<rparr>"
  let ?p = "prepare_upload_object zw (nsr_signed_local_filename ?req) (nsr_remote_filename ?req)
             (nsr_signed_bytes ?req) (nsr_zip_mode ?req)"
  obtain rn where count: "0 < sint ?c" "uint ?q = sint ?c"
    and nat: "native_submit zw (traced_upload upload) (traced_notify notify) ?req ([], w) = (rn, (log, w'))"
    using assms by (auto simp: submit_pack_artifact_run Let_def not_le prod_eq_iff split: if_splits)
  note t = traced.submit_trace [OF nat]
  show thesis
  proof (cases ?p)
    case (Inl e)
    with t assms(2) show thesis by simp
  next
    case (Inr p)
    have name: "puo_remote_filename p = remote_filename (pas_filename request)"
      using Inr by (auto simp: prepare_upload_Inr)
    from t Inr assms(2) have "n = notification_of (pas_metadata request) p"
      "log = [Uploaded (puo_remote_filename p) (puo_uploaded_bytes p), Notified n]"
      by (auto simp: Let_def split: sum.splits native_submit_error.splits)
    with count name Inr that show thesis by simp
  qed
qed

text \<open>
  A pack artifact is sent only when the count in its filename is
  positive and equals the quantity to be notified; then the uploaded name is the common name
  of that filename, the notified quantity is that count and the notified size the artifact's
  reported size, and both are in the \<open>int32\<close> range of the gateway.
\<close>

theorem pack_artifact_quantity:
  assumes "submit_pack_artifact zw (traced_upload upload) (traced_notify notify) request ([], w) = (r, (log, w'))"
    and "Notified n \<in> set log"
  shows "0 < sint (tpf_pack_count (pas_filename request)) \<and>
    uint (un_quantity n) = sint (tpf_pack_count (pas_filename request)) \<and>
    un_filename n = remote_filename (pas_filename request) \<and>
    uint (un_size n) = int (turnkey_reported_size (pas_artifact request)) \<and>
    uint (un_quantity n) < 2 ^ 31 \<and> uint (un_size n) < 2 ^ 31 \<and>
    (\<exists>bytes. log = [Uploaded (remote_filename (pas_filename request)) bytes, Notified n])"
proof -
  from assms obtain p where p: "0 < sint (tpf_pack_count (pas_filename request))"
    "uint (nmp_quantity (nsm_message (pas_metadata request))) = sint (tpf_pack_count (pas_filename request))"
    "prepare_upload_object zw (pack_filename_render (pas_filename request)) (remote_filename (pas_filename request))
       (sa_upload_bytes (pas_artifact request)) (pas_zip_mode request) = Inr p"
    "n = notification_of (pas_metadata request) p"
    "log = [Uploaded (remote_filename (pas_filename request)) (puo_uploaded_bytes p), Notified n]"
    by (rule pack_artifact_sent)
  moreover have "puo_remote_filename p = remote_filename (pas_filename request)"
    using p(3) by (auto simp: prepare_upload_Inr)
  ultimately show ?thesis
    using prepared_size [OF p(3)] sint_i32_range(2) [of "tpf_pack_count (pas_filename request)"]
    by (simp add: notification_of_def turnkey_reported_size_def)
qed

definition sample_pack_submission :: pack_artifact_submission where
  "sample_pack_submission =
     \<lparr>pas_filename = \<lparr>tpf_source_name = ''INV'', tpf_from_party = ''1'', tpf_to_party = ''2'',
         tpf_common_name = \<lparr>mcn_mig_version = ''4.1'', mcn_message_type = ''F0401'', mcn_date = ''20250101'',
           mcn_time = ''120000000'', mcn_uuid = ''u''\<rparr>,
         tpf_pack_count = 2\<rparr>,
      pas_artifact = \<lparr>sa_upload_bytes = [1, 2, 3], sa_envelope_size = 9, sa_signature_algorithm = EcdsaSha256\<rparr>,
      pas_zip_mode = Plain, pas_metadata = sample_metadata\<rparr>"

theorem pack_artifact_quantity_witness:
  "\<exists>r log n. submit_pack_artifact sample_zip (traced_upload sample_uploader) (traced_notify sample_notifier)
        sample_pack_submission ([], ()) = (r, (log, ())) \<and> Notified n \<in> set log \<and>
      uint (un_quantity n) = 2 \<and> un_filename n = ''4.1-F0401-20250101-120000000-u''"
proof -
  have count: "Option.bind (u32_of_i32 (tpf_pack_count (pas_filename sample_pack_submission)))
      (\<lambda>count. if count > 0 then Some count else None) = Some 2"
    by (simp add: sample_pack_submission_def u32_of_i32_def)
  have name: "remote_filename (pas_filename sample_pack_submission) = ''4.1-F0401-20250101-120000000-u''"
    by (simp add: sample_pack_submission_def remote_filename_def common_name_render_def)
  have local: "safe_basename (pack_filename_render (pas_filename sample_pack_submission))"
    by (simp add: sample_pack_submission_def pack_filename_render_def common_name_render_def safe_basename_def
        i32_to_string_def)
  have prep: "prepare_upload_object sample_zip (pack_filename_render (pas_filename sample_pack_submission))
      (remote_filename (pas_filename sample_pack_submission)) [1, 2, 3] Plain =
      Inr \<lparr>puo_remote_filename = remote_filename (pas_filename sample_pack_submission),
           puo_uploaded_bytes = [1, 2, 3], puo_notification_size = 3, puo_zip_mode = Plain\<rparr>"
    unfolding prepare_upload_Inr name
    using local by (simp add: safe_basename_def MAX_SIGNED_SOURCE_BYTES_def upload_bytes_of_def)
  have fields: "nmp_quantity (nsm_message (pas_metadata sample_pack_submission)) = 2"
    "sa_upload_bytes (pas_artifact sample_pack_submission) = [1, 2, 3]"
    "pas_zip_mode sample_pack_submission = Plain"
    by (simp_all add: sample_pack_submission_def sample_defs)
  obtain r log n where run: "submit_pack_artifact sample_zip (traced_upload sample_uploader)
      (traced_notify sample_notifier) sample_pack_submission ([], ()) = (r, (log, ()))" "Notified n \<in> set log"
    by (simp add: submit_pack_artifact_def count fields native_submit_def prep Let_def traced_upload_def traced_notify_def
        sample_uploader_def sample_notifier_def is_accepted_def sample_status_def)
  from pack_artifact_quantity [OF run] run show ?thesis
    unfolding name by (auto simp: sample_pack_submission_def)
qed

end
