(* ===== verification/Sftp.thy ===== *)
theory Sftp
  imports Receiver_Safety Native "HOL-Library.List_Lexorder" "HOL-Library.Char_ord"
begin

text \<open>
  \<open>crates/einvoice-transport/src/sftp.rs\<close> and \<open>sftp_reconciliation.rs\<close>: connecting with a verified
  host key, uploading, listing, downloading and deleting.  The crate \<open>ssh2\<close> and the TCP sockets
  are the record \<open>ssh\<close> of operations on the world \<open>'w\<close>.
\<close>

section \<open>Computations that return\<close>

type_synonym ('s, 'e, 'a) st = "'s \<Rightarrow> ('e + 'a) \<times> 's"

definition st_return :: "'a \<Rightarrow> ('s, 'e, 'a) st" where
  "st_return a s = (Inr a, s)"

definition st_fail :: "'e \<Rightarrow> ('s, 'e, 'a) st" where
  "st_fail e s = (Inl e, s)"

definition st_bind :: "('s, 'e, 'a) st \<Rightarrow> ('a \<Rightarrow> ('s, 'e, 'b) st) \<Rightarrow> ('s, 'e, 'b) st" where
  "st_bind p f s = (case p s of (Inl e, s) \<Rightarrow> (Inl e, s) | (Inr a, s) \<Rightarrow> f a s)"

definition st_map_err :: "('e \<Rightarrow> 'f) \<Rightarrow> ('s, 'e, 'a) st \<Rightarrow> ('s, 'f, 'a) st" where
  "st_map_err g p s = (map_err g (fst (p s)), snd (p s))"

definition st_update :: "('s \<Rightarrow> 's) \<Rightarrow> ('s, 'e, unit) st" where
  "st_update f s = (Inr (), f s)"

definition io_of :: "('s, 'e, 'a) st \<Rightarrow> ('s, 'e, 'a) io" where
  "io_of p s = Some (p s)"

lemma st_bind_iff:
  "st_bind p f s = (r, t) \<longleftrightarrow>
     (\<exists>e. p s = (Inl e, t) \<and> r = Inl e) \<or> (\<exists>a u. p s = (Inr a, u) \<and> f a u = (r, t))"
  by (auto simp: st_bind_def split: prod.splits sum.splits)

lemma st_bind_map_err_iff:
  "st_bind (st_map_err g p) f s = (r, t) \<longleftrightarrow>
     (\<exists>e. p s = (Inl e, t) \<and> r = Inl (g e)) \<or> (\<exists>a u. p s = (Inr a, u) \<and> f a u = (r, t))"
  by (cases "p s"; cases "fst (p s)") (auto simp: st_bind_def st_map_err_def map_err_def)

lemma st_map_err_iff: "st_map_err g p s = (r, t) \<longleftrightarrow> (\<exists>q. p s = (q, t) \<and> r = map_err g q)"
  by (cases "p s") (auto simp: st_map_err_def)

section \<open>Configuration\<close>

record sftp_credentials =
  sc_username :: string
  sc_password :: string

definition sftp_credentials_new :: "string \<Rightarrow> string \<Rightarrow> sftp_credentials" where
  "sftp_credentials_new username password = \<lparr>sc_username = username, sc_password = password\<rparr>"

text \<open>Durations in milliseconds.\<close>

record sftp_config =
  cfg_host :: string
  cfg_port :: "16 word"
  cfg_known_hosts_path :: string
  cfg_timeout :: nat
  cfg_upload_directory :: string
  cfg_receive_directory :: string

definition DEFAULT_PORT :: "16 word" where "DEFAULT_PORT = 2222"

definition SFTP_DEFAULT_TIMEOUT :: nat where "SFTP_DEFAULT_TIMEOUT = 120000"

definition sftp_config_new :: "string \<Rightarrow> string \<Rightarrow> sftp_config" where
  "sftp_config_new host known_hosts_path =
     \<lparr>cfg_host = host, cfg_port = DEFAULT_PORT, cfg_known_hosts_path = known_hosts_path,
      cfg_timeout = SFTP_DEFAULT_TIMEOUT, cfg_upload_directory = ''in'', cfg_receive_directory = ''out''\<rparr>"

datatype 'x sftp_connection_error =
    MissingHostKey
  | HostKeyNotFound string "16 word"
  | HostKeyMismatch string "16 word"
  | HostKeyCheckFailed string "16 word"
  | AuthenticationFailed
  | SftpIo io_error
  | SshError 'x

datatype check_result = CheckMatch | CheckNotFound | CheckMismatch | CheckFailure

record file_stat =
  fst_size :: "u64 option"
  fst_perm :: "u32 option"

record ('addr, 'tcp, 'ses, 'known, 'sftp, 'file, 'x, 'w) ssh =
  ssh_resolve :: "string \<Rightarrow> 16 word \<Rightarrow> ('w, io_error, 'addr list) st"
  ssh_connect_timeout :: "'addr \<Rightarrow> nat \<Rightarrow> ('w, io_error, 'tcp) st"
  ssh_set_read_timeout :: "'tcp \<Rightarrow> nat \<Rightarrow> ('w, io_error, unit) st"
  ssh_set_write_timeout :: "'tcp \<Rightarrow> nat \<Rightarrow> ('w, io_error, unit) st"
  ssh_session_new :: "('w, 'x, 'ses) st"
  ssh_set_timeout :: "'ses \<Rightarrow> u32 \<Rightarrow> 'w \<Rightarrow> 'w"
  ssh_set_tcp_stream :: "'ses \<Rightarrow> 'tcp \<Rightarrow> 'w \<Rightarrow> 'w"
  ssh_handshake :: "'ses \<Rightarrow> ('w, 'x, unit) st"
  ssh_host_key :: "'ses \<Rightarrow> 'w \<Rightarrow> bytes option"
  ssh_known_hosts :: "'ses \<Rightarrow> ('w, 'x, 'known) st"
  ssh_read_known_hosts :: "'known \<Rightarrow> string \<Rightarrow> ('w, 'x, unit) st"
  ssh_check_port :: "'known \<Rightarrow> string \<Rightarrow> 16 word \<Rightarrow> bytes \<Rightarrow> 'w \<Rightarrow> check_result"
  ssh_userauth_password :: "'ses \<Rightarrow> string \<Rightarrow> string \<Rightarrow> ('w, 'x, unit) st"
  ssh_authenticated :: "'ses \<Rightarrow> 'w \<Rightarrow> bool"
  ssh_sftp :: "'ses \<Rightarrow> ('w, 'x, 'sftp) st"
  sftp_create :: "'sftp \<Rightarrow> string \<Rightarrow> ('w, 'x, 'file) st"
  sftp_open :: "'sftp \<Rightarrow> string \<Rightarrow> ('w, 'x, 'file) st"
  sftp_readdir :: "'sftp \<Rightarrow> string \<Rightarrow> ('w, 'x, (string \<times> file_stat) list) st"
  sftp_unlink :: "'sftp \<Rightarrow> string \<Rightarrow> ('w, 'x, unit) st"
  sfile_write_all :: "'file \<Rightarrow> bytes \<Rightarrow> ('w, io_error, unit) st"
  sfile_flush :: "'file \<Rightarrow> ('w, io_error, unit) st"
  sfile_read :: "'file \<Rightarrow> nat \<Rightarrow> ('w, io_error, bytes) st"
  sfile_close :: "'file \<Rightarrow> ('w, 'x, unit) st"

section \<open>Connecting\<close>

fun connect_addresses ::
  "('addr, 'tcp, 'ses, 'known, 'sftp, 'file, 'x, 'w) ssh \<Rightarrow> nat \<Rightarrow> 'addr list \<Rightarrow> io_error option \<Rightarrow>
     ('w, 'x sftp_connection_error, 'tcp) st" where
  "connect_addresses ssh timeout [] last_error w =
     (Inl (SftpIo (case last_error of Some e \<Rightarrow> e | None \<Rightarrow> NotFound)), w)"
| "connect_addresses ssh timeout (address # addresses) last_error w =
     (case ssh_connect_timeout ssh address timeout w of
        (Inr stream, w) \<Rightarrow>
          st_bind (st_map_err SftpIo (ssh_set_read_timeout ssh stream timeout)) (\<lambda>_.
          st_bind (st_map_err SftpIo (ssh_set_write_timeout ssh stream timeout)) (\<lambda>_.
            st_return stream)) w
      | (Inl error, w) \<Rightarrow> connect_addresses ssh timeout addresses (Some error) w)"

definition connect_tcp ::
  "('addr, 'tcp, 'ses, 'known, 'sftp, 'file, 'x, 'w) ssh \<Rightarrow> sftp_config \<Rightarrow>
     ('w, 'x sftp_connection_error, 'tcp) st" where
  "connect_tcp ssh config =
     st_bind (st_map_err SftpIo (ssh_resolve ssh (cfg_host config) (cfg_port config))) (\<lambda>addresses.
       connect_addresses ssh (cfg_timeout config) addresses None)"

fun check_outcome :: "sftp_config \<Rightarrow> check_result \<Rightarrow> 'x sftp_connection_error + unit" where
  "check_outcome config CheckMatch = Inr ()"
| "check_outcome config CheckNotFound = Inl (HostKeyNotFound (cfg_host config) (cfg_port config))"
| "check_outcome config CheckMismatch = Inl (HostKeyMismatch (cfg_host config) (cfg_port config))"
| "check_outcome config CheckFailure = Inl (HostKeyCheckFailed (cfg_host config) (cfg_port config))"

definition verify_host_key ::
  "('addr, 'tcp, 'ses, 'known, 'sftp, 'file, 'x, 'w) ssh \<Rightarrow> sftp_config \<Rightarrow> 'ses \<Rightarrow>
     ('w, 'x sftp_connection_error, unit) st" where
  "verify_host_key ssh config session w =
     (case ssh_host_key ssh session w of
        None \<Rightarrow> (Inl MissingHostKey, w)
      | Some host_key \<Rightarrow>
          st_bind (st_map_err SshError (ssh_known_hosts ssh session)) (\<lambda>known_hosts.
          st_bind (st_map_err SshError (ssh_read_known_hosts ssh known_hosts (cfg_known_hosts_path config))) (\<lambda>_ w.
            (check_outcome config
               (ssh_check_port ssh known_hosts (cfg_host config) (cfg_port config) host_key w), w))) w)"

definition timeout_ms :: "nat \<Rightarrow> u32" where
  "timeout_ms millis = (if millis < 2 ^ 32 then of_nat millis else 0xFFFFFFFF)"

definition open_session ::
  "('addr, 'tcp, 'ses, 'known, 'sftp, 'file, 'x, 'w) ssh \<Rightarrow> sftp_config \<Rightarrow>
     ('w, 'x sftp_connection_error, 'ses) st" where
  "open_session ssh config =
     st_bind (connect_tcp ssh config) (\<lambda>tcp.
     st_bind (st_map_err SshError (ssh_session_new ssh)) (\<lambda>session.
     st_bind (st_update (ssh_set_timeout ssh session (timeout_ms (cfg_timeout config)))) (\<lambda>_.
     st_bind (st_update (ssh_set_tcp_stream ssh session tcp)) (\<lambda>_.
     st_bind (st_map_err SshError (ssh_handshake ssh session)) (\<lambda>_.
       st_return session)))))"

definition connect_session ::
  "('addr, 'tcp, 'ses, 'known, 'sftp, 'file, 'x, 'w) ssh \<Rightarrow> sftp_config \<Rightarrow> sftp_credentials \<Rightarrow>
     ('w, 'x sftp_connection_error, 'ses) st" where
  "connect_session ssh config credentials =
     st_bind (open_session ssh config) (\<lambda>session.
     st_bind (verify_host_key ssh config session) (\<lambda>_.
     st_bind (st_map_err SshError
       (ssh_userauth_password ssh session (sc_username credentials) (sc_password credentials))) (\<lambda>_ w.
       if \<not> ssh_authenticated ssh session w then (Inl AuthenticationFailed, w) else (Inr session, w))))"

definition connect_sftp ::
  "('addr, 'tcp, 'ses, 'known, 'sftp, 'file, 'x, 'w) ssh \<Rightarrow> sftp_config \<Rightarrow> sftp_credentials \<Rightarrow>
     ('w, 'x sftp_connection_error, 'sftp) st" where
  "connect_sftp ssh config credentials =
     st_bind (connect_session ssh config credentials) (\<lambda>session. st_map_err SshError (ssh_sftp ssh session))"

definition safe_remote_basename :: "string \<Rightarrow> bool" where
  "safe_remote_basename v \<longleftrightarrow>
     v \<noteq> [] \<and> v \<noteq> ''.'' \<and> v \<noteq> ''..'' \<and> \<not> contains v CHR ''/'' \<and> \<not> contains v CHR 0x5C \<and> \<not> contains v CHR 0x00"

section \<open>Uploading\<close>

datatype 'x sftp_upload_error = InvalidRemoteFilename | UploadConnection "'x sftp_connection_error"

definition sftp_upload ::
  "('addr, 'tcp, 'ses, 'known, 'sftp, 'file, 'x, 'w) ssh \<Rightarrow> sftp_config \<Rightarrow> sftp_credentials \<Rightarrow>
     string \<Rightarrow> bytes \<Rightarrow> ('w, 'x sftp_upload_error, unit) st" where
  "sftp_upload ssh config credentials name bytes =
     (if \<not> safe_remote_basename name then st_fail InvalidRemoteFilename
      else st_map_err UploadConnection
        (st_bind (connect_sftp ssh config credentials) (\<lambda>sftp.
         let remote_path = path_join (cfg_upload_directory config) name in
         st_bind (st_map_err SshError (sftp_create ssh sftp remote_path)) (\<lambda>remote_file.
         st_bind (st_map_err SftpIo (sfile_write_all ssh remote_file bytes)) (\<lambda>_.
         st_bind (st_map_err SftpIo (sfile_flush ssh remote_file)) (\<lambda>_.
           st_map_err SshError (sfile_close ssh remote_file)))))))"

section \<open>The inbox\<close>

datatype 'x sftp_inbox_error =
    InvalidRemoteEntryName
  | MissingRemoteSize string
  | InboxConnection "'x sftp_connection_error"

definition is_directory_mode :: "u32 \<Rightarrow> bool" where
  "is_directory_mode mode \<longleftrightarrow> and mode 0xF000 = 0x4000"

fun list_objects :: "(string \<times> file_stat) list \<Rightarrow> 'x sftp_inbox_error + remote_object list" where
  "list_objects [] = Inr []"
| "list_objects ((path, stat) # entries) =
     (if (case fst_perm stat of Some mode \<Rightarrow> is_directory_mode mode | None \<Rightarrow> False) then list_objects entries
      else
        and_then (ok_or InvalidRemoteEntryName
          (Option.bind (path_file_name path) (\<lambda>n. from_utf8 (as_bytes n)))) (\<lambda>name.
        if \<not> safe_remote_basename name then Inl InvalidRemoteEntryName
        else
          and_then (ok_or (MissingRemoteSize name) (fst_size stat)) (\<lambda>size.
          and_then (list_objects entries) (\<lambda>objects.
            Inr (\<lparr>ro_name = name, ro_size = size\<rparr> # objects)))))"

definition sftp_list ::
  "('addr, 'tcp, 'ses, 'known, 'sftp, 'file, 'x, 'w) ssh \<Rightarrow> sftp_config \<Rightarrow> sftp_credentials \<Rightarrow>
     ('w, 'x sftp_inbox_error, remote_object list) st" where
  "sftp_list ssh config credentials =
     st_bind (st_map_err InboxConnection
       (st_bind (connect_sftp ssh config credentials) (\<lambda>sftp.
          st_map_err SshError (sftp_readdir ssh sftp (cfg_receive_directory config))))) (\<lambda>entries w.
       (and_then (list_objects entries) (\<lambda>objects. Inr (sort_key ro_name objects)), w))"

definition open_remote_file ::
  "('addr, 'tcp, 'ses, 'known, 'sftp, 'file, 'x, 'w) ssh \<Rightarrow> sftp_config \<Rightarrow> sftp_credentials \<Rightarrow> string \<Rightarrow>
     ('w, 'x sftp_inbox_error, 'file) st" where
  "open_remote_file ssh config credentials name =
     st_map_err InboxConnection
       (st_bind (connect_sftp ssh config credentials) (\<lambda>sftp.
        let remote_path = path_join (cfg_receive_directory config) name in
          st_map_err SshError (sftp_open ssh sftp remote_path)))"

definition COPY_BUFFER :: nat where "COPY_BUFFER = 8 * 1024"

text \<open>\<open>io::copy\<close>: read, stop at the end, write everything read.\<close>

partial_function (option) copy_loop ::
  "('addr, 'tcp, 'ses, 'known, 'sftp, 'file, 'x, 'w) ssh \<Rightarrow> 'file \<Rightarrow>
     (bytes \<Rightarrow> (machine, io_error, unit) io) \<Rightarrow> machine \<Rightarrow> 'w \<Rightarrow> ((io_error + unit) \<times> (machine \<times> 'w)) option" where
  "copy_loop ssh file wr m w =
     (case sfile_read ssh file COPY_BUFFER w of
        (Inl e, w) \<Rightarrow> Some (Inl e, (m, w))
      | (Inr chunk, w) \<Rightarrow>
          if chunk = [] then Some (Inr (), (m, w))
          else Option.bind (wr chunk m) (\<lambda>(r, m).
                 case r of Inl e \<Rightarrow> Some (Inl e, (m, w)) | Inr _ \<Rightarrow> copy_loop ssh file wr m w))"

definition sftp_download ::
  "('addr, 'tcp, 'ses, 'known, 'sftp, 'file, 'x, 'w) ssh \<Rightarrow> sftp_config \<Rightarrow> sftp_credentials \<Rightarrow>
     remote_object \<Rightarrow> (bytes \<Rightarrow> (machine, io_error, unit) io) \<Rightarrow> (machine \<times> 'w, 'x sftp_inbox_error, unit) io" where
  "sftp_download ssh config credentials object wr =
     (if \<not> safe_remote_basename (ro_name object) then io_result (Inl InvalidRemoteEntryName)
      else
        io_bind (on_snd (io_of (open_remote_file ssh config credentials (ro_name object)))) (\<lambda>remote_file.
        io_bind (io_map_err (\<lambda>e. InboxConnection (SftpIo e)) (\<lambda>(m, w). copy_loop ssh remote_file wr m w)) (\<lambda>_.
          on_snd (io_of (st_map_err (\<lambda>e. InboxConnection (SshError e)) (sfile_close ssh remote_file))))))"

definition sftp_delete ::
  "('addr, 'tcp, 'ses, 'known, 'sftp, 'file, 'x, 'w) ssh \<Rightarrow> sftp_config \<Rightarrow> sftp_credentials \<Rightarrow>
     remote_object \<Rightarrow> ('w, 'x sftp_inbox_error, unit) st" where
  "sftp_delete ssh config credentials object =
     (if \<not> safe_remote_basename (ro_name object) then st_fail InvalidRemoteEntryName
      else st_map_err InboxConnection
        (st_bind (connect_sftp ssh config credentials) (\<lambda>sftp.
         let remote_path = path_join (cfg_receive_directory config) (ro_name object) in
           st_map_err SshError (sftp_unlink ssh sftp remote_path))))"

definition ssh2_remote_inbox ::
  "('addr, 'tcp, 'ses, 'known, 'sftp, 'file, 'x, 'w) ssh \<Rightarrow> sftp_config \<Rightarrow> sftp_credentials \<Rightarrow>
     ('w, 'x sftp_inbox_error) remote_ops" where
  "ssh2_remote_inbox ssh config credentials =
     \<lparr>rmt_download = sftp_download ssh config credentials,
      rmt_delete = \<lambda>object. io_of (sftp_delete ssh config credentials object)\<rparr>"

section \<open>The remote inbox of the receiver\<close>

lemma copy_loop_writes:
  fixes ssh :: "('addr, 'tcp, 'ses, 'known, 'sftp, 'file, 'x, 'w) ssh"
  assumes "copy_loop ssh file wr m w = Some y"
  shows "writes wr m (fst (snd y))"
  using _ assms
proof (rule copy_loop.raw_induct [where P = "\<lambda>ssh file wr m w y. writes wr m (fst (snd y))"])
  fix loop :: "('addr, 'tcp, 'ses, 'known, 'sftp, 'file, 'x, 'w) ssh \<Rightarrow> 'file \<Rightarrow>
      (bytes \<Rightarrow> (machine, io_error, unit) io) \<Rightarrow> machine \<Rightarrow> 'w \<Rightarrow> ((io_error + unit) \<times> (machine \<times> 'w)) option"
    and ssh :: "('addr, 'tcp, 'ses, 'known, 'sftp, 'file, 'x, 'w) ssh" and fl wr m w y
  assume IH: "\<And>ssh fl wr m w y. loop ssh fl wr m w = Some y \<Longrightarrow> writes wr m (fst (snd y))"
    and body: "(case sfile_read ssh fl COPY_BUFFER w of
        (Inl e, w) \<Rightarrow> Some (Inl e, (m, w))
      | (Inr chunk, w) \<Rightarrow>
          if chunk = [] then Some (Inr (), (m, w))
          else Option.bind (wr chunk m) (\<lambda>(r, m).
                 case r of Inl e \<Rightarrow> Some (Inl e, (m, w)) | Inr _ \<Rightarrow> loop ssh fl wr m w)) = Some y"
  obtain q w1 where rd: "sfile_read ssh fl COPY_BUFFER w = (q, w1)" by (cases "sfile_read ssh fl COPY_BUFFER w")
  show "writes wr m (fst (snd y))"
  proof (cases "q = Inr [] \<or> (\<exists>e. q = Inl e)")
    case True
    with body rd have "fst (snd y) = m" by auto
    then show ?thesis by (simp add: writes_nothing)
  next
    case False
    then obtain chunk where q: "q = Inr chunk" "chunk \<noteq> []" by (cases q) auto
    with body rd obtain r u where wr: "wr chunk m = Some (r, u)"
      and rest: "(case r of Inl e \<Rightarrow> Some (Inl e, (u, w1)) | Inr _ \<Rightarrow> loop ssh fl wr u w1) = Some y"
      by (auto simp: bind_eq_Some_conv)
    show ?thesis
    proof (cases r)
      case (Inl e)
      with rest wr have "wr chunk m = Some (Inl e, fst (snd y))" by auto
      then show ?thesis using writes_nothing by (rule writes_more)
    next
      case (Inr x)
      with rest have "writes wr u (fst (snd y))" by (auto intro: IH)
      with wr show ?thesis by (rule writes_more)
    qed
  qed
qed

interpretation ssh2: remote_inbox "ssh2_remote_inbox ssh config credentials" for ssh config credentials
proof
  fix object wr m w r m' w'
  assume "rmt_download (ssh2_remote_inbox ssh config credentials) object wr (m, w) = Some (r, m', w')"
  then show "writes wr m m'"
    using copy_loop_writes [of ssh _ wr m]
    by (fastforce simp: ssh2_remote_inbox_def sftp_download_def io_iff io_of_def writes_nothing split: if_splits)
qed

section \<open>The host key\<close>

lemma check_outcome_Inr: "check_outcome config c = Inr x \<longleftrightarrow> c = CheckMatch"
  by (cases c) simp_all

lemma verify_host_key_Inr:
  "verify_host_key ssh config session w = (Inr x, w') \<longleftrightarrow>
     (\<exists>key known w1. ssh_host_key ssh session w = Some key \<and> ssh_known_hosts ssh session w = (Inr known, w1) \<and>
        (\<exists>y. ssh_read_known_hosts ssh known (cfg_known_hosts_path config) w1 = (Inr y, w')) \<and>
        ssh_check_port ssh known (cfg_host config) (cfg_port config) key w' = CheckMatch)"
  unfolding verify_host_key_def
  by (cases "ssh_host_key ssh session w")
    (simp_all only: option.case st_bind_map_err_iff prod.inject check_outcome_Inr simp_thms option.simps
      sum.simps, blast+)

definition host_key_trusted ::
  "('addr, 'tcp, 'ses, 'known, 'sftp, 'file, 'x, 'w) ssh \<Rightarrow> sftp_config \<Rightarrow> 'w \<Rightarrow> bool" where
  "host_key_trusted ssh config w \<longleftrightarrow>
     (\<exists>session w1 key known w2 w3. open_session ssh config w = (Inr session, w1) \<and>
        ssh_host_key ssh session w1 = Some key \<and> ssh_known_hosts ssh session w1 = (Inr known, w2) \<and>
        (\<exists>y. ssh_read_known_hosts ssh known (cfg_known_hosts_path config) w2 = (Inr y, w3)) \<and>
        ssh_check_port ssh known (cfg_host config) (cfg_port config) key w3 = CheckMatch)"

lemma connect_session_untrusted:
  assumes "\<not> host_key_trusted ssh config w"
  shows "connect_session ssh config c w = connect_session ssh config c' w"
proof -
  obtain r w1 where o: "open_session ssh config w = (r, w1)" by (cases "open_session ssh config w")
  show ?thesis
  proof (cases r)
    case (Inl e)
    with o show ?thesis by (simp add: connect_session_def st_bind_def)
  next
    case (Inr session)
    obtain v w2 where v: "verify_host_key ssh config session w1 = (v, w2)"
      by (cases "verify_host_key ssh config session w1")
    have "v \<noteq> Inr x" for x
    proof
      assume "v = Inr x"
      with v have "verify_host_key ssh config session w1 = (Inr x, w2)" by simp
      with o Inr assms show False unfolding host_key_trusted_def verify_host_key_Inr by blast
    qed
    with o Inr v show ?thesis
      by (cases v) (simp_all add: connect_session_def st_bind_def)
  qed
qed

text \<open>
  C12.  Unless the server's host key matches the configured
  \<open>known_hosts\<close> file for this host and port, the credentials have no influence at all: every
  operation gives the same result and leaves the same world whatever user name and password
  were configured, so nothing of them can have left the process.
\<close>

theorem sftp_password_needs_host_key:
  "host_key_trusted ssh config w \<or>
   (\<forall>c c'. connect_session ssh config c w = connect_session ssh config c' w \<and>
      (\<forall>name bytes. sftp_upload ssh config c name bytes w = sftp_upload ssh config c' name bytes w) \<and>
      sftp_list ssh config c w = sftp_list ssh config c' w \<and>
      (\<forall>object. sftp_delete ssh config c object w = sftp_delete ssh config c' object w) \<and>
      (\<forall>object wr m. sftp_download ssh config c object wr (m, w) = sftp_download ssh config c' object wr (m, w)))"
proof (cases "host_key_trusted ssh config w")
  case False
  then have s: "connect_session ssh config c w = connect_session ssh config c' w" for c c'
    by (rule connect_session_untrusted)
  define y where "y = connect_sftp ssh config undefined w"
  have f: "connect_sftp ssh config c w = y" for c
    by (simp add: y_def connect_sftp_def st_bind_def s [of c undefined])
  define z where "z name = open_remote_file ssh config undefined name w" for name
  have o: "open_remote_file ssh config c name w = z name" for c name
    by (simp add: z_def open_remote_file_def st_map_err_def st_bind_def f)
  have "sftp_download ssh config c object wr (m, w) = sftp_download ssh config c' object wr (m, w)" for c c' object wr m
    by (simp add: sftp_download_def io_bind_def on_snd_def io_of_def o)
  moreover have "sftp_upload ssh config c name bytes w = sftp_upload ssh config c' name bytes w"
    "sftp_list ssh config c w = sftp_list ssh config c' w"
    "sftp_delete ssh config c object w = sftp_delete ssh config c' object w" for c c' name bytes object
    by (simp_all add: sftp_upload_def sftp_list_def sftp_delete_def st_map_err_def st_bind_def f)
  ultimately show ?thesis using s by blast
qed simp

end
