(* ===== verification/Inbound.thy ===== *)
theory Inbound
  imports Filename Results
begin

text \<open>
  \<open>crates/einvoice-transport/src/inbound.rs\<close>: the class of a downloaded object by its name,
  and the parsing of the two reconciliation classes.  The XML deserialisers of the two wire
  types are arguments.
\<close>

datatype e05_message_type = E0501 | E0502 | E0503 | E0504

datatype inbound_kind =
    ProcessResultObject
  | SummaryResultObject
  | E05 e05_message_type
  | ExchangeAck
  | Invoice message_common_name
  | Unknown

definition classify_remote_name :: "string \<Rightarrow> inbound_kind" where
  "classify_remote_name name =
     (if ends_with name ''ProcessResult'' then ProcessResultObject
      else if ends_with name ''SummaryResult'' then SummaryResultObject
      else if ends_with name ''E0501'' then E05 E0501
      else if ends_with name ''E0502'' then E05 E0502
      else if ends_with name ''E0503'' then E05 E0503
      else if ends_with name ''E0504'' then E05 E0504
      else if ends_with name ''Ack'' then ExchangeAck
      else (case common_name_parse name of
          Inr common_name \<Rightarrow> Invoice common_name
        | Inl _ \<Rightarrow> Unknown))"

datatype parsed_reconciliation =
    Process process_result
  | Summary summary_result

datatype 'x inbound_parse_error =
    Utf8Error
  | ResultError "'x result_parse_error"

fun is_reconciliation :: "inbound_kind \<Rightarrow> bool" where
  "is_reconciliation ProcessResultObject = True"
| "is_reconciliation SummaryResultObject = True"
| "is_reconciliation _ = False"

definition parse_reconciliation ::
  "(string \<Rightarrow> 'x + wire_process_result) \<Rightarrow> (string \<Rightarrow> 'x + wire_summary_result) \<Rightarrow>
     inbound_kind \<Rightarrow> bytes \<Rightarrow> 'x inbound_parse_error + parsed_reconciliation option" where
  "parse_reconciliation de_process de_summary kind bytes =
     (if \<not> is_reconciliation kind then Inr None
      else and_then (ok_or Utf8Error (from_utf8 bytes)) (\<lambda>xml.
        (case kind of
          ProcessResultObject \<Rightarrow>
            map_err ResultError
              (and_then (process_result_parse de_process xml) (\<lambda>r. Inr (Some (Process r))))
        | SummaryResultObject \<Rightarrow>
            map_err ResultError
              (and_then (summary_result_parse de_summary xml) (\<lambda>r. Inr (Some (Summary r))))
        | _ \<Rightarrow> Inr None)))"

section \<open>Properties\<close>

lemma ends_with_same_length:
  "ends_with s p \<Longrightarrow> ends_with s q \<Longrightarrow> length p = length q \<Longrightarrow> p = q"
  by (auto simp: ends_with_iff)

text \<open>The suffix of a name of \<open>n\<close> bytes or more determines its class, unless it is an invoice name.\<close>

definition result_suffixes :: "(string \<times> inbound_kind) list" where
  "result_suffixes =
     [(''ProcessResult'', ProcessResultObject), (''SummaryResult'', SummaryResultObject),
      (''E0501'', E05 E0501), (''E0502'', E05 E0502), (''E0503'', E05 E0503),
      (''E0504'', E05 E0504), (''Ack'', ExchangeAck)]"

lemma ends_with_last: "ends_with s p \<Longrightarrow> p \<noteq> [] \<Longrightarrow> last s = last p"
  by (auto simp: ends_with_iff)

lemma suffixes_disjoint:
  assumes "(p, k) \<in> set result_suffixes" and "(q, l) \<in> set result_suffixes"
    and "ends_with s p" and "ends_with s q"
  shows "p = q \<and> k = l"
proof -
  have "last p = last q"
    using assms ends_with_last [of s p] ends_with_last [of s q] by (auto simp: result_suffixes_def)
  then have "length p = length q" "p = q \<Longrightarrow> k = l"
    using assms(1,2) by (auto simp: result_suffixes_def)
  with ends_with_same_length assms(3,4) show ?thesis by blast
qed

lemma classify_find:
  "classify_remote_name name =
     (case find (\<lambda>(p, k). ends_with name p) result_suffixes of
        Some (p, k) \<Rightarrow> k
      | None \<Rightarrow> (case common_name_parse name of Inr n \<Rightarrow> Invoice n | Inl _ \<Rightarrow> Unknown))"
  by (simp add: classify_remote_name_def result_suffixes_def)

lemma find_SomeD: "find P xs = Some x \<Longrightarrow> x \<in> set xs \<and> P x"
  by (auto simp: find_Some_iff)

lemma classify_suffix:
  assumes "(p, k) \<in> set result_suffixes" and "ends_with name p"
  shows "classify_remote_name name = k"
proof (cases "find (\<lambda>(p, k). ends_with name p) result_suffixes")
  case None
  with assms show ?thesis by (auto simp: find_None_iff)
next
  case (Some x)
  then have "x \<in> set result_suffixes" "ends_with name (fst x)" by (auto dest!: find_SomeD)
  with suffixes_disjoint [OF assms(1) _ assms(2), of "fst x" "snd x"] have "snd x = k" by auto
  with Some show ?thesis by (auto simp: classify_find split: prod.splits)
qed

text \<open>
  The classification depends on the name only through its suffix
  and the invoice grammar: a result or control suffix gives its class, whatever the order in
  which the suffixes are tried (no name has two of them); otherwise a name is an invoice
  exactly when it is the rendering of a well-formed common name, and unknown if not.
\<close>

theorem classify_remote_name_spec:
  "(\<forall>(p, k) \<in> set result_suffixes. ends_with name p \<longrightarrow> classify_remote_name name = k) \<and>
   ((\<forall>(p, k) \<in> set result_suffixes. \<not> ends_with name p) \<longrightarrow>
      (\<forall>n. classify_remote_name name = Invoice n \<longleftrightarrow>
             wf_common_name n \<and> name = common_name_render n) \<and>
      (classify_remote_name name = Unknown \<longleftrightarrow>
         (\<nexists>n. wf_common_name n \<and> name = common_name_render n)))"
proof
  show "\<forall>(p, k) \<in> set result_suffixes. ends_with name p \<longrightarrow> classify_remote_name name = k"
    using classify_suffix by blast
next
  show "(\<forall>(p, k) \<in> set result_suffixes. \<not> ends_with name p) \<longrightarrow>
      (\<forall>n. classify_remote_name name = Invoice n \<longleftrightarrow>
             wf_common_name n \<and> name = common_name_render n) \<and>
      (classify_remote_name name = Unknown \<longleftrightarrow>
         (\<nexists>n. wf_common_name n \<and> name = common_name_render n))"
  proof
    assume "\<forall>(p, k) \<in> set result_suffixes. \<not> ends_with name p"
    then have c: "classify_remote_name name =
        (case common_name_parse name of Inr n \<Rightarrow> Invoice n | Inl _ \<Rightarrow> Unknown)"
      by (auto simp: classify_find find_None_iff split: option.splits dest!: find_SomeD)
    show "(\<forall>n. classify_remote_name name = Invoice n \<longleftrightarrow>
             wf_common_name n \<and> name = common_name_render n) \<and>
      (classify_remote_name name = Unknown \<longleftrightarrow>
         (\<nexists>n. wf_common_name n \<and> name = common_name_render n))"
      unfolding c by (cases "common_name_parse name") (auto simp flip: common_name_parse_Inr)
  qed
qed

theorem classify_remote_name_spec_witness:
  "classify_remote_name ''4.1-F0401_ProcessResult'' = ProcessResultObject \<and>
   classify_remote_name ''note.txt'' = Unknown"
proof
  note spec = classify_remote_name_spec [of "''4.1-F0401_ProcessResult''", THEN conjunct1]
  have mem: "(''ProcessResult'', ProcessResultObject) \<in> set result_suffixes"
    by (simp add: result_suffixes_def)
  have "ends_with ''4.1-F0401_ProcessResult'' ''ProcessResult''" by (simp add: ends_with_def)
  with bspec [OF spec mem] show "classify_remote_name ''4.1-F0401_ProcessResult'' = ProcessResultObject"
    by simp
  have "common_name_parse ''note.txt'' \<noteq> Inr n" for n
    by (simp add: common_name_parse_def SEGMENT_LENGTHS_def)
  then have no: "\<nexists>n. wf_common_name n \<and> ''note.txt'' = common_name_render n"
    unfolding common_name_parse_Inr by blast
  have "\<forall>(p, k) \<in> set result_suffixes. \<not> ends_with ''note.txt'' p"
    by (simp add: result_suffixes_def ends_with_def)
  from mp [OF classify_remote_name_spec [of "''note.txt''", THEN conjunct2] this]
  have "classify_remote_name ''note.txt'' = Unknown \<longleftrightarrow>
      (\<nexists>n. wf_common_name n \<and> ''note.txt'' = common_name_render n)" by (rule conjunct2)
  with no show "classify_remote_name ''note.txt'' = Unknown" by (simp only: not_False_eq_True)
qed

text \<open>What a successful parse says about the object.\<close>

lemma parse_reconciliation_Inr:
  "parse_reconciliation dp ds kind bytes = Inr (Some x) \<longleftrightarrow>
     (\<exists>xml. from_utf8 bytes = Some xml \<and>
        (kind = ProcessResultObject \<and> (\<exists>w. dp xml = Inr w \<and> x = Process (process_from_wire w)) \<or>
         kind = SummaryResultObject \<and> (\<exists>w. ds xml = Inr w \<and> x = Summary (summary_from_wire w))))"
  by (cases kind)
    (auto simp: parse_reconciliation_def process_result_parse_def summary_result_parse_def
      map_err_Inr and_then_Inr ok_or_Inr)

lemma parse_reconciliation_None:
  "parse_reconciliation dp ds kind bytes = Inr None \<longleftrightarrow> \<not> is_reconciliation kind"
  by (cases kind)
    (auto simp: parse_reconciliation_def map_err_Inr and_then_Inr)

end
