(* ===== verification/Reconciliation.thy ===== *)
theory Reconciliation
  imports Sftp Inbound
begin

text \<open>
  \<open>crates/einvoice-transport/src/reconciliation.rs\<close> and \<open>sftp_reconciliation.rs\<close>: loading a
  durable object and polling the remote inbox, over the receiver and the SFTP inbox.  Here too
  stand the properties of the receiver on the SFTP inbox.
\<close>

section \<open>Loading\<close>

record durable_inbound_record =
  din_path :: string
  din_kind :: inbound_kind
  din_reconciliation :: "parsed_reconciliation option"

datatype 'x durable_inbound_error =
    InvalidPath string
  | InboundIo io_error
  | InboundParse "'x inbound_parse_error"

text \<open>The two XML deserialisers.\<close>

record 'x deserializers =
  de_process :: "string \<Rightarrow> 'x + wire_process_result"
  de_summary :: "string \<Rightarrow> 'x + wire_summary_result"

definition basename :: "string \<Rightarrow> string option" where
  "basename path = Option.bind (path_file_name path) (\<lambda>n. from_utf8 (as_bytes n))"

definition durable_load ::
  "'x deserializers \<Rightarrow> string \<Rightarrow> (machine, 'x durable_inbound_error, durable_inbound_record) io" where
  "durable_load de path =
     io_bind (io_result (ok_or (InvalidPath path) (basename path))) (\<lambda>name.
     let kind = classify_remote_name name in
     io_bind (io_map_err InboundIo (fs_read path)) (\<lambda>bytes.
     io_bind (io_result (map_err InboundParse (parse_reconciliation (de_process de) (de_summary de) kind bytes)))
       (\<lambda>reconciliation.
         io_return \<lparr>din_path = path, din_kind = kind, din_reconciliation = reconciliation\<rparr>)))"

definition correlation_ids :: "durable_inbound_record \<Rightarrow> string list" where
  "correlation_ids self =
     (case din_reconciliation self of
        Some (Process result) \<Rightarrow> [pmi_id (pr_message result)]
      | Some (Summary result) \<Rightarrow> map (\<lambda>message. smi_id (sm_info message)) (sr_messages result)
      | None \<Rightarrow> [])"

section \<open>Polling\<close>

record reconciled_object =
  rec_receive_outcome :: receive_outcome
  rec_record :: durable_inbound_record

datatype ('x, 'e) poll_object_error =
    PollReceive "'e receive_error"
  | PollParse "'x durable_inbound_error"

record ('x, 'e) poll_attempt =
  pa_object :: remote_object
  pa_result :: "('x, 'e) poll_object_error + reconciled_object"

datatype 'e poll_error = ListError 'e

record ('w, 'e) reconciliation_poller =
  rp_receiver :: "('w, 'e) durable_receiver"
  rp_list :: "('w, 'e, remote_object list) io"

definition poller_new ::
  "('w, 'e) remote_ops \<Rightarrow> ('w, 'e, remote_object list) io \<Rightarrow> string \<Rightarrow>
     (machine, io_error, ('w, 'e) reconciliation_poller) io" where
  "poller_new remote lister inbox_dir =
     io_bind (durable_receiver_new remote inbox_dir) (\<lambda>receiver.
       io_return \<lparr>rp_receiver = receiver, rp_list = lister\<rparr>)"

fun outcome_path :: "receive_outcome \<Rightarrow> string" where
  "outcome_path (Persisted path) = path"
| "outcome_path (AlreadyPersisted path) = path"

definition poll_object ::
  "'x deserializers \<Rightarrow> ('w, 'e) durable_receiver \<Rightarrow> remote_object \<Rightarrow>
     (machine \<times> 'w, ('x, 'e) poll_object_error, reconciled_object) io" where
  "poll_object de receiver object =
     io_bind (io_map_err PollReceive (receive receiver object)) (\<lambda>receive_outcome.
     io_bind (io_map_err PollParse (on_fst (durable_load de (outcome_path receive_outcome)))) (\<lambda>record.
       io_return \<lparr>rec_receive_outcome = receive_outcome, rec_record = record\<rparr>))"

fun poll_objects ::
  "'x deserializers \<Rightarrow> ('w, 'e) durable_receiver \<Rightarrow> remote_object list \<Rightarrow> machine \<times> 'w \<Rightarrow>
     (('x, 'e) poll_attempt list \<times> (machine \<times> 'w)) option" where
  "poll_objects de receiver [] s = Some ([], s)"
| "poll_objects de receiver (object # objects) s =
     (case poll_object de receiver object s of
        None \<Rightarrow> None
      | Some (result, s) \<Rightarrow>
          map_option (\<lambda>(attempts, s). (\<lparr>pa_object = object, pa_result = result\<rparr> # attempts, s))
            (poll_objects de receiver objects s))"

definition poll_once ::
  "'x deserializers \<Rightarrow> ('w, 'e) reconciliation_poller \<Rightarrow>
     (machine \<times> 'w, 'e poll_error, ('x, 'e) poll_attempt list) io" where
  "poll_once de self =
     io_bind (io_map_err ListError (on_snd (rp_list self))) (\<lambda>objects s.
       map_option (\<lambda>(attempts, s). (Inr attempts, s)) (poll_objects de (rp_receiver self) objects s))"

text \<open>\<open>RemoteInboxLister for Ssh2RemoteInbox\<close>.\<close>

definition ssh2_lister ::
  "('addr, 'tcp, 'ses, 'known, 'sftp, 'file, 'x, 'w) ssh \<Rightarrow> sftp_config \<Rightarrow> sftp_credentials \<Rightarrow>
     ('w, 'x sftp_inbox_error, remote_object list) io" where
  "ssh2_lister ssh config credentials = io_of (sftp_list ssh config credentials)"

definition ssh2_poller ::
  "('addr, 'tcp, 'ses, 'known, 'sftp, 'file, 'x, 'w) ssh \<Rightarrow> sftp_config \<Rightarrow> sftp_credentials \<Rightarrow> string \<Rightarrow>
     ('w, 'x sftp_inbox_error) reconciliation_poller" where
  "ssh2_poller ssh config credentials dir =
     \<lparr>rp_receiver = \<lparr>dr_remote = ssh2_remote_inbox ssh config credentials, dr_inbox_dir = dir\<rparr>,
      rp_list = ssh2_lister ssh config credentials\<rparr>"

section \<open>What a poll keeps\<close>

definition kept :: "machine \<Rightarrow> machine \<Rightarrow> bool" where
  "kept m m' \<longleftrightarrow> (\<forall>p i. m_dir m p = Some i \<longrightarrow>
     m_dir m' p = Some i \<and> m_data m' i = m_data m i \<and> m_disk_data m' i = m_disk_data m i)"

lemma kept_same: "same_files m m' \<Longrightarrow> kept m m'"
  by (simp add: kept_def same_files_def)

lemma kept_trans: "kept m u \<Longrightarrow> kept u m' \<Longrightarrow> kept m m'"
  unfolding kept_def by metis

lemma durable_load_quiet: "durable_load de path m = Some (r, m') \<Longrightarrow> same_files m m'"
  by (auto simp: durable_load_def io_iff io_bind_map_err_iff Let_def dest: quiet_calls(5))

lemma fs_read_Inr:
  assumes "fs_read path m = Some (Inr bs, m')"
  shows "\<exists>i. m_dir m path = Some i \<and> bs = m_data m i"
  using assms unfolding fs_read_def
  by (auto simp: fs_lookup_def ok_or_def and_then_def same_files_def elim!: attempt_cases split: option.splits if_splits)

lemma io_result_Inr: "io_result q s = Some (Inr a, t) \<longleftrightarrow> q = Inr a \<and> t = s"
  by (auto simp: io_result_iff)

lemma durable_load_Inr:
  assumes "durable_load de path m = Some (Inr record, m')"
  shows "\<exists>name i. basename path = Some name \<and> m_dir m path = Some i \<and> din_path record = path \<and>
     din_kind record = classify_remote_name name \<and>
     parse_reconciliation (de_process de) (de_summary de) (din_kind record) (m_data m i) = Inr (din_reconciliation record)"
proof -
  obtain name bs m1 rec where "basename path = Some name" "fs_read path m = Some (Inr bs, m1)"
    "parse_reconciliation (de_process de) (de_summary de) (classify_remote_name name) bs = Inr rec"
    "record = \<lparr>din_path = path, din_kind = classify_remote_name name, din_reconciliation = rec\<rparr>"
    using assms unfolding durable_load_def io_bind_iff [of "io_result _"] io_bind_map_err_iff io_result_Inr Let_def
    by (auto simp: result_iff io_return_iff)
  with fs_read_Inr show ?thesis by fastforce
qed

text \<open>What the record of a successful attempt says about the file in the inbox.\<close>

definition attempt_ok :: "'x deserializers \<Rightarrow> string \<Rightarrow> machine \<Rightarrow> ('x, 'e) poll_attempt \<Rightarrow> bool" where
  "attempt_ok de dir m a \<longleftrightarrow>
     (case pa_result a of
        Inl e \<Rightarrow> True
      | Inr r \<Rightarrow>
          let path = path_join dir (ro_name (pa_object a)); record = rec_record r in
          din_path record = path \<and> outcome_path (rec_receive_outcome r) = path \<and>
          (\<exists>name i. basename path = Some name \<and> din_kind record = classify_remote_name name \<and> m_dir m path = Some i \<and>
             parse_reconciliation (de_process de) (de_summary de) (din_kind record) (m_data m i) =
               Inr (din_reconciliation record)))"

lemma attempt_ok_kept: "attempt_ok de dir m a \<Longrightarrow> kept m m' \<Longrightarrow> attempt_ok de dir m' a"
  by (fastforce simp: attempt_ok_def kept_def Let_def split: sum.splits)

context remote_inbox
begin

lemma receive_kept:
  assumes "receive (receiver dir) object (m, w) = Some (r, (m', w'))" "wf_machine m"
  shows "kept m m'"
  using receive_extends [OF assms] by (simp add: inbox_extended_def kept_def)

lemma receive_path:
  assumes "receive (receiver dir) object s = Some (Inr out, s')"
  shows "outcome_path out = path_join dir (ro_name object)"
proof -
  obtain m w m' w' where s: "s = (m, w)" "s' = (m', w')" by (cases s; cases s')
  have "outcome_path out = path" if e: "remote_end object p path (Inr out) w w''" for p path w w''
  proof -
    from e obtain d where "(Inr out :: 'e receive_error + receive_outcome) = (case d of Inl e \<Rightarrow> Inl (RemoteError Delete e) | Inr (_ :: unit) \<Rightarrow> Inr (outcome_of p path))"
      unfolding remote_end_def by (auto split: if_splits)
    then have "out = outcome_of p path" by (cases d) auto
    then show ?thesis by (cases p) (simp_all add: outcome_of_def)
  qed
  with receive_phases [OF assms [unfolded s]] show ?thesis by blast
qed

lemma poll_object_ok:
  assumes run: "poll_object de (receiver dir) object (m, w) = Some (r, (m', w'))" and wf: "wf_machine m"
  shows "wf_machine m' \<and> kept m m' \<and> attempt_ok de dir m' \<lparr>pa_object = object, pa_result = r\<rparr>"
proof -
  consider e where "receive (receiver dir) object (m, w) = Some (Inl e, (m', w'))" "r = Inl (PollReceive e)"
    | out u q where "receive (receiver dir) object (m, w) = Some (Inr out, (u, w'))"
        "durable_load de (outcome_path out) u = Some (q, m')"
        "r = (case q of Inl e \<Rightarrow> Inl (PollParse e)
           | Inr rec \<Rightarrow> Inr \<lparr>rec_receive_outcome = out, rec_record = rec\<rparr>)"
    using run by (auto simp: poll_object_def io_bind_map_err_iff on_fst_iff io_return_iff)
  then show ?thesis
  proof cases
    case (1 e)
    with receive_wf [OF 1(1) wf] receive_kept [OF 1(1) wf] show ?thesis by (simp add: attempt_ok_def)
  next
    case (2 out u q)
    have u: "same_files u m'" by (rule durable_load_quiet [OF 2(2)])
    have wf': "wf_machine m'" "kept m m'"
      using receive_wf [OF 2(1) wf] kept_trans [OF receive_kept [OF 2(1) wf] kept_same [OF u]] u
      by (auto simp: wf_machine_def same_files_def)
    have "attempt_ok de dir m' \<lparr>pa_object = object, pa_result = r\<rparr>"
    proof (cases q)
      case (Inl e)
      with 2(3) show ?thesis by (simp add: attempt_ok_def)
    next
      case (Inr rec)
      from durable_load_Inr [OF 2(2) [unfolded Inr]] receive_path [OF 2(1)] u 2(3) Inr show ?thesis
        by (auto simp: attempt_ok_def Let_def same_files_def)
    qed
    with wf' show ?thesis by blast
  qed
qed

lemma poll_objects_ok:
  "poll_objects de (receiver dir) objects (m, w) = Some (attempts, (m', w')) \<Longrightarrow> wf_machine m \<Longrightarrow>
     wf_machine m' \<and> kept m m' \<and> map pa_object attempts = objects \<and> list_all (attempt_ok de dir m') attempts"
proof (induction objects arbitrary: m w attempts)
  case Nil
  then show ?case by (simp add: kept_same)
next
  case (Cons object objects)
  then obtain r u w1 as where o: "poll_object de (receiver dir) object (m, w) = Some (r, (u, w1))"
    and os: "poll_objects de (receiver dir) objects (u, w1) = Some (as, (m', w'))"
    and a: "attempts = \<lparr>pa_object = object, pa_result = r\<rparr> # as"
    by (auto split: option.splits)
  note ok = poll_object_ok [OF o Cons.prems(2)]
  from Cons.IH [OF os] ok have rest: "wf_machine m' \<and> kept u m' \<and> map pa_object as = objects \<and>
      list_all (attempt_ok de dir m') as" by blast
  with ok a show ?case by (auto intro: kept_trans attempt_ok_kept)
qed

end

end
