(* ===== verification/Receiver_Runs.thy ===== *)
theory Receiver_Runs
  imports Reconciliation
begin

text \<open>
  Executions of the receiver: the loop that finds a temporary name ends, and what \<open>receive\<close>
  does when no system call fails.
\<close>

section \<open>Calls without faults\<close>

lemma next_event_nil: "m_events m = [] \<Longrightarrow> next_event m = (Pass, m)"
  by (simp add: next_event_def)

lemma attempt_nil: "m_events m = [] \<Longrightarrow> attempt call m = Some (call m)"
  by (simp add: attempt_def next_event_nil)

lemma write_all_nil: "m_events m = [] \<Longrightarrow> fs_write_all i bs m = Some (Inr (), with_data i (m_data m i @ bs) m)"
  by (simp add: fs_write_all_def next_event_nil with_data_def)

lemma read_at_nil: "m_events m = [] \<Longrightarrow> fs_read_at i pos n m = Some (Inr (take n (drop pos (m_data m i))), m)"
  by (simp add: fs_read_at_def next_event_nil)

lemma compare_loop_nil:
  assumes "m_events m = []" "length (drop lp (m_data m l)) = length (drop rp (m_data m r))"
  shows "compare_loop l r lp rp m = Some (Inr (drop lp (m_data m l) = drop rp (m_data m r)), m)"
  using assms(2)
proof (induction "length (m_data m l) - lp" arbitrary: lp rp rule: less_induct)
  case (less lp rp)
  define a b where "a = drop lp (m_data m l)" and "b = drop rp (m_data m r)"
  have len: "length a = length b" using less(2) by (simp add: a_def b_def)
  have step: "compare_loop l r lp rp m =
      (if take BUFFER a = [] then Some (Inr True, m)
       else if take BUFFER a \<noteq> take BUFFER b then Some (Inr False, m)
       else compare_loop l r (lp + length (take BUFFER a)) (rp + length (take BUFFER a)) m)"
  proof -
    define x y where "x = take BUFFER a" and "y = take BUFFER b"
    have "length x = length y" using len by (simp add: x_def y_def)
    moreover have "fs_read_at l lp BUFFER m = Some (Inr x, m)" "fs_read_at r rp BUFFER m = Some (Inr y, m)"
      by (simp_all add: read_at_nil assms(1) a_def b_def x_def y_def)
    ultimately show ?thesis
      unfolding x_def [symmetric] y_def [symmetric] by (subst compare_loop.simps) auto
  qed
  have nil: "take BUFFER a = [] \<longleftrightarrow> a = []" by (simp add: BUFFER_def)
  consider "a = []" | "a \<noteq> []" "take BUFFER a \<noteq> take BUFFER b" | "a \<noteq> []" "take BUFFER a = take BUFFER b" by blast
  then show ?case
  proof cases
    case 1
    with len step show ?thesis by (simp add: a_def [symmetric] b_def [symmetric])
  next
    case 2
    with nil step show ?thesis by (auto simp: a_def [symmetric] b_def [symmetric])
  next
    case 3
    let ?n = "length (take BUFFER a)"
    have rest: "drop (lp + ?n) (m_data m l) = drop ?n a" "drop (rp + ?n) (m_data m r) = drop ?n b"
      by (simp_all add: a_def b_def add.commute)
    have "length (m_data m l) - (lp + ?n) < length (m_data m l) - lp"
      using 3(1) by (simp add: a_def BUFFER_def)
    moreover have "length (drop (lp + ?n) (m_data m l)) = length (drop (rp + ?n) (m_data m r))"
      unfolding rest using len by simp
    ultimately have "compare_loop l r (lp + ?n) (rp + ?n) m = Some (Inr (drop ?n a = drop ?n b), m)"
      using less(1) unfolding rest [symmetric] by blast
    moreover have "drop ?n a = drop ?n b \<longleftrightarrow> a = b"
    proof
      assume "drop ?n a = drop ?n b"
      moreover have "take ?n a = take BUFFER a" "take ?n b = take BUFFER b" using len by (simp_all add: min_def)
      ultimately show "a = b" using 3(2) by (metis append_take_drop_id)
    qed simp
    ultimately have "compare_loop l r lp rp m = Some (Inr (a = b), m)"
      unfolding step using 3 nil by (simp only: if_False not_True_eq_False not_False_eq_True simp_thms)
    then show ?thesis unfolding a_def b_def .
  qed
qed

lemma files_equal_nil:
  assumes "m_events m = []" "valid_path a" "valid_path b" "m_dir m a = Some i" "m_dir m b = Some j"
    "length (m_data m i) < 2 ^ 64" "length (m_data m j) < 2 ^ 64"
  shows "files_equal a b m = Some (Inr (m_data m i = m_data m j), m)"
proof -
  have len: "fs_metadata_len a m = Some (Inr (of_nat (length (m_data m i))), m)"
    "fs_metadata_len b m = Some (Inr (of_nat (length (m_data m j))), m)"
    using assms by (simp_all add: fs_metadata_len_def attempt_nil fs_lookup_def file_length_def and_then_def ok_or_def)
  have eq: "(of_nat (length (m_data m i)) :: u64) = of_nat (length (m_data m j)) \<longleftrightarrow> length (m_data m i) = length (m_data m j)"
    using assms(6,7) by (auto dest!: arg_cong [of _ _ unat] simp: unat_of_nat)
  have "fs_open a m = Some (Inr i, m)" "fs_open b m = Some (Inr j, m)"
    using assms by (simp_all add: fs_open_def attempt_nil fs_lookup_def ok_or_def)
  with len eq compare_loop_nil [of m 0 i 0 j] assms(1) show ?thesis
    by (auto simp: files_equal_def io_bind_def io_return_def)
qed

section \<open>The temporary name\<close>

lemma incoming_name_no_nul: "CHR 0x00 \<notin> set (incoming_name pid n)"
proof -
  have "CHR 0x00 \<noteq> digit_char d" if "d < 10" for d
  proof
    assume "CHR 0x00 = digit_char d"
    then have "(of_char (CHR 0x00) :: nat) = 48 + d" using of_char_digit_char [OF that] by metis
    then show False by simp
  qed
  then have "CHR 0x00 \<notin> set (dec k)" for k by (blast dest: dec_digits)
  then show ?thesis by (simp add: incoming_name_def)
qed

lemma valid_incoming_path:
  assumes "valid_path dir"
  shows "valid_path (path_join dir (incoming_name pid n))"
  using assms incoming_name_no_nul [of pid n]
  by (auto simp: valid_path_def contains_def list_ex_iff path_join_def)

lemma incoming_create_hit:
  assumes "fs_create_new (path_join dir (incoming_name (m_process_id m) (m_next_temp_id m)))
      (m\<lparr>m_next_temp_id := m_next_temp_id m + 1\<rparr>) = Some (Inr file, u)"
  shows "incoming_create dir m =
    Some (Inr \<lparr>inc_path = path_join dir (incoming_name (m_process_id m) (m_next_temp_id m)), inc_file = file\<rparr>, u)"
  using assms by (subst incoming_create.simps) (simp add: Let_def)

lemma incoming_name_inject: "incoming_name pid a = incoming_name pid b \<longleftrightarrow> a = b"
  by (simp add: incoming_name_def dec_inject word_unat_eq_iff)

text \<open>Among \<open>2 ^ 64\<close> names one is free.\<close>

lemma free_incoming_name:
  assumes "finite (dom d)" "card (dom d) < 2 ^ 64"
  shows "\<exists>k. d (path_join dir (incoming_name pid (n + of_nat k))) = None"
proof (rule ccontr)
  assume "\<nexists>k. d (path_join dir (incoming_name pid (n + of_nat k))) = None"
  then have "d (path_join dir (incoming_name pid v)) \<noteq> None" for v
  proof -
    have "v = n + of_nat (unat (v - n))" by simp
    with \<open>\<nexists>k. _ k\<close> show ?thesis by metis
  qed
  then have "range (\<lambda>v. path_join dir (incoming_name pid v)) \<subseteq> dom d" by auto
  then have "card (range (\<lambda>v. path_join dir (incoming_name pid v))) \<le> card (dom d)"
    using assms(1) by (rule card_mono [rotated])
  moreover have "inj (\<lambda>v. path_join dir (incoming_name pid v))"
    by (simp add: inj_on_def path_join_inject incoming_name_chars incoming_name_inject)
  then have "card (range (\<lambda>v. path_join dir (incoming_name pid v))) = CARD(64 word)"
    by (rule card_image)
  ultimately show False using assms(2) by (simp add: card_word)
qed

lemma create_new_misses:
  assumes "fs_create_new path m = Some (Inl e, u)"
  shows "m_dir u = m_dir m \<and> m_process_id u = m_process_id m \<and> m_next_temp_id u = m_next_temp_id m \<and>
    m_events u = tl (m_events m) \<and> (m_events m = [] \<and> e = AlreadyExists \<longrightarrow> m_dir m path \<noteq> None)"
  using assms
  by (auto simp: fs_create_new_def attempt_def next_event_def new_file_def
      split: list.splits io_event.splits if_splits)

lemma create_new_returns: "\<exists>r u. fs_create_new path m = Some (r, u)"
  by (cases "next_event m"; cases "fst (next_event m)") (auto simp: fs_create_new_def attempt_def intro: prod.exhaust)

lemma incoming_create_step:
  obtains y where "incoming_create dir m = Some y"
  | u where "incoming_create dir m = incoming_create dir u" "m_dir u = m_dir m" "m_process_id u = m_process_id m"
      "m_next_temp_id u = m_next_temp_id m + 1" "m_events u = tl (m_events m)"
      "m_events m = [] \<Longrightarrow> m_dir m (path_join dir (incoming_name (m_process_id m) (m_next_temp_id m))) \<noteq> None"
proof -
  let ?path = "path_join dir (incoming_name (m_process_id m) (m_next_temp_id m))"
  let ?m = "m\<lparr>m_next_temp_id := m_next_temp_id m + 1\<rparr>"
  obtain r u where c: "fs_create_new ?path ?m = Some (r, u)" using create_new_returns by blast
  show thesis
  proof (cases "r = Inl AlreadyExists")
    case True
    with c have "incoming_create dir m = incoming_create dir u"
      by (subst incoming_create.simps) (simp add: Let_def)
    with that(2) create_new_misses [OF c [unfolded True]] show thesis by simp
  next
    case False
    with c have "\<exists>y. incoming_create dir m = Some y"
      by (subst incoming_create.simps) (auto simp: Let_def split: sum.splits)
    with that(1) show thesis by blast
  qed
qed

lemma incoming_create_returns:
  assumes "finite (dom (m_dir m))" "card (dom (m_dir m)) < 2 ^ 64"
  shows "\<exists>y. incoming_create dir m = Some y"
  using assms
proof (induction "length (m_events m)" arbitrary: m rule: less_induct)
  case (less m)
  show ?case
  proof (cases "m_events m = []")
    case False
    show ?thesis
    proof (rule incoming_create_step [of dir m])
      fix u assume u: "incoming_create dir m = incoming_create dir u" "m_dir u = m_dir m" "m_events u = tl (m_events m)"
      have "\<exists>y. incoming_create dir u = Some y"
        by (rule less(1)) (use False u less(2,3) in auto)
      with u show ?thesis by simp
    qed blast
  next
    case True
    obtain k where "m_dir m (path_join dir (incoming_name (m_process_id m) (m_next_temp_id m + of_nat k))) = None"
      using free_incoming_name [OF less(2,3)] by blast
    with True show ?thesis
    proof (induction k arbitrary: m)
      case (0 m)
      show ?case
      proof (rule incoming_create_step [of dir m])
        fix u assume "m_events m = [] \<Longrightarrow>
          m_dir m (path_join dir (incoming_name (m_process_id m) (m_next_temp_id m))) \<noteq> None"
        with 0 show ?thesis by simp
      qed blast
    next
      case (Suc k m)
      show ?case
      proof (rule incoming_create_step [of dir m])
        fix u assume u: "incoming_create dir m = incoming_create dir u" "m_dir u = m_dir m"
          "m_process_id u = m_process_id m" "m_next_temp_id u = m_next_temp_id m + 1" "m_events u = tl (m_events m)"
        have "\<exists>y. incoming_create dir u = Some y"
          by (rule Suc.IH) (use Suc.prems u in \<open>auto simp: add.assoc\<close>)
        with u show ?thesis by simp
      qed blast
    qed
  qed
qed

section \<open>Computations that always return\<close>

definition returns :: "('s, 'e, 'a) io \<Rightarrow> bool" where
  "returns p \<longleftrightarrow> (\<forall>s. \<exists>y. p s = Some y)"

named_theorems returning \<open>computations that always return\<close>

lemma returns_bind [returning]: "returns p \<Longrightarrow> (\<And>a. returns (f a)) \<Longrightarrow> returns (io_bind p f)"
  unfolding returns_def io_bind_def
  by (metis (no_types, lifting) option.simps(5) prod.exhaust prod.simps(2) sum.case_eq_if)

lemma returns_map_err [returning]: "returns p \<Longrightarrow> returns (io_map_err g p)"
  unfolding returns_def io_map_err_def by (metis option.simps(9))

lemma returns_on_fst [returning]: "returns p \<Longrightarrow> returns (on_fst p)"
  unfolding returns_def on_fst_def by (metis option.simps(9))

lemma returns_on_snd [returning]: "returns p \<Longrightarrow> returns (on_snd p)"
  unfolding returns_def on_snd_def by (metis option.simps(9))

lemma returns_simple [returning]: "returns (io_return a)" "returns (io_result r)" "returns (io_of p)"
  by (simp_all add: returns_def io_return_def io_result_def io_of_def)

lemma returns_if [returning]: "returns p \<Longrightarrow> returns q \<Longrightarrow> returns (if b then p else q)"
  by simp

lemma returns_attempt [returning]: "returns (attempt call)"
  unfolding returns_def attempt_def by (auto split: prod.split io_event.split)

lemma returns_compare_loop [returning]: "returns (compare_loop l r lp rp)"
proof -
  have "\<exists>y. compare_loop l r lp rp m = Some y" for m
  proof (induction l r lp rp m rule: compare_loop.induct)
    case (1 l r lp rp m)
    obtain qa m1 where a: "fs_read_at l lp BUFFER m = Some (qa, m1)" using read_at_returns by blast
    obtain qb m2 where b: "fs_read_at r rp BUFFER m1 = Some (qb, m2)" using read_at_returns by blast
    show ?case
    proof (cases "\<exists>x. x \<noteq> [] \<and> qa = Inr x \<and> qb = Inr x")
      case True
      then obtain x where x: "x \<noteq> []" "qa = Inr x" "qb = Inr x" by blast
      have "\<exists>y. compare_loop l r (lp + length x) (rp + length x) m2 = Some y"
        using 1 [OF a refl x(2) b refl x(3)] x(1) by simp
      with a b x show ?thesis by (subst compare_loop.simps) simp
    next
      case False
      with a b show ?thesis by (subst compare_loop.simps) (auto split: sum.split)
    qed
  qed
  then show ?thesis by (simp add: returns_def)
qed

lemma returns_calls [returning]:
  "returns (fs_flush i)" "returns (fs_sync_all i)" "returns (fs_file_len i)" "returns (fs_metadata_len p)"
  "returns (fs_open p)" "returns (fs_read p)" "returns (fs_hard_link p q)" "returns (fs_remove_file p)"
  "returns (fs_sync_directory p)"
  unfolding fs_flush_def fs_sync_all_def fs_file_len_def fs_metadata_len_def fs_open_def fs_read_def
    fs_hard_link_def fs_remove_file_def fs_sync_directory_def
  by (intro returning)+

lemma returns_files_equal [returning]: "returns (files_equal a b)"
  unfolding files_equal_def by (intro returning)

lemma returns_publish [returning]:
  "returns (publish_outcome dir object path inc :: (machine, 'e receive_error, receive_outcome) io)"
proof -
  have "\<exists>y. (publish_outcome dir object path inc m :: (('e receive_error + receive_outcome) \<times> machine) option) = Some y" for m
  proof -
    obtain q u where l: "fs_hard_link (inc_path inc) path m = Some (q, u)"
      using returns_calls(7) unfolding returns_def by (metis prod.exhaust)
    have "returns (io_bind (io_map_err ReceiveIo (sync_parent_directory dir)) (\<lambda>_. io_return (Persisted path)))"
      unfolding sync_parent_directory_def by (intro returning)
    moreover have "returns (io_bind (io_map_err ReceiveIo (files_equal (inc_path inc) path)) (\<lambda>equal.
              if equal then io_return (AlreadyPersisted path)
              else io_result (Inl (ConflictingLocalObject (ro_name object) path))))"
      by (intro returning)
    ultimately show ?thesis
      using l by (auto simp: publish_outcome_def publish_no_clobber_def returns_def split: sum.split)
  qed
  then show ?thesis by (simp add: returns_def)
qed

lemma returns_incoming [returning]:
  "returns (flush_and_sync inc)" "returns (incoming_size inc)" "returns (incoming_drop inc)"
  unfolding flush_and_sync_def incoming_size_def incoming_drop_def by (intro returning)+

lemma returns_sized [returning]:
  assumes "\<And>object. returns (rmt_delete (dr_remote self) object)"
  shows "returns (receive_sized self object path inc n)"
  unfolding receive_sized_def publish_and_delete_def by (intro returning assms)

section \<open>Receiving without faults\<close>

text \<open>The machine after an undisturbed call: published when the name was free, else as before.\<close>

definition after_receive :: "string \<Rightarrow> string \<Rightarrow> bytes \<Rightarrow> machine \<Rightarrow> machine" where
  "after_receive dir path bs m =
     (let tmp = path_join dir (incoming_name (m_process_id m) (m_next_temp_id m));
          u = with_incoming tmp bs (Some bs) (m\<lparr>m_next_temp_id := m_next_temp_id m + 1\<rparr>);
          v = (if m_dir u path = None then with_flushed dir (with_entry path (m_fresh m) u) else u)
      in v\<lparr>m_dir := (m_dir v)(tmp := None)\<rparr>)"

lemma flush_and_sync_nil:
  assumes "m_events m = []" "inc_file inc = m_fresh m"
  shows "flush_and_sync inc (with_incoming tmp bs None m) = Some (Inr (), with_incoming tmp bs (Some bs) m)"
  using assms by (simp add: flush_and_sync_def io_bind_def fs_flush_def fs_sync_all_def attempt_nil with_incoming_def)

lemma publish_nil:
  assumes "m_events u = []" "valid_path (inc_path inc)" "valid_path path" "m_dir u (inc_path inc) = Some k"
    "length (m_data u k) < 2 ^ 64" "\<And>j. m_dir u path = Some j \<Longrightarrow> length (m_data u j) < 2 ^ 64"
  shows "publish_outcome dir object path inc u =
    (case m_dir u path of
       None \<Rightarrow> Some (Inr (Persisted path), with_flushed dir (with_entry path k u))
     | Some j \<Rightarrow> Some (if m_data u k = m_data u j then Inr (AlreadyPersisted path)
                    else Inl (ConflictingLocalObject (ro_name object) path), u))"
proof (cases "m_dir u path")
  case None
  then show ?thesis
    using assms(1-4)
    by (simp add: publish_outcome_def publish_no_clobber_def fs_hard_link_def attempt_nil fs_lookup_def ok_or_def
        sync_parent_directory_def fs_sync_directory_def io_bind_def io_map_err_def map_err_def io_return_def
        with_flushed_def with_entry_def)
next
  case (Some j)
  have l: "fs_hard_link (inc_path inc) path u = Some (Inl AlreadyExists, u)"
    using assms(1-4) Some by (simp add: fs_hard_link_def attempt_nil fs_lookup_def ok_or_def)
  have e: "files_equal (inc_path inc) path u = Some (Inr (m_data u k = m_data u j), u)"
    by (rule files_equal_nil) (use assms Some in auto)
  show ?thesis
    unfolding publish_outcome_def publish_no_clobber_def l
    by (simp add: e Some io_bind_def io_map_err_def map_err_def io_return_def io_result_def)
qed

context remote_inbox
begin

text \<open>Up to the size check: the incoming file is complete and on disk.\<close>

lemma receive_downloaded:
  fixes dir m bs
  defines "t \<equiv> path_join dir (incoming_name (m_process_id m) (m_next_temp_id m))"
  defines "u \<equiv> with_incoming t bs (Some bs) (m\<lparr>m_next_temp_id := m_next_temp_id m + 1\<rparr>)"
    and "inc \<equiv> \<lparr>inc_path = t, inc_file = m_fresh m\<rparr>"
  assumes ev: "m_events m = []"
    and name: "validate_remote_name (ro_name object) = (Inr () :: 'e receive_error + unit)"
    and tmp: "valid_path t" "m_dir m t = None"
    and dl: "\<And>u. m_events u = [] \<Longrightarrow> rmt_download remote object (fs_write_all (m_fresh m)) (u, w) =
      Some (Inr (), (with_data (m_fresh m) (m_data u (m_fresh m) @ bs) u, w1))"
    and size: "length bs < 2 ^ 64"
  shows "receive (receiver dir) object (m, w) =
    io_finally (receive_sized (receiver dir) object (path_join dir (ro_name object)) inc (of_nat (length bs)))
      (on_fst (incoming_drop inc)) (u, w1)"
proof -
  define mm where "mm = m\<lparr>m_next_temp_id := m_next_temp_id m + 1\<rparr>"
  have mm: "m_events mm = []" "m_fresh mm = m_fresh m" using ev by (simp_all add: mm_def)
  have create: "incoming_create dir m = Some (Inr inc, with_incoming t [] None mm)"
    using tmp ev unfolding inc_def t_def mm_def
    by (intro incoming_create_hit) (simp add: fs_create_new_def attempt_nil new_file_def with_incoming_def)
  have down: "rmt_download remote object (fs_write_all (m_fresh m)) (with_incoming t [] None mm, w) =
      Some (Inr (), (with_incoming t bs None mm, w1))"
    using dl [of "with_incoming t [] None mm"] mm by (simp add: with_incoming_def with_data_def)
  have sync: "flush_and_sync inc (with_incoming t bs None mm) = Some (Inr (), u)"
    unfolding u_def mm_def [symmetric] by (rule flush_and_sync_nil) (simp_all add: mm inc_def)
  have "m_events u = []" "m_data u (m_fresh m) = bs" by (simp_all add: u_def with_incoming_def ev)
  then have "incoming_size inc u = Some (Inr (of_nat (length bs)), u)"
    using size by (simp add: incoming_size_def inc_def fs_file_len_def attempt_nil file_length_def)
  then have "receive_into (receiver dir) object (path_join dir (ro_name object)) inc (with_incoming t [] None mm, w) =
      receive_sized (receiver dir) object (path_join dir (ro_name object)) inc (of_nat (length bs)) (u, w1)"
    using down sync
    by (simp add: receive_into_def io_bind_def io_map_err_def map_err_def on_fst_def inc_def)
  with create name show ?thesis
    by (simp add: receive_def io_bind_def io_result_def Let_def io_map_err_def map_err_def on_fst_def io_finally_def)
qed

lemma receive_start:
  fixes dir m bs
  defines "t \<equiv> path_join dir (incoming_name (m_process_id m) (m_next_temp_id m))"
  defines "u \<equiv> with_incoming t bs (Some bs) (m\<lparr>m_next_temp_id := m_next_temp_id m + 1\<rparr>)"
    and "inc \<equiv> \<lparr>inc_path = t, inc_file = m_fresh m\<rparr>"
  assumes ev: "m_events m = []"
    and name: "validate_remote_name (ro_name object) = (Inr () :: 'e receive_error + unit)"
    and tmp: "valid_path t" "m_dir m t = None"
    and dl: "\<And>u. m_events u = [] \<Longrightarrow> rmt_download remote object (fs_write_all (m_fresh m)) (u, w) =
      Some (Inr (), (with_data (m_fresh m) (m_data u (m_fresh m) @ bs) u, w1))"
    and size: "bs \<noteq> []" "length bs = unat (ro_size object)"
  shows "receive (receiver dir) object (m, w) =
    io_finally (publish_and_delete (receiver dir) object (path_join dir (ro_name object)) inc)
      (on_fst (incoming_drop inc)) (u, w1)"
proof -
  have "length bs < 2 ^ 64" using size(2) unsigned_less [of "ro_size object", where ?'a = nat] by simp
  moreover have "of_nat (length bs) = ro_size object" by (simp add: size(2))
  moreover have "ro_size object \<noteq> 0" using size by auto
  ultimately show ?thesis
    using receive_downloaded [OF ev name tmp [unfolded t_def] dl]
    by (simp add: receive_sized_def u_def inc_def t_def)
qed

lemma publish_and_delete_run:
  assumes "publish_outcome dir object path inc u = Some (Inr out :: 'e receive_error + receive_outcome, v)" "rmt_delete remote object w1 = Some (d, w2)"
  shows "publish_and_delete (receiver dir) object path inc (u, w1) =
    Some (and_then (map_err (RemoteError Delete) d) (\<lambda>_. Inr out), (v, w2))"
  using assms
  by (cases d) (simp_all add: publish_and_delete_def io_bind_def io_map_err_def map_err_def on_fst_def on_snd_def
    io_return_def and_then_def)

lemma incoming_drop_nil:
  assumes "m_events v = []" "valid_path t" "m_dir v t = Some k"
  shows "incoming_drop \<lparr>inc_path = t, inc_file = i\<rparr> v = Some (Inr (), v\<lparr>m_dir := (m_dir v)(t := None)\<rparr>)"
  using assms by (simp add: incoming_drop_def fs_remove_file_def attempt_nil fs_lookup_def ok_or_def)

lemma receive_fault_free:
  defines "tmp dir m \<equiv> path_join dir (incoming_name (m_process_id m) (m_next_temp_id m))"
  assumes ev: "m_events m = []" and wf: "wf_machine m"
    and name: "validate_remote_name (ro_name object) = (Inr () :: 'e receive_error + unit)"
    and path: "path = path_join dir (ro_name object)" "valid_path path" "path \<noteq> tmp dir m"
    and tmp: "valid_path (tmp dir m)" "m_dir m (tmp dir m) = None"
    and dl: "\<And>u. m_events u = [] \<Longrightarrow> rmt_download remote object (fs_write_all (m_fresh m)) (u, w) =
      Some (Inr (), (with_data (m_fresh m) (m_data u (m_fresh m) @ bs) u, w1))"
    and size: "bs \<noteq> []" "length bs = unat (ro_size object)"
    and len: "\<And>j. m_dir m path = Some j \<Longrightarrow> length (m_data m j) < 2 ^ 64"
    and del: "rmt_delete remote object w1 = Some (d, w2)"
  shows "receive (receiver dir) object (m, w) =
    (case m_dir m path of
       Some j \<Rightarrow>
         if m_data m j = bs
         then Some (and_then (map_err (RemoteError Delete) d) (\<lambda>_. Inr (AlreadyPersisted path)),
                (after_receive dir path bs m, w2))
         else Some (Inl (ConflictingLocalObject (ro_name object) path), (after_receive dir path bs m, w1))
     | None \<Rightarrow> Some (and_then (map_err (RemoteError Delete) d) (\<lambda>_. Inr (Persisted path)),
                (after_receive dir path bs m, w2)))"
proof -
  define mm where "mm = m\<lparr>m_next_temp_id := m_next_temp_id m + 1\<rparr>"
  define t where "t = tmp dir m"
  define inc where "inc = \<lparr>inc_path = t, inc_file = m_fresh m\<rparr>"
  define u where "u = with_incoming t bs (Some bs) mm"
  have lb: "length bs < 2 ^ 64" using size(2) unsigned_less [of "ro_size object", where ?'a = nat] by simp
  have u: "m_events u = []" "m_dir u t = Some (m_fresh m)" "m_data u (m_fresh m) = bs"
    "m_dir u path = m_dir m path"
    using path(3) ev by (simp_all add: u_def with_incoming_def mm_def t_def)
  have old: "m_data u j = m_data m j" if "m_dir m path = Some j" for j
    using that wf by (auto simp: u_def with_incoming_def mm_def wf_machine_def)
  have pub: "(publish_outcome dir object path inc u :: (('e receive_error + receive_outcome) \<times> machine) option) =
    (case m_dir m path of
       None \<Rightarrow> Some (Inr (Persisted path), with_flushed dir (with_entry path (m_fresh m) u))
     | Some j \<Rightarrow> Some (if m_data m j = bs then Inr (AlreadyPersisted path)
                    else Inl (ConflictingLocalObject (ro_name object) path), u))"
    using publish_nil [of u inc path "m_fresh m" dir object] u path(2) tmp(1) lb len old
    by (auto simp: inc_def t_def split: option.splits)
  have start: "receive (receiver dir) object (m, w) =
      io_finally (publish_and_delete (receiver dir) object path inc) (on_fst (incoming_drop inc)) (u, w1)"
    unfolding path(1) inc_def u_def t_def tmp_def mm_def
    by (rule receive_start [OF ev name tmp [unfolded tmp_def] dl size])
  note drop = incoming_drop_nil [OF _ tmp(1) [folded t_def], where i = "m_fresh m", folded inc_def]
  have after: "after_receive dir path bs m =
      (let v = if m_dir m path = None then with_flushed dir (with_entry path (m_fresh m) u) else u
       in v\<lparr>m_dir := (m_dir v)(t := None)\<rparr>)"
    using u(4) by (simp add: after_receive_def u_def t_def tmp_def mm_def Let_def)
  show ?thesis
  proof (cases "m_dir m path")
    case None
    let ?v = "with_flushed dir (with_entry path (m_fresh m) u)"
    have v: "m_events ?v = []" "m_dir ?v t = Some (m_fresh m)"
      using u path(3) by (simp_all add: with_flushed_def with_entry_def)
    from None pub have "publish_outcome dir object path inc u = Some (Inr (Persisted path) :: 'e receive_error + receive_outcome, ?v)"
      by simp
    from publish_and_delete_run [OF this del] drop [OF v] None show ?thesis
      unfolding start after by (simp add: io_finally_def on_fst_def Let_def)
  next
    case (Some j)
    show ?thesis
    proof (cases "m_data m j = bs")
      case True
      with Some pub have "publish_outcome dir object path inc u = Some (Inr (AlreadyPersisted path) :: 'e receive_error + receive_outcome, u)"
        by simp
      from publish_and_delete_run [OF this del] drop [OF u(1,2)] Some True show ?thesis
        unfolding start after by (simp add: io_finally_def on_fst_def Let_def)
    next
      case False
      with pub drop [OF u(1,2)] Some show ?thesis
        unfolding start after by (simp add: publish_and_delete_def io_bind_def io_finally_def on_fst_def Let_def)
    qed
  qed
qed

text \<open>
  An object whose name is the temporary name of the call itself is compared with itself, deleted
  remotely and then dropped locally.
\<close>

lemma receive_own_name:
  fixes dir m
  defines "t \<equiv> path_join dir (incoming_name (m_process_id m) (m_next_temp_id m))"
  assumes ev: "m_events m = []"
    and name: "validate_remote_name (ro_name object) = (Inr () :: 'e receive_error + unit)"
    and path: "path_join dir (ro_name object) = t"
    and tmp: "valid_path t" "m_dir m t = None"
    and dl: "\<And>u. m_events u = [] \<Longrightarrow> rmt_download remote object (fs_write_all (m_fresh m)) (u, w) =
      Some (Inr (), (with_data (m_fresh m) (m_data u (m_fresh m) @ bs) u, w1))"
    and size: "bs \<noteq> []" "length bs = unat (ro_size object)"
    and del: "rmt_delete remote object w1 = Some (Inr (), w2)"
  shows "\<exists>m'. receive (receiver dir) object (m, w) = Some (Inr (AlreadyPersisted t), (m', w2)) \<and> m_dir m' = m_dir m"
proof -
  define u where "u = with_incoming t bs (Some bs) (m\<lparr>m_next_temp_id := m_next_temp_id m + 1\<rparr>)"
  define inc where "inc = \<lparr>inc_path = t, inc_file = m_fresh m\<rparr>"
  have lb: "length bs < 2 ^ 64" using size(2) unsigned_less [of "ro_size object", where ?'a = nat] by simp
  have u: "m_events u = []" "m_dir u t = Some (m_fresh m)" "m_data u (m_fresh m) = bs"
    using ev by (simp_all add: u_def with_incoming_def)
  have pub: "publish_outcome dir object t inc u = Some (Inr (AlreadyPersisted t) :: 'e receive_error + receive_outcome, u)"
    using publish_nil [of u inc t "m_fresh m" dir object] u tmp(1) lb by (simp add: inc_def)
  have start: "receive (receiver dir) object (m, w) =
      io_finally (publish_and_delete (receiver dir) object t inc) (on_fst (incoming_drop inc)) (u, w1)"
    unfolding path [symmetric] inc_def u_def unfolding path unfolding t_def unfolding path [unfolded t_def, symmetric]
    using receive_start [OF ev name tmp [unfolded t_def] dl size] path by (simp add: t_def)
  note drop = incoming_drop_nil [OF u(1) tmp(1) u(2), where i = "m_fresh m", folded inc_def]
  have "(m_dir u)(t := None) = m_dir m" using tmp(2) by (auto simp: u_def with_incoming_def)
  with publish_and_delete_run [OF pub del] drop show ?thesis
    unfolding start by (simp add: io_finally_def on_fst_def map_err_def and_then_def)
qed

end

section \<open>A sample remote\<close>

text \<open>A server that presents a trusted key and serves one object until it is unlinked.\<close>

record sample_world =
  sw_content :: bytes
  sw_pos :: nat
  sw_deleted :: bool

definition sample_remote :: "bytes \<Rightarrow> sample_world" where
  "sample_remote content = \<lparr>sw_content = content, sw_pos = 0, sw_deleted = False\<rparr>"

definition sample_ssh :: "(unit, unit, unit, unit, unit, unit, unit, sample_world) ssh" where
  "sample_ssh =
     \<lparr>ssh_resolve = \<lambda>host port w. (Inr [()], w), ssh_connect_timeout = \<lambda>a t w. (Inr (), w),
      ssh_set_read_timeout = \<lambda>s t w. (Inr (), w), ssh_set_write_timeout = \<lambda>s t w. (Inr (), w),
      ssh_session_new = \<lambda>w. (Inr (), w), ssh_set_timeout = \<lambda>s t w. w, ssh_set_tcp_stream = \<lambda>s t w. w,
      ssh_handshake = \<lambda>s w. (Inr (), w), ssh_host_key = \<lambda>s w. Some [1], ssh_known_hosts = \<lambda>s w. (Inr (), w),
      ssh_read_known_hosts = \<lambda>k p w. (Inr (), w), ssh_check_port = \<lambda>k h p key w. CheckMatch,
      ssh_userauth_password = \<lambda>s u p w. (Inr (), w), ssh_authenticated = \<lambda>s w. True,
      ssh_sftp = \<lambda>s w. (Inr (), w), sftp_create = \<lambda>s p w. (Inr (), w),
      sftp_open = \<lambda>s p w. (Inr (), w\<lparr>sw_pos := 0\<rparr>),
      sftp_readdir = \<lambda>s p w. (Inr [(''out/ProcessResult'', \<lparr>fst_size = Some 3, fst_perm = None\<rparr>)], w),
      sftp_unlink = \<lambda>s p w. (Inr (), w\<lparr>sw_deleted := True\<rparr>), sfile_write_all = \<lambda>f b w. (Inr (), w),
      sfile_flush = \<lambda>f w. (Inr (), w),
      sfile_read = \<lambda>f n w. (Inr (take n (drop (sw_pos w) (sw_content w))), w\<lparr>sw_pos := sw_pos w + n\<rparr>),
      sfile_close = \<lambda>f w. (Inr (), w)\<rparr>"

definition sample_machine :: "io_event list \<Rightarrow> machine" where
  "sample_machine events =
     \<lparr>m_dir = \<lambda>p. None, m_disk_dir = \<lambda>p. None, m_data = \<lambda>i. [], m_disk_data = \<lambda>i. None, m_fresh = 0,
      m_events = events, m_process_id = 1, m_next_temp_id = 0\<rparr>"

definition sample_receiver :: "(sample_world, unit sftp_inbox_error) durable_receiver" where
  "sample_receiver =
     \<lparr>dr_remote = ssh2_remote_inbox sample_ssh (sftp_config_new ''h'' ''k'') (sftp_credentials_new ''u'' ''p''),
      dr_inbox_dir = ''inbox''\<rparr>"

lemma sample_ops:
  "sftp_open sample_ssh f p w = (Inr (), w\<lparr>sw_pos := 0\<rparr>)"
  "sftp_unlink sample_ssh f p w = (Inr (), w\<lparr>sw_deleted := True\<rparr>)"
  "sfile_read sample_ssh f n w = (Inr (take n (drop (sw_pos w) (sw_content w))), w\<lparr>sw_pos := sw_pos w + n\<rparr>)"
  "sfile_close sample_ssh f w = (Inr (), w)"
  by (simp_all add: sample_ssh_def)

lemma sample_copy:
  assumes "sw_pos w = 0" "length (sw_content w) < COPY_BUFFER" "sw_content w \<noteq> []"
    "wr (sw_content w) m = Some (Inr (), u)"
  shows "copy_loop sample_ssh () wr m w = Some (Inr (), (u, w\<lparr>sw_pos := 2 * COPY_BUFFER\<rparr>))"
proof -
  have "copy_loop sample_ssh () wr u (w\<lparr>sw_pos := COPY_BUFFER\<rparr>) =
      Some (Inr (), (u, w\<lparr>sw_pos := 2 * COPY_BUFFER\<rparr>))"
    using assms(2) by (subst copy_loop.simps) (simp add: sample_ops)
  then show ?thesis
    using assms by (subst copy_loop.simps) (simp add: sample_ops)
qed

text \<open>The download of the sample returns, whatever the local writes do.\<close>

lemma sample_copy_returns:
  assumes "sw_pos w = 0" "length (sw_content w) < COPY_BUFFER" "sw_content w \<noteq> []"
  shows "\<exists>y. copy_loop sample_ssh () (fs_write_all i) m w = Some y"
proof -
  obtain r u where wr: "fs_write_all i (sw_content w) m = Some (r, u)"
    by (cases "next_event m"; cases "fst (next_event m)") (auto simp: fs_write_all_def)
  show ?thesis
  proof (cases r)
    case (Inl e)
    with wr assms show ?thesis by (subst copy_loop.simps) (simp add: sample_ops)
  next
    case (Inr x)
    with wr assms sample_copy [of w "fs_write_all i" m u] show ?thesis by simp
  qed
qed

lemmas sample_run_defs = sample_ssh_def connect_session_def connect_sftp_def open_session_def connect_tcp_def
  verify_host_key_def st_bind_def st_map_err_def st_update_def st_return_def map_err_def sftp_config_new_def
  sftp_credentials_new_def

lemma sample_connect:
  "connect_sftp sample_ssh (sftp_config_new h k) c w = (Inr (), w)"
  by (simp add: sample_run_defs)

lemma sample_download:
  assumes "safe_remote_basename (ro_name object)" "length content < COPY_BUFFER" "content \<noteq> []" "wr content m = Some (Inr (), u)"
  shows "sftp_download sample_ssh (sftp_config_new h k) c object wr
      (m, \<lparr>sw_content = content, sw_pos = pos, sw_deleted = del\<rparr>) =
    Some (Inr (), (u,
       \<lparr>sw_content = content, sw_pos = 2 * COPY_BUFFER, sw_deleted = del\<rparr>))"
proof -
  have o: "open_remote_file sample_ssh (sftp_config_new h k) c (ro_name object)
      \<lparr>sw_content = content, sw_pos = pos, sw_deleted = del\<rparr> =
      (Inr (), \<lparr>sw_content = content, sw_pos = 0, sw_deleted = del\<rparr>)"
    by (simp add: open_remote_file_def st_map_err_def st_bind_def sample_connect map_err_def Let_def sample_ops)
  show ?thesis
    using assms sample_copy [of "\<lparr>sw_content = content, sw_pos = 0, sw_deleted = del\<rparr>" wr m u]
    by (simp add: sftp_download_def io_bind_def on_snd_def io_of_def o io_map_err_def map_err_def sample_ops st_map_err_def)
qed

lemma sample_delete:
  assumes "safe_remote_basename (ro_name object)"
  shows "sftp_delete sample_ssh (sftp_config_new h k) c object w = (Inr (), w\<lparr>sw_deleted := True\<rparr>)"
  using assms by (simp add: sftp_delete_def st_map_err_def st_bind_def sample_connect map_err_def Let_def sample_ops)

end
