(* ===== verification/Receiver_Properties.thy ===== *)
theory Receiver_Properties
  imports Receiver_Runs
begin

text \<open>
  The properties of the durable receiver and of the poller on the SFTP inbox, from the facts of
  the interpretation \<open>ssh2\<close>.
\<close>

definition ssh2_receiver ::
  "('addr, 'tcp, 'ses, 'known, 'sftp, 'file, 'x, 'w) ssh \<Rightarrow> sftp_config \<Rightarrow> sftp_credentials \<Rightarrow> string \<Rightarrow>
     ('w, 'x sftp_inbox_error) durable_receiver" where
  "ssh2_receiver ssh config c dir = \<lparr>dr_remote = ssh2_remote_inbox ssh config c, dr_inbox_dir = dir\<rparr>"

section \<open>A sample run\<close>

definition sample_object :: remote_object where
  "sample_object = \<lparr>ro_name = ''ProcessResult'', ro_size = 3\<rparr>"

definition sample_run :: "remote_object \<Rightarrow> machine \<times> sample_world \<Rightarrow>
    ((unit sftp_inbox_error receive_error + receive_outcome) \<times> (machine \<times> sample_world)) option" where
  "sample_run = receive (ssh2_receiver sample_ssh (sftp_config_new ''h'' ''k'') (sftp_credentials_new ''u'' ''p'') ''inbox'')"

lemma dec_digit: "n < 10 \<Longrightarrow> dec n = [digit_char n]"
  by (simp add: dec.simps)

lemma sample_tmp: "path_join ''inbox'' (incoming_name 1 0) = ''inbox/.incoming-1-0''"
  by (simp add: incoming_name_def dec_digit digit_char_def path_join_def starts_with_def ends_with_def)

lemma sample_validate: "validate_remote_name ''ProcessResult'' = Inr ()"
  by (simp add: validate_remote_name_def Let_def contains_def path_file_name_plain)

lemma sample_path: "path_join ''inbox'' ''ProcessResult'' = ''inbox/ProcessResult''"
  by (simp add: path_join_def starts_with_def ends_with_def)

lemma sample_safe: "safe_remote_basename (ro_name sample_object)"
  by (simp add: safe_remote_basename_def sample_object_def contains_def)

lemma sample_rmt:
  "rmt_download (ssh2_remote_inbox ssh config c) = sftp_download ssh config c"
  "rmt_delete (ssh2_remote_inbox ssh config c) object w = Some (sftp_delete ssh config c object w)"
  by (simp_all add: ssh2_remote_inbox_def io_of_def)

definition sample_world_at :: "nat \<Rightarrow> bool \<Rightarrow> sample_world" where
  "sample_world_at pos del = \<lparr>sw_content = [1, 2, 3], sw_pos = pos, sw_deleted = del\<rparr>"

text \<open>An undisturbed call, whether or not the inbox holds that object already.\<close>

lemma sample_receive:
  assumes "m_events m = []" "wf_machine m" 
    "m_dir m (path_join ''inbox'' (incoming_name (m_process_id m) (m_next_temp_id m))) = None" "\<And>j. m_dir m ''inbox/ProcessResult'' = Some j \<Longrightarrow> m_data m j = [1, 2, 3]"
  shows "sample_run sample_object (m, sample_world_at pos False) =
    Some (Inr (if m_dir m ''inbox/ProcessResult'' = None then Persisted ''inbox/ProcessResult''
               else AlreadyPersisted ''inbox/ProcessResult''),
      (after_receive ''inbox'' ''inbox/ProcessResult'' [1, 2, 3] m, sample_world_at (2 * COPY_BUFFER) True))"
proof -
  have dl: "rmt_download (ssh2_remote_inbox sample_ssh (sftp_config_new h k) c) sample_object (fs_write_all i)
        (u, sample_world_at pos False) =
      Some (Inr (), (with_data i (m_data u i @ [1, 2, 3]) u, sample_world_at (2 * COPY_BUFFER) False))"
    if "m_events u = []" for u i h k c
    unfolding sample_rmt sample_world_at_def
    by (rule sample_download) (use that in \<open>simp_all add: sample_safe COPY_BUFFER_def write_all_nil\<close>)
  have del: "rmt_delete (ssh2_remote_inbox sample_ssh (sftp_config_new h k) c) sample_object (sample_world_at p False) =
      Some (Inr (), sample_world_at p True)" for h k c p
    unfolding sample_rmt sample_delete [OF sample_safe] by (simp add: sample_world_at_def)
  have "valid_path ''inbox''" "valid_path ''inbox/ProcessResult''"
    by (simp_all add: valid_path_def contains_def)
  moreover have "''inbox/ProcessResult'' \<noteq> path_join ''inbox'' (incoming_name p n)" for p n
    unfolding sample_path [symmetric]
    by (subst path_join_inject) (simp_all add: incoming_name_chars, simp add: incoming_name_def)
  ultimately show ?thesis
    unfolding sample_run_def ssh2_receiver_def
    using ssh2.receive_fault_free [of m sample_object "''inbox/ProcessResult''" "''inbox''" sample_ssh _ _
        "sample_world_at pos False" "[1, 2, 3]" "sample_world_at (2 * COPY_BUFFER) False"] assms dl del valid_incoming_path
    by (auto simp: sample_object_def sample_validate sample_path and_then_def map_err_def split: option.splits)
qed

text \<open>A first call whose directory synchronisation fails.\<close>

definition sync_fault :: "io_event list" where
  "sync_fault = [Pass, Pass, Pass, Pass, Pass, Pass, Fault (OtherError 5) 0]"

definition unsynced_machine :: machine where
  "unsynced_machine = (sample_machine [])\<lparr>m_dir := (\<lambda>p. None)(''inbox/ProcessResult'' \<mapsto> 0),
     m_data := (\<lambda>i. [])(0 := [1, 2, 3]), m_disk_data := (\<lambda>i. None)(0 \<mapsto> [1, 2, 3]), m_fresh := 1, m_next_temp_id := 1\<rparr>"

lemma sample_sync_fault:
  "sample_run sample_object (sample_machine sync_fault, sample_world_at 0 False) =
     Some (Inl (ReceiveIo (OtherError 5)), (unsynced_machine, sample_world_at (2 * COPY_BUFFER) False))"
proof -
  let ?t = "''inbox/.incoming-1-0''" and ?p = "''inbox/ProcessResult''"
  define m0 where "m0 = with_incoming ?t [] None ((sample_machine [Pass, Pass, Pass, Pass, Pass, Fault (OtherError 5) 0])\<lparr>m_next_temp_id := 1\<rparr>)"
  define m1 where "m1 = with_incoming ?t [1, 2, 3] None ((sample_machine [Pass, Pass, Pass, Pass, Fault (OtherError 5) 0])\<lparr>m_next_temp_id := 1\<rparr>)"
  define m2 where "m2 = with_incoming ?t [1, 2, 3] (Some [1, 2, 3]) ((sample_machine [Pass, Fault (OtherError 5) 0])\<lparr>m_next_temp_id := 1\<rparr>)"
  define m3 where "m3 = with_entry ?p 0 (with_incoming ?t [1, 2, 3] (Some [1, 2, 3]) ((sample_machine [])\<lparr>m_next_temp_id := 1\<rparr>))"
  define inc where "inc = \<lparr>inc_path = ?t, inc_file = 0\<rparr>"
  have vp: "valid_path ?t" "valid_path ?p" by (simp_all add: valid_path_def contains_def)
  have "incoming_create ''inbox'' (sample_machine sync_fault) = Some (Inr
      \<lparr>inc_path = path_join ''inbox'' (incoming_name (m_process_id (sample_machine sync_fault)) (m_next_temp_id (sample_machine sync_fault))),
       inc_file = 0\<rparr>, m0)"
    using vp by (intro incoming_create_hit)
      (simp add: sample_machine_def sync_fault_def sample_tmp fs_create_new_def attempt_def next_event_def new_file_def
        m0_def with_incoming_def)
  then have create: "incoming_create ''inbox'' (sample_machine sync_fault) = Some (Inr inc, m0)"
    by (simp add: sample_machine_def sample_tmp inc_def)
  have "fs_write_all 0 [1, 2, 3] m0 = Some (Inr (), m1)"
    by (simp add: fs_write_all_def next_event_def m0_def m1_def with_incoming_def sample_machine_def)
  then have down: "rmt_download (ssh2_remote_inbox sample_ssh (sftp_config_new h k) c) sample_object (fs_write_all 0)
      (m0, sample_world_at 0 False) = Some (Inr (), (m1, sample_world_at (2 * COPY_BUFFER) False))" for h k c
    unfolding sample_rmt sample_world_at_def
    by (intro sample_download) (simp_all add: sample_safe COPY_BUFFER_def)
  have sync: "flush_and_sync inc m1 = Some (Inr (), m2\<lparr>m_events := [Pass, Pass, Fault (OtherError 5) 0]\<rparr>)"
    by (simp add: flush_and_sync_def io_bind_def fs_flush_def fs_sync_all_def attempt_def next_event_def m1_def m2_def
        with_incoming_def sample_machine_def inc_def)
  have size: "incoming_size inc (m2\<lparr>m_events := [Pass, Pass, Fault (OtherError 5) 0]\<rparr>) = Some (Inr 3, m2)"
    by (simp add: incoming_size_def fs_file_len_def attempt_def next_event_def m2_def file_length_def
        with_incoming_def sample_machine_def inc_def)
  have pub: "publish_outcome ''inbox'' sample_object ?p inc m2 =
      Some (Inl (ReceiveIo (OtherError 5)) :: unit sftp_inbox_error receive_error + receive_outcome, m3)"
    using vp by (simp add: publish_outcome_def publish_no_clobber_def fs_hard_link_def attempt_def next_event_def m2_def m3_def
        with_incoming_def with_entry_def sample_machine_def inc_def fs_lookup_def ok_or_def io_bind_def io_map_err_def
        sync_parent_directory_def fs_sync_directory_def map_err_def)
  have drop: "incoming_drop inc m3 = Some (Inr (), unsynced_machine)"
    using vp by (auto simp: incoming_drop_def fs_remove_file_def attempt_def next_event_def m3_def inc_def fs_lookup_def ok_or_def
        with_incoming_def with_entry_def sample_machine_def unsynced_machine_def fun_upd_twist)
  show ?thesis
    unfolding sample_run_def ssh2_receiver_def
    using create down sync size pub drop
    by (simp add: receive_def receive_into_def receive_sized_def publish_and_delete_def io_bind_def io_result_def
        sample_object_def sample_validate sample_path io_map_err_def map_err_def on_fst_def io_finally_def inc_def)
qed

section \<open>Two ways to lose an object\<close>

text \<open>
  After \<open>sync_parent_directory\<close> failed, the local entry exists but is not on disk.  The retry
  finds an identical file, does not synchronise the directory and deletes the remote object: a
  power failure then loses the only copy.
\<close>

theorem retry_deletes_unsynced_copy:
  "\<exists>m w m' w'. sample_run sample_object (sample_machine sync_fault, sample_world_at 0 False) =
        Some (Inl (ReceiveIo (OtherError 5)), (m, w)) \<and> \<not> sw_deleted w \<and>
     sample_run sample_object (m, w) = Some (Inr (AlreadyPersisted ''inbox/ProcessResult''), (m', w')) \<and>
     sw_deleted w' \<and> m_disk_dir m' ''inbox/ProcessResult'' = None"
proof -
  have free: "m_dir unsynced_machine (path_join ''inbox'' (incoming_name p n)) = None" for p n
  proof -
    have "path_join ''inbox'' (incoming_name p n) \<noteq> ''inbox/ProcessResult''"
      unfolding sample_path [symmetric]
      by (subst path_join_inject) (simp_all add: incoming_name_chars, simp add: incoming_name_def)
    then show ?thesis by (simp add: unsynced_machine_def)
  qed
  have "sample_run sample_object (unsynced_machine, sample_world_at (2 * COPY_BUFFER) False) =
      Some (Inr (AlreadyPersisted ''inbox/ProcessResult''),
        (after_receive ''inbox'' ''inbox/ProcessResult'' [1, 2, 3] unsynced_machine, sample_world_at (2 * COPY_BUFFER) True))"
    using sample_receive [of unsynced_machine "2 * COPY_BUFFER"] free
    by (auto simp: unsynced_machine_def sample_machine_def wf_machine_def split: if_splits)
  moreover have "m_disk_dir (after_receive ''inbox'' ''inbox/ProcessResult'' [1, 2, 3] unsynced_machine) ''inbox/ProcessResult'' = None"
    by (simp add: after_receive_def Let_def with_incoming_def unsynced_machine_def sample_machine_def)
  ultimately show ?thesis
    using sample_sync_fault by (intro exI conjI) (auto simp: sample_world_at_def)
qed

text \<open>
  A remote object named like the temporary file of the call that receives it passes the name
  check, is compared with itself, deleted remotely and dropped locally.
\<close>

theorem incoming_name_loses_object:
  "\<exists>m' w'. sample_run \<lparr>ro_name = ''.incoming-1-0'', ro_size = 3\<rparr> (sample_machine [], sample_world_at 0 False) =
        Some (Inr (AlreadyPersisted ''inbox/.incoming-1-0''), (m', w')) \<and>
     sw_deleted w' \<and> m_dir m' ''inbox/.incoming-1-0'' = None"
proof -
  let ?o = "\<lparr>ro_name = ''.incoming-1-0'', ro_size = 3\<rparr> :: remote_object"
  have safe: "safe_remote_basename (ro_name ?o)" by (simp add: safe_remote_basename_def contains_def)
  have name: "validate_remote_name ''.incoming-1-0'' = (Inr () :: unit sftp_inbox_error receive_error + unit)"
    by (simp add: validate_remote_name_def Let_def contains_def path_file_name_plain)
  have path: "path_join ''inbox'' ''.incoming-1-0'' = ''inbox/.incoming-1-0''"
    by (simp add: path_join_def starts_with_def ends_with_def)
  have dl: "rmt_download (ssh2_remote_inbox sample_ssh (sftp_config_new h k) c) ?o (fs_write_all i)
        (u, sample_world_at 0 False) =
      Some (Inr (), (with_data i (m_data u i @ [1, 2, 3]) u, sample_world_at (2 * COPY_BUFFER) False))"
    if "m_events u = []" for u i h k c
    unfolding sample_rmt sample_world_at_def
    by (rule sample_download) (use that safe in \<open>simp_all add: COPY_BUFFER_def write_all_nil\<close>)
  have del: "rmt_delete (ssh2_remote_inbox sample_ssh (sftp_config_new h k) c) ?o (sample_world_at p False) =
      Some (Inr (), sample_world_at p True)" for h k c p
    unfolding sample_rmt sample_delete [OF safe] by (simp add: sample_world_at_def)
  have "valid_path ''inbox/.incoming-1-0''" by (simp add: valid_path_def contains_def)
  then have "\<exists>m'. sample_run ?o (sample_machine [], sample_world_at 0 False) =
      Some (Inr (AlreadyPersisted ''inbox/.incoming-1-0''), (m', sample_world_at (2 * COPY_BUFFER) True)) \<and>
      m_dir m' = m_dir (sample_machine [])"
    unfolding sample_run_def ssh2_receiver_def
    using ssh2.receive_own_name [of "sample_machine []" ?o "''inbox''" sample_ssh _ _
        "sample_world_at 0 False" "[1, 2, 3]" "sample_world_at (2 * COPY_BUFFER) False"] dl del name
    by (simp add: sample_machine_def sample_tmp path)
  then show ?thesis by (auto simp: sample_world_at_def sample_machine_def)
qed

section \<open>Properties\<close>


lemma wf_sample_machine: "wf_machine (sample_machine events)"
  by (simp add: wf_machine_def sample_machine_def)

lemma sample_first:
  "sample_run sample_object (sample_machine [], sample_world_at 0 False) =
    Some (Inr (Persisted ''inbox/ProcessResult''),
      (after_receive ''inbox'' ''inbox/ProcessResult'' [1, 2, 3] (sample_machine []), sample_world_at (2 * COPY_BUFFER) True))"
  using sample_receive [of "sample_machine []" 0] wf_sample_machine [of "[]"] by (simp add: sample_machine_def)


text \<open>
  No call ever changes or removes a file of the inbox, succeeding or
  not; what it adds is a complete object of the advertised size whose content is on disk, under
  its name, or a temporary name it could not remove.  The file system stays well formed.
\<close>

theorem receive_extends_inbox:
  assumes "receive (ssh2_receiver ssh config c dir) object (m, w) = Some (r, (m', w'))" "wf_machine m"
  shows "wf_machine m' \<and> inbox_extended dir object m m'"
  using ssh2.receive_wf [OF assms [unfolded ssh2_receiver_def]] ssh2.receive_extends [OF assms [unfolded ssh2_receiver_def]]
  by blast

theorem receive_extends_inbox_witness:
  "\<exists>r m' w'. sample_run sample_object (sample_machine [], sample_world_at 0 False) = Some (r, (m', w')) \<and>
     inbox_extended ''inbox'' sample_object (sample_machine []) m'"
  using receive_extends_inbox [OF sample_first [unfolded sample_run_def] wf_sample_machine]
    sample_first unfolding sample_run_def by blast

lemma poll_once_cases:
  assumes "poll_once de (ssh2_poller ssh config c dir) (m, w) = Some (r, (m', w'))" "wf_machine m"
  obtains (list_failed) e where "r = Inl (ListError e)" "sftp_list ssh config c w = (Inl e, w')" "m' = m"
  | (polled) objects w1 attempts where "r = Inr attempts" "sftp_list ssh config c w = (Inr objects, w1)"
      "map pa_object attempts = objects" "sorted (map ro_name objects)" "kept m m'" "wf_machine m'"
      "list_all (attempt_ok de dir m') attempts"
proof -
  consider e where "r = Inl (ListError e)" "sftp_list ssh config c w = (Inl e, w')" "m' = m"
    | objects w1 attempts where "sftp_list ssh config c w = (Inr objects, w1)" "r = Inr attempts"
        "poll_objects de \<lparr>dr_remote = ssh2_remote_inbox ssh config c, dr_inbox_dir = dir\<rparr> objects (m, w1) = Some (attempts, (m', w'))"
    using assms(1)
    by (auto simp: poll_once_def io_bind_map_err_iff on_snd_iff ssh2_poller_def ssh2_lister_def io_of_def)
  then show thesis
  proof cases
    case (2 objects w1 attempts)
    have "sorted (map ro_name objects)"
      using 2(1) by (auto simp: sftp_list_def st_bind_iff and_then_Inr)
    with 2 ssh2.poll_objects_ok [OF 2(3) assms(2)] polled show thesis by blast
  qed (rule list_failed)
qed

text \<open>
  C16.  A poll makes exactly one attempt for each listed object, in the order of
  their names, whatever fails in between; it never changes or removes a file of the inbox; and
  when it ends, the record of every successful attempt is what parsing the file now in the inbox
  under the object's name gives.  When the listing fails no local file is touched.
\<close>

theorem poll_once_exact:
  assumes "poll_once de (ssh2_poller ssh config c dir) (m, w) = Some (r, (m', w'))" "wf_machine m"
  shows "case r of
      Inl (ListError e) \<Rightarrow> sftp_list ssh config c w = (Inl e, w') \<and> m' = m
    | Inr attempts \<Rightarrow> \<exists>objects w1. sftp_list ssh config c w = (Inr objects, w1) \<and>
        map pa_object attempts = objects \<and> sorted (map ro_name objects) \<and> kept m m' \<and> wf_machine m' \<and>
        list_all (attempt_ok de dir m') attempts"
  by (rule poll_once_cases [OF assms]) auto

definition no_xml :: "unit deserializers" where
  "no_xml = \<lparr>de_process = \<lambda>x. Inl (), de_summary = \<lambda>x. Inl ()\<rparr>"

lemma sample_list: "sftp_list sample_ssh (sftp_config_new h k) c w = (Inr [sample_object], w)"
proof -
  have entries: "list_objects [(''out/ProcessResult'', \<lparr>fst_size = Some 3, fst_perm = None\<rparr>)] =
      (Inr [sample_object] :: unit sftp_inbox_error + remote_object list)"
    unfolding sample_object_def by code_simp
  have rd: "sftp_readdir sample_ssh f p v = (Inr [(''out/ProcessResult'', \<lparr>fst_size = Some 3, fst_perm = None\<rparr>)], v)"
    for f p v by (simp add: sample_ssh_def)
  show ?thesis
    by (simp add: sftp_list_def st_bind_def st_map_err_def sample_connect rd map_err_def entries and_then_def
        del: list_objects.simps)
qed

lemma durable_load_returns: "\<exists>q u. durable_load de path m = Some (q, u)"
proof -
  obtain q u where "fs_read path m = Some (q, u)"
    by (cases "next_event m"; cases "fst (next_event m)") (auto simp: fs_read_def attempt_def)
  then show ?thesis
    by (cases "basename path"; cases q)
      (auto simp: durable_load_def io_bind_def io_result_def io_map_err_def map_err_def ok_or_def io_return_def Let_def
        split: sum.splits)
qed

theorem poll_once_exact_witness:
  "\<exists>attempts m' w'. poll_once no_xml
        (ssh2_poller sample_ssh (sftp_config_new ''h'' ''k'') (sftp_credentials_new ''u'' ''p'') ''inbox'')
        (sample_machine [], sample_world_at 0 False) = Some (Inr attempts, (m', w')) \<and>
     map pa_object attempts = [sample_object] \<and> list_all (attempt_ok no_xml ''inbox'' m') attempts"
proof -
  let ?poller = "ssh2_poller sample_ssh (sftp_config_new ''h'' ''k'') (sftp_credentials_new ''u'' ''p'') ''inbox''"
  let ?m = "after_receive ''inbox'' ''inbox/ProcessResult'' [1, 2, 3] (sample_machine [])"
  obtain q u where load: "durable_load no_xml ''inbox/ProcessResult'' ?m = Some (q, u)"
    using durable_load_returns by blast
  obtain r where obj: "poll_object no_xml (rp_receiver ?poller) sample_object (sample_machine [], sample_world_at 0 False) =
      Some (r, (u, sample_world_at (2 * COPY_BUFFER) True))"
    using sample_first [unfolded sample_run_def ssh2_receiver_def] load
    by (cases q) (auto simp: poll_object_def ssh2_poller_def io_bind_def io_map_err_def map_err_def on_fst_def io_return_def)
  have run: "poll_once no_xml ?poller (sample_machine [], sample_world_at 0 False) =
      Some (Inr [\<lparr>pa_object = sample_object, pa_result = r\<rparr>], (u, sample_world_at (2 * COPY_BUFFER) True))"
    using obj by (simp add: poll_once_def io_bind_def io_map_err_def map_err_def on_snd_def ssh2_poller_def ssh2_lister_def
        io_of_def sample_list)
  from poll_once_exact [OF run wf_sample_machine] run show ?thesis
    unfolding sample_list by auto
qed

text \<open>
  C39.  A call returns whenever its download returns: the search for a temporary
  name ends in a file system with fewer than \<open>2 ^ 64\<close> entries, and so does the comparison of
  the two files, for every schedule of errors and short reads.
\<close>

theorem receive_returns:
  fixes ssh :: "('addr, 'tcp, 'ses, 'known, 'sftp, 'file, 'x, 'w) ssh"
  assumes "finite (dom (m_dir m))" "card (dom (m_dir m)) < 2 ^ 64"
    "\<And>i u. \<exists>y. sftp_download ssh config c object (fs_write_all i) (u, w) = Some y"
  shows "\<exists>r m' w'. receive (ssh2_receiver ssh config c dir) object (m, w) = Some (r, (m', w'))"
proof -
  let ?self = "\<lparr>dr_remote = ssh2_remote_inbox ssh config c, dr_inbox_dir = dir\<rparr>"
  let ?path = "path_join dir (ro_name object)"
  have del: "returns (rmt_delete (dr_remote ?self) object)" for object
    by (simp add: returns_def sample_rmt)
  have into: "\<exists>y. receive_into ?self object ?path inc (u, w) = Some y" for inc u
  proof -
    obtain q v where dl: "sftp_download ssh config c object (fs_write_all (inc_file inc)) (u, w) = Some (q, v)"
      using assms(3) by (metis prod.exhaust)
    have "returns (io_bind (io_map_err ReceiveIo (on_fst (flush_and_sync inc))) (\<lambda>_.
        io_bind (io_map_err ReceiveIo (on_fst (incoming_size inc))) (receive_sized ?self object ?path inc)))"
      by (intro returning del)
    then obtain y where "io_bind (io_map_err ReceiveIo (on_fst (flush_and_sync inc))) (\<lambda>_.
        io_bind (io_map_err ReceiveIo (on_fst (incoming_size inc))) (receive_sized ?self object ?path inc)) v = Some y"
      unfolding returns_def by blast
    with dl show ?thesis
      by (cases y; cases q) (simp_all add: receive_into_def sample_rmt io_bind_def [of "io_map_err (RemoteError Download) _"]
        io_map_err_def [of "RemoteError Download"] map_err_def)
  qed
  obtain q u where create: "incoming_create dir m = Some (q, u)"
    using incoming_create_returns [OF assms(1,2), of dir] by (metis prod.exhaust)
  have "\<exists>y. receive ?self object (m, w) = Some y"
  proof (cases q)
    case (Inl e)
    with create show ?thesis
      by (cases "validate_remote_name (ro_name object) :: 'x sftp_inbox_error receive_error + unit")
        (simp_all add: receive_def io_bind_def io_result_def Let_def io_map_err_def map_err_def on_fst_def)
  next
    case (Inr inc)
    obtain r v where body: "receive_into ?self object ?path inc (u, w) = Some (r, v)"
      using into by (metis prod.exhaust)
    obtain x z where "incoming_drop inc (fst v) = Some (x, z)"
      using returns_incoming(3) [of inc] unfolding returns_def by (metis prod.exhaust)
    with create body Inr show ?thesis
      by (cases "validate_remote_name (ro_name object) :: 'x sftp_inbox_error receive_error + unit")
        (simp_all add: receive_def io_bind_def io_result_def Let_def io_map_err_def map_err_def on_fst_def io_finally_def)
  qed
  then show ?thesis unfolding ssh2_receiver_def by (metis prod.exhaust)
qed

theorem receive_returns_witness:
  "\<exists>r m' w'. sample_run sample_object (sample_machine [Pass, Fault (OtherError 28) 1], sample_world_at 0 False) =
     Some (r, (m', w'))"
  unfolding sample_run_def
proof (rule receive_returns)
  show "finite (dom (m_dir (sample_machine [Pass, Fault (OtherError 28) 1])))"
    "card (dom (m_dir (sample_machine [Pass, Fault (OtherError 28) 1]))) < 2 ^ 64"
    by (simp_all add: sample_machine_def dom_def)
  fix i u
  have o: "open_remote_file sample_ssh (sftp_config_new ''h'' ''k'') c (ro_name sample_object) (sample_world_at 0 False) =
      (Inr (), sample_world_at 0 False)" for c
    by (simp add: open_remote_file_def st_map_err_def st_bind_def sample_connect map_err_def Let_def sample_ops
        sample_world_at_def)
  obtain q v where "copy_loop sample_ssh () (fs_write_all i) u (sample_world_at 0 False) = Some (q, v)"
    using sample_copy_returns [of "sample_world_at 0 False" i u] by (auto simp: sample_world_at_def COPY_BUFFER_def)
  then show "\<exists>y. sftp_download sample_ssh (sftp_config_new ''h'' ''k'') (sftp_credentials_new ''u'' ''p'') sample_object
      (fs_write_all i) (u, sample_world_at 0 False) = Some y"
    by (cases v; cases q) (simp_all add: sample_ops st_map_err_def sftp_download_def sample_safe io_bind_def on_snd_def io_of_def o io_map_err_def map_err_def)
qed

section \<open>Delivery\<close>

lemma local_copy_after_receive:
  assumes "wf_machine m" "path = path_join dir name" "CHR ''/'' \<notin> set name"
    and "path \<noteq> path_join dir (incoming_name (m_process_id m) (m_next_temp_id m))"
    and "content \<noteq> []" "length content = unat (ro_size object)"
    and "\<And>j. m_dir m path = Some j \<Longrightarrow> m_data m j = content"
  shows "local_copy path object content m (after_receive dir path content m)"
proof -
  have "in_directory dir path" unfolding assms(2) by (rule in_directory_join [OF assms(3)])
  moreover have "j \<noteq> m_fresh m" if "m_dir m path = Some j" for j
    using that assms(1) by (auto simp: wf_machine_def)
  ultimately show ?thesis
    using assms(4-7)
    by (cases "m_dir m path")
      (auto simp: local_copy_def after_receive_def Let_def with_incoming_def with_entry_def with_flushed_def flushed_directory_def)
qed



end
