(* ===== verification/Mailbox.thy ===== *)
theory Mailbox
  imports Receiver_Properties
begin

text \<open>
  The inbox directory as an abstract mailbox, and the refinement: whatever sequence of receive
  calls, failures, restarts and crashes happens, the directory goes through steps of the mailbox.
\<close>

section \<open>The mailbox\<close>

text \<open>The messages by name, and the names that a crash cannot lose.\<close>

record mailbox =
  mb_visible :: "string \<Rightarrow> bytes option"
  mb_stable :: "string set"

text \<open>A message is stored once, under a free name, complete; it is never replaced or removed.\<close>

inductive mailbox_step :: "mailbox \<Rightarrow> mailbox \<Rightarrow> bool" where
  mb_store: "mb_visible b n = None \<Longrightarrow> content \<noteq> [] \<Longrightarrow> mailbox_step b (b\<lparr>mb_visible := (mb_visible b)(n \<mapsto> content)\<rparr>)"
| mb_flush: "mailbox_step b (b\<lparr>mb_stable := dom (mb_visible b)\<rparr>)"
| mb_crash: "v \<subseteq>\<^sub>m mb_visible b \<Longrightarrow> \<forall>n \<in> mb_stable b. v n = mb_visible b n \<Longrightarrow>
    mailbox_step b \<lparr>mb_visible = v, mb_stable = dom v\<rparr>"

abbreviation mailbox_steps :: "mailbox \<Rightarrow> mailbox \<Rightarrow> bool" where
  "mailbox_steps \<equiv> mailbox_step\<^sup>*\<^sup>*"

lemma stable_step:
  assumes "mailbox_step b b'" "n \<in> mb_stable b" "mb_visible b n = Some content"
  shows "n \<in> mb_stable b' \<and> mb_visible b' n = Some content"
  using assms by cases auto

lemma stable_steps:
  assumes "mailbox_steps b b'" "n \<in> mb_stable b" "mb_visible b n = Some content"
  shows "n \<in> mb_stable b' \<and> mb_visible b' n = Some content"
  using assms by (induction rule: rtranclp_induct) (auto dest: stable_step)

section \<open>The directory\<close>

definition plain :: "string \<Rightarrow> bool" where
  "plain name \<longleftrightarrow> CHR ''/'' \<notin> set name \<and> \<not> starts_with name ''.incoming-''"

definition mailbox_of :: "string \<Rightarrow> machine \<Rightarrow> mailbox" where
  "mailbox_of dir m =
     \<lparr>mb_visible = (\<lambda>n. if plain n then map_option (m_data m) (m_dir m (path_join dir n)) else None),
      mb_stable = {n. plain n \<and> m_dir m (path_join dir n) \<noteq> None \<and>
        m_disk_dir m (path_join dir n) = m_dir m (path_join dir n)}\<rparr>"

text \<open>Every visible message is flushed, and no removed entry is left on disk.\<close>

definition mailbox_ok :: "string \<Rightarrow> machine \<Rightarrow> bool" where
  "mailbox_ok dir m \<longleftrightarrow> wf_machine m \<and>
     (\<forall>n i. plain n \<and> m_dir m (path_join dir n) = Some i \<longrightarrow> m_disk_data m i = Some (m_data m i)) \<and>
     (\<forall>n i. plain n \<and> m_disk_dir m (path_join dir n) = Some i \<longrightarrow> m_dir m (path_join dir n) = Some i)"

text \<open>
  After a crash each directory entry is what was cached or what was on disk; a file whose cached
  and flushed contents agree keeps it, any other may hold anything.
\<close>

definition crashed :: "machine \<Rightarrow> machine \<Rightarrow> bool" where
  "crashed m m' \<longleftrightarrow>
     (\<forall>p. m_dir m' p = m_dir m p \<or> m_dir m' p = m_disk_dir m p) \<and> m_disk_dir m' = m_dir m' \<and>
     (\<forall>i. m_disk_data m i = Some (m_data m i) \<longrightarrow> m_data m' i = m_data m i) \<and>
     (\<forall>i. m_disk_data m' i = Some (m_data m' i)) \<and> m_fresh m' = m_fresh m"

text \<open>
  Everything that happens to the directory: calls with any result, restarts of the process (and
  reads, which leave the files alone), crashes of the machine, and changes on the server.
\<close>

inductive inbox_history :: "('w, 'e) remote_ops \<Rightarrow> string \<Rightarrow> machine \<times> 'w \<Rightarrow> machine \<times> 'w \<Rightarrow> bool"
  for remote dir s where
  history_start: "inbox_history remote dir s s"
| history_call: "inbox_history remote dir s (m, w) \<Longrightarrow>
    receive \<lparr>dr_remote = remote, dr_inbox_dir = dir\<rparr> object (m, w) = Some (r, s') \<Longrightarrow> inbox_history remote dir s s'"
| history_restart: "inbox_history remote dir s (m, w) \<Longrightarrow>
    inbox_history remote dir s (m\<lparr>m_process_id := pid, m_next_temp_id := next_id, m_events := events\<rparr>, w)"
| history_crash: "inbox_history remote dir s (m, w) \<Longrightarrow> crashed m m' \<Longrightarrow> inbox_history remote dir s (m', w)"
| history_server: "inbox_history remote dir s (m, w) \<Longrightarrow> inbox_history remote dir s (m, w')"

section \<open>Refinement\<close>

lemma incoming_not_plain: "\<not> plain (incoming_name pid n)"
  by (simp add: plain_def incoming_name_def starts_with_def)

lemma plain_path: "plain n \<Longrightarrow> plain k \<Longrightarrow> path_join dir n = path_join dir k \<longleftrightarrow> n = k"
  by (simp add: plain_def path_join_inject)

lemma plain_not_incoming: "plain n \<Longrightarrow> path_join dir n \<noteq> path_join dir (incoming_name pid k)"
  using incoming_not_plain [of pid k] incoming_name_chars [of pid k] by (auto simp: plain_def path_join_inject)

lemma plain_in_directory: "plain n \<Longrightarrow> in_directory dir (path_join dir n)"
  by (simp add: plain_def in_directory_join)

lemma mailbox_crash:
  assumes "crashed m m'" "mailbox_ok dir m"
  shows "mailbox_ok dir m' \<and> mailbox_step (mailbox_of dir m) (mailbox_of dir m')"
proof -
  let ?v = "mb_visible (mailbox_of dir m')"
  have entry: "m_dir m' (path_join dir n) = None \<or> m_dir m' (path_join dir n) = m_dir m (path_join dir n)" if "plain n" for n
    using assms that unfolding crashed_def mailbox_ok_def by (metis not_None_eq)
  have data: "m_data m' i = m_data m i" if "plain n" "m_dir m (path_join dir n) = Some i" for n i
    using assms that unfolding crashed_def mailbox_ok_def by metis
  have "mailbox_of dir m' = \<lparr>mb_visible = ?v, mb_stable = dom ?v\<rparr>"
    using assms(1) by (auto simp: mailbox_of_def crashed_def split: if_splits)
  moreover have "?v \<subseteq>\<^sub>m mb_visible (mailbox_of dir m)"
    using entry data by (fastforce simp: map_le_def mailbox_of_def split: if_splits)
  moreover have "?v n = mb_visible (mailbox_of dir m) n" if "n \<in> mb_stable (mailbox_of dir m)" for n
  proof -
    from that obtain i where n: "plain n" "m_dir m (path_join dir n) = Some i" "m_disk_dir m (path_join dir n) = Some i"
      by (auto simp: mailbox_of_def)
    with assms(1) have "m_dir m' (path_join dir n) = Some i" unfolding crashed_def by metis
    with n data show ?thesis by (simp add: mailbox_of_def)
  qed
  ultimately have "mailbox_step (mailbox_of dir m) (mailbox_of dir m')" by (metis mb_crash)
  moreover have "mailbox_ok dir m'"
    using assms unfolding mailbox_ok_def crashed_def wf_machine_def by metis
  ultimately show ?thesis by blast
qed

lemma mailbox_unchanged:
  assumes "\<And>n. plain n \<Longrightarrow> m_dir m' (path_join dir n) = m_dir m (path_join dir n)"
    and "\<And>n. plain n \<Longrightarrow> m_disk_dir m' (path_join dir n) = m_disk_dir m (path_join dir n)"
    and "\<And>n i. plain n \<Longrightarrow> m_dir m (path_join dir n) = Some i \<Longrightarrow>
      m_data m' i = m_data m i \<and> m_disk_data m' i = m_disk_data m i"
  shows "mailbox_of dir m' = mailbox_of dir m"
proof -
  have "map_option (m_data m') (m_dir m (path_join dir n)) = map_option (m_data m) (m_dir m (path_join dir n))"
    if "plain n" for n
    using assms(3) [OF that] by (cases "m_dir m (path_join dir n)") auto
  with assms(1,2) show ?thesis by (auto simp: mailbox_of_def)
qed

text \<open>A transition of the machine that the mailbox follows.\<close>

definition simulated :: "string \<Rightarrow> machine \<Rightarrow> machine \<Rightarrow> bool" where
  "simulated dir m m' \<longleftrightarrow>
     (mailbox_ok dir m \<longrightarrow> mailbox_ok dir m' \<and> mailbox_steps (mailbox_of dir m) (mailbox_of dir m'))"

lemma simulated_refl [simp, intro]: "simulated dir m m"
  by (simp add: simulated_def)

lemma simulated_trans: "simulated dir m u \<Longrightarrow> simulated dir u m' \<Longrightarrow> simulated dir m m'"
  by (auto simp: simulated_def)

lemma simulated_same:
  assumes "same_files m m'"
  shows "simulated dir m m'"
proof -
  have "mailbox_of dir m' = mailbox_of dir m"
    by (rule mailbox_unchanged) (use assms in \<open>simp_all add: same_files_def\<close>)
  then show ?thesis
    using assms by (simp add: simulated_def mailbox_ok_def wf_machine_def same_files_def)
qed

lemma simulated_dropped:
  assumes "dropped (path_join dir (incoming_name pid k)) m m'"
  shows "simulated dir m m'"
proof -
  let ?t = "path_join dir (incoming_name pid k)"
  have "simulated dir m (m\<lparr>m_dir := (m_dir m)(?t := None)\<rparr>)"
  proof (unfold simulated_def, intro impI conjI)
    assume ok: "mailbox_ok dir m"
    then show "mailbox_ok dir (m\<lparr>m_dir := (m_dir m)(?t := None)\<rparr>)"
      by (auto simp: mailbox_ok_def wf_machine_def plain_not_incoming)
    have "mailbox_of dir (m\<lparr>m_dir := (m_dir m)(?t := None)\<rparr>) = mailbox_of dir m"
      by (rule mailbox_unchanged) (simp_all add: plain_not_incoming)
    then show "mailbox_steps (mailbox_of dir m) (mailbox_of dir (m\<lparr>m_dir := (m_dir m)(?t := None)\<rparr>))" by simp
  qed
  with assms show ?thesis unfolding dropped_def by (blast intro: simulated_same simulated_trans)
qed

lemma simulated_incoming: "simulated dir m (with_incoming (path_join dir (incoming_name pid k)) bs disk m)"
proof (unfold simulated_def, intro impI conjI)
  let ?m = "with_incoming (path_join dir (incoming_name pid k)) bs disk m"
  assume ok: "mailbox_ok dir m"
  then have old: "i \<noteq> m_fresh m" if "m_dir m q = Some i \<or> m_disk_dir m q = Some i" for q i
    using that by (auto simp: mailbox_ok_def wf_machine_def)
  with ok show "mailbox_ok dir ?m"
    by (auto simp: mailbox_ok_def wf_machine_def with_incoming_def plain_not_incoming less_Suc_eq)
  have "mailbox_of dir ?m = mailbox_of dir m"
    by (rule mailbox_unchanged) (use old in \<open>auto simp: with_incoming_def plain_not_incoming\<close>)
  then show "mailbox_steps (mailbox_of dir m) (mailbox_of dir ?m)" by simp
qed

lemma simulated_entry:
  assumes "m_dir m (path_join dir name) = None" "m_data m i \<noteq> []" "m_disk_data m i = Some (m_data m i)"
    "i < m_fresh m" "CHR ''/'' \<notin> set name"
  shows "simulated dir m (with_entry (path_join dir name) i m)"
proof (unfold simulated_def, intro impI conjI)
  let ?m = "with_entry (path_join dir name) i m"
  assume ok: "mailbox_ok dir m"
  then have free: "m_disk_dir m (path_join dir name) \<noteq> Some j"
    if "plain n" "path_join dir n = path_join dir name" for n j
    using that assms(1) unfolding mailbox_ok_def by (metis option.distinct(1))
  with assms ok show "mailbox_ok dir ?m"
    by (auto simp: mailbox_ok_def wf_machine_def with_entry_def)
  show "mailbox_steps (mailbox_of dir m) (mailbox_of dir ?m)"
  proof (cases "plain name")
    case True
    have "mailbox_of dir ?m = (mailbox_of dir m)\<lparr>mb_visible := (mb_visible (mailbox_of dir m))(name \<mapsto> m_data m i)\<rparr>"
      using True free [OF True] assms(1) by (auto simp: mailbox_of_def with_entry_def plain_path fun_eq_iff)
    moreover have "mb_visible (mailbox_of dir m) name = None"
      using assms(1) by (simp add: mailbox_of_def)
    ultimately show ?thesis using mb_store [OF _ assms(2)] by auto
  next
    case False
    have other: "path_join dir n \<noteq> path_join dir name" if "plain n" for n
      using that False assms(5) by (auto simp: plain_def path_join_inject)
    have "mailbox_of dir ?m = mailbox_of dir m"
      by (rule mailbox_unchanged) (simp_all add: with_entry_def other)
    then show ?thesis by simp
  qed
qed

lemma simulated_flushed: "simulated dir m (with_flushed dir m)"
proof (unfold simulated_def, intro impI conjI)
  assume ok: "mailbox_ok dir m"
  then show "mailbox_ok dir (with_flushed dir m)"
    by (auto simp: mailbox_ok_def wf_machine_def with_flushed_def flushed_directory_def plain_in_directory split: if_splits)
  have "mailbox_of dir (with_flushed dir m) =
      (mailbox_of dir m)\<lparr>mb_stable := dom (mb_visible (mailbox_of dir m))\<rparr>"
    by (auto simp: mailbox_of_def with_flushed_def flushed_directory_def plain_in_directory split: if_splits)
  then show "mailbox_steps (mailbox_of dir m) (mailbox_of dir (with_flushed dir m))"
    using mb_flush by auto
qed

context remote_inbox
begin

lemma receive_simulated:
  assumes run: "receive (receiver dir) object (m, w) = Some (r, (m', w'))"
  shows "simulated dir m m'"
  using receive_phases [OF run]
proof (elim disjE exE conjE)
  fix n tmp p bs disk q m1
  assume tmp: "tmp = path_join dir (incoming_name (m_process_id m) n)"
    and valid: "validate_remote_name (ro_name object) = (Inr () :: 'e receive_error + unit)"
    and p: "progress_ok p object tmp (path_join dir (ro_name object)) bs disk m"
      "dropped tmp (progress_state p dir tmp (path_join dir (ro_name object)) bs disk m) m'"
  let ?in = "with_incoming tmp bs disk m" and ?path = "path_join dir (ro_name object)"
  have inc: "simulated dir m ?in" unfolding tmp by (rule simulated_incoming)
  have entry: "simulated dir ?in (with_entry ?path (m_fresh m) ?in)" if "p \<in> {Unsynced, Durable}"
    by (rule simulated_entry)
      (use that p(1) validated_name(2) [OF valid] in \<open>auto simp: progress_ok_def with_incoming_def\<close>)
  have "simulated dir m (progress_state p dir tmp ?path bs disk m)"
    using simulated_trans [OF inc entry] simulated_trans [OF _ simulated_flushed] inc by (cases p) auto
  moreover from p(2) have "simulated dir (progress_state p dir tmp ?path bs disk m) m'"
    unfolding tmp by (rule simulated_dropped)
  ultimately show ?thesis by (rule simulated_trans)
qed (simp add: simulated_same)

lemma history_simulated: "inbox_history remote dir s s' \<Longrightarrow> simulated dir (fst s) (fst s')"
proof (induction rule: inbox_history.induct)
  case (history_call m w object r s')
  then show ?case by (cases s') (auto intro: simulated_trans receive_simulated)
next
  case (history_restart m w events next_id pid)
  let ?m = "m\<lparr>m_process_id := pid, m_next_temp_id := next_id, m_events := events\<rparr>"
  have "mailbox_of dir ?m = mailbox_of dir m" by (rule mailbox_unchanged) simp_all
  then have "simulated dir m ?m"
    by (simp add: simulated_def mailbox_ok_def wf_machine_def)
  with history_restart show ?case by (auto intro: simulated_trans)
next
  case (history_crash m w m')
  then have "simulated dir m m'" using mailbox_crash by (auto simp: simulated_def)
  with history_crash show ?case by (auto intro: simulated_trans)
qed auto

text \<open>A message that the directory holds safely is there, with its content, in every future.\<close>

lemma history_keeps:
  assumes "inbox_history remote dir (m, w) (m', w')" "mailbox_ok dir m" "plain n"
    and "n \<in> mb_stable (mailbox_of dir m)" "mb_visible (mailbox_of dir m) n = Some content"
  shows "mailbox_ok dir m' \<and> n \<in> mb_stable (mailbox_of dir m') \<and>
    (\<exists>j. m_dir m' (path_join dir n) = Some j \<and> m_disk_dir m' (path_join dir n) = Some j \<and>
       m_data m' j = content \<and> m_disk_data m' j = Some content)"
proof -
  from history_simulated [OF assms(1)] assms(2)
  have ok: "mailbox_ok dir m'" "mailbox_steps (mailbox_of dir m) (mailbox_of dir m')" by (simp_all add: simulated_def)
  from stable_steps [OF ok(2) assms(4,5)]
  have s: "n \<in> mb_stable (mailbox_of dir m')" "mb_visible (mailbox_of dir m') n = Some content" by blast+
  with assms(3) obtain j where j: "m_dir m' (path_join dir n) = Some j" "m_disk_dir m' (path_join dir n) = Some j"
    "m_data m' j = content" by (auto simp: mailbox_of_def)
  with ok(1) assms(3) have "m_disk_data m' j = Some content" unfolding mailbox_ok_def by metis
  with ok(1) s(1) j show ?thesis by blast
qed

lemma persisted_stable:
  assumes "receive (receiver dir) object (m, w) = Some (Inr (Persisted path), (m', w'))"
    and "\<not> starts_with (ro_name object) ''.incoming-''" "mailbox_ok dir m"
  shows "plain (ro_name object) \<and> path = path_join dir (ro_name object) \<and> mailbox_ok dir m' \<and>
    ro_name object \<in> mb_stable (mailbox_of dir m') \<and>
    (\<exists>i content. m_dir m' path = Some i \<and> m_data m' i = content \<and> content \<noteq> [] \<and>
       length content = unat (ro_size object) \<and> mb_visible (mailbox_of dir m') (ro_name object) = Some content)"
proof -
  let ?n = "ro_name object" and ?path = "path_join dir (ro_name object)"
  from assms(3) have wf: "wf_machine m" by (simp add: mailbox_ok_def)
  from receive_phases [OF assms(1)]
  have valid: "validate_remote_name ?n = (Inr () :: 'e receive_error + unit)" by blast
  from validated_name(2) [OF valid] assms(2) have plain: "plain ?n" by (simp add: plain_def)
  from receive_deletes [OF assms(1) wf assms(2)]
  obtain bs and d :: "'e + unit" where copy: "local_copy ?path object bs m m'"
    and d: "(Inr (Persisted path) :: 'e receive_error + receive_outcome) =
      (case d of Inl e \<Rightarrow> Inl (RemoteError Delete e)
       | Inr _ \<Rightarrow> Inr (if m_dir m ?path = None then Persisted ?path else AlreadyPersisted ?path))"
    by blast
  from d have path: "m_dir m ?path = None" "path = ?path"
    by (cases d; simp split: if_splits)+
  from copy path obtain i where i: "m_dir m' ?path = Some i" "m_disk_dir m' ?path = Some i" "m_data m' i = bs"
      "bs \<noteq> []" "length bs = unat (ro_size object)"
    by (auto simp: local_copy_def)
  have "mailbox_ok dir m'" using receive_simulated [OF assms(1)] assms(3) by (simp add: simulated_def)
  with i plain path(2) show ?thesis by (simp add: mailbox_of_def)
qed

end

section \<open>Properties\<close>

text \<open>
  C2.  The inbox directory implements a mailbox: through every history of
  receive calls with any results and I/O faults, process restarts, machine crashes and changes on
  the server, the directory goes through steps of the abstract mailbox only.  Messages appear
  once, complete, under a free name; they are never replaced or removed; a crash loses at most
  messages whose directory entry had not been flushed, and never part of one.
\<close>

theorem inbox_refines_mailbox:
  assumes "inbox_history (ssh2_remote_inbox ssh config c) dir (m, w) (m', w')" "mailbox_ok dir m"
  shows "mailbox_ok dir m' \<and> mailbox_steps (mailbox_of dir m) (mailbox_of dir m')"
  using ssh2.history_simulated [OF assms(1)] assms(2) by (simp add: simulated_def)

text \<open>The machine after a crash that loses everything not flushed.\<close>

definition crash :: "machine \<Rightarrow> machine" where
  "crash m = m\<lparr>m_dir := m_disk_dir m, m_data := (\<lambda>i. case m_disk_data m i of Some d \<Rightarrow> d | None \<Rightarrow> []),
     m_disk_data := (\<lambda>i. Some (case m_disk_data m i of Some d \<Rightarrow> d | None \<Rightarrow> []))\<rparr>"

lemma crashed_crash: "wf_machine m \<Longrightarrow> crashed m (crash m)"
  by (simp add: crashed_def crash_def)

lemma mailbox_ok_empty: "mailbox_ok dir (sample_machine events)"
  by (simp add: mailbox_ok_def wf_sample_machine) (simp add: sample_machine_def)

lemma sample_history:
  "inbox_history (ssh2_remote_inbox sample_ssh (sftp_config_new ''h'' ''k'') (sftp_credentials_new ''u'' ''p''))
     ''inbox'' (sample_machine [], sample_world_at 0 False)
     (crash (after_receive ''inbox'' ''inbox/ProcessResult'' [1, 2, 3] (sample_machine [])), sample_world_at (2 * COPY_BUFFER) True)"
  using history_crash [OF history_call [OF history_start
    sample_first [unfolded sample_run_def ssh2_receiver_def]] crashed_crash]
    ssh2.receive_wf [OF sample_first [unfolded sample_run_def ssh2_receiver_def] wf_sample_machine] by blast

theorem inbox_refines_mailbox_witness:
  "\<exists>m' w'. inbox_history (ssh2_remote_inbox sample_ssh (sftp_config_new ''h'' ''k'') (sftp_credentials_new ''u'' ''p''))
     ''inbox'' (sample_machine [], sample_world_at 0 False) (m', w') \<and>
     mb_visible (mailbox_of ''inbox'' (sample_machine [])) ''ProcessResult'' = None \<and>
     mb_visible (mailbox_of ''inbox'' m') ''ProcessResult'' = Some [1, 2, 3] \<and>
     mailbox_steps (mailbox_of ''inbox'' (sample_machine [])) (mailbox_of ''inbox'' m')"
proof -
  let ?m = "crash (after_receive ''inbox'' ''inbox/ProcessResult'' [1, 2, 3] (sample_machine []))"
  from sample_history have h: "inbox_history (ssh2_remote_inbox sample_ssh (sftp_config_new ''h'' ''k'') (sftp_credentials_new ''u'' ''p''))
     ''inbox'' (sample_machine [], sample_world_at 0 False) (?m, sample_world_at (2 * COPY_BUFFER) True)" by blast
  have plain: "plain ''ProcessResult''" by (simp add: plain_def starts_with_def)
  have "in_directory ''inbox'' ''inbox/ProcessResult''"
    using plain_in_directory [OF plain, of "''inbox''"] by (simp add: sample_path)
  then have "mb_visible (mailbox_of ''inbox'' ?m) ''ProcessResult'' = Some [1, 2, 3]"
    by (simp add: mailbox_of_def plain sample_path crash_def after_receive_def sample_machine_def with_incoming_def
        with_entry_def with_flushed_def flushed_directory_def Let_def sample_tmp)
  moreover have "mb_visible (mailbox_of ''inbox'' (sample_machine [])) ''ProcessResult'' = None"
    by (simp add: mailbox_of_def sample_machine_def)
  ultimately show ?thesis using h inbox_refines_mailbox [OF h mailbox_ok_empty] by blast
qed

text \<open>
  C4.  What \<open>receive\<close> reports as \<open>Persisted\<close> is safe from everything: after any
  further history with calls, faults, restarts and crashes, the inbox still holds under the
  object's name the bytes it held when the call returned, of the advertised size, in the cache and
  on disk.
\<close>

theorem persisted_survives:
  fixes ssh :: "('addr, 'tcp, 'ses, 'known, 'sftp, 'file, 'x, 'w) ssh"
  assumes "receive (ssh2_receiver ssh config c dir) object (m, w) = Some (Inr (Persisted path), (m1, w1))"
    and "\<not> starts_with (ro_name object) ''.incoming-''" "mailbox_ok dir m"
    and "inbox_history (ssh2_remote_inbox ssh config c) dir (m1, w1) (m2, w2)"
  shows "\<exists>i j content. path = path_join dir (ro_name object) \<and> m_dir m1 path = Some i \<and> m_data m1 i = content \<and>
     content \<noteq> [] \<and> length content = unat (ro_size object) \<and>
     m_dir m2 path = Some j \<and> m_data m2 j = content \<and> m_disk_dir m2 path = Some j \<and> m_disk_data m2 j = Some content"
proof -
  from ssh2.persisted_stable [OF assms(1) [unfolded ssh2_receiver_def] assms(2,3)] obtain i content where
    stable: "plain (ro_name object)" "path = path_join dir (ro_name object)" "mailbox_ok dir m1"
      "ro_name object \<in> mb_stable (mailbox_of dir m1)" "mb_visible (mailbox_of dir m1) (ro_name object) = Some content"
    and i: "m_dir m1 path = Some i" "m_data m1 i = content" "content \<noteq> []" "length content = unat (ro_size object)"
    by blast
  from ssh2.history_keeps [OF assms(4) stable(3,1,4,5)] i show ?thesis
    unfolding stable(2) by blast
qed

theorem persisted_survives_witness:
  "\<exists>m1 w1 m2 j. receive (ssh2_receiver sample_ssh (sftp_config_new ''h'' ''k'') (sftp_credentials_new ''u'' ''p'') ''inbox'')
       sample_object (sample_machine [], sample_world_at 0 False) = Some (Inr (Persisted ''inbox/ProcessResult''), (m1, w1)) \<and>
     crashed m1 m2 \<and> m_dir m2 ''inbox/ProcessResult'' = Some j \<and> length (m_data m2 j) = 3"
proof -
  note run = sample_first [unfolded sample_run_def]
  let ?m = "after_receive ''inbox'' ''inbox/ProcessResult'' [1, 2, 3] (sample_machine [])"
  have crash: "crashed ?m (crash ?m)"
    by (rule crashed_crash) (rule ssh2.receive_wf [OF run [unfolded ssh2_receiver_def] wf_sample_machine])
  have name: "\<not> starts_with (ro_name sample_object) ''.incoming-''"
    by (simp add: sample_object_def starts_with_def)
  from persisted_survives [OF run name mailbox_ok_empty history_crash [OF history_start crash]]
  obtain j where "m_dir (crash ?m) ''inbox/ProcessResult'' = Some j" "length (m_data (crash ?m) j) = 3"
    by (auto simp: sample_object_def)
  with run crash show ?thesis by blast
qed

end
