(* ===== verification/Correlation.thy ===== *)
theory Correlation
  imports Reconciliation Submission_Store
begin

text \<open>
  From the inbox to the submission records: \<open>DurableInboundRecord::correlation_ids\<close>
  (\<open>einvoice-transport\<close>) against \<open>SubmissionRecord::apply_process_result\<close> and
  \<open>apply_summary_result\<close> (\<open>einvoice-state\<close>).
\<close>

text \<open>Applying what an inbound record carries; None is the overflow panic of a debug build.\<close>

definition apply_reconciliation ::
  "profile \<Rightarrow> parsed_reconciliation \<Rightarrow> submission_record \<Rightarrow>
     ((apply_error + apply_outcome) \<times> submission_record) option" where
  "apply_reconciliation p x rec =
     (case x of
        Process result \<Rightarrow> Some (apply_process_result result rec)
      | Summary result \<Rightarrow> apply_summary_result p result rec)"

text \<open>The errors that say that the result is not about this submission.\<close>

fun not_addressed :: "apply_error \<Rightarrow> bool" where
  "not_addressed (MessageIdMismatch expected actual) \<longleftrightarrow> True"
| "not_addressed (SummaryMessageMissing mid) \<longleftrightarrow> True"
| "not_addressed _ \<longleftrightarrow> False"

lemma filter_ids:
  "length (filter (\<lambda>m. smi_id (sm_info m) = mid) ms) = count_list (map (\<lambda>m. smi_id (sm_info m)) ms) mid"
  by (induction ms) auto

lemma apply_summary_message_addressed:
  assumes "apply_summary_message p m rec = Some (Inl e, rec')" "smi_id (sm_info m) = message_id rec"
  shows "\<not> not_addressed e \<and> (\<forall>mid n. e \<noteq> DuplicateSummaryMessage mid n)"
  using assms by (auto simp: apply_summary_message_def ensure_message_id_def Let_def split: option.splits if_splits)

lemma apply_process_addressed:
  "(\<exists>e rec'. apply_process_result r rec = (Inl e, rec')) \<longleftrightarrow> pmi_id (pr_message r) \<noteq> message_id rec"
  by (auto simp: apply_process_result_def ensure_message_id_def Let_def)

lemma apply_summary_unaddressed:
  assumes "message_id rec \<notin> set (map (\<lambda>m. smi_id (sm_info m)) (sr_messages s))"
  shows "apply_summary_result p s rec = Some (Inl (SummaryMessageMissing (message_id rec)), rec)"
proof -
  have "filter (\<lambda>m. smi_id (sm_info m) = message_id rec) (sr_messages s) = []"
    using assms by (simp add: filter_empty_conv image_iff) metis
  then show ?thesis by (simp add: apply_summary_result_def)
qed

lemma apply_summary_addressed:
  fixes s rec
  defines "ids \<equiv> map (\<lambda>m. smi_id (sm_info m)) (sr_messages s)"
  assumes "message_id rec \<in> set ids"
  shows "count_list ids (message_id rec) > 1 \<Longrightarrow>
      apply_summary_result p s rec = Some (Inl (DuplicateSummaryMessage (message_id rec) (count_list ids (message_id rec))), rec)"
    and "count_list ids (message_id rec) \<le> 1 \<Longrightarrow>
      \<exists>m \<in> set (sr_messages s). smi_id (sm_info m) = message_id rec \<and>
        apply_summary_result p s rec = apply_summary_message p m rec"
proof -
  let ?ms = "filter (\<lambda>m. smi_id (sm_info m) = message_id rec) (sr_messages s)"
  from assms obtain m rest where ms: "?ms = m # rest"
    by (cases ?ms) (auto simp: filter_empty_conv)
  then have "m \<in> set ?ms" by simp
  then have m: "m \<in> set (sr_messages s)" "smi_id (sm_info m) = message_id rec" by auto
  have n: "count_list ids (message_id rec) = Suc (length rest)"
    using filter_ids [of "message_id rec" "sr_messages s"] ms by (simp add: ids_def)
  show "count_list ids (message_id rec) > 1 \<Longrightarrow>
      apply_summary_result p s rec = Some (Inl (DuplicateSummaryMessage (message_id rec) (count_list ids (message_id rec))), rec)"
    using ms n by (auto simp: apply_summary_result_def)
  show "count_list ids (message_id rec) \<le> 1 \<Longrightarrow>
      \<exists>m \<in> set (sr_messages s). smi_id (sm_info m) = message_id rec \<and>
        apply_summary_result p s rec = apply_summary_message p m rec"
    using ms n m by (auto simp: apply_summary_result_def)
qed

text \<open>
  C23.  The correlation IDs of an inbound record are exactly the submissions it
  is for.  A submission whose ID is not among them refuses the record as addressed to another and
  stays as it is; one whose ID is among them never does so; and one whose ID occurs more than once
  refuses it as a duplicate with exactly that count.  So handing a record only to the submissions
  it names loses nothing, in any build.
\<close>

theorem correlation_ids_exact:
  assumes "din_reconciliation inbound = Some x"
  shows "(message_id rec \<notin> set (correlation_ids inbound) \<longleftrightarrow>
       (\<exists>e. apply_reconciliation p x rec = Some (Inl e, rec) \<and> not_addressed e)) \<and>
     (\<forall>e rec'. message_id rec \<in> set (correlation_ids inbound) \<and> apply_reconciliation p x rec = Some (Inl e, rec') \<longrightarrow>
       \<not> not_addressed e) \<and>
     (\<forall>mid n rec'. apply_reconciliation p x rec = Some (Inl (DuplicateSummaryMessage mid n), rec') \<longrightarrow>
       mid = message_id rec \<and> rec' = rec \<and> n = count_list (correlation_ids inbound) mid) \<and>
     (count_list (correlation_ids inbound) (message_id rec) > 1 \<longrightarrow>
       apply_reconciliation p x rec = Some (Inl (DuplicateSummaryMessage (message_id rec)
         (count_list (correlation_ids inbound) (message_id rec))), rec))"
proof (cases x)
  case (Process r)
  with assms show ?thesis
    by (auto simp: correlation_ids_def apply_reconciliation_def apply_process_result_def ensure_message_id_def Let_def
        split: if_splits)
next
  case (Summary s)
  let ?ids = "map (\<lambda>m. smi_id (sm_info m)) (sr_messages s)"
  have ids: "correlation_ids inbound = ?ids" and a: "apply_reconciliation p x rec = apply_summary_result p s rec"
    using assms Summary by (simp_all add: correlation_ids_def apply_reconciliation_def)
  consider "message_id rec \<notin> set ?ids" | "message_id rec \<in> set ?ids" "count_list ?ids (message_id rec) > 1"
    | "message_id rec \<in> set ?ids" "count_list ?ids (message_id rec) \<le> 1" by linarith
  then show ?thesis
  proof cases
    case 1
    with apply_summary_unaddressed [OF 1, of p] show ?thesis
      unfolding ids a by (simp add: count_notin)
  next
    case 2
    then show ?thesis unfolding ids a apply_summary_addressed(1) [OF 2] by simp
  next
    case 3
    from apply_summary_addressed(2) [OF 3] obtain m where m: "smi_id (sm_info m) = message_id rec"
      "apply_summary_result p s rec = apply_summary_message p m rec" by blast
    show ?thesis unfolding ids a m(2)
      using 3 apply_summary_message_addressed [OF _ m(1), of p] by (metis not_less)
  qed
qed

definition sample_inbound :: durable_inbound_record where
  "sample_inbound = \<lparr>din_path = ''inbox/SummaryResult'', din_kind = SummaryResultObject,
     din_reconciliation = Some (Summary \<lparr>sr_routing = pr_routing sample_process,
       sr_messages = [sample_summary 1 1, sample_summary 2 0]\<rparr>)\<rparr>"

theorem correlation_ids_exact_witness:
  "\<exists>x. din_reconciliation sample_inbound = Some x \<and> correlation_ids sample_inbound = [''m1'', ''m1''] \<and>
     apply_reconciliation Release x sample_record =
       Some (Inl (DuplicateSummaryMessage ''m1'' 2), sample_record) \<and>
     (\<exists>e. apply_reconciliation Release x (sample_record\<lparr>message_id := ''m2''\<rparr>) =
        Some (Inl e, sample_record\<lparr>message_id := ''m2''\<rparr>) \<and> not_addressed e)"
proof -
  let ?x = "Summary \<lparr>sr_routing = pr_routing sample_process, sr_messages = [sample_summary 1 1, sample_summary 2 0]\<rparr>"
  have d: "din_reconciliation sample_inbound = Some ?x" by (simp add: sample_inbound_def)
  have ids: "correlation_ids sample_inbound = [''m1'', ''m1'']"
    by (simp add: correlation_ids_def d sample_summary_def)
  have m: "message_id sample_record = ''m1''" by (simp add: sample_record_def)
  have "apply_reconciliation Release ?x sample_record = Some (Inl (DuplicateSummaryMessage ''m1'' 2), sample_record)"
    using correlation_ids_exact [OF d, of sample_record Release, THEN conjunct2, THEN conjunct2, THEN conjunct2]
    unfolding ids m by (simp add: numeral_2_eq_2)
  moreover have "message_id (sample_record\<lparr>message_id := ''m2''\<rparr>) \<notin> set (correlation_ids sample_inbound)"
    unfolding ids by simp
  then have "\<exists>e. apply_reconciliation Release ?x (sample_record\<lparr>message_id := ''m2''\<rparr>) =
        Some (Inl e, sample_record\<lparr>message_id := ''m2''\<rparr>) \<and> not_addressed e"
    using correlation_ids_exact [OF d, THEN conjunct1] by blast
  ultimately show ?thesis using d ids by blast
qed

end
