(* ===== verification/Redelivery.thy ===== *)
theory Redelivery
  imports Mailbox Correlation
begin

text \<open>
  Delivery end to end: the server's object, its copy in the inbox (\<open>receiver.rs\<close>), the record
  loaded from it (\<open>reconciliation.rs\<close>) and the submission it is applied to (\<open>einvoice-state\<close>).
  Deletion on the server may fail, the process may stop and the machine may crash between any two
  of these, so an object can be delivered again; its effect happens once.
\<close>

lemma apply_reconciliation_replay:
  assumes "apply_reconciliation p x rec = Some (Inr out, rec1)" "evolves p rec1 rec2"
  shows "apply_reconciliation p x rec2 = Some (Inr UnchangedReplay, rec2)"
  using assms process_replay [OF _ assms(2)] summary_result_replay [OF _ assms(2)]
  by (cases x) (auto simp: apply_reconciliation_def)

text \<open>Loading is a function of the path and the bytes of the file.\<close>

lemma durable_load_content:
  assumes "durable_load de path m = Some (Inr inb, m')" "durable_load de path u = Some (Inr inb', u')"
    and "m_dir m path = Some i" "m_dir u path = Some j" "m_data m i = m_data u j"
  shows "inb' = inb"
  using durable_load_Inr [OF assms(1)] durable_load_Inr [OF assms(2)] assms(3-5)
  by (cases inb; cases inb') auto

lemma poll_object_Inr:
  assumes "poll_object de receiver object s = Some (Inr r, (m', w'))"
  obtains u where "receive receiver object s = Some (Inr (rec_receive_outcome r), (u, w'))"
    "durable_load de (outcome_path (rec_receive_outcome r)) u = Some (Inr (rec_record r), m')"
  using assms
  by (auto simp: poll_object_def io_bind_map_err_iff on_fst_iff io_return_iff split: sum.splits)

context remote_inbox
begin

text \<open>Two deliveries under one name, the first of them published by its call.\<close>

lemma poll_twice:
  assumes first: "poll_object de (receiver dir) object (m, w) = Some (Inr r, (m1, w1))"
      "rec_receive_outcome r = Persisted path"
    and name: "\<not> starts_with (ro_name object) ''.incoming-''" and ok: "mailbox_ok dir m"
    and history: "inbox_history remote dir (m1, w1) (m2, w2)"
    and again: "poll_object de (receiver dir) object' (m2, w2) = Some (Inr r', (m3, w3))"
      "ro_name object' = ro_name object"
  shows "rec_receive_outcome r' = AlreadyPersisted path \<and> rec_record r' = rec_record r"
proof -
  from poll_object_Inr [OF first(1), unfolded first(2)] obtain u where
    u: "receive (receiver dir) object (m, w) = Some (Inr (Persisted path), (u, w1))"
      "durable_load de path u = Some (Inr (rec_record r), m1)" by auto
  from persisted_stable [OF u(1) name ok] obtain i content where
    stable: "plain (ro_name object)" "path = path_join dir (ro_name object)" "mailbox_ok dir u"
      "ro_name object \<in> mb_stable (mailbox_of dir u)" "mb_visible (mailbox_of dir u) (ro_name object) = Some content"
    and i: "m_dir u path = Some i" "m_data u i = content" by blast
  from durable_load_quiet [OF u(2)] have same: "same_files u m1" .
  have "mailbox_of dir m1 = mailbox_of dir u"
    by (rule mailbox_unchanged) (use same in \<open>simp_all add: same_files_def\<close>)
  moreover have "mailbox_ok dir m1"
    using simulated_same [OF same] stable(3) by (simp add: simulated_def)
  ultimately obtain j where ok2: "mailbox_ok dir m2" and j: "m_dir m2 path = Some j" "m_data m2 j = content"
    using history_keeps [OF history _ stable(1)] stable by auto
  then have wf2: "wf_machine m2" by (simp add: mailbox_ok_def)
  from poll_object_Inr [OF again(1)] obtain v where
    v: "receive (receiver dir) object' (m2, w2) = Some (Inr (rec_receive_outcome r'), (v, w3))"
      "durable_load de (outcome_path (rec_receive_outcome r')) v = Some (Inr (rec_record r'), m3)" .
  from receive_deletes [OF v(1) wf2] name again(2) obtain d :: "'e + unit" where
    "(Inr (rec_receive_outcome r') :: 'e receive_error + receive_outcome) =
      (case d of Inl e \<Rightarrow> Inl (RemoteError Delete e)
       | Inr _ \<Rightarrow> Inr (if m_dir m2 path = None then Persisted path else AlreadyPersisted path))"
    unfolding again(2) stable(2) by auto
  with j(1) have out: "rec_receive_outcome r' = AlreadyPersisted path" by (cases d) auto
  from receive_kept [OF v(1) wf2] j have "m_dir v path = Some j" "m_data v j = content"
    by (simp_all add: kept_def)
  with durable_load_content [OF u(2) v(2) [unfolded out outcome_path.simps] i(1)] i(2) out show ?thesis by simp
qed

end

section \<open>Property\<close>

text \<open>
  C14.  An object has its effect once, however often it is delivered.  When a
  poll has persisted an object and loaded its record, then after any further history - deletion
  errors, calls with any result, restarts, crashes, changes on the server - a later successful
  delivery under the same name is recognised as already persisted and loads the same record,
  whatever the server sends; and applying that record once more to a submission that has taken it,
  at any later time, is a replay that changes nothing.
\<close>

theorem redelivery_harmless:
  fixes ssh :: "('addr, 'tcp, 'ses, 'known, 'sftp, 'file, 'x, 'w) ssh"
  assumes "poll_object de (ssh2_receiver ssh config c dir) object (m, w) = Some (Inr r, (m1, w1))"
      "rec_receive_outcome r = Persisted path"
    and "\<not> starts_with (ro_name object) ''.incoming-''" "mailbox_ok dir m"
    and "inbox_history (ssh2_remote_inbox ssh config c) dir (m1, w1) (m2, w2)"
    and "poll_object de (ssh2_receiver ssh config c dir) object' (m2, w2) = Some (Inr r', (m3, w3))"
      "ro_name object' = ro_name object"
  shows "rec_receive_outcome r' = AlreadyPersisted path \<and> rec_record r' = rec_record r \<and>
    (\<forall>p x rec out rec1 rec2. din_reconciliation (rec_record r) = Some x \<and>
       apply_reconciliation p x rec = Some (Inr out, rec1) \<and> evolves p rec1 rec2 \<longrightarrow>
       apply_reconciliation p x rec2 = Some (Inr UnchangedReplay, rec2))"
  using ssh2.poll_twice [OF assms(1) [unfolded ssh2_receiver_def] assms(2-5) assms(6) [unfolded ssh2_receiver_def] assms(7)]
    apply_reconciliation_replay by blast

section \<open>Witness\<close>

text \<open>
  The process result is delivered and applied after the summary; the machine crashes, the object is
  on the server again, and the second delivery changes neither the inbox nor the submission.
\<close>

definition sample_wire :: wire_process_result where
  "sample_wire =
     \<lparr>wpr_routing_info = \<lparr>wrt_from = \<lparr>wp_party_id = ''12345678'', wp_description = None\<rparr>,
        wrt_from_vac = \<lparr>wr_routing_id = ''FROM'', wr_description = None\<rparr>,
        wrt_to = \<lparr>wp_party_id = ''PLATFORM'', wp_description = None\<rparr>,
        wrt_to_vac = \<lparr>wr_routing_id = ''TO'', wr_description = None\<rparr>\<rparr>,
      wpr_message_info = \<lparr>wpm_id = ''m1'', wpm_size = ''1'', wpm_message_type = ''F0401'',
        wpm_service = ''S'', wpm_action = ''C0401''\<rparr>,
      wpr_result = []\<rparr>"

definition sample_de :: "unit deserializers" where
  "sample_de = \<lparr>de_process = \<lambda>_. Inr sample_wire, de_summary = \<lambda>_. Inl ()\<rparr>"

definition sample_loaded :: durable_inbound_record where
  "sample_loaded = \<lparr>din_path = ''inbox/ProcessResult'', din_kind = ProcessResultObject,
     din_reconciliation = Some (Process sample_process)\<rparr>"

lemma sample_load:
  assumes "m_events m = []" "m_dir m ''inbox/ProcessResult'' = Some i" "m_data m i = [1, 2, 3]"
  shows "durable_load sample_de ''inbox/ProcessResult'' m = Some (Inr sample_loaded, m)"
proof -
  have base: "basename ''inbox/ProcessResult'' = Some ''ProcessResult''" by code_simp
  have kind: "classify_remote_name ''ProcessResult'' = ProcessResultObject" by code_simp
  have utf8: "from_utf8 [1, 2, 3] \<noteq> None" by code_simp
  have "process_from_wire sample_wire = sample_process"
    by (simp add: process_from_wire_def sample_wire_def sample_process_def routing_from_wire_def party_from_wire_def
        route_from_wire_def)
  with utf8 have "parse_reconciliation (de_process sample_de) (de_summary sample_de) ProcessResultObject [1, 2, 3] =
      Inr (Some (Process sample_process))"
    by (auto simp: parse_reconciliation_def sample_de_def process_result_parse_def and_then_def ok_or_def map_err_def)
  moreover have "valid_path ''inbox/ProcessResult''" by (simp add: valid_path_def contains_def)
  then have "fs_read ''inbox/ProcessResult'' m = Some (Inr [1, 2, 3], m)"
    using assms by (simp add: fs_read_def attempt_nil fs_lookup_def ok_or_def and_then_def)
  ultimately show ?thesis
    by (simp add: durable_load_def io_bind_def io_result_def io_map_err_def map_err_def ok_or_def io_return_def base kind
        sample_loaded_def)
qed

lemma sample_poll:
  assumes "m_events m = []" "wf_machine m"
    "m_dir m (path_join ''inbox'' (incoming_name (m_process_id m) (m_next_temp_id m))) = None"
    "\<And>j. m_dir m ''inbox/ProcessResult'' = Some j \<Longrightarrow> m_data m j = [1, 2, 3]"
  defines "out \<equiv> (if m_dir m ''inbox/ProcessResult'' = None then Persisted ''inbox/ProcessResult''
      else AlreadyPersisted ''inbox/ProcessResult'')"
    and "m' \<equiv> after_receive ''inbox'' ''inbox/ProcessResult'' [1, 2, 3] m"
  shows "poll_object sample_de (ssh2_receiver sample_ssh (sftp_config_new ''h'' ''k'') (sftp_credentials_new ''u'' ''p'') ''inbox'')
      sample_object (m, sample_world_at 0 False) =
    Some (Inr \<lparr>rec_receive_outcome = out, rec_record = sample_loaded\<rparr>, (m', sample_world_at (2 * COPY_BUFFER) True))"
proof -
  let ?t = "path_join ''inbox'' (incoming_name (m_process_id m) (m_next_temp_id m))"
  have run: "sample_run sample_object (m, sample_world_at 0 False) = Some (Inr out, (m', sample_world_at (2 * COPY_BUFFER) True))"
    unfolding out_def m'_def by (rule sample_receive) (use assms in simp_all)
  have ne: "?t \<noteq> ''inbox/ProcessResult''"
    unfolding sample_path [symmetric]
    by (subst path_join_inject) (simp_all add: incoming_name_chars, simp add: incoming_name_def)
  have events: "m_events m' = []"
    using assms(1) by (simp add: m'_def after_receive_def Let_def with_incoming_def with_entry_def with_flushed_def)
  have "\<exists>i. m_dir m' ''inbox/ProcessResult'' = Some i \<and> m_data m' i = [1, 2, 3]"
    using assms(2,4) ne
    by (cases "m_dir m ''inbox/ProcessResult''")
      (auto simp: m'_def after_receive_def Let_def with_incoming_def with_entry_def with_flushed_def wf_machine_def)
  then obtain i where "m_dir m' ''inbox/ProcessResult'' = Some i" "m_data m' i = [1, 2, 3]" by blast
  from sample_load [OF events this] run show ?thesis
    by (simp add: poll_object_def sample_run_def io_bind_def io_map_err_def map_err_def on_fst_def io_return_def out_def)
qed

theorem redelivery_harmless_witness:
  "\<exists>r m1 m2 r' s3.
     poll_object sample_de (ssh2_receiver sample_ssh (sftp_config_new ''h'' ''k'') (sftp_credentials_new ''u'' ''p'') ''inbox'')
       sample_object (sample_machine [], sample_world_at 0 False) = Some (Inr r, (m1, sample_world_at (2 * COPY_BUFFER) True)) \<and>
     crashed m1 m2 \<and>
     poll_object sample_de (ssh2_receiver sample_ssh (sftp_config_new ''h'' ''k'') (sftp_credentials_new ''u'' ''p'') ''inbox'')
       sample_object (m2, sample_world_at 0 False) = Some (Inr r', s3) \<and>
     rec_receive_outcome r' = AlreadyPersisted ''inbox/ProcessResult'' \<and> rec_record r' = rec_record r \<and>
     apply_reconciliation Release (Process sample_process) sample_done = Some (Inr Changed, sample_finished) \<and>
     apply_reconciliation Release (Process sample_process) sample_finished = Some (Inr UnchangedReplay, sample_finished)"
proof -
  let ?m = "sample_machine []" and ?p = "''inbox/ProcessResult''"
  let ?m1 = "after_receive ''inbox'' ?p [1, 2, 3] ?m"
  let ?m2 = "crash ?m1"
  have first: "poll_object sample_de (ssh2_receiver sample_ssh (sftp_config_new ''h'' ''k'') (sftp_credentials_new ''u'' ''p'') ''inbox'')
      sample_object (?m, sample_world_at 0 False) =
    Some (Inr \<lparr>rec_receive_outcome = Persisted ?p, rec_record = sample_loaded\<rparr>, (?m1, sample_world_at (2 * COPY_BUFFER) True))"
    using sample_poll [of ?m] wf_sample_machine [of "[]"] by (simp add: sample_machine_def)
  have crash: "crashed ?m1 ?m2"
    by (rule crashed_crash) (rule ssh2.receive_wf [OF sample_first [unfolded sample_run_def ssh2_receiver_def] wf_sample_machine])
  have "in_directory ''inbox'' ?p" "in_directory ''inbox'' ''inbox/.incoming-1-0''"
    using in_directory_join [of "''ProcessResult''" "''inbox''"] in_directory_join [of "incoming_name 1 0" "''inbox''"]
      incoming_name_chars [of 1 0]
    by (simp_all add: sample_path sample_tmp)
  then have m2: "m_dir ?m2 = [?p \<mapsto> 0, ''inbox/.incoming-1-0'' \<mapsto> 0]" "m_events ?m2 = []" "m_data ?m2 0 = [1, 2, 3]"
      "m_process_id ?m2 = 1" "m_next_temp_id ?m2 = 1" "m_fresh ?m2 = 1" "m_disk_dir ?m2 = m_dir ?m2"
    by (auto simp: crash_def after_receive_def sample_machine_def with_incoming_def with_entry_def with_flushed_def
        flushed_directory_def Let_def sample_tmp fun_eq_iff)
  have "path_join ''inbox'' (incoming_name 1 1) \<noteq> path_join ''inbox'' (incoming_name 1 0)"
    by (simp add: path_join_inject incoming_name_chars incoming_name_inject)
  then have "path_join ''inbox'' (incoming_name 1 1) \<noteq> ''inbox/.incoming-1-0''" by (simp add: sample_tmp)
  moreover have "path_join ''inbox'' (incoming_name 1 1) \<noteq> ?p"
    unfolding sample_path [symmetric]
    by (subst path_join_inject) (simp_all add: incoming_name_chars, simp add: incoming_name_def)
  moreover have "wf_machine ?m2"
    using m2 by (auto simp: wf_machine_def)
  ultimately obtain s3 where again: "poll_object sample_de (ssh2_receiver sample_ssh (sftp_config_new ''h'' ''k'') (sftp_credentials_new ''u'' ''p'') ''inbox'')
      sample_object (?m2, sample_world_at 0 False) =
    Some (Inr \<lparr>rec_receive_outcome = AlreadyPersisted ?p, rec_record = sample_loaded\<rparr>, s3)"
    using sample_poll [of ?m2] m2 by simp
  have apply1: "apply_reconciliation Release (Process sample_process) sample_done = Some (Inr Changed, sample_finished)"
    by (simp add: apply_reconciliation_def sample_late)
  have name: "\<not> starts_with (ro_name sample_object) ''.incoming-''"
    by (simp add: sample_object_def starts_with_def)
  obtain m3 w3 where s3: "s3 = (m3, w3)" by (cases s3)
  from redelivery_harmless [OF first _ name mailbox_ok_empty history_server [OF history_crash [OF history_start crash]] again [unfolded s3]]
  show ?thesis
    using first crash again apply1 evolves_refl [of Release sample_finished] by (auto simp: sample_loaded_def)
qed

end
