(* ===== verification/Client.thy ===== *)
theory Client
  imports Native Results
begin

text \<open>
  \<open>crates/einvoice-client\<close>: the submission plan, its cross-validation, and the two phases -
  prepare (pack and sign, no network) and submit.  The signer is the \<open>CmsSigner\<close> boundary.
\<close>

section \<open>Plans\<close>

record submission_plan =
  sp_envelope :: invoice_envelope
  sp_filename :: turnkey_pack_filename
  sp_service_type :: service_type
  sp_zip_mode :: zip_mode
  sp_action :: string
  sp_versions :: gateway_version_profile

definition submission_plan_new ::
  "invoice_envelope \<Rightarrow> turnkey_pack_filename \<Rightarrow> service_type \<Rightarrow> zip_mode \<Rightarrow> string \<Rightarrow>
     gateway_version_profile \<Rightarrow> submission_plan" where
  "submission_plan_new envelope filename service_type zip_mode action versions =
     \<lparr>sp_envelope = envelope, sp_filename = filename, sp_service_type = service_type,
      sp_zip_mode = zip_mode, sp_action = action, sp_versions = versions\<rparr>"

record prepared_submission =
  pps_filename :: turnkey_pack_filename
  pps_artifact :: signed_artifact
  pps_zip_mode :: zip_mode
  pps_metadata :: native_submission_metadata

datatype submission_consistency_error =
    InvalidFilenameCount i32
  | EnvelopeCountOutOfRange nat
  | CountMismatch nat nat
  | MessageTypeMismatch string string
  | MigVersionMismatch string string
  | FromPartyMismatch string string
  | ToPartyMismatch string string

datatype 'e prepare_submission_error =
    Consistency submission_consistency_error
  | PackFailed "'e pack_error"

definition party_for_gateway :: "party_info \<Rightarrow> routing_info \<Rightarrow> gateway_party" where
  "party_for_gateway party routing =
     \<lparr>gp_party_id = pin_identifier party, gp_party_description = pin_description party,
      gp_routing_id = ri_identifier routing, gp_routing_description = ri_description routing\<rparr>"

definition validate_plan :: "submission_plan \<Rightarrow> submission_consistency_error + unit" where
  "validate_plan plan =
     (let envelope = sp_envelope plan; filename = sp_filename plan;
          routing = env_routing envelope; metadata = env_metadata envelope
      in and_then
        (ok_or (InvalidFilenameCount (tpf_pack_count filename))
          (Option.bind (usize_try_from (tpf_pack_count filename)) (\<lambda>count. if count > 0 then Some count else None)))
        (\<lambda>filename_count.
         if filename_count \<noteq> envelope_count envelope
         then Inl (CountMismatch (envelope_count envelope) filename_count)
         else if mcn_message_type (tpf_common_name filename) \<noteq> ipm_message_type metadata
         then Inl (MessageTypeMismatch (ipm_message_type metadata) (mcn_message_type (tpf_common_name filename)))
         else if mcn_mig_version (tpf_common_name filename) \<noteq> mig_version_as_str (ipm_version metadata)
         then Inl (MigVersionMismatch (mig_version_as_str (ipm_version metadata))
                     (mcn_mig_version (tpf_common_name filename)))
         else if tpf_from_party filename \<noteq> pin_identifier (er_from routing)
         then Inl (FromPartyMismatch (pin_identifier (er_from routing)) (tpf_from_party filename))
         else if tpf_to_party filename \<noteq> pin_identifier (er_to routing)
         then Inl (ToPartyMismatch (pin_identifier (er_to routing)) (tpf_to_party filename))
         else Inr ()))"

definition u32_of_usize :: "nat \<Rightarrow> u32 option" where
  "u32_of_usize n = (if n < 2 ^ 32 then Some (of_nat n) else None)"

definition prepare_submission ::
  "(bytes \<Rightarrow> string) \<Rightarrow> ('s \<Rightarrow> signature_algorithm) \<Rightarrow> ('s \<Rightarrow> bytes \<Rightarrow> 'e + cms_signed_data) \<Rightarrow>
     submission_plan \<Rightarrow> 's \<Rightarrow> 'e prepare_submission_error + prepared_submission" where
  "prepare_submission encode algorithm sign_attached plan signer =
     and_then (map_err Consistency (validate_plan plan)) (\<lambda>_.
     let count = envelope_count (sp_envelope plan); envelope = sp_envelope plan;
         routing = env_routing envelope
     in and_then (ok_or (Consistency (EnvelopeCountOutOfRange count)) (u32_of_usize count)) (\<lambda>quantity.
        and_then (map_err PackFailed (pack_and_sign encode algorithm sign_attached envelope signer)) (\<lambda>artifact.
        let from = party_for_gateway (er_from routing) (er_from_vac routing);
            to = party_for_gateway (er_to routing) (er_to_vac routing);
            metadata = metadata_initial from to (sp_service_type plan)
              (native_message_profile_new (ipm_message_type (env_metadata envelope)) (sp_action plan) quantity
                 (mig_version_as_str (ipm_version (env_metadata envelope))))
              (sp_versions plan)
        in Inr \<lparr>pps_filename = sp_filename plan, pps_artifact = artifact, pps_zip_mode = sp_zip_mode plan,
                pps_metadata = metadata\<rparr>)))"

definition prepared_submit ::
  "('h, 'z, 'io) zip_writer \<Rightarrow> ('u, 'w) uploader \<Rightarrow> ('n, 'w) notifier \<Rightarrow> prepared_submission \<Rightarrow> 'w \<Rightarrow>
     ((('z, 'io) prepare_upload_error, 'u, 'n) pack_artifact_submit_error + native_submission_receipt) \<times> 'w" where
  "prepared_submit zw upload notify self =
     submit_pack_artifact zw upload notify
       \<lparr>pas_filename = pps_filename self, pas_artifact = pps_artifact self, pas_zip_mode = pps_zip_mode self,
        pas_metadata = pps_metadata self\<rparr>"

section \<open>Properties\<close>

text \<open>Envelope and filename say the same.\<close>

definition plan_consistent :: "submission_plan \<Rightarrow> bool" where
  "plan_consistent plan \<longleftrightarrow>
     (let f = sp_filename plan; e = sp_envelope plan in
      sint (tpf_pack_count f) = int (length (env_payloads e)) \<and> env_payloads e \<noteq> [] \<and>
      mcn_message_type (tpf_common_name f) = ipm_message_type (env_metadata e) \<and>
      mcn_mig_version (tpf_common_name f) = mig_version_as_str (ipm_version (env_metadata e)) \<and>
      tpf_from_party f = pin_identifier (er_from (env_routing e)) \<and>
      tpf_to_party f = pin_identifier (er_to (env_routing e)))"

lemma validate_plan_Inr: "validate_plan plan = Inr x \<longleftrightarrow> plan_consistent plan"
  by (auto simp: validate_plan_def plan_consistent_def Let_def and_then_def ok_or_def usize_try_from_def
      envelope_count_def bind_eq_Some_conv split: option.splits if_splits)


text \<open>Metadata that says what the envelope and the plan say.\<close>

definition metadata_of_plan :: "submission_plan \<Rightarrow> native_submission_metadata \<Rightarrow> bool" where
  "metadata_of_plan plan m \<longleftrightarrow>
     (let e = sp_envelope plan; r = env_routing e in
      nsm_from m = party_for_gateway (er_from r) (er_from_vac r) \<and>
      nsm_to m = party_for_gateway (er_to r) (er_to_vac r) \<and>
      nsm_service_type m = sp_service_type plan \<and>
      nmp_message_type (nsm_message m) = ipm_message_type (env_metadata e) \<and>
      nmp_action (nsm_message m) = sp_action plan \<and>
      uint (nmp_quantity (nsm_message m)) = int (length (env_payloads e)) \<and>
      nmp_mig_version (nsm_message m) = mig_version_as_str (ipm_version (env_metadata e)) \<and>
      nsm_retry m = 0 \<and> nsm_versions m = sp_versions plan)"

lemma plan_count_fits:
  assumes "plan_consistent plan"
  shows "u32_of_usize (envelope_count (sp_envelope plan)) = Some (of_nat (length (env_payloads (sp_envelope plan))))"
    and "uint (of_nat (length (env_payloads (sp_envelope plan))) :: u32) = int (length (env_payloads (sp_envelope plan)))"
proof -
  let ?n = "length (env_payloads (sp_envelope plan))"
  have "int ?n < 2 ^ 31"
    using assms sint_i32_range(2) [of "tpf_pack_count (sp_filename plan)"] by (simp add: plan_consistent_def Let_def)
  then have n: "?n < 2 ^ 32" by simp
  then show "u32_of_usize (envelope_count (sp_envelope plan)) = Some (of_nat ?n)"
    by (simp add: u32_of_usize_def envelope_count_def)
  from n show "uint (of_nat ?n :: u32) = int ?n"
    by (simp add: unsigned_of_nat take_bit_nat_eq_self uint_nat)
qed

lemma validate_plan_cases:
  obtains "plan_consistent plan" "validate_plan plan = Inr ()"
  | e where "\<not> plan_consistent plan" "validate_plan plan = Inl e" "\<And>n. e \<noteq> EnvelopeCountOutOfRange n"
proof (cases "validate_plan plan")
  case (Inr x)
  then show thesis using that(1) validate_plan_Inr [of plan x] by simp
next
  case (Inl e)
  then have "\<not> plan_consistent plan" using validate_plan_Inr [of plan "()"] by auto
  moreover have "e \<noteq> EnvelopeCountOutOfRange n" for n
    using Inl by (auto simp: validate_plan_def Let_def and_then_def ok_or_def split: option.splits if_splits)
  ultimately show thesis using that(2) Inl by blast
qed

text \<open>
  C40.  The complete behaviour of preparation: an inconsistent plan is
  refused before anything is signed, and the count error is never the reason, since a
  consistent count fits; a consistent plan yields exactly what packing and signing its envelope
  yields, under the plan's filename and with metadata that repeats the envelope's routing,
  message type, version and number of messages.
\<close>

theorem prepare_submission_exact:
  "case prepare_submission encode algorithm sign plan signer of
     Inl (Consistency e) \<Rightarrow> \<not> plan_consistent plan \<and> validate_plan plan = Inl e \<and> e \<notin> range EnvelopeCountOutOfRange
   | Inl (PackFailed e) \<Rightarrow> plan_consistent plan \<and> pack_and_sign encode algorithm sign (sp_envelope plan) signer = Inl e
   | Inr ps \<Rightarrow>
       plan_consistent plan \<and> pack_and_sign encode algorithm sign (sp_envelope plan) signer = Inr (pps_artifact ps) \<and>
       pps_filename ps = sp_filename plan \<and> pps_zip_mode ps = sp_zip_mode plan \<and>
       metadata_of_plan plan (pps_metadata ps)"
proof (cases rule: validate_plan_cases [of plan])
  case 1
  note fits = plan_count_fits [OF 1(1)]
  show ?thesis
    by (cases "pack_and_sign encode algorithm sign (sp_envelope plan) signer")
      (simp_all add: prepare_submission_def 1 fits(1) ok_or_def metadata_of_plan_def metadata_initial_def
        Let_def fits(2) INITIAL_RETRY_def)
next
  case (2 e)
  then show ?thesis by (auto simp: prepare_submission_def)
qed


lemma prepare_submission_Inr:
  assumes "prepare_submission encode algorithm sign plan signer = Inr ps"
  shows "plan_consistent plan" "pps_filename ps = sp_filename plan" "pps_zip_mode ps = sp_zip_mode plan"
    "metadata_of_plan plan (pps_metadata ps)"
proof -
  have "plan_consistent plan \<and> pps_filename ps = sp_filename plan \<and> pps_zip_mode ps = sp_zip_mode plan \<and>
    metadata_of_plan plan (pps_metadata ps)"
  proof (cases rule: validate_plan_cases [of plan])
    case 1
    from assms plan_count_fits [OF 1(1)] 1 show ?thesis
      by (cases "pack_and_sign encode algorithm sign (sp_envelope plan) signer")
        (auto simp: prepare_submission_def ok_or_def metadata_of_plan_def metadata_initial_def Let_def INITIAL_RETRY_def)
  qed (use assms in \<open>auto simp: prepare_submission_def\<close>)
  then show "plan_consistent plan" "pps_filename ps = sp_filename plan" "pps_zip_mode ps = sp_zip_mode plan"
    "metadata_of_plan plan (pps_metadata ps)" by auto
qed

text \<open>A notification that says what the filename and the envelope of the plan say.\<close>

definition notification_of_plan :: "submission_plan \<Rightarrow> upload_notification \<Rightarrow> bool" where
  "notification_of_plan plan n \<longleftrightarrow>
     (let f = sp_filename plan in
      un_filename n = remote_filename f \<and>
      un_message_type n = mcn_message_type (tpf_common_name f) \<and>
      un_mig_version n = mcn_mig_version (tpf_common_name f) \<and>
      gp_party_id (un_from n) = tpf_from_party f \<and> gp_party_id (un_to n) = tpf_to_party f \<and>
      int (length (env_payloads (sp_envelope plan))) = uint (un_quantity n) \<and>
      sint (tpf_pack_count f) = uint (un_quantity n) \<and>
      un_action n = sp_action plan \<and> un_zip_mode n = sp_zip_mode plan \<and> un_retry n = 0)"

text \<open>
  C11.  What preparation has accepted, submission never refuses for its
  count, and on the wire everything agrees: at most one object is uploaded, under the common
  name of the plan's filename and with the bytes of the signed artifact (archived in ZIP mode),
  and a notification carries the message type, version, parties and count that filename and
  envelope both state.
\<close>

theorem prepared_submit_consistent:
  assumes "prepare_submission encode algorithm sign plan signer = Inr ps"
    and "prepared_submit zw (traced_upload upload) (traced_notify notify) ps ([], w) = (r, (log, w'))"
  shows "(\<forall>c. r \<noteq> Inl (NonPositivePackCount c)) \<and> (\<forall>a b. r \<noteq> Inl (QuantityMismatch a b)) \<and>
    (\<forall>n. Notified n \<in> set log \<longrightarrow> notification_of_plan plan n \<and>
       (\<exists>bytes. upload_bytes_of zw (pack_filename_render (sp_filename plan)) (sa_upload_bytes (pps_artifact ps))
            (sp_zip_mode plan) = Inr bytes \<and>
          log = [Uploaded (remote_filename (sp_filename plan)) bytes, Notified n]))"
proof -
  let ?req = "\<lparr>pas_filename = pps_filename ps, pas_artifact = pps_artifact ps, pas_zip_mode = pps_zip_mode ps,
        pas_metadata = pps_metadata ps\<rparr>"
  note prep = prepare_submission_Inr [OF assms(1)]
  note meta = prep(4) [unfolded metadata_of_plan_def Let_def] and plan = prep(1) [unfolded plan_consistent_def Let_def]
  note run = assms(2) [unfolded prepared_submit_def]
  have "r \<noteq> Inl (NonPositivePackCount c)" "r \<noteq> Inl (QuantityMismatch a b)" for c a b
    using run meta plan
    by (auto simp: submit_pack_artifact_run Let_def prep(2) result_iff split: if_splits)
  moreover have "notification_of_plan plan n \<and>
       (\<exists>bytes. upload_bytes_of zw (pack_filename_render (sp_filename plan)) (sa_upload_bytes (pps_artifact ps))
            (sp_zip_mode plan) = Inr bytes \<and>
          log = [Uploaded (remote_filename (sp_filename plan)) bytes, Notified n])"
    if sent: "Notified n \<in> set log" for n
  proof -
    obtain p where p: "prepare_upload_object zw (pack_filename_render (sp_filename plan)) (remote_filename (sp_filename plan))
        (sa_upload_bytes (pps_artifact ps)) (sp_zip_mode plan) = Inr p"
      and n: "n = notification_of (pps_metadata ps) p"
      and log: "log = [Uploaded (remote_filename (sp_filename plan)) (puo_uploaded_bytes p), Notified n]"
      using pack_artifact_sent [OF run sent] by (auto simp: prep)
    from p have up: "upload_bytes_of zw (pack_filename_render (sp_filename plan)) (sa_upload_bytes (pps_artifact ps))
        (sp_zip_mode plan) = Inr (puo_uploaded_bytes p)"
      "puo_remote_filename p = remote_filename (sp_filename plan)" "puo_zip_mode p = sp_zip_mode plan"
      by (auto simp: prepare_upload_Inr)
    with log meta plan n show ?thesis
      by (auto simp: notification_of_plan_def Let_def notification_of_def party_for_gateway_def)
  qed
  ultimately show ?thesis by blast
qed

definition sample_plan :: submission_plan where
  "sample_plan = submission_plan_new sample_envelope
     \<lparr>tpf_source_name = ''INV'', tpf_from_party = ''12345678'', tpf_to_party = ''0000000000'',
      tpf_common_name = \<lparr>mcn_mig_version = ''4.1'', mcn_message_type = ''F0401'', mcn_date = ''20250101'',
        mcn_time = ''120000000'', mcn_uuid = ''550e8400-e29b-41d4-a716-446655440000''\<rparr>,
      tpf_pack_count = 1\<rparr> Exchange Plain ''UPLOAD'' \<lparr>gvp_api_version = ''3.1.3'', gvp_turnkey_version = ''3.2.1''\<rparr>"

lemma sample_plan_consistent: "plan_consistent sample_plan"
  by (simp add: plan_consistent_def sample_plan_def submission_plan_new_def sample_envelope_def)

lemma sample_prepare:
  "\<exists>ps. prepare_submission hex_like ps_signature_algorithm (pfx_sign_attached sample_ossl) sample_plan sample_signer = Inr ps \<and>
     pps_artifact ps = sample_artifact"
proof -
  have "sp_envelope sample_plan = sample_envelope" by (simp add: sample_plan_def submission_plan_new_def)
  moreover have "validate_plan sample_plan = Inr ()"
    using validate_plan_Inr [of sample_plan "()"] sample_plan_consistent by simp
  ultimately show ?thesis
    using plan_count_fits(1) [OF sample_plan_consistent] sample_pack
    by (simp add: prepare_submission_def Let_def ok_or_def)
qed

lemma sample_remote_name: "remote_filename (sp_filename sample_plan) = ''4.1-F0401-20250101-120000000-550e8400-e29b-41d4-a716-446655440000''"
  by (simp add: sample_plan_def submission_plan_new_def remote_filename_def common_name_render_def)

lemma sample_prepared_notified:
  assumes "prepare_submission hex_like ps_signature_algorithm (pfx_sign_attached sample_ossl) sample_plan sample_signer = Inr ps"
    and "upload ''4.1-F0401-20250101-120000000-550e8400-e29b-41d4-a716-446655440000'' (sa_upload_bytes sample_artifact) w = (Inr (), w1)"
  obtains n where "snd (prepared_submit sample_zip upload notify ps w) = snd (notify n w1)"
    "\<forall>w2. notify n w1 = (Inr sample_status, w2) \<longrightarrow> (\<exists>receipt. prepared_submit sample_zip upload notify ps w = (Inr receipt, w2))"
    "un_quantity n = 1" "un_retry n = 0" "uint (un_size n) < 2 ^ 31"
proof -
  have ps: "pps_artifact ps = sample_artifact" using sample_prepare assms(1) by auto
  note prep = prepare_submission_Inr [OF assms(1)] and name = sample_remote_name
  have "safe_basename (pack_filename_render (sp_filename sample_plan))"
    by (simp add: sample_plan_def submission_plan_new_def pack_filename_render_def common_name_render_def safe_basename_def
        i32_to_string_def)
  moreover have "length (sa_upload_bytes sample_artifact) \<le> MAX_SIGNED_SOURCE_BYTES"
    using length_armored_hex [of sample_cms] sample_cms_length
    by (simp add: sample_artifact_def MAX_SIGNED_SOURCE_BYTES_def)
  moreover have mode: "sp_zip_mode sample_plan = Plain" by (simp add: sample_plan_def submission_plan_new_def)
  ultimately obtain p where p: "prepare_upload_object sample_zip (pack_filename_render (sp_filename sample_plan))
      (remote_filename (sp_filename sample_plan)) (sa_upload_bytes sample_artifact) (sp_zip_mode sample_plan) = Inr p"
    unfolding prepare_upload_Inr name mode by (simp add: safe_basename_def upload_bytes_of_def)
  then have up: "puo_remote_filename p = ''4.1-F0401-20250101-120000000-550e8400-e29b-41d4-a716-446655440000''"
    "puo_uploaded_bytes p = sa_upload_bytes sample_artifact"
    by (auto simp: prepare_upload_Inr name mode upload_bytes_of_def)
  have count: "sint (tpf_pack_count (sp_filename sample_plan)) = 1" "uint (nmp_quantity (nsm_message (pps_metadata ps))) = 1"
    using prep(4) by (simp_all add: metadata_of_plan_def sample_plan_def submission_plan_new_def sample_envelope_def)
  obtain q w2 where n: "notify (notification_of (pps_metadata ps) p) w1 = (q, w2)"
    by (cases "notify (notification_of (pps_metadata ps) p) w1")
  have "snd (prepared_submit sample_zip upload notify ps w) = w2 \<and>
      (q = Inr sample_status \<longrightarrow> (\<exists>receipt. prepared_submit sample_zip upload notify ps w = (Inr receipt, w2)))"
    using assms(2) n
    by (cases q) (simp_all add: prepared_submit_def submit_pack_artifact_run Let_def prep(2,3) ps count native_submit_def p up
        is_accepted_def sample_status_def)
  moreover have "un_quantity (notification_of (pps_metadata ps) p) = 1" "un_retry (notification_of (pps_metadata ps) p) = 0"
    using count(2) prep(4) by (simp_all add: notification_of_def word_uint_eq_iff metadata_of_plan_def Let_def)
  ultimately show thesis
    using prepared_size [OF p] n by (intro that [of "notification_of (pps_metadata ps) p"]) (auto simp: notification_of_def)
qed

lemma sample_prepared_submit:
  assumes "prepare_submission hex_like ps_signature_algorithm (pfx_sign_attached sample_ossl) sample_plan sample_signer = Inr ps"
    and "upload ''4.1-F0401-20250101-120000000-550e8400-e29b-41d4-a716-446655440000'' (sa_upload_bytes sample_artifact) w = (Inr (), w1)"
  obtains n where "snd (prepared_submit sample_zip upload notify ps w) = snd (notify n w1)"
    "\<forall>w2. notify n w1 = (Inr sample_status, w2) \<longrightarrow> (\<exists>receipt. prepared_submit sample_zip upload notify ps w = (Inr receipt, w2))"
  using sample_prepared_notified [where upload = upload and notify = notify, OF assms] by metis

theorem prepared_submit_consistent_witness:
  "\<exists>ps receipt log n.
     prepare_submission hex_like ps_signature_algorithm (pfx_sign_attached sample_ossl) sample_plan sample_signer = Inr ps \<and>
     prepared_submit sample_zip (traced_upload sample_uploader) (traced_notify sample_notifier) ps ([], ())
       = (Inr receipt, (log, ())) \<and>
     log = [Uploaded ''4.1-F0401-20250101-120000000-550e8400-e29b-41d4-a716-446655440000'' (sa_upload_bytes sample_artifact), Notified n] \<and>
     notification_of_plan sample_plan n"
proof -
  obtain ps where ps: "prepare_submission hex_like ps_signature_algorithm (pfx_sign_attached sample_ossl) sample_plan sample_signer = Inr ps"
    "pps_artifact ps = sample_artifact" using sample_prepare by blast
  have "traced_upload sample_uploader ''4.1-F0401-20250101-120000000-550e8400-e29b-41d4-a716-446655440000'' (sa_upload_bytes sample_artifact) ([], ()) =
      (Inr (), ([Uploaded ''4.1-F0401-20250101-120000000-550e8400-e29b-41d4-a716-446655440000'' (sa_upload_bytes sample_artifact)], ()))"
    by (simp add: traced_upload_def sample_uploader_def)
  with ps(1) obtain n0 where n0: "\<forall>w2. traced_notify sample_notifier n0
        ([Uploaded ''4.1-F0401-20250101-120000000-550e8400-e29b-41d4-a716-446655440000'' (sa_upload_bytes sample_artifact)], ()) =
      (Inr sample_status, w2) \<longrightarrow> (\<exists>receipt. prepared_submit sample_zip (traced_upload sample_uploader)
        (traced_notify sample_notifier) ps ([], ()) = (Inr receipt, w2))"
    by (rule sample_prepared_submit [where notify = "traced_notify sample_notifier"]) blast
  obtain receipt log n where run: "prepared_submit sample_zip (traced_upload sample_uploader)
      (traced_notify sample_notifier) ps ([], ()) = (Inr receipt, (log, ()))" "Notified n \<in> set log"
    using n0 by (auto simp: traced_notify_def sample_notifier_def)
  have "sp_zip_mode sample_plan = Plain" by (simp add: sample_plan_def submission_plan_new_def)
  with prepared_submit_consistent [OF ps(1) run(1)] run ps show ?thesis
    unfolding sample_remote_name by (auto simp: upload_bytes_of_def)
qed

end
