(* ===== verification/Cli.thy ===== *)
theory Cli
  imports Client Receiver_Properties
begin

text \<open>
  \<open>apps/einvoice-cli/src/main.rs\<close>: the three commands over the file system, the network and the
  process environment.  Argument parsing (\<open>clap\<close>) is not modelled: the commands take parsed
  arguments.  What a command prints is a list of the printed fields in front of the state
  (the theory Console has the lines); a \<open>Box<dyn Error>\<close> is a sum of the errors the functions return.
\<close>

section \<open>Arguments\<close>

definition DEFAULT_PFX_PASSWORD_ENV :: string where
  "DEFAULT_PFX_PASSWORD_ENV = ''TW_EINVOICE_PFX_PASSWORD''"

definition DEFAULT_TRANSPORT_PASSWORD_ENV :: string where
  "DEFAULT_TRANSPORT_PASSWORD_ENV = ''TW_EINVOICE_TRANSPORT_PASSWORD''"

definition DEFAULT_API_VERSION :: string where
  "DEFAULT_API_VERSION = ''3.1.3''"

definition DEFAULT_TURNKEY_VERSION :: string where
  "DEFAULT_TURNKEY_VERSION = ''3.2.1''"

datatype service_arg = ServiceStore | ServiceExchange

fun into_service_type :: "service_arg \<Rightarrow> service_type" where
  "into_service_type ServiceStore = Store"
| "into_service_type ServiceExchange = Exchange"

datatype zip_arg = ZipPlain | ZipZip

fun into_zip_mode :: "zip_arg \<Rightarrow> zip_mode" where
  "into_zip_mode ZipPlain = Plain"
| "into_zip_mode ZipZip = Zip"

datatype platform_environment = Test | Production

record platform_endpoints =
  pe_sftp_host :: string
  pe_gateway_base :: string

fun endpoints :: "platform_environment \<Rightarrow> platform_endpoints" where
  "endpoints Test =
     \<lparr>pe_sftp_host = ''tsftp.einvoice.nat.gov.tw'',
      pe_gateway_base = ''https://tgw.einvoice.nat.gov.tw/gateway/api''\<rparr>"
| "endpoints Production =
     \<lparr>pe_sftp_host = ''sftp.einvoice.nat.gov.tw'',
      pe_gateway_base = ''https://gw.einvoice.nat.gov.tw/gateway/api''\<rparr>"

fun label :: "platform_environment \<Rightarrow> string" where
  "label Test = ''test''"
| "label Production = ''production''"

record common_prepare_args =
  ca_filename :: string
  ca_mig :: "string list"
  ca_from_vac :: string
  ca_to_vac :: string
  ca_from_description :: "string option"
  ca_to_description :: "string option"
  ca_from_vac_description :: "string option"
  ca_to_vac_description :: "string option"
  ca_action :: string
  ca_service :: service_arg
  ca_zip :: zip_arg
  ca_pfx :: string
  ca_pfx_password_env :: string
  ca_output :: string
  ca_force_output :: bool
  ca_api_version :: string
  ca_turnkey_version :: string

record prepare_args =
  pra_common :: common_prepare_args

record submit_args =
  sua_common :: common_prepare_args
  sua_environment :: platform_environment
  sua_known_hosts :: string
  sua_transport_id :: string
  sua_transport_password_env :: string

record receive_args =
  rea_environment :: platform_environment
  rea_known_hosts :: string
  rea_transport_id :: string
  rea_transport_password_env :: string
  rea_inbox_dir :: string

datatype command =
    PrepareCommand prepare_args
  | SubmitCommand submit_args
  | ReceiveCommand receive_args

section \<open>Errors\<close>

datatype cli_error =
    MissingSecretEnvironment string
  | NonUnicodeSecretEnvironment string
  | EmptySecretEnvironmentName
  | InboundObjectFailures nat

text \<open>
  An \<open>io::Error\<close> as the system returns it, or one made by \<open>io::Error::new\<close> from the kind of another
  error, with a context in front of its text.
\<close>

datatype file_error =
    SystemError io_error
  | ContextError string io_error

datatype ('s, 'h, 'b, 'p) boxed_error =
    CliFailure cli_error
  | FileFailure file_error
  | PfxFailure 's
  | FilenameFailure filename_error
  | EnvelopeFailure envelope_error
  | PrepareFailure "'s prepare_submission_error"
  | HttpFailure 'h
  | SubmitFailure 'b
  | PollFailure 'p

text \<open>The process environment is the argument \<open>var\<close>, \<open>std::env::var\<close>.\<close>

datatype var_error = NotPresent | NotUnicode

definition read_secret_environment :: "(string \<Rightarrow> var_error + string) \<Rightarrow> string \<Rightarrow> cli_error + string" where
  "read_secret_environment var name =
     (if name = [] then Inl EmptySecretEnvironmentName
      else case var name of
             Inr secret \<Rightarrow> Inr secret
           | Inl NotPresent \<Rightarrow> Inl (MissingSecretEnvironment name)
           | Inl NotUnicode \<Rightarrow> Inl (NonUnicodeSecretEnvironment name))"

section \<open>Preparing\<close>

definition read_file :: "string \<Rightarrow> string \<Rightarrow> (machine, file_error, bytes) io" where
  "read_file path description =
     io_map_err (ContextError (''failed to read '' @ description @ '' '' @ path @ '': '')) (fs_read path)"

definition persist_artifact :: "string \<Rightarrow> bytes \<Rightarrow> bool \<Rightarrow> (machine, file_error, unit) io" where
  "persist_artifact path bytes force =
     io_bind (io_map_err (ContextError (''failed to create artifact '' @ path @ '': ''))
       (if force then fs_create_truncate path else fs_create_new path)) (\<lambda>file.
     io_map_err SystemError (io_bind (fs_write_all file bytes) (\<lambda>_.
       fs_sync_all file)))"

fun read_payloads :: "string list \<Rightarrow> (machine, ('s, 'h, 'b, 'p) boxed_error, mig_payload list) io" where
  "read_payloads [] = io_return []"
| "read_payloads (path # paths) =
     io_bind (io_map_err FileFailure (read_file path ''MIG XML payload'')) (\<lambda>bytes.
     io_bind (io_result (map_err EnvelopeFailure (mig_payload_new bytes))) (\<lambda>payload.
     io_bind (read_payloads paths) (\<lambda>payloads.
       io_return (payload # payloads))))"

definition build_submission_plan ::
  "common_prepare_args \<Rightarrow> (machine, ('s, 'h, 'b, 'p) boxed_error, submission_plan) io" where
  "build_submission_plan args =
     io_bind (io_result (map_err FilenameFailure (pack_filename_parse (ca_filename args)))) (\<lambda>filename.
     io_bind (read_payloads (ca_mig args)) (\<lambda>payloads.
     io_bind (io_result (map_err EnvelopeFailure (envelope_new
        \<lparr>er_from = \<lparr>pin_identifier = tpf_from_party filename, pin_description = ca_from_description args\<rparr>,
         er_from_vac = \<lparr>ri_identifier = ca_from_vac args, ri_description = ca_from_vac_description args\<rparr>,
         er_to = \<lparr>pin_identifier = tpf_to_party filename, pin_description = ca_to_description args\<rparr>,
         er_to_vac = \<lparr>ri_identifier = ca_to_vac args, ri_description = ca_to_vac_description args\<rparr>\<rparr>
        \<lparr>ipm_message_type = mcn_message_type (tpf_common_name filename), ipm_version = V4_1\<rparr>
        payloads))) (\<lambda>envelope.
       io_return (submission_plan_new envelope filename (into_service_type (ca_service args))
         (into_zip_mode (ca_zip args)) (ca_action args)
         (gateway_version_profile_new (ca_api_version args) (ca_turnkey_version args))))))"

definition prepare ::
  "(bytes \<Rightarrow> string) \<Rightarrow> ('pk, 'k, 'c, 'u, 'sg, 'e) openssl \<Rightarrow> (string \<Rightarrow> var_error + string) \<Rightarrow>
     common_prepare_args \<Rightarrow> (machine, ('e pfx_signer_error, 'h, 'b, 'p) boxed_error, prepared_submission) io" where
  "prepare encode ossl var args =
     io_bind (io_map_err FileFailure (read_file (ca_pfx args) ''PFX identity'')) (\<lambda>pfx_der.
     io_bind (io_result (map_err CliFailure (read_secret_environment var (ca_pfx_password_env args)))) (\<lambda>pfx_password.
     io_bind (io_result (map_err PfxFailure (pfx_from_der ossl pfx_der pfx_password))) (\<lambda>signer.
     io_bind (build_submission_plan args) (\<lambda>plan.
       io_result (map_err PrepareFailure
         (prepare_submission encode ps_signature_algorithm (pfx_sign_attached ossl) plan signer))))))"

text \<open>What \<open>submit\<close> can report.\<close>

type_synonym ('e, 'status, 'q, 'j, 'z, 'io, 'x, 'p) submit_error =
  "('e pfx_signer_error, ('status, 'q, 'j) pfs001_http_error,
        (('z, 'io) prepare_upload_error, 'x sftp_upload_error, ('status, 'q, 'j) pfs001_http_error)
          pack_artifact_submit_error, 'p) boxed_error"

section \<open>Printing\<close>

datatype 'r report =
    PreparedReport string string string nat signature_algorithm
  | SubmittingReport string string
  | SubmittedReport string i32
  | NothingReceived string string
  | ProcessReport string string nat "string list"
  | SummaryReport string string i32 i32 i32 nat
  | OpaqueReport inbound_kind string
  | ReceiveErrorReport string 'r

type_synonym ('r, 'w, 'e, 'a) cli = "('r report list \<times> (machine \<times> 'w), 'e, 'a) io"

definition print :: "'r report \<Rightarrow> ('r, 'w, 'e, unit) cli" where
  "print line s = Some (Inr (), (fst s @ [line], snd s))"

definition print_prepared_summary :: "prepared_submission \<Rightarrow> string \<Rightarrow> ('r, 'w, 'e, unit) cli" where
  "print_prepared_summary prepared path =
     print (PreparedReport path (pack_filename_render (pps_filename prepared)) (remote_filename (pps_filename prepared))
       (turnkey_reported_size (pps_artifact prepared)) (sa_signature_algorithm (pps_artifact prepared)))"

text \<open>\<open>validation_issues\<close> may panic in a debug build; the command then does not return.\<close>

fun print_summary_messages :: "profile \<Rightarrow> string \<Rightarrow> summary_message list \<Rightarrow> ('r, 'w, 'e, unit) cli" where
  "print_summary_messages p path [] = io_return ()"
| "print_summary_messages p path (message # messages) =
     (case validation_issues p message None of
        None \<Rightarrow> (\<lambda>s. None)
      | Some issues \<Rightarrow>
          io_bind (print (SummaryReport path (smi_id (sm_info message)) (detail_count (rb_total (sm_result message)))
            (detail_count (rb_good (sm_result message))) (detail_count (rb_failed (sm_result message)))
            (length issues))) (\<lambda>_. print_summary_messages p path messages))"

definition print_reconciled_object :: "profile \<Rightarrow> reconciled_object \<Rightarrow> ('r, 'w, 'e, unit) cli" where
  "print_reconciled_object p reconciled =
     (let path = din_path (rec_record reconciled) in
      case din_reconciliation (rec_record reconciled) of
        Some (Process result) \<Rightarrow>
          print (ProcessReport path (pmi_id (pr_message result)) (length (pr_diagnostics result))
            (map diag_code (pr_diagnostics result)))
      | Some (Summary result) \<Rightarrow> print_summary_messages p path (sr_messages result)
      | None \<Rightarrow> print (OpaqueReport (din_kind (rec_record reconciled)) path))"

section \<open>Commands\<close>

definition run_prepare ::
  "(bytes \<Rightarrow> string) \<Rightarrow> ('pk, 'k, 'c, 'u, 'sg, 'e) openssl \<Rightarrow> (string \<Rightarrow> var_error + string) \<Rightarrow> prepare_args \<Rightarrow>
     ('r, 'w, ('e pfx_signer_error, 'h, 'b, 'p) boxed_error, unit) cli" where
  "run_prepare encode ossl var args =
     io_bind (on_snd (on_fst (prepare encode ossl var (pra_common args)))) (\<lambda>prepared.
     io_bind (io_map_err FileFailure (on_snd (on_fst (persist_artifact (ca_output (pra_common args))
       (sa_upload_bytes (pps_artifact prepared)) (ca_force_output (pra_common args)))))) (\<lambda>_.
       print_prepared_summary prepared (ca_output (pra_common args))))"

text \<open>The steps of \<open>run_submit\<close> after the artifact is persisted.\<close>

definition submit_prepared ::
  "('h, 'z, 'io) zip_writer \<Rightarrow> ('addr, 'tcp, 'ses, 'known, 'sftp, 'file, 'x, 'w) ssh \<Rightarrow>
     ('client, 'status, 'q, 'j, 'w) http_backend \<Rightarrow> (string \<Rightarrow> var_error + string) \<Rightarrow> submit_args \<Rightarrow>
     prepared_submission \<Rightarrow>
     ('r, 'w, ('e, 'status, 'q, 'j, 'z, 'io, 'x, 'p) submit_error, unit) cli" where
  "submit_prepared zw ssh hb var args prepared =
     io_bind (io_result (map_err CliFailure (read_secret_environment var (sua_transport_password_env args))))
       (\<lambda>transport_password.
     let ends = endpoints (sua_environment args);
         upload = sftp_upload ssh (sftp_config_new (pe_sftp_host ends) (sua_known_hosts args))
           (sftp_credentials_new (sua_transport_id args) transport_password)
     in
     io_bind (io_result (map_err HttpFailure (pfs001_new hb (pe_gateway_base ends)
       (gateway_credentials_new (sua_transport_id args) transport_password)))) (\<lambda>notifier.
     io_bind (print (SubmittingReport (label (sua_environment args)) (remote_filename (pps_filename prepared)))) (\<lambda>_.
     io_bind (io_map_err SubmitFailure (on_snd (on_snd
       (io_of (prepared_submit zw upload (pfs001_notify hb notifier) prepared))))) (\<lambda>receipt.
       print (SubmittedReport (rcp_remote_filename receipt) (gps_status_code (rcp_gateway_status receipt)))))))"

definition run_submit ::
  "(bytes \<Rightarrow> string) \<Rightarrow> ('pk, 'k, 'c, 'u, 'sg, 'e) openssl \<Rightarrow> ('h, 'z, 'io) zip_writer \<Rightarrow>
     ('addr, 'tcp, 'ses, 'known, 'sftp, 'file, 'x, 'w) ssh \<Rightarrow> ('client, 'status, 'q, 'j, 'w) http_backend \<Rightarrow>
     (string \<Rightarrow> var_error + string) \<Rightarrow> submit_args \<Rightarrow>
     ('r, 'w, ('e, 'status, 'q, 'j, 'z, 'io, 'x, 'p) submit_error, unit) cli" where
  "run_submit encode ossl zw ssh hb var args =
     io_bind (on_snd (on_fst (prepare encode ossl var (sua_common args)))) (\<lambda>prepared.
     io_bind (io_map_err FileFailure (on_snd (on_fst (persist_artifact (ca_output (sua_common args))
       (sa_upload_bytes (pps_artifact prepared)) (ca_force_output (sua_common args)))))) (\<lambda>_.
     io_bind (print_prepared_summary prepared (ca_output (sua_common args))) (\<lambda>_.
       submit_prepared zw ssh hb var args prepared)))"

fun report_attempts :: "profile \<Rightarrow> ('x, 'e) poll_attempt list \<Rightarrow> nat \<Rightarrow>
    (('x, 'e) poll_object_error, 'w, 'f, nat) cli" where
  "report_attempts p [] failures = io_return failures"
| "report_attempts p (att # attempts) failures =
     (case pa_result att of
        Inr reconciled \<Rightarrow>
          io_bind (print_reconciled_object p reconciled) (\<lambda>_. report_attempts p attempts failures)
      | Inl error \<Rightarrow>
          io_bind (print (ReceiveErrorReport (ro_name (pa_object att)) error)) (\<lambda>_.
            report_attempts p attempts (failures + 1)))"

definition run_receive ::
  "profile \<Rightarrow> 'd deserializers \<Rightarrow> ('addr, 'tcp, 'ses, 'known, 'sftp, 'file, 'x, 'w) ssh \<Rightarrow>
     (string \<Rightarrow> var_error + string) \<Rightarrow> receive_args \<Rightarrow>
     (('d, 'x sftp_inbox_error) poll_object_error, 'w, ('s, 'h, 'b, 'x sftp_inbox_error poll_error) boxed_error, unit) cli" where
  "run_receive p de ssh var args =
     io_bind (io_result (map_err CliFailure (read_secret_environment var (rea_transport_password_env args))))
       (\<lambda>transport_password.
     let ends = endpoints (rea_environment args);
         config = sftp_config_new (pe_sftp_host ends) (rea_known_hosts args);
         credentials = sftp_credentials_new (rea_transport_id args) transport_password
     in
     io_bind (io_map_err (\<lambda>error. FileFailure (SystemError error)) (on_snd (on_fst
       (poller_new (ssh2_remote_inbox ssh config credentials) (ssh2_lister ssh config credentials)
          (rea_inbox_dir args))))) (\<lambda>poller.
     io_bind (io_map_err PollFailure (on_snd (poll_once de poller))) (\<lambda>attempts.
       if attempts = [] then print (NothingReceived (label (rea_environment args)) (rea_inbox_dir args))
       else
         io_bind (report_attempts p attempts 0) (\<lambda>failures.
           if failures = 0 then io_return ()
           else io_result (Inl (CliFailure (InboundObjectFailures failures)))))))"

text \<open>\<open>run\<close> on parsed arguments.\<close>

definition run ::
  "profile \<Rightarrow> (bytes \<Rightarrow> string) \<Rightarrow> ('pk, 'k, 'c, 'u, 'sg, 'e) openssl \<Rightarrow> ('h, 'z, 'io) zip_writer \<Rightarrow>
     'd deserializers \<Rightarrow> ('addr, 'tcp, 'ses, 'known, 'sftp, 'file, 'x, 'w) ssh \<Rightarrow>
     ('client, 'status, 'q, 'j, 'w) http_backend \<Rightarrow> (string \<Rightarrow> var_error + string) \<Rightarrow> command \<Rightarrow>
     (('d, 'x sftp_inbox_error) poll_object_error, 'w,
        ('e, 'status, 'q, 'j, 'z, 'io, 'x, 'x sftp_inbox_error poll_error) submit_error, unit) cli" where
  "run p encode ossl zw de ssh hb var command =
     (case command of
        PrepareCommand args \<Rightarrow> run_prepare encode ossl var args
      | SubmitCommand args \<Rightarrow> run_submit encode ossl zw ssh hb var args
      | ReceiveCommand args \<Rightarrow> run_receive p de ssh var args)"

end
