(* ===== verification/Cli_Properties.thy ===== *)
theory Cli_Properties
  imports Cli
begin

text \<open>
  The properties of the commands: the artifact is on disk before the network is touched, and the
  exit status of \<open>receive\<close> says exactly what happened to the listed objects.
\<close>

section \<open>The artifact on disk\<close>

lemma create_truncate_cases:
  assumes "fs_create_truncate path m = Some (r, m')"
  obtains e where "r = Inl e" "same_files m m'"
  | "r = Inr (m_fresh m)" "same_files (snd (new_file path m)) m'"
  | i where "r = Inr i" "m_dir m path = Some i" "same_files (with_data i [] m) m'"
  using assms unfolding fs_create_truncate_def
  by (elim attempt_cases) (auto simp: same_files_def new_file_def with_data_def split: if_splits option.splits)

text \<open>An empty file under \<open>path\<close>, new or truncated.\<close>

definition opened :: "bool \<Rightarrow> string \<Rightarrow> machine \<Rightarrow> nat \<Rightarrow> machine \<Rightarrow> bool" where
  "opened force path m i m' \<longleftrightarrow>
     m_dir m' path = Some i \<and> m_data m' i = [] \<and> m_disk_dir m' = m_disk_dir m \<and>
     (\<not> force \<longrightarrow> m_dir m path = None \<and> i = m_fresh m \<and> same_files (snd (new_file path m)) m')"

lemma open_artifact_cases:
  assumes "(if force then fs_create_truncate path else fs_create_new path) m = Some (r, m')"
  obtains e where "r = Inl e" "same_files m m'" | i where "r = Inr i" "opened force path m i m'"
proof (cases force)
  case True
  with assms that show thesis
    by (auto elim!: create_truncate_cases simp: opened_def same_files_def new_file_def with_data_def)
next
  case False
  with assms that show thesis
    by (auto elim!: create_new_cases simp: opened_def same_files_def new_file_def)
qed

lemma write_artifact:
  assumes "io_bind (fs_write_all i bytes) (\<lambda>_. fs_sync_all i) m = Some (r, m')"
  shows "\<exists>bs d. m_data m' = (m_data m)(i := bs) \<and> (m_disk_data m' = m_disk_data m \<or> m_disk_data m' = (m_disk_data m)(i := d)) \<and>
     m_dir m' = m_dir m \<and> m_disk_dir m' = m_disk_dir m \<and> m_fresh m' = m_fresh m \<and> m_process_id m' = m_process_id m \<and>
     (r = Inr () \<longrightarrow> bs = m_data m i @ bytes \<and> m_disk_data m' i = Some bs)"
proof -
  from assms consider e where "fs_write_all i bytes m = Some (Inl e, m')" "r = Inl e"
    | u where "fs_write_all i bytes m = Some (Inr (), u)" "fs_sync_all i u = Some (r, m')"
    by (auto simp: io_bind_iff)
  then show ?thesis
  proof cases
    case (1 e)
    then show ?thesis by (auto elim!: write_all_cases simp: same_files_def with_data_def)
  next
    case (2 u)
    from 2(1) have u: "same_files (with_data i (m_data m i @ bytes) m) u"
      by (auto elim!: write_all_cases)
    from 2(2) u show ?thesis by (auto elim!: sync_all_cases simp: same_files_def with_data_def)
  qed
qed

text \<open>The file at \<open>path\<close> holds exactly these bytes, for the process and on disk.\<close>

definition artifact_stored :: "string \<Rightarrow> bytes \<Rightarrow> machine \<Rightarrow> bool" where
  "artifact_stored path bytes m \<longleftrightarrow>
     (\<exists>i. m_dir m path = Some i \<and> m_data m i = bytes \<and> m_disk_data m i = Some bytes)"

lemma persist_artifact_phase:
  assumes "persist_artifact path bytes force m = Some (r, m')"
  shows "m_disk_dir m' = m_disk_dir m" "r = Inr () \<Longrightarrow> artifact_stored path bytes m'"
    "\<not> force \<Longrightarrow> wf_machine m \<Longrightarrow> kept m m'" "\<not> force \<Longrightarrow> r = Inr () \<Longrightarrow> m_dir m path = None"
proof -
  from assms consider e where "r = Inl e" "same_files m m'"
    | i u q where "opened force path m i u" "r = map_err SystemError q"
      "io_bind (fs_write_all i bytes) (\<lambda>_. fs_sync_all i) u = Some (q, m')"
    unfolding persist_artifact_def io_bind_map_err_iff io_map_err_iff by (blast elim: open_artifact_cases)
  then have "m_disk_dir m' = m_disk_dir m \<and> (r = Inr () \<longrightarrow> artifact_stored path bytes m') \<and>
    (\<not> force \<longrightarrow> wf_machine m \<longrightarrow> kept m m') \<and> (\<not> force \<longrightarrow> r = Inr () \<longrightarrow> m_dir m path = None)"
  proof cases
    case (1 e)
    then show ?thesis by (auto intro: kept_same simp: same_files_def)
  next
    case (2 i u q)
    from write_artifact [OF 2(3)] obtain bs d where w: "m_data m' = (m_data u)(i := bs)"
      "m_disk_data m' = m_disk_data u \<or> m_disk_data m' = (m_disk_data u)(i := d)"
      "m_dir m' = m_dir u" "m_disk_dir m' = m_disk_dir u"
      "r = Inr () \<longrightarrow> bs = m_data u i @ bytes \<and> m_disk_data m' i = Some bs"
      using 2(2) by (cases q) (auto simp: map_err_def)
    have "kept m m'" if "\<not> force" "wf_machine m"
      unfolding kept_def
    proof (intro allI impI)
      fix p j
      assume p: "m_dir m p = Some j"
      with that(2) have "j \<noteq> m_fresh m" by (auto simp: wf_machine_def)
      with p w 2(1) that(1) show "m_dir m' p = Some j \<and> m_data m' j = m_data m j \<and> m_disk_data m' j = m_disk_data m j"
        by (auto simp: opened_def same_files_def new_file_def)
    qed
    with w 2(1) show ?thesis by (auto simp: opened_def artifact_stored_def)
  qed
  then show "m_disk_dir m' = m_disk_dir m" "r = Inr () \<Longrightarrow> artifact_stored path bytes m'"
    "\<not> force \<Longrightarrow> wf_machine m \<Longrightarrow> kept m m'" "\<not> force \<Longrightarrow> r = Inr () \<Longrightarrow> m_dir m path = None" by blast+
qed

lemma read_file_quiet: "read_file path description m = Some (r, m') \<Longrightarrow> same_files m m'"
  by (auto simp: read_file_def io_iff dest: quiet_calls(5))

lemma read_payloads_quiet: "read_payloads paths m = Some (r, m') \<Longrightarrow> same_files m m'"
  by (induction paths arbitrary: m r)
    (auto simp: io_iff io_bind_map_err_iff dest!: read_file_quiet intro: same_files_trans)

lemma prepare_quiet: "prepare encode ossl var args m = Some (r, m') \<Longrightarrow> same_files m m'"
  unfolding prepare_def build_submission_plan_def
  by (auto simp: io_iff io_bind_map_err_iff dest!: read_file_quiet read_payloads_quiet intro: same_files_trans)


lemma print_iff [io_iff]: "print line s = Some (r, t) \<longleftrightarrow> r = Inr () \<and> t = (fst s @ [line], snd s)"
  by (auto simp: print_def)

lemma print_prepared_iff:
  "print_prepared_summary prepared path s = Some (r, t) \<Longrightarrow> r = Inr () \<and> snd t = snd s"
  by (auto simp: print_prepared_summary_def print_iff)

text \<open>The network phase of the command: the uploader and the notifier that it builds.\<close>

definition network_phase ::
  "('h, 'z, 'io) zip_writer \<Rightarrow> ('addr, 'tcp, 'ses, 'known, 'sftp, 'file, 'x, 'w) ssh \<Rightarrow>
     ('client, 'status, 'q, 'j, 'w) http_backend \<Rightarrow> submit_args \<Rightarrow> prepared_submission \<Rightarrow> 'w \<Rightarrow> 'w \<Rightarrow> bool" where
  "network_phase zw ssh hb args prepared w w' \<longleftrightarrow>
     (\<exists>password notifier q. prepared_submit zw
        (sftp_upload ssh (sftp_config_new (pe_sftp_host (endpoints (sua_environment args))) (sua_known_hosts args))
           (sftp_credentials_new (sua_transport_id args) password))
        (pfs001_notify hb notifier) prepared w = (q, w'))"

lemma submit_prepared_phase:
  assumes "submit_prepared zw ssh hb var args prepared (out, (m, w)) = Some (r, (out', (m', w')))"
  shows "m' = m \<and> (w' = w \<or> network_phase zw ssh hb args prepared w w')"
  using assms unfolding submit_prepared_def network_phase_def
  by (auto simp: io_iff io_bind_map_err_iff io_of_def Let_def)

lemma run_submit_phase:
  fixes r :: "('e, 'status, 'q, 'j, 'z, 'io, 'x, 'p) submit_error + unit"
  assumes "run_submit encode ossl zw ssh hb var args (out, (m, w)) = Some (r, (out', (m', w')))"
  obtains (refused) e where "prepare encode ossl var (sua_common args) m = Some (Inl e, m')" "w' = w" "r = Inl e"
  | (failed) prepared m1 e where "prepare encode ossl var (sua_common args) m = Some ((Inr prepared :: ('e, 'status, 'q, 'j, 'z, 'io, 'x, 'p) submit_error + prepared_submission), m1)"
      "persist_artifact (ca_output (sua_common args)) (sa_upload_bytes (pps_artifact prepared))
         (ca_force_output (sua_common args)) m1 = Some (Inl e, m')" "w' = w" "r = Inl (FileFailure e)"
  | (stored) prepared m1 where "prepare encode ossl var (sua_common args) m = Some ((Inr prepared :: ('e, 'status, 'q, 'j, 'z, 'io, 'x, 'p) submit_error + prepared_submission), m1)"
      "persist_artifact (ca_output (sua_common args)) (sa_upload_bytes (pps_artifact prepared))
         (ca_force_output (sua_common args)) m1 = Some (Inr (), m')"
      "w' = w \<or> network_phase zw ssh hb args prepared w w'"
proof -
  from assms consider e where "prepare encode ossl var (sua_common args) m = Some (Inl e, m')" "w' = w" "r = Inl e"
  | prepared m1 e where "prepare encode ossl var (sua_common args) m = Some ((Inr prepared :: ('e, 'status, 'q, 'j, 'z, 'io, 'x, 'p) submit_error + prepared_submission), m1)"
      "persist_artifact (ca_output (sua_common args)) (sa_upload_bytes (pps_artifact prepared))
         (ca_force_output (sua_common args)) m1 = Some (Inl e, m')" "w' = w" "r = Inl (FileFailure e)"
  | prepared m1 m2 out2 where "prepare encode ossl var (sua_common args) m = Some ((Inr prepared :: ('e, 'status, 'q, 'j, 'z, 'io, 'x, 'p) submit_error + prepared_submission), m1)"
      "persist_artifact (ca_output (sua_common args)) (sa_upload_bytes (pps_artifact prepared))
         (ca_force_output (sua_common args)) m1 = Some (Inr (), m2)"
      "submit_prepared zw ssh hb var args prepared (out2, (m2, w)) = Some (r, (out', (m', w')))"
    unfolding run_submit_def
    by (auto simp: io_bind_iff [of "on_snd _"] io_bind_iff [of "print_prepared_summary _ _"] io_bind_map_err_iff
        on_fst_iff on_snd_iff dest!: print_prepared_iff)
  then show thesis
  proof cases
    case (3 prepared m1 m2 out2)
    with submit_prepared_phase [OF 3(3)] stored show thesis by blast
  qed (use refused failed in blast)+
qed

text \<open>
  C3.  Nothing happens on the network before the exact signed artifact
  has been written to the output file and flushed to disk: whenever the network world has
  changed, however the command ended and whatever system calls failed, the output file holds
  the bytes of the prepared artifact, and what happened is the network phase of this prepared
  submission.  Without \<open>--force-output\<close> no file is changed or removed, and an existing output
  file means no network activity at all.
\<close>

theorem run_submit_persists_first:
  fixes r :: "('e, 'status, 'q, 'j, 'z, 'io, 'x, 'p) submit_error + unit"
  assumes "run_submit encode ossl zw ssh hb var args (out, (m, w)) = Some (r, (out', (m', w')))" "wf_machine m"
  shows "(w' \<noteq> w \<longrightarrow> (\<exists>prepared m1. prepare encode ossl var (sua_common args) m = Some ((Inr prepared :: ('e, 'status, 'q, 'j, 'z, 'io, 'x, 'p) submit_error + prepared_submission), m1) \<and>
       artifact_stored (ca_output (sua_common args)) (sa_upload_bytes (pps_artifact prepared)) m' \<and>
       network_phase zw ssh hb args prepared w w')) \<and>
    (\<not> ca_force_output (sua_common args) \<longrightarrow>
       kept m m' \<and> (m_dir m (ca_output (sua_common args)) \<noteq> None \<longrightarrow> w' = w \<and> r \<noteq> Inr ()))"
proof -
  from assms(1) show ?thesis
  proof (cases rule: run_submit_phase)
    case (refused e)
    with kept_same [OF prepare_quiet [OF refused(1)]] show ?thesis by simp
  next
    case (failed prepared m1 e)
    note q = prepare_quiet [OF failed(1)]
    with assms(2) have "wf_machine m1" by (simp add: wf_machine_def same_files_def)
    with persist_artifact_phase(3) [OF failed(2)] kept_trans [OF kept_same [OF q]] failed show ?thesis by blast
  next
    case (stored prepared m1)
    note q = prepare_quiet [OF stored(1)]
    with assms(2) have "wf_machine m1" by (simp add: wf_machine_def same_files_def)
    moreover have "m_dir m1 = m_dir m" using q by (simp add: same_files_def)
    ultimately show ?thesis
      using persist_artifact_phase(2-4) [OF stored(2)] kept_trans [OF kept_same [OF q]] stored by metis
  qed
qed


definition sample_cli_ssh :: "(unit, unit, unit, unit, unit, unit, unit, sample_world) ssh" where
  "sample_cli_ssh = sample_ssh\<lparr>sfile_write_all := \<lambda>f b w. (Inr (), w\<lparr>sw_content := b\<rparr>)\<rparr>"

definition sample_http :: "(unit, unit, unit, unit, sample_world) http_backend" where
  "sample_http = \<lparr>hb_build = \<lambda>c t. Inr (), hb_post = \<lambda>c u a t b w. (Inr ((), Inr []), w), hb_is_success = \<lambda>s. True,
     hb_to_vec = \<lambda>e. Inr [], hb_from_slice = \<lambda>b. Inr sample_status\<rparr>"

definition sample_args :: submit_args where
  "sample_args =
     \<lparr>sua_common =
        \<lparr>ca_filename = ''INV_12345678_0000000000_4.1-F0401-20250101-120000000-550e8400-e29b-41d4-a716-446655440000_1'',
         ca_mig = [''invoice.xml''], ca_from_vac = ''FROM'', ca_to_vac = ''TO'', ca_from_description = None,
         ca_to_description = None, ca_from_vac_description = None, ca_to_vac_description = None,
         ca_action = ''UPLOAD'', ca_service = ServiceExchange, ca_zip = ZipPlain, ca_pfx = ''id.pfx'',
         ca_pfx_password_env = DEFAULT_PFX_PASSWORD_ENV, ca_output = ''out.cms'', ca_force_output = False,
         ca_api_version = DEFAULT_API_VERSION, ca_turnkey_version = DEFAULT_TURNKEY_VERSION\<rparr>,
      sua_environment = Test, sua_known_hosts = ''known_hosts'', sua_transport_id = ''id'',
      sua_transport_password_env = DEFAULT_TRANSPORT_PASSWORD_ENV\<rparr>"

definition sample_disk :: machine where
  "sample_disk = (sample_machine [])\<lparr>m_dir := [''id.pfx'' \<mapsto> 0, ''invoice.xml'' \<mapsto> 1],
     m_data := (\<lambda>i. if i = 0 then [1, 2] else if i = 1 then as_bytes ''<Invoice/>'' else []), m_fresh := 2\<rparr>"

lemma sample_filename:
  "pack_filename_parse (ca_filename (sua_common sample_args)) = Inr (sp_filename sample_plan)"
  unfolding sample_args_def sample_plan_def submission_plan_new_def by code_simp

lemma sample_reads:
  "read_file ''id.pfx'' description sample_disk = Some (Inr [1, 2], sample_disk)"
  "read_file ''invoice.xml'' description sample_disk = Some (Inr (as_bytes ''<Invoice/>''), sample_disk)"
  by (simp_all add: read_file_def io_map_err_def fs_read_def attempt_def next_event_def sample_disk_def sample_machine_def
      fs_lookup_def valid_path_def contains_def ok_or_def)

lemma sample_build:
  "build_submission_plan (sua_common sample_args) sample_disk = Some (Inr sample_plan, sample_disk)"
proof -
  have "as_bytes ''<Invoice/>'' \<noteq> []" by simp
  then have payloads: "read_payloads (ca_mig (sua_common sample_args)) sample_disk =
      Some (Inr [MigPayload (as_bytes ''<Invoice/>'')], sample_disk)"
    using sample_reads(2)
    by (simp add: sample_args_def io_bind_def io_map_err_def io_result_def io_return_def mig_payload_new_def del: as_bytes_simps)
  have f: "tpf_from_party (sp_filename sample_plan) = ''12345678''" "tpf_to_party (sp_filename sample_plan) = ''0000000000''"
    "mcn_message_type (tpf_common_name (sp_filename sample_plan)) = ''F0401''"
    by (simp_all add: sample_plan_def submission_plan_new_def)
  show ?thesis
    unfolding build_submission_plan_def sample_filename
    by (simp add: io_bind_def io_result_def payloads f envelope_new_def MAX_PAYLOADS_def io_return_def)
      (simp add: sample_plan_def submission_plan_new_def sample_args_def sample_envelope_def DEFAULT_API_VERSION_def
        DEFAULT_TURNKEY_VERSION_def)
qed

lemma sample_cli_prepare:
  "\<exists>ps. prepare hex_like sample_ossl Inr (sua_common sample_args) sample_disk = Some (Inr ps, sample_disk) \<and>
     prepare_submission hex_like ps_signature_algorithm (pfx_sign_attached sample_ossl) sample_plan sample_signer = Inr ps \<and>
     pps_artifact ps = sample_artifact"
proof -
  obtain ps where ps: "prepare_submission hex_like ps_signature_algorithm (pfx_sign_attached sample_ossl) sample_plan
      sample_signer = Inr ps" "pps_artifact ps = sample_artifact" using sample_prepare by blast
  have k: "pfx_from_der sample_ossl [1, 2] v = Inr sample_signer" for v
    by (simp add: pfx_from_der_def sample_ossl_def sample_signer_def)
  have a: "ca_pfx (sua_common sample_args) = ''id.pfx''"
    "read_secret_environment Inr (ca_pfx_password_env (sua_common sample_args)) = Inr DEFAULT_PFX_PASSWORD_ENV"
    by (simp_all add: sample_args_def read_secret_environment_def DEFAULT_PFX_PASSWORD_ENV_def)
  show ?thesis
    using ps by (simp add: prepare_def io_bind_def io_map_err_def io_result_def sample_reads sample_build k a)
qed


lemma sample_persist:
  "\<exists>m'. persist_artifact ''out.cms'' bytes False sample_disk = Some (Inr (), m')"
  by (simp add: persist_artifact_def io_bind_def fs_create_new_def fs_write_all_def fs_sync_all_def attempt_def
      next_event_def sample_disk_def sample_machine_def valid_path_def contains_def new_file_def io_map_err_def
      map_err_def)

lemma sample_upload:
  "sftp_upload sample_cli_ssh (sftp_config_new h k) c ''4.1-F0401-20250101-120000000-550e8400-e29b-41d4-a716-446655440000'' bytes w = (Inr (), w\<lparr>sw_content := bytes\<rparr>)"
proof -
  have "connect_sftp sample_cli_ssh (sftp_config_new h k) c v = (Inr (), v)" for v
    by (simp add: sample_run_defs sample_cli_ssh_def)
  moreover have "safe_remote_basename ''4.1-F0401-20250101-120000000-550e8400-e29b-41d4-a716-446655440000''"
    by (simp add: safe_remote_basename_def contains_def)
  ultimately show ?thesis
    by (simp add: sftp_upload_def st_map_err_def st_bind_def map_err_def Let_def sample_cli_ssh_def sample_ssh_def)
qed

lemma sample_notified:
  assumes "un_quantity n = 1" "un_retry n = 0" "uint (un_size n) < 2 ^ 31"
  shows "pfs001_notify sample_http notifier n w = (Inr sample_status, w)"
proof -
  have "checked_i32 ''size'' (un_size n) = (Inr (word_of_int (uint (un_size n))) :: unit gateway_encode_error + i32)"
    using assms(3) by (simp add: checked_i32_def)
  moreover have "checked_i32 ''quantity'' 1 = (Inr 1 :: unit gateway_encode_error + i32)"
    "checked_i32 ''retry'' 0 = (Inr 0 :: unit gateway_encode_error + i32)"
    by (simp_all add: checked_i32_def)
  ultimately show ?thesis
    using assms(1,2) by (simp add: pfs001_notify_def to_pfs001_json_def sample_http_def and_then_def map_err_def Let_def)
qed

lemma sample_submit_prepared:
  assumes "prepare_submission hex_like ps_signature_algorithm (pfx_sign_attached sample_ossl) sample_plan sample_signer = Inr ps"
  shows "\<exists>out'. submit_prepared sample_zip sample_cli_ssh sample_http Inr sample_args ps (out, (m, w)) =
    Some (Inr (), (out', (m, w\<lparr>sw_content := sa_upload_bytes sample_artifact\<rparr>)))"
proof -
  let ?ends = "endpoints (sua_environment sample_args)" and ?pw = DEFAULT_TRANSPORT_PASSWORD_ENV
  let ?up = "sftp_upload sample_cli_ssh (sftp_config_new (pe_sftp_host ?ends) (sua_known_hosts sample_args))
      (sftp_credentials_new (sua_transport_id sample_args) ?pw)"
  obtain nt where nt: "pfs001_new sample_http (pe_gateway_base ?ends)
      \<lparr>gc_login_id = sua_transport_id sample_args, gc_login_password = ?pw\<rparr> = Inr nt"
    by (simp add: pfs001_new_def pfs001_with_timeout_def sample_http_def)
  have pw: "read_secret_environment Inr (sua_transport_password_env sample_args) = Inr ?pw"
    by (simp add: sample_args_def read_secret_environment_def DEFAULT_TRANSPORT_PASSWORD_ENV_def)
  obtain n where "\<forall>w2. pfs001_notify sample_http nt n (w\<lparr>sw_content := sa_upload_bytes sample_artifact\<rparr>) =
        (Inr sample_status, w2) \<longrightarrow>
      (\<exists>receipt. prepared_submit sample_zip ?up (pfs001_notify sample_http nt) ps w = (Inr receipt, w2))"
    "un_quantity n = 1" "un_retry n = 0" "uint (un_size n) < 2 ^ 31"
    by (rule sample_prepared_notified [where upload = ?up and notify = "pfs001_notify sample_http nt", OF assms sample_upload])
  then obtain receipt where "prepared_submit sample_zip ?up (pfs001_notify sample_http nt) ps w =
      (Inr receipt, w\<lparr>sw_content := sa_upload_bytes sample_artifact\<rparr>)"
    using sample_notified by blast
  with nt pw show ?thesis
    by (simp add: submit_prepared_def io_bind_def io_result_def io_map_err_def Let_def print_def on_snd_def io_of_def)
qed

lemma artifact_not_empty: "sa_upload_bytes sample_artifact \<noteq> []"
proof
  assume "sa_upload_bytes sample_artifact = []"
  then have "dearmored sample_artifact = []" by (simp add: dearmored_def of_bytes_def)
  moreover have "dearmored sample_artifact = hex_like (as_encoded sample_cms)"
    using base64_like_hex armor_dearmor [of hex_like sample_cms] by (simp add: dearmored_def sample_artifact_def base64_like_def)
  ultimately show False
    using length_hex_like [of "as_encoded sample_cms"] by (simp add: sample_cms_parts encode_layout cms_head_def)
qed

lemma sample_run_submit:
  "\<exists>m' out'. run_submit hex_like sample_ossl sample_zip sample_cli_ssh sample_http Inr sample_args
      ([] :: 'r report list, (sample_disk, sample_remote [])) =
    Some (Inr () :: (unit, unit, unit, unit, unit, unit, unit, unit) submit_error + unit,
      (out', (m', (sample_remote [])\<lparr>sw_content := sa_upload_bytes sample_artifact\<rparr>)))"
proof -
  obtain ps where prep: "prepare hex_like sample_ossl Inr (sua_common sample_args) sample_disk =
      Some (Inr ps :: (unit, unit, unit, unit, unit, unit, unit, unit) submit_error + prepared_submission, sample_disk)"
    and ps: "prepare_submission hex_like ps_signature_algorithm (pfx_sign_attached sample_ossl) sample_plan sample_signer = Inr ps"
      "pps_artifact ps = sample_artifact"
    using sample_cli_prepare by blast
  obtain m' where m': "persist_artifact ''out.cms'' (sa_upload_bytes sample_artifact) False sample_disk = Some (Inr (), m')"
    using sample_persist by blast
  have a: "ca_output (sua_common sample_args) = ''out.cms''" "ca_force_output (sua_common sample_args) = False"
    by (simp_all add: sample_args_def)
  show ?thesis
    using prep m' ps sample_submit_prepared [OF ps(1)]
    by (simp add: run_submit_def io_bind_def on_snd_def on_fst_def io_map_err_def a print_prepared_summary_def print_def) blast
qed

theorem run_submit_persists_first_witness:
  "\<exists>(r :: (unit, unit, unit, unit, unit, unit, unit, unit) submit_error + unit) out' m' w'.
     run_submit hex_like sample_ossl sample_zip sample_cli_ssh sample_http Inr sample_args
       ([] :: unit report list, (sample_disk, sample_remote [])) = Some (r, (out', (m', w'))) \<and>
     w' \<noteq> sample_remote [] \<and> artifact_stored ''out.cms'' (sa_upload_bytes sample_artifact) m' \<and> kept sample_disk m'"
proof -
  obtain m' and out' :: "unit report list" where run:
    "run_submit hex_like sample_ossl sample_zip sample_cli_ssh sample_http Inr sample_args
       ([] :: unit report list, (sample_disk, sample_remote [])) =
     Some (Inr () :: (unit, unit, unit, unit, unit, unit, unit, unit) submit_error + unit,
       (out', (m', (sample_remote [])\<lparr>sw_content := sa_upload_bytes sample_artifact\<rparr>)))"
    using sample_run_submit by blast
  obtain ps where prep: "prepare hex_like sample_ossl Inr (sua_common sample_args) sample_disk =
      Some (Inr ps :: (unit, unit, unit, unit, unit, unit, unit, unit) submit_error + prepared_submission, sample_disk)"
      "pps_artifact ps = sample_artifact"
    using sample_cli_prepare by blast
  have a: "ca_output (sua_common sample_args) = ''out.cms''" "ca_force_output (sua_common sample_args) = False"
    by (simp_all add: sample_args_def)
  have w: "(sample_remote [])\<lparr>sw_content := sa_upload_bytes sample_artifact\<rparr> \<noteq> sample_remote []"
    using artifact_not_empty by (simp add: sample_remote_def)
  have "wf_machine sample_disk" by (auto simp: wf_machine_def sample_disk_def sample_machine_def)
  from run_submit_persists_first [OF run this] w prep a run show ?thesis by auto
qed

text \<open>
  The flush does not reach the directory: a new artifact file is flushed, its directory entry is
  not, so a crash after the upload can leave no artifact under that name.
\<close>

theorem artifact_entry_not_synced:
  "\<exists>m'. persist_artifact ''out.cms'' [1] False sample_disk = Some (Inr (), m') \<and>
     artifact_stored ''out.cms'' [1] m' \<and> m_disk_dir m' ''out.cms'' = None"
proof -
  obtain m' where m': "persist_artifact ''out.cms'' [1] False sample_disk = Some (Inr (), m')"
    using sample_persist by blast
  have "m_disk_dir sample_disk ''out.cms'' = None" by (simp add: sample_disk_def sample_machine_def)
  with m' persist_artifact_phase(1,2) [OF m'] show ?thesis by simp
qed


section \<open>Receiving\<close>

lemma print_summary_messages_quiet:
  "print_summary_messages p path messages s = Some (r, t) \<Longrightarrow> r = Inr () \<and> snd t = snd s"
  by (induction messages arbitrary: s) (fastforce simp: io_iff split: option.splits)+

lemma print_reconciled_quiet:
  "print_reconciled_object p reconciled s = Some (r, t) \<Longrightarrow> r = Inr () \<and> snd t = snd s"
  by (auto simp: print_reconciled_object_def Let_def print_iff dest: print_summary_messages_quiet
      split: option.splits parsed_reconciliation.splits)

definition failed_attempts :: "('x, 'e) poll_attempt list \<Rightarrow> nat" where
  "failed_attempts attempts = length (filter (\<lambda>a. isl (pa_result a)) attempts)"

lemma report_attempts_count:
  "report_attempts p attempts k s = Some (r, t) \<Longrightarrow> r = Inr (k + failed_attempts attempts) \<and> snd t = snd s"
proof (induction attempts arbitrary: k s)
  case Nil
  then show ?case by (auto simp: io_return_iff failed_attempts_def)
next
  case (Cons a attempts)
  show ?case
  proof (cases "pa_result a")
    case (Inl e)
    with Cons show ?thesis by (fastforce simp: io_iff failed_attempts_def)
  next
    case (Inr x)
    with Cons.prems obtain u where "report_attempts p attempts k u = Some (r, t)" "snd u = snd s"
      by (auto simp: io_bind_iff dest!: print_reconciled_quiet)
    with Cons.IH Inr show ?thesis by (simp add: failed_attempts_def)
  qed
qed

text \<open>One attempt for every object of the listing made with the command's configuration.\<close>

definition listed_attempts ::
  "'d deserializers \<Rightarrow> ('addr, 'tcp, 'ses, 'known, 'sftp, 'file, 'x, 'w) ssh \<Rightarrow>
     (string \<Rightarrow> var_error + string) \<Rightarrow> receive_args \<Rightarrow> 'w \<Rightarrow> machine \<Rightarrow>
     ('d, 'x sftp_inbox_error) poll_attempt list \<Rightarrow> bool" where
  "listed_attempts de ssh var args w m' attempts \<longleftrightarrow>
     (\<exists>password w1. read_secret_environment var (rea_transport_password_env args) = Inr password \<and>
        sftp_list ssh (sftp_config_new (pe_sftp_host (endpoints (rea_environment args))) (rea_known_hosts args))
          (sftp_credentials_new (rea_transport_id args) password) w = (Inr (map pa_object attempts), w1) \<and>
        list_all (attempt_ok de (rea_inbox_dir args) m') attempts)"

definition receive_exit :: "('x, 'e) poll_attempt list \<Rightarrow> ('s, 'h, 'b, 'p) boxed_error + unit" where
  "receive_exit attempts =
     (if failed_attempts attempts = 0 then Inr ()
      else Inl (CliFailure (InboundObjectFailures (failed_attempts attempts))))"

definition receive_report :: "profile \<Rightarrow> receive_args \<Rightarrow> ('d, 'e) poll_attempt list \<Rightarrow>
    (('d, 'e) poll_object_error, 'w, ('s, 'h, 'b, 'p) boxed_error, unit) cli" where
  "receive_report p args attempts =
     (if attempts = [] then print (NothingReceived (label (rea_environment args)) (rea_inbox_dir args))
      else
        io_bind (report_attempts p attempts 0) (\<lambda>failures.
          if failures = 0 then io_return () else io_result (Inl (CliFailure (InboundObjectFailures failures)))))"

lemma receive_report_run:
  assumes "receive_report p args attempts s = Some (r, t)"
  shows "r = receive_exit attempts \<and> snd t = snd s"
  using assms unfolding receive_report_def
  by (cases "attempts = []") (auto simp: print_iff io_bind_iff io_return_iff io_result_iff failed_attempts_def
      receive_exit_def dest!: report_attempts_count split: if_splits)

text \<open>The poller that the command builds.\<close>

definition command_poller ::
  "('addr, 'tcp, 'ses, 'known, 'sftp, 'file, 'x, 'w) ssh \<Rightarrow> receive_args \<Rightarrow> string \<Rightarrow>
     ('w, 'x sftp_inbox_error) reconciliation_poller" where
  "command_poller ssh args password =
     ssh2_poller ssh (sftp_config_new (pe_sftp_host (endpoints (rea_environment args))) (rea_known_hosts args))
       (sftp_credentials_new (rea_transport_id args) password) (rea_inbox_dir args)"

lemma run_receive_run:
  assumes "read_secret_environment var (rea_transport_password_env args) = Inr password"
  shows "run_receive p de ssh var args s =
    io_bind (io_map_err (\<lambda>error. FileFailure (SystemError error)) (on_snd (on_fst (fs_create_dir_all (rea_inbox_dir args))))) (\<lambda>_.
    io_bind (io_map_err PollFailure (on_snd (poll_once de (command_poller ssh args password))))
      (receive_report p args)) s"
proof -
  have "(\<lambda>x. receive_report p args x) = receive_report p args" by simp
  then show ?thesis
    unfolding run_receive_def assms Let_def map_err_simps receive_report_def [symmetric] command_poller_def
    by (auto simp: io_bind_def io_result_def io_map_err_def on_snd_def on_fst_def poller_new_def
        durable_receiver_new_def io_return_def ssh2_poller_def map_err_def split: option.splits sum.splits prod.splits)
qed

lemma run_receive_steps:
  fixes r :: "('s, 'h, 'b, 'x sftp_inbox_error poll_error) boxed_error + unit"
  assumes "run_receive p de ssh var args (out, (m, w)) = Some (r, (out', (m', w')))"
    and "read_secret_environment var (rea_transport_password_env args) = Inr password"
  obtains (directory) e where "r = Inl (FileFailure e)" "same_files m m'"
  | (listing) m1 e where "same_files m m1" "r = Inl (PollFailure e)"
      "poll_once de (command_poller ssh args password) (m1, w) = Some (Inl e, (m', w'))"
  | (attempts) m1 attempts where "same_files m m1" "r = receive_exit attempts"
      "poll_once de (command_poller ssh args password) (m1, w) = Some (Inr attempts, (m', w'))"
  using assms(1) unfolding run_receive_run [OF assms(2)] io_bind_map_err_iff
  by (fastforce simp: on_snd_iff on_fst_iff dest: quiet_calls(6) receive_report_run)

lemma run_receive_phase:
  fixes r :: "('s, 'h, 'b, 'x sftp_inbox_error poll_error) boxed_error + unit"
  assumes "run_receive p de ssh var args (out, (m, w)) = Some (r, (out', (m', w')))" "wf_machine m"
  obtains (aborted) e where "r = Inl e" "\<And>n. e \<noteq> CliFailure (InboundObjectFailures n)" "kept m m'"
  | (polled) attempts where "listed_attempts de ssh var args w m' attempts" "kept m m'" "r = receive_exit attempts"
proof (cases "read_secret_environment var (rea_transport_password_env args)")
  case (Inl e)
  moreover have "e \<noteq> InboundObjectFailures n" for n
    using Inl by (auto simp: read_secret_environment_def split: if_splits sum.splits var_error.splits)
  ultimately show thesis
    using assms(1) aborted [of "CliFailure e"]
    by (auto simp: run_receive_def io_bind_def io_result_def intro: kept_same)
next
  case (Inr password)
  have wf: "wf_machine u" if "same_files m u" for u
    using that assms(2) by (simp add: wf_machine_def same_files_def)
  from assms(1) Inr show thesis
  proof (cases rule: run_receive_steps)
    case (directory e)
    with aborted show thesis by (auto intro: kept_same)
  next
    case (listing m1 e)
    from listing(3) [unfolded command_poller_def] wf [OF listing(1)] have "kept m1 m'"
      by (cases rule: poll_once_cases) (auto intro: kept_same)
    with listing aborted show thesis by (auto intro: kept_trans kept_same)
  next
    case (attempts m1 attempts)
    from attempts(3) [unfolded command_poller_def] wf [OF attempts(1)]
    have "kept m1 m'" "listed_attempts de ssh var args w m' attempts"
      by (cases rule: poll_once_cases; auto simp: listed_attempts_def Inr)+
    with polled [of attempts] attempts(1,2) show thesis by (auto intro: kept_trans kept_same)
  qed
qed

text \<open>
  The exit status of \<open>receive\<close> is exact: it succeeds only when every object
  of the listing was received and its record read back from the inbox, and it reports n failures
  exactly when n > 0 of the attempts, one for each listed object, failed.  No file of the inbox
  is changed or removed in either case.
\<close>

theorem run_receive_exit:
  fixes r :: "('s, 'h, 'b, 'x sftp_inbox_error poll_error) boxed_error + unit"
  assumes "run_receive p de ssh var args (out, (m, w)) = Some (r, (out', (m', w')))" "wf_machine m"
  shows "kept m m' \<and>
    (r = Inr () \<longrightarrow> (\<exists>attempts. listed_attempts de ssh var args w m' attempts \<and>
       list_all (\<lambda>a. \<exists>x. pa_result a = Inr x) attempts)) \<and>
    (\<forall>n. r = Inl (CliFailure (InboundObjectFailures n)) \<longrightarrow> 0 < n \<and>
       (\<exists>attempts. listed_attempts de ssh var args w m' attempts \<and> failed_attempts attempts = n))"
  using assms
proof (cases rule: run_receive_phase)
  case (polled attempts)
  have "list_all (\<lambda>a. \<exists>x. pa_result a = Inr x) attempts" if "failed_attempts attempts = 0"
    using that by (auto simp: failed_attempts_def list_all_iff filter_empty_conv isl_def) (metis sum.exhaust)
  with polled show ?thesis by (auto simp: receive_exit_def)
qed auto


definition sample_receive_args :: receive_args where
  "sample_receive_args = \<lparr>rea_environment = Production, rea_known_hosts = ''known_hosts'', rea_transport_id = ''id'',
     rea_transport_password_env = DEFAULT_TRANSPORT_PASSWORD_ENV, rea_inbox_dir = ''inbox''\<rparr>"

text \<open>The system call that creates the temporary file fails.\<close>

definition failing_machine :: machine where
  "failing_machine = sample_machine [Pass, Fault (OtherError 28) 0]"

lemma sample_failing_poll:
  "\<exists>m'. poll_once no_xml (command_poller sample_ssh sample_receive_args pw) (sample_machine [Fault (OtherError 28) 0], w) =
     Some (Inr [\<lparr>pa_object = sample_object, pa_result = Inl (PollReceive (ReceiveIo (OtherError 28)))\<rparr>], (m', w))"
proof -
  let ?m = "sample_machine [Fault (OtherError 28) 0]"
  have "\<exists>m'. incoming_create ''inbox'' ?m = Some (Inl (OtherError 28), m')"
    by (subst incoming_create.simps)
      (simp add: fs_create_new_def attempt_def next_event_def sample_machine_def Let_def)
  then obtain m' where c: "incoming_create ''inbox'' ?m = Some (Inl (OtherError 28), m')" by blast
  have v: "validate_remote_name (ro_name sample_object) = (Inr () :: unit sftp_inbox_error receive_error + unit)"
    by (simp add: validate_remote_name_def Let_def contains_def path_file_name_plain sample_object_def)
  have "poll_object no_xml (rp_receiver (command_poller sample_ssh sample_receive_args pw)) sample_object (?m, w) =
      Some (Inl (PollReceive (ReceiveIo (OtherError 28))), (m', w))"
    by (simp add: poll_object_def command_poller_def ssh2_poller_def sample_receive_args_def receive_def v c io_bind_def
        io_result_def io_map_err_def on_fst_def Let_def)
  then show ?thesis
    by (simp add: poll_once_def io_bind_def io_map_err_def on_snd_def command_poller_def ssh2_poller_def ssh2_lister_def
        io_of_def sample_list)
qed

theorem run_receive_exit_witness:
  "\<exists>(r :: (unit, unit, unit, unit sftp_inbox_error poll_error) boxed_error + unit) out' m' w' attempts.
     run_receive Release no_xml sample_ssh Inr sample_receive_args ([], (failing_machine, sample_remote [1, 2, 3]))
       = Some (r, (out', (m', w'))) \<and>
     r = Inl (CliFailure (InboundObjectFailures 1)) \<and>
     listed_attempts no_xml sample_ssh Inr sample_receive_args (sample_remote [1, 2, 3]) m' attempts \<and>
     failed_attempts attempts = 1 \<and> kept failing_machine m'"
proof -
  have pw: "read_secret_environment Inr (rea_transport_password_env sample_receive_args) = Inr DEFAULT_TRANSPORT_PASSWORD_ENV"
    by (simp add: sample_receive_args_def read_secret_environment_def DEFAULT_TRANSPORT_PASSWORD_ENV_def)
  have dir: "fs_create_dir_all (rea_inbox_dir sample_receive_args) failing_machine =
      Some (Inr (), sample_machine [Fault (OtherError 28) 0])"
    by (simp add: fs_create_dir_all_def attempt_def next_event_def failing_machine_def sample_machine_def)
  obtain m' where poll: "poll_once no_xml (command_poller sample_ssh sample_receive_args DEFAULT_TRANSPORT_PASSWORD_ENV)
      (sample_machine [Fault (OtherError 28) 0], sample_remote [1, 2, 3]) =
     Some (Inr [\<lparr>pa_object = sample_object, pa_result = Inl (PollReceive (ReceiveIo (OtherError 28)))\<rparr>],
       (m', sample_remote [1, 2, 3]))"
    using sample_failing_poll by blast
  obtain out' where run: "run_receive Release no_xml sample_ssh Inr sample_receive_args
      ([], (failing_machine, sample_remote [1, 2, 3])) =
      Some (Inl (CliFailure (InboundObjectFailures 1)) ::
         (unit, unit, unit, unit sftp_inbox_error poll_error) boxed_error + unit, (out', (m', sample_remote [1, 2, 3])))"
    by (simp add: run_receive_run [OF pw] io_bind_def io_map_err_def on_snd_def on_fst_def dir poll receive_report_def
        print_def io_return_def io_result_def)
  have "wf_machine failing_machine" by (simp add: wf_machine_def failing_machine_def sample_machine_def)
  from run_receive_exit [OF run this] run show ?thesis by auto
qed

section \<open>What the artifact carries\<close>

definition file_content :: "machine \<Rightarrow> string \<Rightarrow> bytes option" where
  "file_content m path = map_option (m_data m) (m_dir m path)"

lemma file_content_same: "same_files m u \<Longrightarrow> file_content u = file_content m"
  by (intro ext) (simp add: file_content_def same_files_def)

lemma io_bind_Inr:
  "io_bind p f s = Some (Inr b, t) \<longleftrightarrow> (\<exists>a u. p s = Some (Inr a, u) \<and> f a u = Some (Inr b, t))"
  by (auto simp: io_bind_iff)

lemma io_map_err_Inr: "io_map_err g p s = Some (Inr a, t) \<longleftrightarrow> p s = Some (Inr a, t)"
  unfolding io_map_err_iff by (metis map_err_Inr)

lemmas io_Inr = io_bind_Inr io_map_err_Inr io_result_Inr io_return_iff map_err_Inr

lemma read_file_Inr:
  assumes "read_file path description m = Some (Inr bs, m')"
  shows "file_content m path = Some bs" "same_files m m'"
proof -
  have rd: "fs_read path m = Some (Inr bs, m')"
    using assms by (simp add: read_file_def io_Inr)
  from fs_read_Inr [OF rd] show "file_content m path = Some bs" by (auto simp: file_content_def)
  from quiet_calls(5) [OF rd] show "same_files m m'" .
qed

lemma read_payloads_Inr:
  "read_payloads paths m = Some (Inr payloads :: ('s, 'h, 'b, 'p) boxed_error + mig_payload list, m') \<Longrightarrow>
     \<exists>contents. map (file_content m) paths = map Some contents \<and> payloads = map MigPayload contents \<and> same_files m m'"
proof (induction paths arbitrary: m payloads)
  case Nil
  then show ?case by (simp add: io_return_iff)
next
  case (Cons path paths)
  then obtain bs m1 rest where 1: "read_file path ''MIG XML payload'' m = Some (Inr bs, m1)"
    and 2: "read_payloads paths m1 = Some (Inr rest :: ('s, 'h, 'b, 'p) boxed_error + mig_payload list, m')"
    and 3: "payloads = MigPayload bs # rest"
    by (auto simp: io_Inr mig_payload_new_def split: if_splits)
  from Cons.IH [OF 2] obtain contents where c: "map (file_content m1) paths = map Some contents"
    "rest = map MigPayload contents" "same_files m1 m'" by blast
  from file_content_same [OF read_file_Inr(2) [OF 1]] read_file_Inr [OF 1] c 3 show ?case
    by (intro exI [of _ "bs # contents"]) (auto intro: same_files_trans)
qed

text \<open>An envelope with the routing of the filename and of the arguments.\<close>

definition envelope_of_args :: "common_prepare_args \<Rightarrow> turnkey_pack_filename \<Rightarrow> bytes list \<Rightarrow> invoice_envelope" where
  "envelope_of_args args filename contents =
     \<lparr>env_routing =
        \<lparr>er_from = \<lparr>pin_identifier = tpf_from_party filename, pin_description = ca_from_description args\<rparr>,
         er_from_vac = \<lparr>ri_identifier = ca_from_vac args, ri_description = ca_from_vac_description args\<rparr>,
         er_to = \<lparr>pin_identifier = tpf_to_party filename, pin_description = ca_to_description args\<rparr>,
         er_to_vac = \<lparr>ri_identifier = ca_to_vac args, ri_description = ca_to_vac_description args\<rparr>\<rparr>,
      env_metadata = \<lparr>ipm_message_type = mcn_message_type (tpf_common_name filename), ipm_version = V4_1\<rparr>,
      env_payloads = map MigPayload contents\<rparr>"

lemma build_plan_Inr:
  assumes "build_submission_plan args m = Some (Inr plan :: ('s, 'h, 'b, 'p) boxed_error + submission_plan, m')"
  shows "\<exists>filename contents. pack_filename_parse (ca_filename args) = Inr filename \<and>
    map (file_content m) (ca_mig args) = map Some contents \<and>
    sp_filename plan = filename \<and> sp_envelope plan = envelope_of_args args filename contents"
proof -
  from assms obtain filename payloads m1 where f: "pack_filename_parse (ca_filename args) = Inr filename"
    and p: "read_payloads (ca_mig args) m = Some (Inr payloads :: ('s, 'h, 'b, 'p) boxed_error + mig_payload list, m1)"
    and plan: "sp_filename plan = filename" "sp_envelope plan = envelope_of_args args filename []\<lparr>env_payloads := payloads\<rparr>"
    unfolding build_submission_plan_def
    by (auto simp: io_Inr envelope_new_def envelope_of_args_def submission_plan_new_def split: if_splits)
  from read_payloads_Inr [OF p] f plan show ?thesis by (auto simp: envelope_of_args_def)
qed

text \<open>
  C7.  What the prepared artifact carries is what the files say: with the
  line feeds removed it is the Base64 text of a signed message whose content is the envelope for
  the parties of the given filename around the contents of the given MIG files, in the order of
  the arguments, unchanged but for line endings; there are as many as the filename announces,
  and no file has changed.
\<close>

theorem artifact_carries_files:
  assumes "prepare encode ossl var args m =
      Some (Inr prepared :: ('e pfx_signer_error, 'h, 'b, 'p) boxed_error + prepared_submission, m')"
    and "base64_like encode" and "length (sa_upload_bytes (pps_artifact prepared)) < 2 ^ 64"
  shows "\<exists>contents cms. map (file_content m) (ca_mig args) = map Some contents \<and>
    pack_filename_parse (ca_filename args) = Inr (pps_filename prepared) \<and>
    sint (tpf_pack_count (pps_filename prepared)) = int (length contents) \<and>
    dearmored (pps_artifact prepared) = encode cms \<and>
    attached_content cms = Some (as_bytes
      (push_envelope_header (envelope_of_args args (pps_filename prepared) contents) @
       concat (map (\<lambda>c. unix_text (of_bytes c)) contents) @ ''</InvoicePack>'' @ [lf] @ ''</InvoiceEnvelope>'' @ [lf])) \<and>
    same_files m m'"
proof -
  from assms(1) obtain m1 signer plan where m1: "same_files m m1"
    and b: "build_submission_plan args m1 =
      Some (Inr plan :: ('e pfx_signer_error, 'h, 'b, 'p) boxed_error + submission_plan, m')"
    and s: "prepare_submission encode ps_signature_algorithm (pfx_sign_attached ossl) plan signer = Inr prepared"
    unfolding prepare_def
    by (auto simp: io_Inr dest!: read_file_quiet)
  obtain contents where c: "map (file_content m) (ca_mig args) = map Some contents"
    "pack_filename_parse (ca_filename args) = Inr (sp_filename plan)"
    "sp_envelope plan = envelope_of_args args (sp_filename plan) contents"
    using build_plan_Inr [OF b] file_content_same [OF m1] by auto
  note p = prepare_submission_Inr [OF s]
  have pack: "pack_and_sign encode ps_signature_algorithm (pfx_sign_attached ossl) (sp_envelope plan) signer =
      Inr (pps_artifact prepared)"
    using s p(1) plan_count_fits(1) [OF p(1)] by (auto simp: prepare_submission_def Let_def result_iff ok_or_def)
  obtain env cms where env: "to_turnkey_xml (sp_envelope plan) = Inr env"
    "dearmored (pps_artifact prepared) = encode cms" "attached_content cms = Some env"
    using pfx.artifact_carries_envelope [OF pack assms(2,3)] by blast
  have "env_payloads (sp_envelope plan) = map MigPayload contents" by (simp add: c(3) envelope_of_args_def)
  moreover from this p(1) have "sint (tpf_pack_count (sp_filename plan)) = int (length contents)"
    by (simp add: plan_consistent_def Let_def)
  moreover have "same_files m m'" using prepare_quiet [OF assms(1)] .
  ultimately show ?thesis
    using env c p(2) unfolding to_turnkey_xml_Inr
    by (intro exI [of _ contents] exI [of _ cms]) (simp add: payload_text_def comp_def)
qed

theorem artifact_carries_files_witness:
  "\<exists>prepared contents cms.
     prepare hex_like sample_ossl Inr (sua_common sample_args) sample_disk =
       Some (Inr prepared :: (unit pfx_signer_error, unit, unit, unit) boxed_error + prepared_submission, sample_disk) \<and>
     map (file_content sample_disk) [''invoice.xml''] = map Some contents \<and>
     contents = [as_bytes ''<Invoice/>''] \<and> dearmored (pps_artifact prepared) = hex_like cms \<and>
     (\<exists>env. attached_content cms = Some env)"
proof -
  obtain ps where prep: "prepare hex_like sample_ossl Inr (sua_common sample_args) sample_disk =
      Some (Inr ps :: (unit pfx_signer_error, unit, unit, unit) boxed_error + prepared_submission, sample_disk)"
    and ps: "pps_artifact ps = sample_artifact"
    using sample_cli_prepare by blast
  have "length (sa_upload_bytes (pps_artifact ps)) < 2 ^ 64" using sample_artifact_length by (simp add: ps)
  from artifact_carries_files [OF prep base64_like_hex this] obtain contents cms where
    "map (file_content sample_disk) (ca_mig (sua_common sample_args)) = map Some contents"
    "dearmored (pps_artifact ps) = hex_like cms" "\<exists>env. attached_content cms = Some env"
    by blast
  moreover have mig: "ca_mig (sua_common sample_args) = [''invoice.xml'']" by (simp add: sample_args_def)
  moreover from calculation(1) have "contents = [as_bytes ''<Invoice/>'']"
    unfolding mig by (cases contents) (simp_all add: file_content_def sample_disk_def)
  ultimately show ?thesis using prep unfolding mig by blast
qed

end
