(* ===== verification/Submit_Success.thy ===== *)
theory Submit_Success
  imports Cli_Properties
begin

text \<open>
  What the success of \<open>submit\<close> means, from the files it reads to the answer of the gateway.
\<close>

lemma native_submit_Inr:
  assumes "native_submit zw upload notify request w = (Inr receipt, w')"
  obtains p w1 where "prepare_upload_object zw (nsr_signed_local_filename request) (nsr_remote_filename request)
      (nsr_signed_bytes request) (nsr_zip_mode request) = Inr p"
    "upload (puo_remote_filename p) (puo_uploaded_bytes p) w = (Inr (), w1)"
    "notify (notification_of (nsr_metadata request) p) w1 = (Inr (rcp_gateway_status receipt), w')"
    "is_accepted (rcp_gateway_status receipt)" "rcp_remote_filename receipt = puo_remote_filename p"
proof -
  from assms obtain p where p: "prepare_upload_object zw (nsr_signed_local_filename request) (nsr_remote_filename request)
      (nsr_signed_bytes request) (nsr_zip_mode request) = Inr p"
    unfolding native_submit_def by (auto split: sum.splits)
  obtain u w1 where u: "upload (puo_remote_filename p) (puo_uploaded_bytes p) w = (u, w1)"
    by (cases "upload (puo_remote_filename p) (puo_uploaded_bytes p) w")
  obtain q w2 where q: "notify (notification_of (nsr_metadata request) p) w1 = (q, w2)"
    by (cases "notify (notification_of (nsr_metadata request) p) w1")
  from assms p u q show thesis
    unfolding native_submit_def by (cases u; cases q) (auto simp: Let_def intro!: that split: if_splits)
qed

lemma prepared_submit_Inr:
  assumes prep: "prepare_submission encode algorithm sign plan signer = Inr ps"
    and run: "prepared_submit zw upload notify ps w = (Inr receipt, w')"
  obtains bytes n w1 where "upload_bytes_of zw (pack_filename_render (sp_filename plan))
        (sa_upload_bytes (pps_artifact ps)) (sp_zip_mode plan) = Inr bytes"
    "upload (remote_filename (sp_filename plan)) bytes w = (Inr (), w1)"
    "notify n w1 = (Inr (rcp_gateway_status receipt), w')" "gps_status_code (rcp_gateway_status receipt) = 0"
    "notification_of_plan plan n" "rcp_remote_filename receipt = remote_filename (sp_filename plan)"
proof -
  note ps = prepare_submission_Inr [OF prep]
  note meta = ps(4) [unfolded metadata_of_plan_def Let_def] and plan = ps(1) [unfolded plan_consistent_def Let_def]
  let ?req = "\<lparr>nsr_signed_local_filename = pack_filename_render (sp_filename plan),
      nsr_remote_filename = remote_filename (sp_filename plan), nsr_signed_bytes = sa_upload_bytes (pps_artifact ps),
      nsr_zip_mode = sp_zip_mode plan, nsr_metadata = pps_metadata ps\<rparr>"
  have "native_submit zw upload notify ?req w = (Inr receipt, w')"
    using run by (cases "native_submit zw upload notify ?req w")
      (auto simp: prepared_submit_def submit_pack_artifact_run Let_def ps(2,3) map_err_Inr split: if_splits)
  then obtain p w1 where p: "prepare_upload_object zw (pack_filename_render (sp_filename plan))
        (remote_filename (sp_filename plan)) (sa_upload_bytes (pps_artifact ps)) (sp_zip_mode plan) = Inr p"
    and steps: "upload (puo_remote_filename p) (puo_uploaded_bytes p) w = (Inr (), w1)"
      "notify (notification_of (pps_metadata ps) p) w1 = (Inr (rcp_gateway_status receipt), w')"
      "is_accepted (rcp_gateway_status receipt)" "rcp_remote_filename receipt = puo_remote_filename p"
    by (rule native_submit_Inr) simp
  from p have up: "upload_bytes_of zw (pack_filename_render (sp_filename plan)) (sa_upload_bytes (pps_artifact ps))
      (sp_zip_mode plan) = Inr (puo_uploaded_bytes p)"
    "puo_remote_filename p = remote_filename (sp_filename plan)" "puo_zip_mode p = sp_zip_mode plan"
    by (auto simp: prepare_upload_Inr)
  have "notification_of_plan plan (notification_of (pps_metadata ps) p)"
    using meta plan up by (auto simp: notification_of_plan_def Let_def notification_of_def party_for_gateway_def)
  with steps up show thesis by (intro that) (simp_all add: is_accepted_def)
qed

text \<open>The plan of the arguments, for the parsed filename and the contents of the files.\<close>

definition plan_of_args :: "common_prepare_args \<Rightarrow> turnkey_pack_filename \<Rightarrow> bytes list \<Rightarrow> submission_plan" where
  "plan_of_args args filename contents =
     submission_plan_new (envelope_of_args args filename contents) filename (into_service_type (ca_service args))
       (into_zip_mode (ca_zip args)) (ca_action args)
       (gateway_version_profile_new (ca_api_version args) (ca_turnkey_version args))"

lemma build_plan_exact:
  assumes "build_submission_plan args m = Some (Inr plan :: ('s, 'h, 'b, 'p) boxed_error + submission_plan, m')"
  shows "\<exists>filename contents. pack_filename_parse (ca_filename args) = Inr filename \<and>
    map (file_content m) (ca_mig args) = map Some contents \<and> plan = plan_of_args args filename contents"
proof -
  from assms obtain filename payloads m1 where f: "pack_filename_parse (ca_filename args) = Inr filename"
    and p: "read_payloads (ca_mig args) m = Some (Inr payloads :: ('s, 'h, 'b, 'p) boxed_error + mig_payload list, m1)"
    and plan: "plan = (plan_of_args args filename [])\<lparr>sp_envelope :=
      envelope_of_args args filename []\<lparr>env_payloads := payloads\<rparr>\<rparr>"
    unfolding build_submission_plan_def
    by (auto simp: io_Inr envelope_new_def envelope_of_args_def submission_plan_new_def plan_of_args_def split: if_splits)
  from read_payloads_Inr [OF p] f plan show ?thesis
    by (auto simp: envelope_of_args_def plan_of_args_def submission_plan_new_def)
qed

lemma prepare_Inr:
  assumes "prepare encode ossl var args m =
    Some (Inr ps :: ('e pfx_signer_error, 'h, 'b, 'p) boxed_error + prepared_submission, m')"
  shows "\<exists>filename contents signer. pack_filename_parse (ca_filename args) = Inr filename \<and>
    map (file_content m) (ca_mig args) = map Some contents \<and>
    prepare_submission encode ps_signature_algorithm (pfx_sign_attached ossl) (plan_of_args args filename contents) signer =
      Inr ps"
proof -
  from assms obtain m1 signer plan where m1: "same_files m m1"
    and b: "build_submission_plan args m1 =
      Some (Inr plan :: ('e pfx_signer_error, 'h, 'b, 'p) boxed_error + submission_plan, m')"
    and s: "prepare_submission encode ps_signature_algorithm (pfx_sign_attached ossl) plan signer = Inr ps"
    unfolding prepare_def by (auto simp: io_Inr dest!: read_file_quiet)
  from build_plan_exact [OF b] s file_content_same [OF m1] show ?thesis by auto
qed

text \<open>The uploader and the notifier that the command builds.\<close>

definition command_upload ::
  "('addr, 'tcp, 'ses, 'known, 'sftp, 'file, 'x, 'w) ssh \<Rightarrow> submit_args \<Rightarrow> string \<Rightarrow> ('x sftp_upload_error, 'w) uploader" where
  "command_upload ssh args password =
     sftp_upload ssh (sftp_config_new (pe_sftp_host (endpoints (sua_environment args))) (sua_known_hosts args))
       (sftp_credentials_new (sua_transport_id args) password)"

definition command_notifier ::
  "('client, 'status, 'q, 'j, 'w) http_backend \<Rightarrow> submit_args \<Rightarrow> string \<Rightarrow>
     ('status, 'q, 'j) pfs001_http_error + 'client pfs001_http_client" where
  "command_notifier hb args password =
     pfs001_new hb (pe_gateway_base (endpoints (sua_environment args)))
       (gateway_credentials_new (sua_transport_id args) password)"

lemma submit_prepared_Inr:
  assumes "submit_prepared zw ssh hb var args prepared (out, (m, w)) =
    Some (Inr () :: ('e, 'status, 'q, 'j, 'z, 'io, 'x, 'p) submit_error + unit, (out', (m', w')))"
  obtains password notifier receipt where
    "read_secret_environment var (sua_transport_password_env args) = Inr password"
    "command_notifier hb args password = Inr notifier"
    "prepared_submit zw (command_upload ssh args password) (pfs001_notify hb notifier) prepared w = (Inr receipt, w')"
    "m' = m" "out' = out @ [SubmittingReport (label (sua_environment args)) (remote_filename (pps_filename prepared)),
      SubmittedReport (rcp_remote_filename receipt) (gps_status_code (rcp_gateway_status receipt))]"
  using assms unfolding submit_prepared_def Let_def io_Inr print_iff command_upload_def [symmetric]
    command_notifier_def [symmetric]
  by (auto simp: io_of_def on_snd_iff print_iff intro!: that)

text \<open>
  C5.  Success of \<open>submit\<close> means that everything happened: from the contents of
  the MIG files a submission was prepared for the given filename; its exact artifact is in the
  output file, in the cache and on disk; the artifact, archived in ZIP mode, was uploaded under
  the filename's common name, before the gateway was notified; the notification states the
  parties, type, version and count of filename and envelope; the gateway accepted it, and nothing
  else happened on the network.  The printed reports say so.
\<close>

theorem submit_success:
  assumes "run_submit encode ossl zw ssh hb var args (out, (m, w)) =
    Some (Inr () :: ('e, 'status, 'q, 'j, 'z, 'io, 'x, 'p) submit_error + unit, (out', (m', w')))"
  shows "\<exists>filename contents signer prepared password notifier bytes n status w1.
    pack_filename_parse (ca_filename (sua_common args)) = Inr filename \<and>
    map (file_content m) (ca_mig (sua_common args)) = map Some contents \<and>
    prepare_submission encode ps_signature_algorithm (pfx_sign_attached ossl)
      (plan_of_args (sua_common args) filename contents) signer = Inr prepared \<and>
    artifact_stored (ca_output (sua_common args)) (sa_upload_bytes (pps_artifact prepared)) m' \<and>
    read_secret_environment var (sua_transport_password_env args) = Inr password \<and>
    command_notifier hb args password = Inr notifier \<and>
    upload_bytes_of zw (pack_filename_render filename) (sa_upload_bytes (pps_artifact prepared))
      (into_zip_mode (ca_zip (sua_common args))) = Inr bytes \<and>
    command_upload ssh args password (remote_filename filename) bytes w = (Inr (), w1) \<and>
    pfs001_notify hb notifier n w1 = (Inr status, w') \<and> gps_status_code status = 0 \<and>
    notification_of_plan (plan_of_args (sua_common args) filename contents) n \<and>
    out' = out @
      [PreparedReport (ca_output (sua_common args)) (pack_filename_render filename) (remote_filename filename)
         (turnkey_reported_size (pps_artifact prepared)) (sa_signature_algorithm (pps_artifact prepared)),
       SubmittingReport (label (sua_environment args)) (remote_filename filename),
       SubmittedReport (remote_filename filename) 0]"
proof -
  let ?c = "sua_common args"
  obtain prepared m1 m2 where
    prep: "prepare encode ossl var ?c m =
      Some (Inr prepared :: ('e, 'status, 'q, 'j, 'z, 'io, 'x, 'p) submit_error + prepared_submission, m1)"
    and store: "persist_artifact (ca_output ?c) (sa_upload_bytes (pps_artifact prepared)) (ca_force_output ?c) m1 =
      Some (Inr (), m2)"
    and sub: "submit_prepared zw ssh hb var args prepared (out @ [PreparedReport (ca_output ?c)
        (pack_filename_render (pps_filename prepared)) (remote_filename (pps_filename prepared))
        (turnkey_reported_size (pps_artifact prepared)) (sa_signature_algorithm (pps_artifact prepared))], (m2, w)) =
      Some (Inr () :: ('e, 'status, 'q, 'j, 'z, 'io, 'x, 'p) submit_error + unit, (out', (m', w')))"
    using assms unfolding run_submit_def io_Inr on_snd_iff on_fst_iff print_prepared_summary_def print_iff by auto
  obtain filename contents signer where plan: "pack_filename_parse (ca_filename ?c) = Inr filename"
    "map (file_content m) (ca_mig ?c) = map Some contents"
    "prepare_submission encode ps_signature_algorithm (pfx_sign_attached ossl) (plan_of_args ?c filename contents) signer =
      Inr prepared"
    using prepare_Inr [OF prep] by blast
  have sp: "sp_filename (plan_of_args ?c filename contents) = filename"
    "sp_zip_mode (plan_of_args ?c filename contents) = into_zip_mode (ca_zip ?c)"
    by (simp_all add: plan_of_args_def submission_plan_new_def)
  have f: "pps_filename prepared = filename" using prepare_submission_Inr(2) [OF plan(3)] by (simp add: sp)
  obtain password notifier receipt where run: "read_secret_environment var (sua_transport_password_env args) = Inr password"
    "command_notifier hb args password = Inr notifier"
    "prepared_submit zw (command_upload ssh args password) (pfs001_notify hb notifier) prepared w = (Inr receipt, w')"
    "m' = m2" "out' = (out @ [PreparedReport (ca_output ?c) (pack_filename_render (pps_filename prepared))
        (remote_filename (pps_filename prepared)) (turnkey_reported_size (pps_artifact prepared))
        (sa_signature_algorithm (pps_artifact prepared))]) @
      [SubmittingReport (label (sua_environment args)) (remote_filename (pps_filename prepared)),
      SubmittedReport (rcp_remote_filename receipt) (gps_status_code (rcp_gateway_status receipt))]"
    using sub by (rule submit_prepared_Inr)
  obtain bytes n w1 where "upload_bytes_of zw (pack_filename_render filename) (sa_upload_bytes (pps_artifact prepared))
        (into_zip_mode (ca_zip ?c)) = Inr bytes"
    "command_upload ssh args password (remote_filename filename) bytes w = (Inr (), w1)"
    "pfs001_notify hb notifier n w1 = (Inr (rcp_gateway_status receipt), w')"
    "gps_status_code (rcp_gateway_status receipt) = 0"
    "notification_of_plan (plan_of_args ?c filename contents) n" "rcp_remote_filename receipt = remote_filename filename"
    using prepared_submit_Inr [OF plan(3) run(3)] unfolding sp by blast
  moreover have "artifact_stored (ca_output ?c) (sa_upload_bytes (pps_artifact prepared)) m'"
    using persist_artifact_phase(2) [OF store] run(4) by simp
  moreover have "out' = out @
      [PreparedReport (ca_output ?c) (pack_filename_render filename) (remote_filename filename)
         (turnkey_reported_size (pps_artifact prepared)) (sa_signature_algorithm (pps_artifact prepared)),
       SubmittingReport (label (sua_environment args)) (remote_filename filename),
       SubmittedReport (remote_filename filename) 0]"
    using run(5) calculation unfolding f by simp
  ultimately show ?thesis using plan run(1,2) by blast
qed

theorem submit_success_witness:
  "\<exists>out' m' w' n.
     run_submit hex_like sample_ossl sample_zip sample_cli_ssh sample_http Inr sample_args
       ([] :: unit report list, (sample_disk, sample_remote [])) =
     Some (Inr () :: (unit, unit, unit, unit, unit, unit, unit, unit) submit_error + unit, (out', (m', w'))) \<and>
     length out' = 3 \<and>
     (\<exists>filename contents. pack_filename_parse (ca_filename (sua_common sample_args)) = Inr filename \<and>
        map (file_content sample_disk) [''invoice.xml''] = map Some contents \<and>
        notification_of_plan (plan_of_args (sua_common sample_args) filename contents) n)"
proof -
  obtain m' and out' :: "unit report list" where run:
    "run_submit hex_like sample_ossl sample_zip sample_cli_ssh sample_http Inr sample_args
       ([] :: unit report list, (sample_disk, sample_remote [])) =
     Some (Inr () :: (unit, unit, unit, unit, unit, unit, unit, unit) submit_error + unit,
       (out', (m', (sample_remote [])\<lparr>sw_content := sa_upload_bytes sample_artifact\<rparr>)))"
    using sample_run_submit by blast
  have mig: "ca_mig (sua_common sample_args) = [''invoice.xml'']" by (simp add: sample_args_def)
  from submit_success [OF run, unfolded mig] obtain filename contents n where
    "pack_filename_parse (ca_filename (sua_common sample_args)) = Inr filename"
    "map (file_content sample_disk) [''invoice.xml''] = map Some contents"
    "notification_of_plan (plan_of_args (sua_common sample_args) filename contents) n" "length out' = 3"
    by fastforce
  with run show ?thesis by blast
qed

end
