(* ===== verification/F0401.thy ===== *)
theory F0401
  imports Mig_Primitives
begin

text \<open>
  \<open>crates/einvoice-mig/src/f0401.rs\<close> (data, constructor, validation) and the report types of
  \<open>crates/einvoice-mig/src/lib.rs\<close>.  Functions that push into \<open>&mut ValidationReport\<close> take the
  report last and return it.
\<close>

named_theorems report_valid \<open>when a report is still empty after a check\<close>

section \<open>Reports\<close>

record validation_issue =
  vi_path :: "string option"
  vi_code :: string
  vi_message :: string

record validation_report =
  vr_issues :: "validation_issue list"

definition empty_report :: validation_report where
  "empty_report = \<lparr>vr_issues = []\<rparr>"

definition is_valid :: "validation_report \<Rightarrow> bool" where
  "is_valid report \<longleftrightarrow> vr_issues report = []"

definition push_issue :: "string \<Rightarrow> string \<Rightarrow> string \<Rightarrow> validation_report \<Rightarrow> validation_report" where
  "push_issue path code message report =
     report\<lparr>vr_issues := vr_issues report @
       [\<lparr>vi_path = Some path, vi_code = code, vi_message = message\<rparr>]\<rparr>"

section \<open>The document\<close>

record role_description =
  rd_identifier :: ban
  rd_name :: string
  rd_address :: "string option"
  rd_person_in_charge :: "string option"
  rd_telephone_number :: "string option"
  rd_facsimile_number :: "string option"
  rd_email_address :: "string option"
  rd_customer_number :: "string option"
  rd_role_remark :: "string option"

definition role_description_new :: "ban \<Rightarrow> string \<Rightarrow> role_description" where
  "role_description_new identifier name =
     \<lparr>rd_identifier = identifier, rd_name = name, rd_address = None, rd_person_in_charge = None,
      rd_telephone_number = None, rd_facsimile_number = None, rd_email_address = None,
      rd_customer_number = None, rd_role_remark = None\<rparr>"

record f0401_main =
  fm_invoice_number :: invoice_number
  fm_invoice_date :: mig_date
  fm_invoice_time :: mig_time
  fm_seller :: role_description
  fm_buyer :: role_description
  fm_buyer_remark :: "buyer_remark option"
  fm_main_remark :: "string option"
  fm_customs_clearance_mark :: "customs_clearance_mark option"
  fm_category :: "string option"
  fm_relate_number :: "string option"
  fm_invoice_type :: invoice_type
  fm_group_mark :: "string option"
  fm_donate_mark :: donate_mark
  fm_carrier_type :: "string option"
  fm_carrier_id1 :: "string option"
  fm_carrier_id2 :: "string option"
  fm_print_mark :: print_mark
  fm_npo_ban :: "ban option"
  fm_random_number :: "string option"
  fm_bonded_area_confirm :: "bonded_area option"
  fm_zero_tax_rate_reason :: "zero_tax_rate_reason option"
  fm_reserved1 :: "string option"
  fm_reserved2 :: "string option"

record product_item =
  pi_description :: string
  pi_quantity :: mig_decimal
  pi_unit :: "string option"
  pi_unit_price :: mig_decimal
  pi_tax_type :: tax_type
  pi_amount :: mig_decimal
  pi_sequence_number :: string
  pi_remark :: "string option"
  pi_relate_number :: "string option"

definition product_item_new ::
  "string \<Rightarrow> mig_decimal \<Rightarrow> mig_decimal \<Rightarrow> tax_type \<Rightarrow> mig_decimal \<Rightarrow> string \<Rightarrow> product_item" where
  "product_item_new description quantity unit_price tax_type amount sequence_number =
     \<lparr>pi_description = description, pi_quantity = quantity, pi_unit = None,
      pi_unit_price = unit_price, pi_tax_type = tax_type, pi_amount = amount,
      pi_sequence_number = sequence_number, pi_remark = None, pi_relate_number = None\<rparr>"

record f0401_amount =
  fa_sales_amount :: mig_decimal
  fa_free_tax_sales_amount :: mig_decimal
  fa_zero_tax_sales_amount :: mig_decimal
  fa_tax_type :: tax_type
  fa_tax_rate :: tax_rate
  fa_tax_amount :: mig_decimal
  fa_total_amount :: mig_decimal
  fa_discount_amount :: "mig_decimal option"
  fa_original_currency_amount :: "mig_decimal option"
  fa_exchange_rate :: "mig_decimal option"
  fa_currency :: "currency_code option"

record f0401_invoice =
  fi_main :: f0401_main
  fi_details :: "product_item list"
  fi_amount :: f0401_amount

datatype f0401_structure_error =
    NoProductItems
  | TooManyProductItems nat nat

definition MAX_PRODUCT_ITEMS :: nat where
  "MAX_PRODUCT_ITEMS = 9999"

definition f0401_new ::
  "f0401_main \<Rightarrow> product_item list \<Rightarrow> f0401_amount \<Rightarrow> f0401_structure_error + f0401_invoice" where
  "f0401_new main details amount =
     (if length details = 0 then Inl NoProductItems
      else if length details > MAX_PRODUCT_ITEMS
      then Inl (TooManyProductItems (length details) MAX_PRODUCT_ITEMS)
      else Inr \<lparr>fi_main = main, fi_details = details, fi_amount = amount\<rparr>)"

section \<open>Facet checks\<close>

definition check_decimal ::
  "mig_decimal \<Rightarrow> nat \<Rightarrow> nat \<Rightarrow> bool \<Rightarrow> string \<Rightarrow> validation_report \<Rightarrow> validation_report" where
  "check_decimal value max_total max_fraction non_negative path report =
     (case mig_decimal_parse (mig_decimal_str value) max_total max_fraction non_negative of
        Inl error \<Rightarrow> push_issue path ''MIG_DECIMAL_CONSTRAINT'' (primitive_error_to_string error) report
      | Inr _ \<Rightarrow> report)"

definition check_required_max ::
  "string \<Rightarrow> nat \<Rightarrow> string \<Rightarrow> validation_report \<Rightarrow> validation_report" where
  "check_required_max value limit path report =
     (let len = char_count value in
      if value = [] \<or> len > limit
      then push_issue path ''MIG_STRING_LENGTH''
             (''value must contain 1 through '' @ dec limit @ '' characters'') report
      else report)"

definition check_max ::
  "string option \<Rightarrow> nat \<Rightarrow> string \<Rightarrow> validation_report \<Rightarrow> validation_report" where
  "check_max value limit path report =
     (if (case value of None \<Rightarrow> False | Some v \<Rightarrow> char_count v > limit)
      then push_issue path ''MIG_STRING_LENGTH''
             (''value must contain at most '' @ dec limit @ '' characters'') report
      else report)"

definition check_exact ::
  "string option \<Rightarrow> nat \<Rightarrow> string \<Rightarrow> validation_report \<Rightarrow> validation_report" where
  "check_exact value len path report =
     (if (case value of None \<Rightarrow> False | Some v \<Rightarrow> char_count v \<noteq> len)
      then push_issue path ''MIG_STRING_LENGTH''
             (''value must contain exactly '' @ dec len @ '' characters'') report
      else report)"

definition is_four_digits :: "string \<Rightarrow> bool" where
  "is_four_digits value \<longleftrightarrow> length value = 4 \<and> list_all is_ascii_digit (as_bytes value)"

definition validate_date :: "mig_date \<Rightarrow> string \<Rightarrow> validation_report \<Rightarrow> validation_report" where
  "validate_date date path report =
     (if \<not> is_calendar_date date
      then push_issue path ''MIG_DATE_NOT_GREGORIAN''
        ''date passes the MIG lexical shape but is not a real Gregorian calendar date'' report
      else report)"

section \<open>Schema constraints\<close>

definition validate_role_schema ::
  "role_description \<Rightarrow> string \<Rightarrow> validation_report \<Rightarrow> validation_report" where
  "validate_role_schema role path report =
     (let report = check_required_max (rd_name role) 60 (path @ ''/Name'') report;
          report = check_max (rd_address role) 100 (path @ ''/Address'') report;
          report = check_max (rd_person_in_charge role) 30 (path @ ''/PersonInCharge'') report;
          report = check_max (rd_telephone_number role) 26 (path @ ''/TelephoneNumber'') report;
          report = check_max (rd_facsimile_number role) 26 (path @ ''/FacsimileNumber'') report;
          report = check_max (rd_email_address role) 400 (path @ ''/EmailAddress'') report;
          report = check_max (rd_customer_number role) 20 (path @ ''/CustomerNumber'') report
      in check_exact (rd_role_remark role) 40 (path @ ''/RoleRemark'') report)"

definition validate_main_schema :: "f0401_main \<Rightarrow> validation_report \<Rightarrow> validation_report" where
  "validate_main_schema main report =
     (let report = validate_role_schema (fm_seller main) ''Invoice/Main/Seller'' report;
          report = validate_role_schema (fm_buyer main) ''Invoice/Main/Buyer'' report;
          report = check_max (fm_main_remark main) 200 ''Invoice/Main/MainRemark'' report;
          report = check_max (fm_category main) 2 ''Invoice/Main/Category'' report;
          report = check_max (fm_relate_number main) 20 ''Invoice/Main/RelateNumber'' report;
          report = check_exact (fm_group_mark main) 1 ''Invoice/Main/GroupMark'' report;
          report = check_max (fm_carrier_type main) 6 ''Invoice/Main/CarrierType'' report;
          report = check_max (fm_carrier_id1 main) 400 ''Invoice/Main/CarrierId1'' report;
          report = check_max (fm_carrier_id2 main) 400 ''Invoice/Main/CarrierId2'' report;
          report = check_max (fm_reserved1 main) 20 ''Invoice/Main/Reserved1'' report;
          report = check_max (fm_reserved2 main) 100 ''Invoice/Main/Reserved2'' report
      in if (case fm_random_number main of None \<Rightarrow> False | Some value \<Rightarrow> \<not> is_four_digits value)
         then push_issue ''Invoice/Main/RandomNumber'' ''F0401_RANDOM_NUMBER_FORMAT''
           ''RandomNumber must contain exactly four ASCII digits'' report
         else report)"

definition item_base :: "nat \<Rightarrow> string" where
  "item_base index = ''Invoice/Details/ProductItem['' @ dec (index + 1) @ '']''"

definition validate_item_schema :: "nat \<Rightarrow> product_item \<Rightarrow> validation_report \<Rightarrow> validation_report" where
  "validate_item_schema index item report =
     (let base = item_base index;
          report = check_required_max (pi_description item) 500 (base @ ''/Description'') report;
          report = check_max (pi_unit item) 6 (base @ ''/Unit'') report;
          report = check_required_max (pi_sequence_number item) 4 (base @ ''/SequenceNumber'') report;
          report = check_max (pi_remark item) 120 (base @ ''/Remark'') report;
          report = check_max (pi_relate_number item) 50 (base @ ''/RelateNumber'') report;
          report = check_decimal (pi_quantity item) 20 7 False (base @ ''/Quantity'') report;
          report = check_decimal (pi_unit_price item) 20 7 False (base @ ''/UnitPrice'') report
      in check_decimal (pi_amount item) 20 7 False (base @ ''/Amount'') report)"

text \<open>\<open>for (index, item) in details.iter().enumerate()\<close>, from \<open>index\<close> on.\<close>

fun for_items ::
  "(nat \<Rightarrow> product_item \<Rightarrow> validation_report \<Rightarrow> validation_report) \<Rightarrow>
     nat \<Rightarrow> product_item list \<Rightarrow> validation_report \<Rightarrow> validation_report" where
  "for_items body index [] report = report"
| "for_items body index (item # items) report = for_items body (Suc index) items (body index item report)"

definition validate_details_schema ::
  "product_item list \<Rightarrow> validation_report \<Rightarrow> validation_report" where
  "validate_details_schema details report = for_items validate_item_schema 0 details report"

definition check_optional_decimal ::
  "mig_decimal option \<Rightarrow> nat \<Rightarrow> nat \<Rightarrow> bool \<Rightarrow> string \<Rightarrow> validation_report \<Rightarrow> validation_report" where
  "check_optional_decimal value max_total max_fraction non_negative path report =
     (case value of None \<Rightarrow> report
      | Some v \<Rightarrow> check_decimal v max_total max_fraction non_negative path report)"

definition validate_amount_schema :: "f0401_amount \<Rightarrow> validation_report \<Rightarrow> validation_report" where
  "validate_amount_schema amount report =
     (let report = check_decimal (fa_sales_amount amount) 20 7 True ''Invoice/Amount/SalesAmount'' report;
          report = check_decimal (fa_free_tax_sales_amount amount) 20 7 True
                     ''Invoice/Amount/FreeTaxSalesAmount'' report;
          report = check_decimal (fa_zero_tax_sales_amount amount) 20 7 True
                     ''Invoice/Amount/ZeroTaxSalesAmount'' report;
          report = check_decimal (fa_tax_amount amount) 20 0 True ''Invoice/Amount/TaxAmount'' report;
          report = check_decimal (fa_total_amount amount) 20 7 True ''Invoice/Amount/TotalAmount'' report;
          report = check_optional_decimal (fa_discount_amount amount) 20 7 True
                     ''Invoice/Amount/DiscountAmount'' report;
          report = check_optional_decimal (fa_original_currency_amount amount) 20 7 True
                     ''Invoice/Amount/OriginalCurrencyAmount'' report
      in check_optional_decimal (fa_exchange_rate amount) 13 5 True ''Invoice/Amount/ExchangeRate'' report)"

definition validate_schema_constraints :: "f0401_invoice \<Rightarrow> validation_report" where
  "validate_schema_constraints invoice =
     (let report = empty_report;
          report = validate_main_schema (fi_main invoice) report;
          report = validate_details_schema (fi_details invoice) report
      in validate_amount_schema (fi_amount invoice) report)"

section \<open>Semantic constraints\<close>

definition validate_item_semantics :: "nat \<Rightarrow> product_item \<Rightarrow> validation_report \<Rightarrow> validation_report" where
  "validate_item_semantics index item report =
     (let base = item_base index;
          report =
            (if pi_tax_type item = Mixed
             then push_issue (base @ ''/TaxType'') ''F0401_PRODUCT_MIXED_TAX_FORBIDDEN''
               ''ProductItem TaxType must not use mixed-tax value 9'' report
             else report)
      in if pi_sequence_number item \<noteq> dec (index + 1)
         then push_issue (base @ ''/SequenceNumber'') ''F0401_SEQUENCE_NOT_CONTIGUOUS''
           ''SequenceNumber should follow the invoice-detail order starting at 1'' report
         else report)"

definition validate_print_semantics :: "f0401_main \<Rightarrow> validation_report \<Rightarrow> validation_report" where
  "validate_print_semantics main report =
     (if fm_print_mark main = Print
      then
        (let report =
           (if fm_carrier_type main \<noteq> None \<or> fm_carrier_id1 main \<noteq> None \<or> fm_carrier_id2 main \<noteq> None
            then push_issue ''Invoice/Main/PrintMark'' ''F0401_PRINT_WITH_CARRIER''
              ''CarrierType, CarrierId1 and CarrierId2 must be omitted when PrintMark is Y'' report
            else report)
         in if fm_donate_mark main \<noteq> NotDonated
            then push_issue ''Invoice/Main/DonateMark'' ''F0401_PRINT_DONATION_CONFLICT''
              ''DonateMark must be 0 when PrintMark is Y'' report
            else report)
      else report)"

definition validate_buyer_semantics :: "f0401_main \<Rightarrow> validation_report \<Rightarrow> validation_report" where
  "validate_buyer_semantics main report =
     (let buyer_is_consumer = is_b2c_buyer (rd_identifier (fm_buyer main));
          report =
            (if buyer_is_consumer \<and> rd_name (fm_buyer main) \<in> {''0'', ''00'', ''000'', ''0000''}
             then push_issue ''Invoice/Main/Buyer/Name'' ''F0401_B2C_BUYER_NAME_INVALID''
               ''consumer identification text must not be 0, 00, 000 or 0000'' report
             else report)
      in case (fm_random_number main, buyer_is_consumer) of
           (None, True) \<Rightarrow>
             push_issue ''Invoice/Main/RandomNumber'' ''F0401_B2C_RANDOM_NUMBER_REQUIRED''
               ''RandomNumber is required when the buyer identifier is 0000000000'' report
         | (Some _, False) \<Rightarrow>
             push_issue ''Invoice/Main/RandomNumber'' ''F0401_B2B_RANDOM_NUMBER_FORBIDDEN''
               ''RandomNumber must be omitted for a business or organization buyer'' report
         | _ \<Rightarrow> report)"

definition zero_rated :: "f0401_invoice \<Rightarrow> bool" where
  "zero_rated invoice \<longleftrightarrow> fa_tax_type (fi_amount invoice) = ZeroRated \<or>
     list_ex (\<lambda>item. pi_tax_type item = ZeroRated) (fi_details invoice)"

definition validate_semantics :: "f0401_invoice \<Rightarrow> validation_report" where
  "validate_semantics invoice =
     (let main = fi_main invoice;
          report = empty_report;
          report = validate_date (fm_invoice_date main) ''Invoice/Main/InvoiceDate'' report;
          report =
            (if (case rd_address (fm_seller main) of None \<Rightarrow> True | Some address \<Rightarrow> address = [])
             then push_issue ''Invoice/Main/Seller/Address'' ''F0401_SELLER_ADDRESS_REQUIRED''
               ''seller Address is required for F0401'' report
             else report);
          report = validate_buyer_semantics main report;
          report = validate_print_semantics main report;
          report =
            (if zero_rated invoice \<and> fm_zero_tax_rate_reason main = None
             then push_issue ''Invoice/Main/ZeroTaxRateReason'' ''F0401_ZERO_RATE_REASON_REQUIRED''
               ''ZeroTaxRateReason is required when zero-rated tax is used'' report
             else report)
      in for_items validate_item_semantics 0 (fi_details invoice) report)"

definition f0401_validate :: "f0401_invoice \<Rightarrow> validation_report" where
  "f0401_validate invoice =
     (let report = validate_schema_constraints invoice
      in report\<lparr>vr_issues := vr_issues report @ vr_issues (validate_semantics invoice)\<rparr>)"

section \<open>What validity means\<close>

definition max_ok :: "nat \<Rightarrow> string option \<Rightarrow> bool" where
  "max_ok limit value \<longleftrightarrow> (\<forall>v \<in> set_option value. char_count v \<le> limit)"

definition exact_ok :: "nat \<Rightarrow> string option \<Rightarrow> bool" where
  "exact_ok len value \<longleftrightarrow> (\<forall>v \<in> set_option value. char_count v = len)"

definition required_ok :: "nat \<Rightarrow> string \<Rightarrow> bool" where
  "required_ok limit value \<longleftrightarrow> value \<noteq> [] \<and> char_count value \<le> limit"

definition decimal_ok :: "nat \<Rightarrow> nat \<Rightarrow> bool \<Rightarrow> mig_decimal \<Rightarrow> bool" where
  "decimal_ok mt mf non_negative d \<longleftrightarrow>
     (\<exists>neg i f. mig_decimal_str d = decimal_text neg i f \<and> all_digits i \<and>
        (case f of None \<Rightarrow> True | Some q \<Rightarrow> all_digits q) \<and> (non_negative \<longrightarrow> \<not> neg) \<and>
        length i + fraction_length f \<le> mt \<and> fraction_length f \<le> mf)"

definition role_ok :: "role_description \<Rightarrow> bool" where
  "role_ok role \<longleftrightarrow>
     required_ok 60 (rd_name role) \<and> max_ok 100 (rd_address role) \<and>
     max_ok 30 (rd_person_in_charge role) \<and> max_ok 26 (rd_telephone_number role) \<and>
     max_ok 26 (rd_facsimile_number role) \<and> max_ok 400 (rd_email_address role) \<and>
     max_ok 20 (rd_customer_number role) \<and> exact_ok 40 (rd_role_remark role)"

definition main_schema_ok :: "f0401_main \<Rightarrow> bool" where
  "main_schema_ok main \<longleftrightarrow>
     role_ok (fm_seller main) \<and> role_ok (fm_buyer main) \<and> max_ok 200 (fm_main_remark main) \<and>
     max_ok 2 (fm_category main) \<and> max_ok 20 (fm_relate_number main) \<and>
     exact_ok 1 (fm_group_mark main) \<and> max_ok 6 (fm_carrier_type main) \<and>
     max_ok 400 (fm_carrier_id1 main) \<and> max_ok 400 (fm_carrier_id2 main) \<and>
     max_ok 20 (fm_reserved1 main) \<and> max_ok 100 (fm_reserved2 main) \<and>
     (\<forall>r \<in> set_option (fm_random_number main). is_four_digits r)"

definition item_schema_ok :: "product_item \<Rightarrow> bool" where
  "item_schema_ok item \<longleftrightarrow>
     required_ok 500 (pi_description item) \<and> max_ok 6 (pi_unit item) \<and>
     required_ok 4 (pi_sequence_number item) \<and> max_ok 120 (pi_remark item) \<and>
     max_ok 50 (pi_relate_number item) \<and> decimal_ok 20 7 False (pi_quantity item) \<and>
     decimal_ok 20 7 False (pi_unit_price item) \<and> decimal_ok 20 7 False (pi_amount item)"

definition amount_schema_ok :: "f0401_amount \<Rightarrow> bool" where
  "amount_schema_ok amount \<longleftrightarrow>
     decimal_ok 20 7 True (fa_sales_amount amount) \<and>
     decimal_ok 20 7 True (fa_free_tax_sales_amount amount) \<and>
     decimal_ok 20 7 True (fa_zero_tax_sales_amount amount) \<and>
     decimal_ok 20 0 True (fa_tax_amount amount) \<and> decimal_ok 20 7 True (fa_total_amount amount) \<and>
     (\<forall>d \<in> set_option (fa_discount_amount amount). decimal_ok 20 7 True d) \<and>
     (\<forall>d \<in> set_option (fa_original_currency_amount amount). decimal_ok 20 7 True d) \<and>
     (\<forall>d \<in> set_option (fa_exchange_rate amount). decimal_ok 13 5 True d)"

definition schema_ok :: "f0401_invoice \<Rightarrow> bool" where
  "schema_ok invoice \<longleftrightarrow>
     main_schema_ok (fi_main invoice) \<and> (\<forall>item \<in> set (fi_details invoice). item_schema_ok item) \<and>
     amount_schema_ok (fi_amount invoice)"

definition buyer_ok :: "f0401_main \<Rightarrow> bool" where
  "buyer_ok main \<longleftrightarrow>
     (if is_b2c_buyer (rd_identifier (fm_buyer main))
      then fm_random_number main \<noteq> None \<and> rd_name (fm_buyer main) \<notin> {''0'', ''00'', ''000'', ''0000''}
      else fm_random_number main = None)"

definition print_ok :: "f0401_main \<Rightarrow> bool" where
  "print_ok main \<longleftrightarrow> fm_print_mark main = DoNotPrint \<or>
     fm_carrier_type main = None \<and> fm_carrier_id1 main = None \<and> fm_carrier_id2 main = None \<and>
     fm_donate_mark main = NotDonated"

definition semantics_ok :: "f0401_invoice \<Rightarrow> bool" where
  "semantics_ok invoice \<longleftrightarrow>
     (let main = fi_main invoice in
      is_calendar_date (fm_invoice_date main) \<and>
      (\<exists>address. rd_address (fm_seller main) = Some address \<and> address \<noteq> []) \<and>
      buyer_ok main \<and> print_ok main \<and>
      (zero_rated invoice \<longrightarrow> fm_zero_tax_rate_reason main \<noteq> None) \<and>
      (\<forall>item \<in> set (fi_details invoice). pi_tax_type item \<noteq> Mixed) \<and>
      map pi_sequence_number (fi_details invoice) = map dec [1..<length (fi_details invoice) + 1])"

lemma empty_valid [report_valid]: "is_valid empty_report"
  by (simp add: is_valid_def empty_report_def)

lemma push_invalid [report_valid]: "\<not> is_valid (push_issue path code message report)"
  by (simp add: is_valid_def push_issue_def)

lemma check_max_valid [report_valid]:
  "is_valid (check_max v limit path report) \<longleftrightarrow> is_valid report \<and> max_ok limit v"
  by (cases v) (auto simp: check_max_def max_ok_def report_valid)

lemma check_exact_valid [report_valid]:
  "is_valid (check_exact v len path report) \<longleftrightarrow> is_valid report \<and> exact_ok len v"
  by (cases v) (auto simp: check_exact_def exact_ok_def report_valid)

lemma check_required_valid [report_valid]:
  "is_valid (check_required_max value limit path report) \<longleftrightarrow> is_valid report \<and> required_ok limit value"
  by (auto simp: check_required_max_def required_ok_def Let_def report_valid)

lemma decimal_ok_iff:
  "decimal_ok mt mf nn d \<longleftrightarrow> (\<exists>r. mig_decimal_parse (mig_decimal_str d) mt mf nn = Inr r)"
proof
  assume "decimal_ok mt mf nn d"
  then show "\<exists>r. mig_decimal_parse (mig_decimal_str d) mt mf nn = Inr r"
    unfolding decimal_ok_def using mig_decimal_parse_text by metis
next
  assume "\<exists>r. mig_decimal_parse (mig_decimal_str d) mt mf nn = Inr r"
  then obtain r where "mig_decimal_parse (mig_decimal_str d) mt mf nn = Inr r" ..
  then show "decimal_ok mt mf nn d"
    by (rule mig_decimal_parse_Inr) (unfold decimal_ok_def, blast)
qed

lemma check_decimal_valid [report_valid]:
  "is_valid (check_decimal d mt mf nn path report) \<longleftrightarrow> is_valid report \<and> decimal_ok mt mf nn d"
  by (cases "mig_decimal_parse (mig_decimal_str d) mt mf nn")
    (simp_all add: check_decimal_def decimal_ok_iff push_invalid)

lemma check_optional_decimal_valid [report_valid]:
  "is_valid (check_optional_decimal d mt mf nn path report) \<longleftrightarrow>
     is_valid report \<and> (\<forall>v \<in> set_option d. decimal_ok mt mf nn v)"
  by (cases d) (simp_all add: check_optional_decimal_def check_decimal_valid)

lemma role_valid [report_valid]:
  "is_valid (validate_role_schema role path report) \<longleftrightarrow> is_valid report \<and> role_ok role"
  by (auto simp: validate_role_schema_def role_ok_def report_valid Let_def)

lemma main_valid [report_valid]:
  "is_valid (validate_main_schema main report) \<longleftrightarrow> is_valid report \<and> main_schema_ok main"
  by (cases "fm_random_number main")
    (auto simp: validate_main_schema_def main_schema_ok_def report_valid Let_def)

lemma item_schema_valid [report_valid]:
  "is_valid (validate_item_schema index item report) \<longleftrightarrow> is_valid report \<and> item_schema_ok item"
  by (auto simp: validate_item_schema_def item_schema_ok_def report_valid Let_def)

lemma amount_valid [report_valid]:
  "is_valid (validate_amount_schema amount report) \<longleftrightarrow> is_valid report \<and> amount_schema_ok amount"
  by (auto simp: validate_amount_schema_def amount_schema_ok_def report_valid Let_def)

lemma for_items_valid:
  assumes "\<And>index item report. is_valid (body index item report) \<longleftrightarrow> is_valid report \<and> P index item"
  shows "is_valid (for_items body k items report) \<longleftrightarrow>
    is_valid report \<and> (\<forall>j < length items. P (k + j) (items ! j))"
proof (induction items arbitrary: k report)
  case (Cons item items)
  have "(\<forall>j < length (item # items). P (k + j) ((item # items) ! j)) \<longleftrightarrow>
      P k item \<and> (\<forall>j < length items. P (Suc k + j) (items ! j))"
    by (auto simp: All_less_Suc2)
  with Cons show ?case by (auto simp: assms)
qed simp

lemma schema_valid: "is_valid (validate_schema_constraints invoice) \<longleftrightarrow> schema_ok invoice"
  by (auto simp: validate_schema_constraints_def schema_ok_def validate_details_schema_def Let_def
      report_valid for_items_valid [OF item_schema_valid] all_set_conv_all_nth)

lemma item_semantics_valid:
  "is_valid (validate_item_semantics index item report) \<longleftrightarrow>
     is_valid report \<and> pi_tax_type item \<noteq> Mixed \<and> pi_sequence_number item = dec (index + 1)"
  by (auto simp: validate_item_semantics_def report_valid Let_def)

lemma buyer_valid [report_valid]:
  "is_valid (validate_buyer_semantics main report) \<longleftrightarrow> is_valid report \<and> buyer_ok main"
  by (cases "fm_random_number main"; cases "is_b2c_buyer (rd_identifier (fm_buyer main))";
      cases "rd_name (fm_buyer main) \<in> {''0'', ''00'', ''000'', ''0000''}")
    (simp_all only: validate_buyer_semantics_def buyer_ok_def report_valid Let_def prod.case
      bool.case option.simps if_True if_False simp_thms)

lemma print_valid [report_valid]:
  "is_valid (validate_print_semantics main report) \<longleftrightarrow> is_valid report \<and> print_ok main"
  by (cases "fm_print_mark main") (auto simp: validate_print_semantics_def print_ok_def report_valid Let_def)

lemma date_valid [report_valid]:
  "is_valid (validate_date date path report) \<longleftrightarrow> is_valid report \<and> is_calendar_date date"
  by (simp add: validate_date_def report_valid)

lemma sequence_numbers:
  "map pi_sequence_number items = map dec [1..<length items + 1] \<longleftrightarrow>
     (\<forall>j < length items. pi_sequence_number (items ! j) = dec (j + 1))"
proof -
  have "(\<forall>j < length items. map pi_sequence_number items ! j = map dec [1..<length items + 1] ! j) \<longleftrightarrow>
      (\<forall>j < length items. pi_sequence_number (items ! j) = dec (j + 1))"
    by (simp add: add.commute del: upt_Suc)
  moreover have "length (map pi_sequence_number items) = length (map dec [1..<length items + 1])"
    by (simp del: upt_Suc)
  ultimately show ?thesis
    using list_eq_iff_nth_eq [of "map pi_sequence_number items" "map dec [1..<length items + 1]"]
    by (simp only: length_map simp_thms)
qed

lemma semantics_valid: "is_valid (validate_semantics invoice) \<longleftrightarrow> semantics_ok invoice"
  unfolding validate_semantics_def semantics_ok_def Let_def
    for_items_valid [OF item_semantics_valid] sequence_numbers
  by (cases "rd_address (fm_seller (fi_main invoice))")
    (auto simp: report_valid all_set_conv_all_nth)

text \<open>
  C18.  \<open>validate\<close> reports no issue exactly when the document meets every
  schema facet (lengths in characters, decimal digits and signs, the random number's format)
  and every usage rule (a real calendar date, a seller address, the consumer and business
  buyer rules, the print mark rules, a zero-rate reason when zero-rated, no mixed-tax item,
  sequence numbers 1, 2, 3, ...); the two layers decide their own part.
\<close>

theorem f0401_validate_exact:
  "(is_valid (validate_schema_constraints invoice) \<longleftrightarrow> schema_ok invoice) \<and>
   (is_valid (validate_semantics invoice) \<longleftrightarrow> semantics_ok invoice) \<and>
   (is_valid (f0401_validate invoice) \<longleftrightarrow> schema_ok invoice \<and> semantics_ok invoice)"
  using schema_valid [of invoice] semantics_valid [of invoice]
  by (simp add: f0401_validate_def is_valid_def Let_def)

end
