(* ===== verification/Error_Texts.thy ===== *)
theory Error_Texts
  imports Client Receiver_Properties Mig_Catalog Submission F0401 "HOL-Library.Sublist"
begin

text \<open>
  The \<open>Display\<close> and \<open>Error\<close> implementations of every error type of the repository.  A \<open>&dyn Error\<close>
  is its text with its source; of an error of another crate only the text is used.  The texts of
  foreign errors are arguments, and so is \<open>dbg\<close>, what \<open>{:?}\<close> prints for a string (it depends on
  the Unicode tables of the standard library).
\<close>

datatype dyn_error =
    Foreign (dyn_text: string)
  | Own (dyn_text: string) "dyn_error option"

text \<open>The errors that \<open>Error::source\<close> leads to, down to the first foreign one.\<close>

fun causes :: "dyn_error \<Rightarrow> dyn_error list" where
  "causes (Own t (Some c)) = c # causes c"
| "causes _ = []"

section \<open>Core, catalog, primitives, F0401\<close>

primrec display_ban_error :: "ban_error \<Rightarrow> string" where
  "display_ban_error BanError = ''MIG BAN must contain 8 to 10 ASCII digits''"

definition dyn_ban_error :: "ban_error \<Rightarrow> dyn_error" where
  "dyn_ban_error e = Own (display_ban_error e) None"

primrec display_message_code_error :: "message_code_error \<Rightarrow> string" where
  "display_message_code_error MessageCodeError = ''MIG message code must match [A-Z][0-9]{4}''"

definition dyn_message_code_error :: "message_code_error \<Rightarrow> dyn_error" where
  "dyn_message_code_error e = Own (display_message_code_error e) None"

primrec display_unknown_code :: "(string \<Rightarrow> string) \<Rightarrow> unknown_mig41_code \<Rightarrow> string" where
  "display_unknown_code dbg (UnknownMig41MessageCode code) = ''unknown MIG 4.1 message code '' @ dbg code"

definition dyn_unknown_code :: "(string \<Rightarrow> string) \<Rightarrow> unknown_mig41_code \<Rightarrow> dyn_error" where
  "dyn_unknown_code dbg e = Own (display_unknown_code dbg e) None"

definition dyn_primitive_error :: "primitive_error \<Rightarrow> dyn_error" where
  "dyn_primitive_error e = Own (primitive_error_to_string e) None"

primrec display_f0401_error :: "f0401_structure_error \<Rightarrow> string" where
  "display_f0401_error NoProductItems = ''F0401 requires at least one ProductItem''"
| "display_f0401_error (TooManyProductItems count max_count) =
     ''F0401 contains '' @ dec count @ '' ProductItems; maximum is '' @ dec max_count"

definition dyn_f0401_error :: "f0401_structure_error \<Rightarrow> dyn_error" where
  "dyn_f0401_error e = Own (display_f0401_error e) None"

section \<open>Envelope, signing, pack\<close>

primrec display_envelope_error :: "envelope_error \<Rightarrow> string" where
  "display_envelope_error EmptyPayload = ''MIG payload must not be empty''"
| "display_envelope_error NoPayloads = ''invoice envelope requires at least one payload''"
| "display_envelope_error (TooManyPayloads count max_count) =
     ''invoice envelope contains '' @ dec count @ '' payloads; maximum is '' @ dec max_count"

definition dyn_envelope_error :: "envelope_error \<Rightarrow> dyn_error" where
  "dyn_envelope_error e = Own (display_envelope_error e) None"

primrec display_serialize_error :: "envelope_serialize_error \<Rightarrow> string" where
  "display_serialize_error (PayloadNotUtf8 index) = ''MIG payload '' @ dec index @ '' is not valid UTF-8''"
| "display_serialize_error (EmbeddedXmlDeclaration index) =
     ''MIG payload '' @ dec index @ '' contains an XML declaration that cannot be embedded in InvoicePack''"

definition dyn_serialize_error :: "envelope_serialize_error \<Rightarrow> dyn_error" where
  "dyn_serialize_error e = Own (display_serialize_error e) None"

primrec display_signed_data_error :: "signed_data_error \<Rightarrow> string" where
  "display_signed_data_error EmptySignedData = ''encoded CMS SignedData must not be empty''"

definition dyn_signed_data_error :: "signed_data_error \<Rightarrow> dyn_error" where
  "dyn_signed_data_error e = Own (display_signed_data_error e) None"

primrec display_pfx_error :: "('e \<Rightarrow> string) \<Rightarrow> 'e pfx_signer_error \<Rightarrow> string" where
  "display_pfx_error ssl (OpenSslError e) = ''OpenSSL signing operation failed: '' @ ssl e"
| "display_pfx_error ssl MissingPrivateKey = ''PKCS#12 object does not contain a private key''"
| "display_pfx_error ssl MissingCertificate = ''PKCS#12 object does not contain a signing certificate''"
| "display_pfx_error ssl MismatchedKeyPair = ''PKCS#12 private key does not match the signing certificate''"
| "display_pfx_error ssl UnsupportedPrivateKey =
     ''Turnkey compatibility signer supports only RSA and EC private keys''"

fun source_pfx_error :: "('e \<Rightarrow> string) \<Rightarrow> 'e pfx_signer_error \<Rightarrow> dyn_error option" where
  "source_pfx_error ssl (OpenSslError e) = Some (Foreign (ssl e))"
| "source_pfx_error ssl _ = None"

definition dyn_pfx_error :: "('e \<Rightarrow> string) \<Rightarrow> 'e pfx_signer_error \<Rightarrow> dyn_error" where
  "dyn_pfx_error ssl e = Own (display_pfx_error ssl e) (source_pfx_error ssl e)"

text \<open>A type parameter \<open>E: Error\<close> of the code is a function to \<open>dyn_error\<close>.\<close>

primrec display_pack_error :: "('e \<Rightarrow> dyn_error) \<Rightarrow> 'e pack_error \<Rightarrow> string" where
  "display_pack_error de (PackEnvelope e) = ''failed to serialize invoice envelope: '' @ display_serialize_error e"
| "display_pack_error de (PackSigning e) = ''failed to sign invoice envelope: '' @ dyn_text (de e)"

fun source_pack_error :: "('e \<Rightarrow> dyn_error) \<Rightarrow> 'e pack_error \<Rightarrow> dyn_error option" where
  "source_pack_error de (PackEnvelope e) = Some (dyn_serialize_error e)"
| "source_pack_error de (PackSigning e) = Some (de e)"

definition dyn_pack_error :: "('e \<Rightarrow> dyn_error) \<Rightarrow> 'e pack_error \<Rightarrow> dyn_error" where
  "dyn_pack_error de e = Own (display_pack_error de e) (source_pack_error de e)"

section \<open>Client\<close>

primrec display_consistency_error :: "(string \<Rightarrow> string) \<Rightarrow> submission_consistency_error \<Rightarrow> string" where
  "display_consistency_error dbg (InvalidFilenameCount count) =
     ''Turnkey filename contains invalid pack count '' @ i32_to_string count"
| "display_consistency_error dbg (EnvelopeCountOutOfRange count) =
     ''envelope message count '' @ dec count @ '' cannot be represented in PFS001''"
| "display_consistency_error dbg (CountMismatch in_envelope in_filename) =
     ''envelope contains '' @ dec in_envelope @ '' messages but filename count is '' @ dec in_filename"
| "display_consistency_error dbg (MessageTypeMismatch envelope filename) =
     ''envelope message type '' @ dbg envelope @ '' does not match filename '' @ dbg filename"
| "display_consistency_error dbg (MigVersionMismatch envelope filename) =
     ''envelope MIG version '' @ dbg envelope @ '' does not match filename '' @ dbg filename"
| "display_consistency_error dbg (FromPartyMismatch envelope filename) =
     ''envelope From PartyId '' @ dbg envelope @ '' does not match filename '' @ dbg filename"
| "display_consistency_error dbg (ToPartyMismatch envelope filename) =
     ''envelope To PartyId '' @ dbg envelope @ '' does not match filename '' @ dbg filename"

definition dyn_consistency_error :: "(string \<Rightarrow> string) \<Rightarrow> submission_consistency_error \<Rightarrow> dyn_error" where
  "dyn_consistency_error dbg e = Own (display_consistency_error dbg e) None"

primrec display_prepare_submission_error ::
  "(string \<Rightarrow> string) \<Rightarrow> ('e \<Rightarrow> dyn_error) \<Rightarrow> 'e prepare_submission_error \<Rightarrow> string" where
  "display_prepare_submission_error dbg de (Consistency e) = display_consistency_error dbg e"
| "display_prepare_submission_error dbg de (PackFailed e) = display_pack_error de e"

fun source_prepare_submission_error ::
  "(string \<Rightarrow> string) \<Rightarrow> ('e \<Rightarrow> dyn_error) \<Rightarrow> 'e prepare_submission_error \<Rightarrow> dyn_error option" where
  "source_prepare_submission_error dbg de (Consistency e) = Some (dyn_consistency_error dbg e)"
| "source_prepare_submission_error dbg de (PackFailed e) = Some (dyn_pack_error de e)"

definition dyn_prepare_submission_error ::
  "(string \<Rightarrow> string) \<Rightarrow> ('e \<Rightarrow> dyn_error) \<Rightarrow> 'e prepare_submission_error \<Rightarrow> dyn_error" where
  "dyn_prepare_submission_error dbg de e =
     Own (display_prepare_submission_error dbg de e) (source_prepare_submission_error dbg de e)"

section \<open>Results and submission state\<close>

primrec display_result_parse_error :: "('x \<Rightarrow> string) \<Rightarrow> 'x result_parse_error \<Rightarrow> string" where
  "display_result_parse_error xml (XmlError e) = ''failed to parse MIG reconciliation XML: '' @ xml e"

fun source_result_parse_error :: "('x \<Rightarrow> string) \<Rightarrow> 'x result_parse_error \<Rightarrow> dyn_error option" where
  "source_result_parse_error xml (XmlError e) = Some (Foreign (xml e))"

definition dyn_result_parse_error :: "('x \<Rightarrow> string) \<Rightarrow> 'x result_parse_error \<Rightarrow> dyn_error" where
  "dyn_result_parse_error xml e = Own (display_result_parse_error xml e) (source_result_parse_error xml e)"

primrec display_submission_init_error :: "submission_init_error \<Rightarrow> string" where
  "display_submission_init_error EmptyMessageId = ''submission message ID must not be empty''"
| "display_submission_init_error ZeroExpectedQuantity =
     ''submission expected quantity must be greater than zero''"

definition dyn_submission_init_error :: "submission_init_error \<Rightarrow> dyn_error" where
  "dyn_submission_init_error e = Own (display_submission_init_error e) None"

primrec display_apply_error :: "(string \<Rightarrow> string) \<Rightarrow> apply_error \<Rightarrow> string" where
  "display_apply_error dbg (MessageIdMismatch expected actual) =
     ''reconciliation message ID '' @ dbg actual @ '' does not match submission '' @ dbg expected"
| "display_apply_error dbg (SummaryMessageMissing mid) =
     ''SummaryResult does not contain submission message ID '' @ dbg mid"
| "display_apply_error dbg (DuplicateSummaryMessage mid count) =
     ''SummaryResult contains submission message ID '' @ dbg mid @ '' '' @ dec count @ '' times''"
| "display_apply_error dbg (InconsistentSummary mid issues) =
     ''SummaryResult for '' @ dbg mid @ '' failed '' @ dec (length issues) @ '' consistency check(s)''"
| "display_apply_error dbg (ConflictingTerminalSummary mid _ _) =
     ''submission '' @ dbg mid @ '' already has a different terminal SummaryResult''"

definition dyn_apply_error :: "(string \<Rightarrow> string) \<Rightarrow> apply_error \<Rightarrow> dyn_error" where
  "dyn_apply_error dbg e = Own (display_apply_error dbg e) None"

section \<open>Filenames and upload preparation\<close>

primrec display_filename_error :: "filename_error \<Rightarrow> string" where
  "display_filename_error InvalidPackFilename =
     ''Turnkey pack filename must contain the final from/to/common/count fields''"
| "display_filename_error InvalidPackCount = ''Turnkey pack count must be a signed 32-bit integer''"
| "display_filename_error (InvalidCommonNameParts actual) =
     ''Turnkey common name must contain 9 hyphen-delimited components; got '' @ dec actual"
| "display_filename_error (InvalidCommonSegmentLength index expected actual) =
     ''Turnkey common-name component '' @ dec index @ '' must be '' @ dec expected @ '' bytes; got '' @ dec actual"

definition dyn_filename_error :: "filename_error \<Rightarrow> dyn_error" where
  "dyn_filename_error e = Own (display_filename_error e) None"

primrec display_prepare_upload_error :: "('z \<Rightarrow> string) \<Rightarrow> ('io \<Rightarrow> string) \<Rightarrow> ('z, 'io) prepare_upload_error \<Rightarrow> string" where
  "display_prepare_upload_error z io (InvalidFilename field) =
     field @ '' must be a non-empty basename without path separators''"
| "display_prepare_upload_error z io (SourceTooLarge actual maximum) =
     ''signed source is '' @ dec actual @ '' bytes; Turnkey-compatible maximum is '' @ dec maximum @ '' bytes''"
| "display_prepare_upload_error z io LengthOutOfRange = ''signed source length does not fit in u64''"
| "display_prepare_upload_error z io (ZipError e) = ''failed to create Turnkey-compatible ZIP: '' @ z e"
| "display_prepare_upload_error z io (ZipIoError e) = ''failed to write Turnkey-compatible ZIP: '' @ io e"

fun source_prepare_upload_error ::
  "('z \<Rightarrow> string) \<Rightarrow> ('io \<Rightarrow> string) \<Rightarrow> ('z, 'io) prepare_upload_error \<Rightarrow> dyn_error option" where
  "source_prepare_upload_error z io (ZipError e) = Some (Foreign (z e))"
| "source_prepare_upload_error z io (ZipIoError e) = Some (Foreign (io e))"
| "source_prepare_upload_error z io _ = None"

definition dyn_prepare_upload_error ::
  "('z \<Rightarrow> string) \<Rightarrow> ('io \<Rightarrow> string) \<Rightarrow> ('z, 'io) prepare_upload_error \<Rightarrow> dyn_error" where
  "dyn_prepare_upload_error z io e = Own (display_prepare_upload_error z io e) (source_prepare_upload_error z io e)"

section \<open>Gateway and submission\<close>

primrec display_gateway_encode_error :: "('j \<Rightarrow> string) \<Rightarrow> 'j gateway_encode_error \<Rightarrow> string" where
  "display_gateway_encode_error json (IntegerOutOfRange field v) =
     ''PFS001 field '' @ field @ '' value '' @ dec (unat v) @ '' exceeds int32 range''"
| "display_gateway_encode_error json (JsonError e) = ''failed to encode PFS001 JSON: '' @ json e"

fun source_gateway_encode_error :: "('j \<Rightarrow> string) \<Rightarrow> 'j gateway_encode_error \<Rightarrow> dyn_error option" where
  "source_gateway_encode_error json (IntegerOutOfRange _ _) = None"
| "source_gateway_encode_error json (JsonError e) = Some (Foreign (json e))"

definition dyn_gateway_encode_error :: "('j \<Rightarrow> string) \<Rightarrow> 'j gateway_encode_error \<Rightarrow> dyn_error" where
  "dyn_gateway_encode_error json e = Own (display_gateway_encode_error json e) (source_gateway_encode_error json e)"

primrec display_pfs001_error ::
  "('status \<Rightarrow> string) \<Rightarrow> ('q \<Rightarrow> string) \<Rightarrow> ('j \<Rightarrow> string) \<Rightarrow> ('status, 'q, 'j) pfs001_http_error \<Rightarrow> string" where
  "display_pfs001_error st q json (ClientBuildError e) = ''failed to build PFS001 HTTP client: '' @ q e"
| "display_pfs001_error st q json (EncodeError e) =
     ''failed to encode PFS001 request: '' @ display_gateway_encode_error json e"
| "display_pfs001_error st q json (RequestError e) = ''PFS001 HTTP request failed: '' @ q e"
| "display_pfs001_error st q json (HttpStatusError status body) =
     ''PFS001 returned HTTP '' @ st status @ '': '' @ body"
| "display_pfs001_error st q json (DecodeError e) = ''failed to decode PFS001 response: '' @ json e"

fun source_pfs001_error ::
  "('q \<Rightarrow> string) \<Rightarrow> ('j \<Rightarrow> string) \<Rightarrow> ('status, 'q, 'j) pfs001_http_error \<Rightarrow> dyn_error option" where
  "source_pfs001_error q json (ClientBuildError e) = Some (Foreign (q e))"
| "source_pfs001_error q json (RequestError e) = Some (Foreign (q e))"
| "source_pfs001_error q json (EncodeError e) = Some (dyn_gateway_encode_error json e)"
| "source_pfs001_error q json (DecodeError e) = Some (Foreign (json e))"
| "source_pfs001_error q json (HttpStatusError _ _) = None"

definition dyn_pfs001_error ::
  "('status \<Rightarrow> string) \<Rightarrow> ('q \<Rightarrow> string) \<Rightarrow> ('j \<Rightarrow> string) \<Rightarrow> ('status, 'q, 'j) pfs001_http_error \<Rightarrow> dyn_error" where
  "dyn_pfs001_error st q json e = Own (display_pfs001_error st q json e) (source_pfs001_error q json e)"

text \<open>The preparation error, a parameter of the model's type, is the code's \<open>PrepareUploadError\<close>.\<close>

primrec display_native_error ::
  "('p \<Rightarrow> dyn_error) \<Rightarrow> ('u \<Rightarrow> dyn_error) \<Rightarrow> ('n \<Rightarrow> dyn_error) \<Rightarrow> ('p, 'u, 'n) native_submit_error \<Rightarrow> string" where
  "display_native_error dp du dn (PrepareError e) = ''failed to prepare upload object: '' @ dyn_text (dp e)"
| "display_native_error dp du dn (UploadError name e) =
     ''failed to upload SFTP object '' @ name @ '': '' @ dyn_text (du e)"
| "display_native_error dp du dn (NotifyError name e) =
     ''SFTP object '' @ name @ '' was uploaded but PFS001 notification failed: '' @ dyn_text (dn e)"
| "display_native_error dp du dn (GatewayRejected name status) =
     ''SFTP object '' @ name @ '' was uploaded but PFS001 rejected it with status '' @
       i32_to_string (gps_status_code status)"

fun source_native_error ::
  "('p \<Rightarrow> dyn_error) \<Rightarrow> ('u \<Rightarrow> dyn_error) \<Rightarrow> ('n \<Rightarrow> dyn_error) \<Rightarrow> ('p, 'u, 'n) native_submit_error \<Rightarrow>
     dyn_error option" where
  "source_native_error dp du dn (PrepareError e) = Some (dp e)"
| "source_native_error dp du dn (UploadError _ e) = Some (du e)"
| "source_native_error dp du dn (NotifyError _ e) = Some (dn e)"
| "source_native_error dp du dn (GatewayRejected _ _) = None"

definition dyn_native_error ::
  "('p \<Rightarrow> dyn_error) \<Rightarrow> ('u \<Rightarrow> dyn_error) \<Rightarrow> ('n \<Rightarrow> dyn_error) \<Rightarrow> ('p, 'u, 'n) native_submit_error \<Rightarrow> dyn_error" where
  "dyn_native_error dp du dn e = Own (display_native_error dp du dn e) (source_native_error dp du dn e)"

primrec display_pack_artifact_error ::
  "('p \<Rightarrow> dyn_error) \<Rightarrow> ('u \<Rightarrow> dyn_error) \<Rightarrow> ('n \<Rightarrow> dyn_error) \<Rightarrow> ('p, 'u, 'n) pack_artifact_submit_error \<Rightarrow>
     string" where
  "display_pack_artifact_error dp du dn (NonPositivePackCount count) =
     ''Turnkey pack filename contains non-positive count '' @ i32_to_string count"
| "display_pack_artifact_error dp du dn (QuantityMismatch filename_count quantity) =
     ''Turnkey pack count '' @ dec (unat filename_count) @ '' does not match PFS001 quantity '' @ dec (unat quantity)"
| "display_pack_artifact_error dp du dn (NativeError e) = display_native_error dp du dn e"

fun source_pack_artifact_error ::
  "('p \<Rightarrow> dyn_error) \<Rightarrow> ('u \<Rightarrow> dyn_error) \<Rightarrow> ('n \<Rightarrow> dyn_error) \<Rightarrow> ('p, 'u, 'n) pack_artifact_submit_error \<Rightarrow>
     dyn_error option" where
  "source_pack_artifact_error dp du dn (NativeError e) = Some (dyn_native_error dp du dn e)"
| "source_pack_artifact_error dp du dn _ = None"

definition dyn_pack_artifact_error ::
  "('p \<Rightarrow> dyn_error) \<Rightarrow> ('u \<Rightarrow> dyn_error) \<Rightarrow> ('n \<Rightarrow> dyn_error) \<Rightarrow> ('p, 'u, 'n) pack_artifact_submit_error \<Rightarrow>
     dyn_error" where
  "dyn_pack_artifact_error dp du dn e =
     Own (display_pack_artifact_error dp du dn e) (source_pack_artifact_error dp du dn e)"

section \<open>SFTP\<close>

primrec display_connection_error ::
  "(io_error \<Rightarrow> string) \<Rightarrow> ('x \<Rightarrow> string) \<Rightarrow> 'x sftp_connection_error \<Rightarrow> string" where
  "display_connection_error io ssh MissingHostKey = ''SFTP server did not present a host key''"
| "display_connection_error io ssh (HostKeyNotFound host port) =
     ''SFTP host key for '' @ host @ '':'' @ dec (unat port) @ '' is not present in known_hosts''"
| "display_connection_error io ssh (HostKeyMismatch host port) =
     ''SFTP host key for '' @ host @ '':'' @ dec (unat port) @ '' does not match known_hosts''"
| "display_connection_error io ssh (HostKeyCheckFailed host port) =
     ''failed to validate SFTP host key for '' @ host @ '':'' @ dec (unat port)"
| "display_connection_error io ssh AuthenticationFailed = ''SFTP password authentication failed''"
| "display_connection_error io ssh (SftpIo e) = ''SFTP TCP/I/O operation failed: '' @ io e"
| "display_connection_error io ssh (SshError e) = ''SFTP/SSH operation failed: '' @ ssh e"

fun source_connection_error ::
  "(io_error \<Rightarrow> string) \<Rightarrow> ('x \<Rightarrow> string) \<Rightarrow> 'x sftp_connection_error \<Rightarrow> dyn_error option" where
  "source_connection_error io ssh (SftpIo e) = Some (Foreign (io e))"
| "source_connection_error io ssh (SshError e) = Some (Foreign (ssh e))"
| "source_connection_error io ssh _ = None"

definition dyn_connection_error ::
  "(io_error \<Rightarrow> string) \<Rightarrow> ('x \<Rightarrow> string) \<Rightarrow> 'x sftp_connection_error \<Rightarrow> dyn_error" where
  "dyn_connection_error io ssh e = Own (display_connection_error io ssh e) (source_connection_error io ssh e)"

primrec display_upload_error :: "(io_error \<Rightarrow> string) \<Rightarrow> ('x \<Rightarrow> string) \<Rightarrow> 'x sftp_upload_error \<Rightarrow> string" where
  "display_upload_error io ssh InvalidRemoteFilename = ''SFTP remote filename must be a non-empty basename''"
| "display_upload_error io ssh (UploadConnection e) = display_connection_error io ssh e"

fun source_upload_error :: "(io_error \<Rightarrow> string) \<Rightarrow> ('x \<Rightarrow> string) \<Rightarrow> 'x sftp_upload_error \<Rightarrow> dyn_error option" where
  "source_upload_error io ssh InvalidRemoteFilename = None"
| "source_upload_error io ssh (UploadConnection e) = Some (dyn_connection_error io ssh e)"

definition dyn_upload_error :: "(io_error \<Rightarrow> string) \<Rightarrow> ('x \<Rightarrow> string) \<Rightarrow> 'x sftp_upload_error \<Rightarrow> dyn_error" where
  "dyn_upload_error io ssh e = Own (display_upload_error io ssh e) (source_upload_error io ssh e)"

primrec display_inbox_error ::
  "(string \<Rightarrow> string) \<Rightarrow> (io_error \<Rightarrow> string) \<Rightarrow> ('x \<Rightarrow> string) \<Rightarrow> 'x sftp_inbox_error \<Rightarrow> string" where
  "display_inbox_error dbg io ssh InvalidRemoteEntryName = ''SFTP /out entry has a non-UTF-8 or unsafe filename''"
| "display_inbox_error dbg io ssh (MissingRemoteSize name) =
     ''SFTP /out object '' @ dbg name @ '' does not include a size''"
| "display_inbox_error dbg io ssh (InboxConnection e) = display_connection_error io ssh e"

fun source_inbox_error :: "(io_error \<Rightarrow> string) \<Rightarrow> ('x \<Rightarrow> string) \<Rightarrow> 'x sftp_inbox_error \<Rightarrow> dyn_error option" where
  "source_inbox_error io ssh (InboxConnection e) = Some (dyn_connection_error io ssh e)"
| "source_inbox_error io ssh _ = None"

definition dyn_inbox_error ::
  "(string \<Rightarrow> string) \<Rightarrow> (io_error \<Rightarrow> string) \<Rightarrow> ('x \<Rightarrow> string) \<Rightarrow> 'x sftp_inbox_error \<Rightarrow> dyn_error" where
  "dyn_inbox_error dbg io ssh e = Own (display_inbox_error dbg io ssh e) (source_inbox_error io ssh e)"

section \<open>Receiving\<close>

primrec debug_remote_operation :: "remote_operation \<Rightarrow> string" where
  "debug_remote_operation Download = ''Download''"
| "debug_remote_operation Delete = ''Delete''"

primrec display_receive_error ::
  "(string \<Rightarrow> string) \<Rightarrow> (io_error \<Rightarrow> string) \<Rightarrow> ('e \<Rightarrow> dyn_error) \<Rightarrow> 'e receive_error \<Rightarrow> string" where
  "display_receive_error dbg io de (InvalidRemoteName name) = ''unsafe remote result filename: '' @ dbg name"
| "display_receive_error dbg io de (EmptyObject name) = ''remote result object '' @ dbg name @ '' is empty''"
| "display_receive_error dbg io de (SizeMismatch name expected actual) =
     ''remote result object '' @ dbg name @ '' expected '' @ dec (unat expected) @ '' bytes but downloaded '' @
       dec (unat actual)"
| "display_receive_error dbg io de (ConflictingLocalObject name path) =
     ''remote result object '' @ dbg name @ '' conflicts with existing durable file '' @ path"
| "display_receive_error dbg io de (ReceiveIo e) = ''durable receive filesystem error: '' @ io e"
| "display_receive_error dbg io de (RemoteError operation e) =
     ''remote '' @ debug_remote_operation operation @ '' operation failed: '' @ dyn_text (de e)"

fun source_receive_error :: "(io_error \<Rightarrow> string) \<Rightarrow> ('e \<Rightarrow> dyn_error) \<Rightarrow> 'e receive_error \<Rightarrow> dyn_error option" where
  "source_receive_error io de (ReceiveIo e) = Some (Foreign (io e))"
| "source_receive_error io de (RemoteError _ e) = Some (de e)"
| "source_receive_error io de _ = None"

definition dyn_receive_error ::
  "(string \<Rightarrow> string) \<Rightarrow> (io_error \<Rightarrow> string) \<Rightarrow> ('e \<Rightarrow> dyn_error) \<Rightarrow> 'e receive_error \<Rightarrow> dyn_error" where
  "dyn_receive_error dbg io de e = Own (display_receive_error dbg io de e) (source_receive_error io de e)"

text \<open>\<open>utf8\<close> is the text of the \<open>Utf8Error\<close> at hand, whose offsets the model does not keep.\<close>

primrec display_inbound_parse_error :: "string \<Rightarrow> ('x \<Rightarrow> string) \<Rightarrow> 'x inbound_parse_error \<Rightarrow> string" where
  "display_inbound_parse_error utf8 xml Utf8Error = ''inbound reconciliation XML is not UTF-8: '' @ utf8"
| "display_inbound_parse_error utf8 xml (ResultError e) =
     ''invalid inbound reconciliation XML: '' @ display_result_parse_error xml e"

fun source_inbound_parse_error :: "string \<Rightarrow> ('x \<Rightarrow> string) \<Rightarrow> 'x inbound_parse_error \<Rightarrow> dyn_error option" where
  "source_inbound_parse_error utf8 xml Utf8Error = Some (Foreign utf8)"
| "source_inbound_parse_error utf8 xml (ResultError e) = Some (dyn_result_parse_error xml e)"

definition dyn_inbound_parse_error :: "string \<Rightarrow> ('x \<Rightarrow> string) \<Rightarrow> 'x inbound_parse_error \<Rightarrow> dyn_error" where
  "dyn_inbound_parse_error utf8 xml e =
     Own (display_inbound_parse_error utf8 xml e) (source_inbound_parse_error utf8 xml e)"

primrec display_durable_inbound_error ::
  "(io_error \<Rightarrow> string) \<Rightarrow> string \<Rightarrow> ('x \<Rightarrow> string) \<Rightarrow> 'x durable_inbound_error \<Rightarrow> string" where
  "display_durable_inbound_error io utf8 xml (InvalidPath path) =
     ''durable inbound path has no UTF-8 basename: '' @ path"
| "display_durable_inbound_error io utf8 xml (InboundIo e) = ''failed to read durable inbound object: '' @ io e"
| "display_durable_inbound_error io utf8 xml (InboundParse e) =
     ''failed to parse durable inbound object: '' @ display_inbound_parse_error utf8 xml e"

fun source_durable_inbound_error ::
  "(io_error \<Rightarrow> string) \<Rightarrow> string \<Rightarrow> ('x \<Rightarrow> string) \<Rightarrow> 'x durable_inbound_error \<Rightarrow> dyn_error option" where
  "source_durable_inbound_error io utf8 xml (InvalidPath _) = None"
| "source_durable_inbound_error io utf8 xml (InboundIo e) = Some (Foreign (io e))"
| "source_durable_inbound_error io utf8 xml (InboundParse e) = Some (dyn_inbound_parse_error utf8 xml e)"

definition dyn_durable_inbound_error ::
  "(io_error \<Rightarrow> string) \<Rightarrow> string \<Rightarrow> ('x \<Rightarrow> string) \<Rightarrow> 'x durable_inbound_error \<Rightarrow> dyn_error" where
  "dyn_durable_inbound_error io utf8 xml e =
     Own (display_durable_inbound_error io utf8 xml e) (source_durable_inbound_error io utf8 xml e)"

primrec display_poll_object_error ::
  "(string \<Rightarrow> string) \<Rightarrow> (io_error \<Rightarrow> string) \<Rightarrow> string \<Rightarrow> ('x \<Rightarrow> string) \<Rightarrow> ('e \<Rightarrow> dyn_error) \<Rightarrow>
     ('x, 'e) poll_object_error \<Rightarrow> string" where
  "display_poll_object_error dbg io utf8 xml de (PollReceive e) = display_receive_error dbg io de e"
| "display_poll_object_error dbg io utf8 xml de (PollParse e) = display_durable_inbound_error io utf8 xml e"

fun source_poll_object_error ::
  "(string \<Rightarrow> string) \<Rightarrow> (io_error \<Rightarrow> string) \<Rightarrow> string \<Rightarrow> ('x \<Rightarrow> string) \<Rightarrow> ('e \<Rightarrow> dyn_error) \<Rightarrow>
     ('x, 'e) poll_object_error \<Rightarrow> dyn_error option" where
  "source_poll_object_error dbg io utf8 xml de (PollReceive e) = Some (dyn_receive_error dbg io de e)"
| "source_poll_object_error dbg io utf8 xml de (PollParse e) = Some (dyn_durable_inbound_error io utf8 xml e)"

definition dyn_poll_object_error ::
  "(string \<Rightarrow> string) \<Rightarrow> (io_error \<Rightarrow> string) \<Rightarrow> string \<Rightarrow> ('x \<Rightarrow> string) \<Rightarrow> ('e \<Rightarrow> dyn_error) \<Rightarrow>
     ('x, 'e) poll_object_error \<Rightarrow> dyn_error" where
  "dyn_poll_object_error dbg io utf8 xml de e =
     Own (display_poll_object_error dbg io utf8 xml de e) (source_poll_object_error dbg io utf8 xml de e)"

primrec display_poll_error :: "('e \<Rightarrow> dyn_error) \<Rightarrow> 'e poll_error \<Rightarrow> string" where
  "display_poll_error de (ListError e) = ''failed to list SFTP /out inbox: '' @ dyn_text (de e)"

fun source_poll_error :: "('e \<Rightarrow> dyn_error) \<Rightarrow> 'e poll_error \<Rightarrow> dyn_error option" where
  "source_poll_error de (ListError e) = Some (de e)"

definition dyn_poll_error :: "('e \<Rightarrow> dyn_error) \<Rightarrow> 'e poll_error \<Rightarrow> dyn_error" where
  "dyn_poll_error de e = Own (display_poll_error de e) (source_poll_error de e)"

section \<open>No cause is lost\<close>

text \<open>The text of an error ends with the text of each of its causes: whoever prints it prints the root.\<close>

definition causes_shown :: "dyn_error \<Rightarrow> bool" where
  "causes_shown e \<longleftrightarrow> list_all (\<lambda>c. suffix (dyn_text c) (dyn_text e)) (causes e)"

lemma causes_shown_Foreign [simp, intro]: "causes_shown (Foreign t)"
  by (simp add: causes_shown_def)

lemma causes_shown_None [simp, intro]: "causes_shown (Own t None)"
  by (simp add: causes_shown_def)

lemma causes_shown_Some [intro]: "suffix (dyn_text c) t \<Longrightarrow> causes_shown c \<Longrightarrow> causes_shown (Own t (Some c))"
  unfolding causes_shown_def by (auto simp: list_all_iff intro: suffix_order.trans)

lemma suffix_context [simp, intro]: "suffix t (s @ t)"
  by (simp add: suffix_def)

lemma suffix_context_trans [simp, intro]: "suffix t s \<Longrightarrow> suffix t (r @ s)"
  by (rule suffix_order.trans [of t s]) simp_all

text \<open>The prefixes of the texts stay folded.\<close>

declare append_Cons [simp del]

lemmas error_defs = dyn_ban_error_def dyn_message_code_error_def dyn_unknown_code_def
  dyn_primitive_error_def dyn_f0401_error_def dyn_envelope_error_def dyn_serialize_error_def
  dyn_signed_data_error_def dyn_pfx_error_def dyn_pack_error_def dyn_consistency_error_def
  dyn_prepare_submission_error_def dyn_result_parse_error_def dyn_submission_init_error_def
  dyn_apply_error_def dyn_filename_error_def dyn_prepare_upload_error_def dyn_gateway_encode_error_def
  dyn_pfs001_error_def dyn_native_error_def dyn_pack_artifact_error_def dyn_connection_error_def
  dyn_upload_error_def dyn_inbox_error_def dyn_receive_error_def dyn_inbound_parse_error_def
  dyn_durable_inbound_error_def dyn_poll_object_error_def dyn_poll_error_def

lemma dyn_texts [simp]:
  "dyn_text (dyn_serialize_error se) = display_serialize_error se"
  "dyn_text (dyn_pfx_error ssl xe) = display_pfx_error ssl xe"
  "dyn_text (dyn_pack_error de pe) = display_pack_error de pe"
  "dyn_text (dyn_consistency_error dbg ce) = display_consistency_error dbg ce"
  "dyn_text (dyn_result_parse_error xml re) = display_result_parse_error xml re"
  "dyn_text (dyn_gateway_encode_error json ge) = display_gateway_encode_error json ge"
  "dyn_text (dyn_native_error dp du dn ne) = display_native_error dp du dn ne"
  "dyn_text (dyn_connection_error io ssh oe) = display_connection_error io ssh oe"
  "dyn_text (dyn_receive_error dbg io dr ve) = display_receive_error dbg io dr ve"
  "dyn_text (dyn_inbound_parse_error utf8 xml ie) = display_inbound_parse_error utf8 xml ie"
  "dyn_text (dyn_durable_inbound_error io utf8 xml he) = display_durable_inbound_error io utf8 xml he"
  by (simp_all add: error_defs)

lemma shown_here [simp, intro]:
  "causes_shown (dyn_serialize_error se)" "causes_shown (dyn_consistency_error dbg ce)"
  "causes_shown (dyn_filename_error fe)" "causes_shown (dyn_envelope_error ee)"
  by (simp_all add: error_defs)

lemma pfx_shown [simp, intro]: "causes_shown (dyn_pfx_error ssl e)"
  by (cases e) (auto simp: dyn_pfx_error_def)

lemma result_parse_shown [simp, intro]: "causes_shown (dyn_result_parse_error xml e)"
  by (cases e) (auto simp: dyn_result_parse_error_def)

lemma inbound_parse_shown [simp, intro]: "causes_shown (dyn_inbound_parse_error utf8 xml e)"
  by (cases e) (auto simp: dyn_inbound_parse_error_def)

lemma durable_inbound_shown [simp, intro]: "causes_shown (dyn_durable_inbound_error io utf8 xml e)"
  by (cases e) (auto simp: dyn_durable_inbound_error_def)

lemma prepare_upload_shown [simp, intro]: "causes_shown (dyn_prepare_upload_error z io e)"
  by (cases e) (auto simp: dyn_prepare_upload_error_def)

lemma gateway_encode_shown [simp, intro]: "causes_shown (dyn_gateway_encode_error json e)"
  by (cases e) (auto simp: dyn_gateway_encode_error_def)

lemma pfs001_shown [simp, intro]: "causes_shown (dyn_pfs001_error st q json e)"
  by (cases e) (auto simp: dyn_pfs001_error_def)

lemma connection_shown [simp, intro]: "causes_shown (dyn_connection_error io ssh e)"
  by (cases e) (auto simp: dyn_connection_error_def)

lemma upload_shown [simp, intro]: "causes_shown (dyn_upload_error io ssh e)"
  by (cases e) (auto simp: dyn_upload_error_def)

lemma inbox_shown [simp, intro]: "causes_shown (dyn_inbox_error dbg io ssh e)"
  by (cases e) (auto simp: dyn_inbox_error_def)

text \<open>
  The bound \<open>E: Error\<close> of the generic errors: the client's error type shows its causes.  What is
  proved from it holds for every backend.
\<close>

locale std_error =
  fixes dyn :: "'e \<Rightarrow> dyn_error"
  assumes shown: "causes_shown (dyn e)"
begin

lemma pack_shown: "causes_shown (dyn_pack_error dyn e)"
  by (cases e) (auto simp: dyn_pack_error_def shown)

lemma prepare_submission_shown: "causes_shown (dyn_prepare_submission_error dbg dyn e)"
  by (cases e) (auto simp: dyn_prepare_submission_error_def pack_shown)

lemma receive_shown: "causes_shown (dyn_receive_error dbg io dyn e)"
  by (cases e) (auto simp: dyn_receive_error_def shown)

lemma poll_object_shown: "causes_shown (dyn_poll_object_error dbg io utf8 xml dyn e)"
  by (cases e) (auto simp: dyn_poll_object_error_def receive_shown)

lemma poll_shown: "causes_shown (dyn_poll_error dyn e)"
  by (cases e) (auto simp: dyn_poll_error_def shown)

end

text \<open>The two backends of a submission.\<close>

locale submit_errors = up: std_error du + notify: std_error dn
  for du :: "'u \<Rightarrow> dyn_error" and dn :: "'n \<Rightarrow> dyn_error"
begin

lemma native_shown: "causes_shown (dyn_native_error (dyn_prepare_upload_error z io) du dn e)"
  by (cases e) (auto simp: dyn_native_error_def up.shown notify.shown)

lemma pack_artifact_shown: "causes_shown (dyn_pack_artifact_error (dyn_prepare_upload_error z io) du dn e)"
  by (cases e) (auto simp: dyn_pack_artifact_error_def native_shown)

end

interpretation pfx_errors: std_error "dyn_pfx_error ssl" for ssl
  by unfold_locales simp

interpretation inbox_errors: std_error "dyn_inbox_error dbg io ssh" for dbg io ssh
  by unfold_locales simp

interpretation backend_errors: submit_errors "dyn_upload_error io ssh" "dyn_pfs001_error st q json"
  for io ssh st q json
  by unfold_locales simp_all

end
