(* ===== verification/Console.thy ===== *)
theory Console
  imports Cli_Properties Error_Texts
begin

text \<open>
  The lines that \<open>apps/einvoice-cli/src/main.rs\<close> prints: the errors of the command line as
  \<open>dyn Error\<close>, the text of every report, and \<open>main\<close> with its last line and exit code.
\<close>

section \<open>Errors\<close>

primrec display_cli_error :: "(string \<Rightarrow> string) \<Rightarrow> cli_error \<Rightarrow> string" where
  "display_cli_error dbg (MissingSecretEnvironment name) =
     ''required secret environment variable '' @ dbg name @ '' is not set''"
| "display_cli_error dbg (NonUnicodeSecretEnvironment name) =
     ''secret environment variable '' @ dbg name @ '' is not valid Unicode''"
| "display_cli_error dbg EmptySecretEnvironmentName = ''secret environment variable name must not be empty''"
| "display_cli_error dbg (InboundObjectFailures count) =
     dec count @ '' inbound object(s) failed durable receive or parsing''"

definition dyn_cli_error :: "(string \<Rightarrow> string) \<Rightarrow> cli_error \<Rightarrow> dyn_error" where
  "dyn_cli_error dbg e = Own (display_cli_error dbg e) None"

primrec dyn_file_error :: "(io_error \<Rightarrow> string) \<Rightarrow> file_error \<Rightarrow> dyn_error" where
  "dyn_file_error io (SystemError e) = Foreign (io e)"
| "dyn_file_error io (ContextError context_text e) = Foreign (context_text @ io e)"

text \<open>A box is the error in it.\<close>

primrec dyn_boxed_error ::
  "(string \<Rightarrow> string) \<Rightarrow> (io_error \<Rightarrow> string) \<Rightarrow> ('s \<Rightarrow> dyn_error) \<Rightarrow> ('h \<Rightarrow> dyn_error) \<Rightarrow> ('b \<Rightarrow> dyn_error) \<Rightarrow>
     ('p \<Rightarrow> dyn_error) \<Rightarrow> ('s, 'h, 'b, 'p) boxed_error \<Rightarrow> dyn_error" where
  "dyn_boxed_error dbg io ds dh db dp (CliFailure e) = dyn_cli_error dbg e"
| "dyn_boxed_error dbg io ds dh db dp (FileFailure e) = dyn_file_error io e"
| "dyn_boxed_error dbg io ds dh db dp (PfxFailure e) = ds e"
| "dyn_boxed_error dbg io ds dh db dp (FilenameFailure e) = dyn_filename_error e"
| "dyn_boxed_error dbg io ds dh db dp (EnvelopeFailure e) = dyn_envelope_error e"
| "dyn_boxed_error dbg io ds dh db dp (PrepareFailure e) = dyn_prepare_submission_error dbg ds e"
| "dyn_boxed_error dbg io ds dh db dp (HttpFailure e) = dh e"
| "dyn_boxed_error dbg io ds dh db dp (SubmitFailure e) = db e"
| "dyn_boxed_error dbg io ds dh db dp (PollFailure e) = dp e"

text \<open>The texts of the foreign errors that a command can meet.\<close>

record ('e, 'status, 'q, 'j, 'z, 'io, 'x, 'd) foreign_texts =
  ft_debug_str :: "string \<Rightarrow> string"
  ft_io :: "io_error \<Rightarrow> string"
  ft_openssl :: "'e \<Rightarrow> string"
  ft_status :: "'status \<Rightarrow> string"
  ft_http :: "'q \<Rightarrow> string"
  ft_json :: "'j \<Rightarrow> string"
  ft_zip :: "'z \<Rightarrow> string"
  ft_zip_io :: "'io \<Rightarrow> string"
  ft_ssh :: "'x \<Rightarrow> string"
  ft_utf8 :: string
  ft_xml :: "'d \<Rightarrow> string"

definition dyn_command_error ::
  "('e, 'status, 'q, 'j, 'z, 'io, 'x, 'd) foreign_texts \<Rightarrow>
     ('e, 'status, 'q, 'j, 'z, 'io, 'x, 'x sftp_inbox_error poll_error) submit_error \<Rightarrow> dyn_error" where
  "dyn_command_error ft =
     dyn_boxed_error (ft_debug_str ft) (ft_io ft) (dyn_pfx_error (ft_openssl ft))
       (dyn_pfs001_error (ft_status ft) (ft_http ft) (ft_json ft))
       (dyn_pack_artifact_error (dyn_prepare_upload_error (ft_zip ft) (ft_zip_io ft))
          (dyn_upload_error (ft_io ft) (ft_ssh ft)) (dyn_pfs001_error (ft_status ft) (ft_http ft) (ft_json ft)))
       (dyn_poll_error (dyn_inbox_error (ft_debug_str ft) (ft_io ft) (ft_ssh ft)))"

definition dyn_attempt_error ::
  "('e, 'status, 'q, 'j, 'z, 'io, 'x, 'd) foreign_texts \<Rightarrow> ('d, 'x sftp_inbox_error) poll_object_error \<Rightarrow> dyn_error" where
  "dyn_attempt_error ft =
     dyn_poll_object_error (ft_debug_str ft) (ft_io ft) (ft_utf8 ft) (ft_xml ft)
       (dyn_inbox_error (ft_debug_str ft) (ft_io ft) (ft_ssh ft))"

lemma file_error_shown [simp]: "causes_shown (dyn_file_error io e)"
  by (cases e) simp_all

lemma command_error_shown: "causes_shown (dyn_command_error ft e)"
  by (cases e) (auto simp: dyn_command_error_def dyn_cli_error_def pfx_errors.prepare_submission_shown
      backend_errors.pack_artifact_shown inbox_errors.poll_shown)

lemma attempt_error_shown: "causes_shown (dyn_attempt_error ft e)"
  by (simp add: dyn_attempt_error_def inbox_errors.poll_object_shown)

section \<open>Lines\<close>

datatype stream = Stdout | Stderr

primrec debug_signature_algorithm :: "signature_algorithm \<Rightarrow> string" where
  "debug_signature_algorithm RsaPkcs1v15Sha256 = ''RsaPkcs1v15Sha256''"
| "debug_signature_algorithm EcdsaSha256 = ''EcdsaSha256''"

primrec debug_e05 :: "e05_message_type \<Rightarrow> string" where
  "debug_e05 e05_message_type.E0501 = ''E0501''"
| "debug_e05 e05_message_type.E0502 = ''E0502''"
| "debug_e05 e05_message_type.E0503 = ''E0503''"
| "debug_e05 e05_message_type.E0504 = ''E0504''"

definition debug_common_name :: "(string \<Rightarrow> string) \<Rightarrow> message_common_name \<Rightarrow> string" where
  "debug_common_name dbg n =
     ''MessageCommonName { mig_version: '' @ dbg (mcn_mig_version n) @
     '', message_type: '' @ dbg (mcn_message_type n) @ '', date: '' @ dbg (mcn_date n) @
     '', time: '' @ dbg (mcn_time n) @ '', uuid: '' @ dbg (mcn_uuid n) @ '' }''"

primrec debug_inbound_kind :: "(string \<Rightarrow> string) \<Rightarrow> inbound_kind \<Rightarrow> string" where
  "debug_inbound_kind dbg ProcessResultObject = ''ProcessResult''"
| "debug_inbound_kind dbg SummaryResultObject = ''SummaryResult''"
| "debug_inbound_kind dbg (E05 t) = ''E05('' @ debug_e05 t @ '')''"
| "debug_inbound_kind dbg ExchangeAck = ''ExchangeAck''"
| "debug_inbound_kind dbg (Invoice n) = ''Invoice('' @ debug_common_name dbg n @ '')''"
| "debug_inbound_kind dbg Unknown = ''Unknown''"

text \<open>The text of each print statement, from its fields.\<close>

definition prepared_line :: "string \<Rightarrow> string \<Rightarrow> string \<Rightarrow> nat \<Rightarrow> signature_algorithm \<Rightarrow> stream \<times> string" where
  "prepared_line path local_name remote_name bytes algorithm =
     (Stdout, ''prepared artifact='' @ path @ '' local_filename='' @ local_name @ '' remote_filename='' @ remote_name @
        '' bytes='' @ dec bytes @ '' signature='' @ debug_signature_algorithm algorithm)"

definition submitting_line :: "string \<Rightarrow> string \<Rightarrow> stream \<times> string" where
  "submitting_line environment remote_name =
     (Stderr, ''submitting persisted artifact to '' @ environment @ '' environment ('' @ remote_name @ '')'')"

definition submitted_line :: "string \<Rightarrow> i32 \<Rightarrow> stream \<times> string" where
  "submitted_line remote_name status_code =
     (Stdout, ''submitted remote_filename='' @ remote_name @ '' pfs001_status='' @ i32_to_string status_code)"

definition nothing_received_line :: "string \<Rightarrow> string \<Rightarrow> stream \<times> string" where
  "nothing_received_line environment inbox =
     (Stdout, ''received environment='' @ environment @ '' objects=0 inbox='' @ inbox)"

definition process_line :: "string \<Rightarrow> string \<Rightarrow> nat \<Rightarrow> string list \<Rightarrow> stream \<times> string" where
  "process_line path correlation_id diagnostics codes =
     (Stdout, ''received kind=ProcessResult path='' @ path @ '' correlation_id='' @ correlation_id @
        '' diagnostics='' @ dec diagnostics @ '' codes='' @ join '','' codes)"

definition summary_line :: "string \<Rightarrow> string \<Rightarrow> i32 \<Rightarrow> i32 \<Rightarrow> i32 \<Rightarrow> nat \<Rightarrow> stream \<times> string" where
  "summary_line path correlation_id t g f issues =
     (Stdout, ''received kind=SummaryResult path='' @ path @ '' correlation_id='' @ correlation_id @
        '' total='' @ i32_to_string t @ '' good='' @ i32_to_string g @ '' failed='' @ i32_to_string f @
        '' validation_issues='' @ dec issues)"

definition opaque_line :: "(string \<Rightarrow> string) \<Rightarrow> inbound_kind \<Rightarrow> string \<Rightarrow> stream \<times> string" where
  "opaque_line dbg kind path =
     (Stdout, ''received kind='' @ debug_inbound_kind dbg kind @ '' path='' @ path @ '' correlation_ids=0'')"

definition receive_error_line :: "string \<Rightarrow> dyn_error \<Rightarrow> stream \<times> string" where
  "receive_error_line name error =
     (Stderr, ''receive_error object='' @ name @ '' error='' @ dyn_text error)"

primrec report_line ::
  "('e, 'status, 'q, 'j, 'z, 'io, 'x, 'd) foreign_texts \<Rightarrow> ('d, 'x sftp_inbox_error) poll_object_error report \<Rightarrow>
     stream \<times> string" where
  "report_line ft (PreparedReport path local_name remote_name bytes algorithm) =
     prepared_line path local_name remote_name bytes algorithm"
| "report_line ft (SubmittingReport environment remote_name) = submitting_line environment remote_name"
| "report_line ft (SubmittedReport remote_name status_code) = submitted_line remote_name status_code"
| "report_line ft (NothingReceived environment inbox) = nothing_received_line environment inbox"
| "report_line ft (ProcessReport path correlation_id diagnostics codes) =
     process_line path correlation_id diagnostics codes"
| "report_line ft (SummaryReport path correlation_id t g f issues) = summary_line path correlation_id t g f issues"
| "report_line ft (OpaqueReport kind path) = opaque_line (ft_debug_str ft) kind path"
| "report_line ft (ReceiveErrorReport name error) = receive_error_line name (dyn_attempt_error ft error)"

datatype exit_code = Success | Failure

definition main ::
  "('e, 'status, 'q, 'j, 'z, 'io, 'x, 'd) foreign_texts \<Rightarrow>
     (('d, 'x sftp_inbox_error) poll_object_error, 'w,
        ('e, 'status, 'q, 'j, 'z, 'io, 'x, 'x sftp_inbox_error poll_error) submit_error, unit) cli \<Rightarrow>
     machine \<times> 'w \<Rightarrow> (exit_code \<times> (stream \<times> string) list \<times> (machine \<times> 'w)) option" where
  "main ft body s =
     map_option (\<lambda>(r, (out, s')).
       (case r of
          Inr _ \<Rightarrow> (Success, map (report_line ft) out, s')
        | Inl error \<Rightarrow>
            (Failure, map (report_line ft) out @ [(Stderr, ''error: '' @ dyn_text (dyn_command_error ft error))], s')))
       (body ([], s))"

section \<open>What is printed\<close>


text \<open>The reports of one attempt; None is the overflow panic of \<open>validation_issues\<close> in a debug build.\<close>

definition summary_reports :: "profile \<Rightarrow> string \<Rightarrow> summary_message list \<Rightarrow> 'r report list option" where
  "summary_reports p path messages =
     those (map (\<lambda>m. map_option (\<lambda>issues. SummaryReport path (smi_id (sm_info m)) (detail_count (rb_total (sm_result m)))
         (detail_count (rb_good (sm_result m))) (detail_count (rb_failed (sm_result m))) (length issues))
       (validation_issues p m None)) messages)"

definition reconciled_reports :: "profile \<Rightarrow> durable_inbound_record \<Rightarrow> 'r report list option" where
  "reconciled_reports p inbound =
     (case din_reconciliation inbound of
        Some (Process result) \<Rightarrow>
          Some [ProcessReport (din_path inbound) (pmi_id (pr_message result)) (length (pr_diagnostics result))
            (map diag_code (pr_diagnostics result))]
      | Some (Summary result) \<Rightarrow> summary_reports p (din_path inbound) (sr_messages result)
      | None \<Rightarrow> Some [OpaqueReport (din_kind inbound) (din_path inbound)])"

definition attempt_reports :: "profile \<Rightarrow> ('x, 'e) poll_attempt \<Rightarrow> ('x, 'e) poll_object_error report list option" where
  "attempt_reports p att =
     (case pa_result att of
        Inr reconciled \<Rightarrow> reconciled_reports p (rec_record reconciled)
      | Inl e \<Rightarrow> Some [ReceiveErrorReport (ro_name (pa_object att)) e])"

lemma print_summary_messages_run:
  "print_summary_messages p path messages (out, s) =
     map_option (\<lambda>ls. (Inr (), (out @ ls, s))) (summary_reports p path messages)"
  by (induction messages arbitrary: out)
    (auto simp: summary_reports_def io_return_def io_bind_def print_def option.map_comp comp_def append_Cons
      split: option.splits)

lemma print_reconciled_run:
  "print_reconciled_object p reconciled (out, s) =
     map_option (\<lambda>ls. (Inr (), (out @ ls, s))) (reconciled_reports p (rec_record reconciled))"
  by (auto simp: print_reconciled_object_def reconciled_reports_def Let_def print_summary_messages_run print_def
      split: option.splits parsed_reconciliation.splits)

lemma report_attempts_run:
  "report_attempts p attempts k (out, s) =
     map_option (\<lambda>lss. (Inr (k + failed_attempts attempts), (out @ concat lss, s)))
       (those (map (attempt_reports p) attempts))"
  by (induction attempts arbitrary: k out)
    (auto simp: io_return_def io_bind_def print_def print_reconciled_run attempt_reports_def failed_attempts_def
      option.map_comp comp_def append_Cons split: option.splits sum.splits)

lemma receive_report_lines:
  fixes ft :: "('e, 'status, 'q, 'j, 'z, 'io, 'x, 'd) foreign_texts"
  shows "main ft (\<lambda>s. receive_report p args attempts (fst s, t)) u =
    map_option (\<lambda>lss. (if failed_attempts attempts = 0 then Success else Failure,
        map (report_line ft) (concat lss) @
          (if failed_attempts attempts = 0 then []
           else [(Stderr, ''error: '' @ dec (failed_attempts attempts) @
                   '' inbound object(s) failed durable receive or parsing'')]), t))
      (if attempts = [] then Some [[NothingReceived (label (rea_environment args)) (rea_inbox_dir args)]]
       else those (map (attempt_reports p) attempts))"
proof (cases "attempts = []")
  case True
  then show ?thesis by (simp add: main_def receive_report_def print_def failed_attempts_def)
next
  case False
  have "dyn_text (dyn_command_error ft (CliFailure (InboundObjectFailures n))) =
      dec n @ '' inbound object(s) failed durable receive or parsing''" for n
    by (simp add: dyn_command_error_def dyn_cli_error_def)
  with False show ?thesis
    by (simp add: main_def receive_report_def io_bind_def report_attempts_run io_return_def io_result_def
        option.map_comp comp_def split: option.splits)
qed

text \<open>
  C21.  What \<open>receive\<close> prints and returns is determined by the attempts of its
  poll: one group of lines per attempt, in the order of the objects, a failed attempt giving
  exactly one line on the standard error with the object's name and its error; then, exactly when
  some attempt failed, the error line with their number and the failing exit code.  An empty
  listing prints its one line.  The files and the network are as the poll left them.
\<close>

theorem receive_lines_exact:
  fixes ft :: "('e, 'status, 'q, 'j, 'z, 'io, 'x, 'd) foreign_texts"
  assumes "read_secret_environment var (rea_transport_password_env args) = Inr password"
    and "fs_create_dir_all (rea_inbox_dir args) m = Some (Inr (), m1)"
    and "poll_once de (command_poller ssh args password) (m1, w) = Some (Inr attempts, (m2, w2))"
  shows "main ft (run p encode ossl zw de ssh hb var (ReceiveCommand args)) (m, w) =
    map_option (\<lambda>lss. (if failed_attempts attempts = 0 then Success else Failure,
        map (report_line ft) (concat lss) @
          (if failed_attempts attempts = 0 then []
           else [(Stderr, ''error: '' @ dec (failed_attempts attempts) @
                   '' inbound object(s) failed durable receive or parsing'')]), (m2, w2)))
      (if attempts = [] then Some [[NothingReceived (label (rea_environment args)) (rea_inbox_dir args)]]
       else those (map (attempt_reports p) attempts))"
proof -
  have "main ft (run p encode ossl zw de ssh hb var (ReceiveCommand args)) (m, w) =
      main ft (\<lambda>s. receive_report p args attempts (fst s, (m2, w2))) (m, w)"
    by (simp add: main_def run_def run_receive_run [OF assms(1)] io_bind_def io_map_err_def on_snd_def on_fst_def assms(2,3))
  then show ?thesis by (simp add: receive_report_lines)
qed

definition sample_texts :: "(unit, unit, unit, unit, unit, unit, unit, unit) foreign_texts" where
  "sample_texts = \<lparr>ft_debug_str = (\<lambda>s. s), ft_io = (\<lambda>_. ''No space left on device''), ft_openssl = (\<lambda>_. []),
     ft_status = (\<lambda>_. []), ft_http = (\<lambda>_. []), ft_json = (\<lambda>_. []), ft_zip = (\<lambda>_. []), ft_zip_io = (\<lambda>_. []),
     ft_ssh = (\<lambda>_. []), ft_utf8 = [], ft_xml = (\<lambda>_. [])\<rparr>"

theorem receive_lines_exact_witness:
  "\<exists>s. main sample_texts (run Release hex_like sample_ossl sample_zip no_xml sample_ssh sample_http Inr
       (ReceiveCommand sample_receive_args)) (failing_machine, sample_remote [1, 2, 3]) =
     Some (Failure,
       [(Stderr, ''receive_error object='' @ ro_name sample_object @
           '' error=durable receive filesystem error: No space left on device''),
        (Stderr, ''error: 1 inbound object(s) failed durable receive or parsing'')], s)"
proof -
  have pw: "read_secret_environment Inr (rea_transport_password_env sample_receive_args) = Inr DEFAULT_TRANSPORT_PASSWORD_ENV"
    by (simp add: sample_receive_args_def read_secret_environment_def DEFAULT_TRANSPORT_PASSWORD_ENV_def)
  have dir: "fs_create_dir_all (rea_inbox_dir sample_receive_args) failing_machine =
      Some (Inr (), sample_machine [Fault (OtherError 28) 0])"
    by (simp add: fs_create_dir_all_def attempt_def next_event_def failing_machine_def sample_machine_def)
  obtain m' where "poll_once no_xml (command_poller sample_ssh sample_receive_args DEFAULT_TRANSPORT_PASSWORD_ENV)
      (sample_machine [Fault (OtherError 28) 0], sample_remote [1, 2, 3]) =
     Some (Inr [\<lparr>pa_object = sample_object, pa_result = Inl (PollReceive (ReceiveIo (OtherError 28)))\<rparr>],
       (m', sample_remote [1, 2, 3]))"
    using sample_failing_poll by blast
  note run = receive_lines_exact [OF pw dir this, where ft = sample_texts and p = Release and encode = hex_like
      and ossl = sample_ossl and zw = sample_zip and hb = sample_http]
  have io: "ft_io sample_texts e = ''No space left on device''" for e by (simp add: sample_texts_def)
  show ?thesis
    unfolding run by (simp add: attempt_reports_def failed_attempts_def dyn_attempt_error_def dyn_poll_object_error_def
        receive_error_line_def io append_Cons)
qed

end
