(* ===== verification/Redaction.thy ===== *)
theory Redaction
  imports Reconciliation
begin

text \<open>
  The \<open>Debug\<close> implementations of the values that hold secrets, hand-written and derived.  What
  an implementation hands to the formatter is a tree; how the formatter prints and escapes it is
  the standard library's business and adds no data.
\<close>

datatype debug =
    DebugStr string
  | DebugNat nat
  | DebugDuration nat
  | DebugBytes bytes
  | DebugName string
  | DebugSome debug
  | DebugStruct string "(string \<times> debug) list" bool

text \<open>The data in a tree; the flag of a structure is False for \<open>finish_non_exhaustive\<close>.\<close>

primrec leaves :: "debug \<Rightarrow> debug list" where
  "leaves (DebugStr s) = [DebugStr s]"
| "leaves (DebugNat n) = [DebugNat n]"
| "leaves (DebugDuration n) = [DebugDuration n]"
| "leaves (DebugBytes b) = [DebugBytes b]"
| "leaves (DebugName n) = [DebugName n]"
| "leaves (DebugSome d) = leaves d"
| "leaves (DebugStruct n fs exhaustive) = concat (map snd (map (map_prod (\<lambda>x. x) leaves) fs))"

section \<open>Credentials and clients\<close>

definition debug_sftp_credentials :: "sftp_credentials \<Rightarrow> debug" where
  "debug_sftp_credentials c = DebugStruct ''SftpCredentials''
     [(''username'', DebugStr (sc_username c)), (''password'', DebugStr ''[REDACTED]'')] True"

definition debug_sftp_config :: "sftp_config \<Rightarrow> debug" where
  "debug_sftp_config c = DebugStruct ''SftpConfig''
     [(''host'', DebugStr (cfg_host c)), (''port'', DebugNat (unat (cfg_port c))),
      (''known_hosts_path'', DebugStr (cfg_known_hosts_path c)), (''timeout'', DebugDuration (cfg_timeout c)),
      (''upload_directory'', DebugStr (cfg_upload_directory c)),
      (''receive_directory'', DebugStr (cfg_receive_directory c))] True"

definition debug_sftp_uploader :: "sftp_config \<Rightarrow> sftp_credentials \<Rightarrow> debug" where
  "debug_sftp_uploader config credentials = DebugStruct ''Ssh2SftpUploader''
     [(''config'', debug_sftp_config config), (''credentials'', debug_sftp_credentials credentials)] True"

definition debug_remote_inbox :: "sftp_config \<Rightarrow> sftp_credentials \<Rightarrow> debug" where
  "debug_remote_inbox config credentials = DebugStruct ''Ssh2RemoteInbox''
     [(''config'', debug_sftp_config config), (''credentials'', debug_sftp_credentials credentials)] True"

definition debug_gateway_credentials :: "gateway_credentials \<Rightarrow> debug" where
  "debug_gateway_credentials c = DebugStruct ''GatewayCredentials''
     [(''login_id'', DebugStr (gc_login_id c)), (''login_password'', DebugStr ''[REDACTED]'')] True"

definition debug_http_client :: "'client pfs001_http_client \<Rightarrow> debug" where
  "debug_http_client c = DebugStruct ''Pfs001HttpClient''
     [(''endpoint'', DebugStr (phc_endpoint c)), (''credentials'', debug_gateway_credentials (phc_credentials c))] False"

text \<open>The derived implementations of the structures around them.\<close>

definition debug_native_submitter :: "debug \<Rightarrow> debug \<Rightarrow> debug" where
  "debug_native_submitter uploader notifier =
     DebugStruct ''NativeSubmitter'' [(''uploader'', uploader), (''notifier'', notifier)] True"

definition debug_durable_receiver :: "debug \<Rightarrow> string \<Rightarrow> debug" where
  "debug_durable_receiver remote inbox_dir =
     DebugStruct ''DurableReceiver'' [(''remote'', remote), (''inbox_dir'', DebugStr inbox_dir)] True"

definition debug_poller :: "debug \<Rightarrow> debug" where
  "debug_poller receiver = DebugStruct ''ReconciliationPoller'' [(''receiver'', receiver)] True"

section \<open>Keys and artifacts\<close>

fun debug_algorithm :: "signature_algorithm \<Rightarrow> debug" where
  "debug_algorithm RsaPkcs1v15Sha256 = DebugName ''RsaPkcs1v15Sha256''"
| "debug_algorithm EcdsaSha256 = DebugName ''EcdsaSha256''"

definition debug_pfx_signer :: "('k, 'c) pfx_signer \<Rightarrow> debug" where
  "debug_pfx_signer s = DebugStruct ''PfxSigner''
     [(''signature_algorithm'', debug_algorithm (ps_signature_algorithm s))] False"

definition debug_signed_artifact :: "signed_artifact \<Rightarrow> debug" where
  "debug_signed_artifact a = DebugStruct ''SignedArtifact''
     [(''upload_bytes'', DebugStr ''[REDACTED]''), (''upload_size'', DebugNat (length (sa_upload_bytes a))),
      (''envelope_size'', DebugNat (sa_envelope_size a)),
      (''signature_algorithm'', debug_algorithm (sa_signature_algorithm a))] True"

fun debug_zip_mode :: "zip_mode \<Rightarrow> debug" where
  "debug_zip_mode Plain = DebugName ''Plain''"
| "debug_zip_mode Zip = DebugName ''Zip''"

definition debug_prepared_upload :: "prepared_upload_object \<Rightarrow> debug" where
  "debug_prepared_upload p = DebugStruct ''PreparedUploadObject''
     [(''remote_filename'', DebugStr (puo_remote_filename p)), (''uploaded_bytes'', DebugBytes (puo_uploaded_bytes p)),
      (''notification_size'', DebugNat (unat (puo_notification_size p))),
      (''zip_mode'', debug_zip_mode (puo_zip_mode p))] True"

section \<open>Properties\<close>

lemma debug_algorithm_leaves: "leaves (debug_algorithm a) = [debug_algorithm a]"
  by (cases a) simp_all

lemmas debug_defs = debug_sftp_credentials_def debug_sftp_config_def debug_sftp_uploader_def debug_remote_inbox_def
  debug_gateway_credentials_def debug_http_client_def debug_native_submitter_def debug_durable_receiver_def
  debug_poller_def debug_pfx_signer_def debug_signed_artifact_def

definition config_leaves :: "sftp_config \<Rightarrow> debug set" where
  "config_leaves config = set (leaves (debug_sftp_config config))"

text \<open>
  No \<open>Debug\<close> output of the values that hold secrets contains one: what the
  submitter and the poller, with everything inside them, hand to the formatter is the
  configuration, the user names, the endpoint, the directory and the constant text
  \<open>[REDACTED]\<close>, never a password; a signer shows only its algorithm, an artifact only sizes and
  algorithm.
\<close>

theorem secrets_redacted:
  "set (leaves (debug_native_submitter (debug_sftp_uploader config credentials) (debug_http_client client))) =
     config_leaves config \<union> {DebugStr (sc_username credentials), DebugStr (phc_endpoint client),
       DebugStr (gc_login_id (phc_credentials client)), DebugStr ''[REDACTED]''} \<and>
   set (leaves (debug_poller (debug_durable_receiver (debug_remote_inbox config credentials) dir))) =
     config_leaves config \<union> {DebugStr (sc_username credentials), DebugStr dir, DebugStr ''[REDACTED]''} \<and>
   leaves (debug_pfx_signer signer) = [debug_algorithm (ps_signature_algorithm signer)] \<and>
   leaves (debug_signed_artifact artifact) =
     [DebugStr ''[REDACTED]'', DebugNat (turnkey_reported_size artifact), DebugNat (sa_envelope_size artifact),
      debug_algorithm (sa_signature_algorithm artifact)]"
  by (auto simp: debug_defs config_leaves_def debug_algorithm_leaves turnkey_reported_size_def)

text \<open>
  The artifact's bytes are hidden by \<open>SignedArtifact\<close> but not by the object that the upload
  makes of it, whose derived implementation prints them.
\<close>

theorem prepared_upload_debug_shows_bytes:
  "DebugBytes (puo_uploaded_bytes p) \<in> set (leaves (debug_prepared_upload p))"
  by (simp add: debug_prepared_upload_def)

end
