(* ===== verification/Conformance.thy ===== *)
theory Conformance
  imports Text_Utils "HOL-Library.Monad_Syntax"
begin

text \<open>
  The repository's own unit tests against the model.  A test is a computation in the option monad
  that follows the Rust test line by line: \<open>unwrap\<close> and \<open>unwrap_err\<close> are \<open>ok\<close> and \<open>err\<close>, an
  \<open>assert!\<close> is \<open>assert\<close>, and a panic is \<^const>\<open>None\<close>; it passes when it evaluates to
  \<^term>\<open>Some ()\<close>.  The theories \<open>Conformance_Mig\<close>, \<open>Conformance_F0401\<close>, \<open>Conformance_State\<close>,
  \<open>Conformance_Results\<close>, \<open>Conformance_Signing\<close>, \<open>Conformance_Envelope\<close>,
  \<open>Conformance_Transport\<close>, \<open>Conformance_Client\<close>, \<open>Conformance_Receiver\<close> and
  \<open>Conformance_Cli\<close> hold the translated tests, under the names they have in the repository, and
  the evaluations.
\<close>

type_synonym unit_test = "unit option"

definition ok :: "'e + 'a \<Rightarrow> 'a option" where
  "ok r = (case r of Inl _ \<Rightarrow> None | Inr a \<Rightarrow> Some a)"

definition err :: "'e + 'a \<Rightarrow> 'e option" where
  "err r = (case r of Inl e \<Rightarrow> Some e | Inr _ \<Rightarrow> None)"

definition assert :: "bool \<Rightarrow> unit_test" where
  "assert b = (if b then Some () else None)"

lemma ok_simps [simp]:
  "ok (Inr a) = Some a" "ok (Inl e) = None" "err (Inl e) = Some e" "err (Inr a) = None"
  "assert True = Some ()" "assert b = Some () \<longleftrightarrow> b"
  by (simp_all add: ok_def err_def assert_def)

abbreviation is_ok :: "'e + 'a \<Rightarrow> bool" where
  "is_ok r \<equiv> ok r \<noteq> None"

abbreviation is_err :: "'e + 'a \<Rightarrow> bool" where
  "is_err r \<equiv> err r \<noteq> None"

text \<open>\<open>str::contains\<close> with a string, and \<open>windows(n).any(..)\<close> on bytes.\<close>

fun has_prefix :: "'a list \<Rightarrow> 'a list \<Rightarrow> bool" where
  "has_prefix [] ys = True"
| "has_prefix (x # xs) [] = False"
| "has_prefix (x # xs) (y # ys) = (x = y \<and> has_prefix xs ys)"

fun contains_str :: "'a list \<Rightarrow> 'a list \<Rightarrow> bool" where
  "contains_str [] p = has_prefix p []"
| "contains_str (c # s) p = (if has_prefix p (c # s) then True else contains_str s p)"

lemma has_prefix_iff: "has_prefix p s \<longleftrightarrow> (\<exists>t. s = p @ t)"
  by (induction p s rule: has_prefix.induct) auto

lemma contains_str_iff: "contains_str s p \<longleftrightarrow> (\<exists>u v. s = u @ p @ v)"
proof (induction s)
  case (Cons c s)
  have "(\<exists>u v. c # s = u @ p @ v) \<longleftrightarrow> (\<exists>v. c # s = p @ v) \<or> (\<exists>u v. s = u @ p @ v)"
    by (auto simp: Cons_eq_append_conv)
  with Cons.IH show ?case by (simp add: has_prefix_iff)
qed (simp add: has_prefix_iff)

text \<open>Lines of a text literal.\<close>

fun text_lines :: "string list \<Rightarrow> string" where
  "text_lines [] = []"
| "text_lines (l # ls) = (if ls = [] then l else l @ lf # text_lines ls)"

lemma ascii_from_utf8:
  assumes "list_all (\<lambda>c. \<not> digit7 c) s"
  shows "from_utf8 (as_bytes s) = Some s"
proof -
  have "(of_char c :: u8) \<le> 0x7F" if "\<not> digit7 c" for c
  proof -
    have "of_char c < (128 :: nat)" using that by (cases c) auto
    then show ?thesis by (simp add: word_le_nat_alt)
  qed
  with assms have "list_all (\<lambda>b. b \<le> 0x7F) (as_bytes s)"
    by (auto simp: as_bytes_def list_all_iff)
  then show ?thesis by (simp add: from_utf8_def utf8_valid_ascii)
qed

text \<open>Terms compared as terms: both sides of \<^term>\<open>f a \<longrightarrow> f b\<close> are evaluated, for any \<^term>\<open>f\<close>.\<close>

lemma eq_by_context:
  assumes "\<And>f. f a \<longrightarrow> f b"
  shows "a = b"
  using assms [of "\<lambda>x. a = x"] by simp

text \<open>Indexing, which panics out of range.\<close>

fun get :: "'a list \<Rightarrow> nat \<Rightarrow> 'a option" where
  "get [] i = None"
| "get (x # xs) i = (case i of 0 \<Rightarrow> Some x | Suc j \<Rightarrow> get xs j)"

text \<open>A loop of tests: the first failure ends it.\<close>

fun for_each :: "('a \<Rightarrow> unit_test) \<Rightarrow> 'a list \<Rightarrow> unit_test" where
  "for_each test [] = Some ()"
| "for_each test (x # xs) = do { test x; for_each test xs }"

section \<open>Base64 and hexadecimal texts\<close>

text \<open>
  The tests call the crate \<open>base64\<close>, a parameter of the model: here it is the standard alphabet of
  RFC 4648 with padding.  \<open>decode_hex\<close> is the tests' own.
\<close>

definition base64_digit :: "int \<Rightarrow> char" where
  "base64_digit n = char_of
     (if n < 26 then n + 65 else if n < 52 then n + 71 else if n < 62 then n - 4
      else if n = 62 then 43 else 47)"

definition base64_value :: "char \<Rightarrow> int option" where
  "base64_value c =
     (let n = of_char c in
      if 65 \<le> n \<and> n \<le> 90 then Some (n - 65) else if 97 \<le> n \<and> n \<le> 122 then Some (n - 71)
      else if 48 \<le> n \<and> n \<le> 57 then Some (n + 4) else if n = 43 then Some 62
      else if n = 47 then Some 63 else None)"

fun base64_encode :: "bytes \<Rightarrow> string" where
  "base64_encode [] = []"
| "base64_encode [a] =
     (let n = uint a * 65536 in
      [base64_digit (n div 262144), base64_digit (n div 4096 mod 64), CHR ''='', CHR ''=''])"
| "base64_encode [a, b] =
     (let n = uint a * 65536 + uint b * 256 in
      [base64_digit (n div 262144), base64_digit (n div 4096 mod 64), base64_digit (n div 64 mod 64), CHR ''=''])"
| "base64_encode (a # b # c # rest) =
     (let n = uint a * 65536 + uint b * 256 + uint c in
      [base64_digit (n div 262144), base64_digit (n div 4096 mod 64), base64_digit (n div 64 mod 64),
       base64_digit (n mod 64)] @ base64_encode rest)"

fun base64_decode :: "string \<Rightarrow> bytes option" where
  "base64_decode (a # b # c # d # rest) = do {
     x \<leftarrow> base64_value a;
     y \<leftarrow> base64_value b;
     if d = CHR ''='' \<and> rest = [] then
       (if c = CHR ''='' then Some [of_int (x * 4 + y div 16)]
        else do {
          z \<leftarrow> base64_value c;
          Some [of_int (x * 4 + y div 16), of_int (y mod 16 * 16 + z div 4)] })
     else do {
       z \<leftarrow> base64_value c;
       w \<leftarrow> base64_value d;
       bytes \<leftarrow> base64_decode rest;
       Some (of_int (x * 4 + y div 16) # of_int (y mod 16 * 16 + z div 4) # of_int (z mod 4 * 64 + w) # bytes) } }"
| "base64_decode [] = Some []"
| "base64_decode _ = None"

definition hex_value :: "char \<Rightarrow> int option" where
  "hex_value c =
     (let n = of_char c in
      if 48 \<le> n \<and> n \<le> 57 then Some (n - 48) else if 97 \<le> n \<and> n \<le> 102 then Some (n - 87)
      else if 65 \<le> n \<and> n \<le> 70 then Some (n - 55) else None)"

text \<open>
  \<open>u8::from_str_radix(pair, 16)\<close>, which takes a plus sign; an odd last digit is left over by
  \<open>as_chunks\<close>.
\<close>

definition hex_pair :: "char \<Rightarrow> char \<Rightarrow> u8 option" where
  "hex_pair a b =
     (if a = CHR ''+'' then map_option of_int (hex_value b)
      else do { x \<leftarrow> hex_value a; y \<leftarrow> hex_value b; Some (of_int (x * 16 + y)) })"

fun decode_hex :: "string \<Rightarrow> bytes option" where
  "decode_hex (a # b # rest) = do {
     byte \<leftarrow> hex_pair a b;
     bytes \<leftarrow> decode_hex rest;
     Some (byte # bytes) }"
| "decode_hex _ = Some []"

end
