(* ===== verification/Conformance_Mig.thy ===== *)
theory Conformance_Mig
  imports Conformance Einvoice_Core Mig_Catalog Mig_Primitives
begin

text \<open>The unit tests of \<open>crates/einvoice-core\<close> and of the catalog and primitives of \<open>crates/einvoice-mig\<close>.\<close>

section \<open>einvoice-core\<close>

definition exposes_mig_wire_version :: unit_test where
  "exposes_mig_wire_version = assert (mig_version_as_str V4_1 = ''4.1'')"

definition accepts_mig_ban_lengths :: unit_test where
  "accepts_mig_ban_lengths = do {
     assert (is_ok (ban_parse ''12345678''));
     assert (is_ok (ban_parse ''123456789''));
     assert (is_ok (ban_parse ''1234567890'')) }"

definition recognizes_b2c_buyer_placeholder :: unit_test where
  "recognizes_b2c_buyer_placeholder = do {
     placeholder \<leftarrow> ok (ban_parse B2C_BUYER);
     assert (is_b2c_buyer placeholder);
     business \<leftarrow> ok (ban_parse ''12345678'');
     assert (\<not> is_b2c_buyer business) }"

definition rejects_invalid_mig_ban :: unit_test where
  "rejects_invalid_mig_ban = do {
     assert (is_err (ban_parse ''1234A678''));
     assert (is_err (ban_parse ''1234567''));
     assert (is_err (ban_parse ''12345678901'')) }"

definition validates_message_code_lexically :: unit_test where
  "validates_message_code_lexically = do {
     code \<leftarrow> ok (message_code_parse ''F0401'');
     assert (message_code_as_str code = ''F0401'');
     assert (is_err (message_code_parse ''f0401''));
     assert (is_err (message_code_parse ''F401'')) }"

lemma core_tests_pass:
  "exposes_mig_wire_version = Some ()"
  "accepts_mig_ban_lengths = Some ()"
  "recognizes_b2c_buyer_placeholder = Some ()"
  "rejects_invalid_mig_ban = Some ()"
  "validates_message_code_lexically = Some ()"
  by code_simp+

section \<open>Catalog and primitives\<close>

definition catalog_contains_current_twenty_one_message_codes :: unit_test where
  "catalog_contains_current_twenty_one_message_codes = do {
     assert (length mig41_ALL = 21);
     assert (mig41_as_str F0401 = ''F0401'');
     code \<leftarrow> ok (mig41_from_str ''E0504'');
     assert (code = E0504);
     assert (is_err (mig41_from_str ''F0601'')) }"

definition validates_invoice_number :: unit_test where
  "validates_invoice_number = do {
     number \<leftarrow> ok (invoice_number_parse ''QQ12345678'');
     assert (invoice_number_str number = ''QQ12345678'');
     assert (is_err (invoice_number_parse ''Q123456789''));
     assert (is_err (invoice_number_parse ''qq12345678'')) }"

definition distinguishes_date_lexical_and_calendar_validation :: unit_test where
  "distinguishes_date_lexical_and_calendar_validation = do {
     leap_day \<leftarrow> ok (mig_date_parse ''20240229'');
     assert (is_calendar_date leap_day);
     no_day \<leftarrow> ok (mig_date_parse ''20230229'');
     assert (\<not> is_calendar_date no_day);
     assert (is_err (mig_date_parse ''20241301'')) }"

definition validates_canonical_time :: unit_test where
  "validates_canonical_time = do {
     assert (is_ok (mig_time_parse ''23:59:59''));
     assert (is_err (mig_time_parse ''24:00:00''));
     assert (is_err (mig_time_parse ''12:34'')) }"

definition validates_decimal_precision_and_sign :: unit_test where
  "validates_decimal_precision_and_sign = do {
     decimal \<leftarrow> ok (mig_decimal_parse ''123.4567890'' 20 7 False);
     assert (mig_decimal_str decimal = ''123.4567890'');
     assert (is_err (mig_decimal_parse ''1.12345678'' 20 7 False));
     assert (is_err (mig_decimal_parse ''-1'' 20 7 True));
     negative \<leftarrow> ok (mig_decimal_parse ''-1'' 20 7 False);
     assert (mig_decimal_is_negative negative) }"

definition wire_enums_match_mig_values :: unit_test where
  "wire_enums_match_mig_values = do {
     assert (invoice_type_wire GeneralTax = ''07'');
     assert (donate_mark_wire Donated = ''1'');
     assert (print_mark_wire DoNotPrint = ''N'');
     assert (tax_type_wire Mixed = ''9'');
     assert (tax_rate_wire FivePercent = ''0.05'');
     reason \<leftarrow> ok (zero_tax_rate_reason_new 79);
     assert (zero_tax_rate_reason_wire reason = ''79'') }"

lemma primitive_tests_pass:
  "catalog_contains_current_twenty_one_message_codes = Some ()"
  "validates_invoice_number = Some ()"
  "distinguishes_date_lexical_and_calendar_validation = Some ()"
  "validates_canonical_time = Some ()"
  "validates_decimal_precision_and_sign = Some ()"
  "wire_enums_match_mig_values = Some ()"
  by code_simp+

end
