(* ===== verification/F0401_Xml.thy ===== *)
theory F0401_Xml
  imports F0401
begin

text \<open>
  \<open>crates/einvoice-mig/src/f0401.rs\<close>: the MIG 4.1 serialisation of an F0401 document.
  Functions that push into \<open>&mut String\<close> take the output so far first and return it extended.
\<close>

section \<open>Serialisation\<close>

definition F0401_NAMESPACE :: string where
  "F0401_NAMESPACE = ''urn:GEINV:eInvoiceMessage:F0401:4.1''"

fun push_escaped :: "string \<Rightarrow> string \<Rightarrow> string" where
  "push_escaped output [] = output"
| "push_escaped output (c # cs) = push_escaped
     (if c = CHR ''&'' then output @ ''&amp;''
      else if c = CHR ''<'' then output @ ''&lt;''
      else if c = CHR ''>'' then output @ ''&gt;''
      else if c = CHR 0x22 then output @ ''&quot;''
      else if c = CHR 0x27 then output @ ''&apos;''
      else output @ [c]) cs"

definition push_text_element :: "string \<Rightarrow> string \<Rightarrow> string \<Rightarrow> string" where
  "push_text_element output tag body =
     (let output = output @ ''<'' @ tag @ ''>'';
          output = push_escaped output body
      in output @ ''</'' @ tag @ ''>'')"

definition push_optional :: "string \<Rightarrow> string \<Rightarrow> string option \<Rightarrow> string" where
  "push_optional output tag body =
     (case body of None \<Rightarrow> output | Some v \<Rightarrow> push_text_element output tag v)"

definition push_role :: "string \<Rightarrow> string \<Rightarrow> role_description \<Rightarrow> string" where
  "push_role output tag role =
     (let output = output @ ''<'' @ tag @ ''>'';
          output = push_text_element output ''Identifier'' (ban_as_str (rd_identifier role));
          output = push_text_element output ''Name'' (rd_name role);
          output = push_optional output ''Address'' (rd_address role);
          output = push_optional output ''PersonInCharge'' (rd_person_in_charge role);
          output = push_optional output ''TelephoneNumber'' (rd_telephone_number role);
          output = push_optional output ''FacsimileNumber'' (rd_facsimile_number role);
          output = push_optional output ''EmailAddress'' (rd_email_address role);
          output = push_optional output ''CustomerNumber'' (rd_customer_number role);
          output = push_optional output ''RoleRemark'' (rd_role_remark role)
      in output @ ''</'' @ tag @ ''>'')"

text \<open>\<open>if let Some(value) = field { push_text_element(output, tag, value.wire_value()) }\<close>.\<close>

definition push_some :: "string \<Rightarrow> string \<Rightarrow> ('a \<Rightarrow> string) \<Rightarrow> 'a option \<Rightarrow> string" where
  "push_some output tag wire field =
     (case field of None \<Rightarrow> output | Some v \<Rightarrow> push_text_element output tag (wire v))"

definition push_main_xml :: "string \<Rightarrow> f0401_main \<Rightarrow> string" where
  "push_main_xml output main =
     (let output = output @ ''<Main>'';
          output = push_text_element output ''InvoiceNumber'' (invoice_number_str (fm_invoice_number main));
          output = push_text_element output ''InvoiceDate'' (mig_date_str (fm_invoice_date main));
          output = push_text_element output ''InvoiceTime'' (mig_time_str (fm_invoice_time main));
          output = push_role output ''Seller'' (fm_seller main);
          output = push_role output ''Buyer'' (fm_buyer main);
          output = push_some output ''BuyerRemark'' buyer_remark_wire (fm_buyer_remark main);
          output = push_optional output ''MainRemark'' (fm_main_remark main);
          output = push_some output ''CustomsClearanceMark'' customs_clearance_wire
                     (fm_customs_clearance_mark main);
          output = push_optional output ''Category'' (fm_category main);
          output = push_optional output ''RelateNumber'' (fm_relate_number main);
          output = push_text_element output ''InvoiceType'' (invoice_type_wire (fm_invoice_type main));
          output = push_optional output ''GroupMark'' (fm_group_mark main);
          output = push_text_element output ''DonateMark'' (donate_mark_wire (fm_donate_mark main));
          output = push_optional output ''CarrierType'' (fm_carrier_type main);
          output = push_optional output ''CarrierId1'' (fm_carrier_id1 main);
          output = push_optional output ''CarrierId2'' (fm_carrier_id2 main);
          output = push_text_element output ''PrintMark'' (print_mark_wire (fm_print_mark main));
          output = push_some output ''NPOBAN'' ban_as_str (fm_npo_ban main);
          output = push_optional output ''RandomNumber'' (fm_random_number main);
          output = push_some output ''BondedAreaConfirm'' bonded_area_wire (fm_bonded_area_confirm main);
          output = push_some output ''ZeroTaxRateReason'' zero_tax_rate_reason_wire
                     (fm_zero_tax_rate_reason main);
          output = push_optional output ''Reserved1'' (fm_reserved1 main);
          output = push_optional output ''Reserved2'' (fm_reserved2 main)
      in output @ ''</Main>'')"

definition push_item_xml :: "string \<Rightarrow> product_item \<Rightarrow> string" where
  "push_item_xml output item =
     (let output = output @ ''<ProductItem>'';
          output = push_text_element output ''Description'' (pi_description item);
          output = push_text_element output ''Quantity'' (mig_decimal_str (pi_quantity item));
          output = push_optional output ''Unit'' (pi_unit item);
          output = push_text_element output ''UnitPrice'' (mig_decimal_str (pi_unit_price item));
          output = push_text_element output ''TaxType'' (tax_type_wire (pi_tax_type item));
          output = push_text_element output ''Amount'' (mig_decimal_str (pi_amount item));
          output = push_text_element output ''SequenceNumber'' (pi_sequence_number item);
          output = push_optional output ''Remark'' (pi_remark item);
          output = push_optional output ''RelateNumber'' (pi_relate_number item)
      in output @ ''</ProductItem>'')"

definition push_details_xml :: "string \<Rightarrow> product_item list \<Rightarrow> string" where
  "push_details_xml output details =
     (let output = output @ ''<Details>'';
          output = foldl push_item_xml output details
      in output @ ''</Details>'')"

definition push_amount_xml :: "string \<Rightarrow> f0401_amount \<Rightarrow> string" where
  "push_amount_xml output amount =
     (let output = output @ ''<Amount>'';
          output = push_text_element output ''SalesAmount'' (mig_decimal_str (fa_sales_amount amount));
          output = push_text_element output ''FreeTaxSalesAmount''
                     (mig_decimal_str (fa_free_tax_sales_amount amount));
          output = push_text_element output ''ZeroTaxSalesAmount''
                     (mig_decimal_str (fa_zero_tax_sales_amount amount));
          output = push_text_element output ''TaxType'' (tax_type_wire (fa_tax_type amount));
          output = push_text_element output ''TaxRate'' (tax_rate_wire (fa_tax_rate amount));
          output = push_text_element output ''TaxAmount'' (mig_decimal_str (fa_tax_amount amount));
          output = push_text_element output ''TotalAmount'' (mig_decimal_str (fa_total_amount amount));
          output = push_some output ''DiscountAmount'' mig_decimal_str (fa_discount_amount amount);
          output = push_some output ''OriginalCurrencyAmount'' mig_decimal_str
                     (fa_original_currency_amount amount);
          output = push_some output ''ExchangeRate'' mig_decimal_str (fa_exchange_rate amount);
          output = push_some output ''Currency'' currency_code_str (fa_currency amount)
      in output @ ''</Amount>'')"

definition f0401_to_xml :: "f0401_invoice \<Rightarrow> string" where
  "f0401_to_xml invoice =
     (let output = '''';
          output = output @ ''<Invoice xmlns='' @ [CHR 0x22];
          output = output @ F0401_NAMESPACE;
          output = output @ [CHR 0x22] @ ''>'';
          output = push_main_xml output (fi_main invoice);
          output = push_details_xml output (fi_details invoice);
          output = push_amount_xml output (fi_amount invoice)
      in output @ ''</Invoice>'')"

section \<open>Element trees\<close>

text \<open>The document as a tree of elements with text, and what writing out such a tree means.\<close>

datatype xml = Leaf string string | Node string "xml list"

definition escape_char :: "char \<Rightarrow> string" where
  "escape_char c =
     (if c = CHR ''&'' then ''&amp;'' else if c = CHR ''<'' then ''&lt;''
      else if c = CHR ''>'' then ''&gt;'' else if c = CHR 0x22 then ''&quot;''
      else if c = CHR 0x27 then ''&apos;'' else [c])"

definition escape :: "string \<Rightarrow> string" where
  "escape s = concat (map escape_char s)"

fun render :: "xml \<Rightarrow> string" where
  "render (Leaf tag body) = ''<'' @ tag @ ''>'' @ escape body @ ''</'' @ tag @ ''>''"
| "render (Node tag children) =
     ''<'' @ tag @ ''>'' @ concat (map render children) @ ''</'' @ tag @ ''>''"

definition renders :: "xml list \<Rightarrow> string" where
  "renders xs = concat (map render xs)"

lemma renders_simps [simp]:
  "renders [] = []" "renders (x # xs) = render x @ renders xs"
  "renders (xs @ ys) = renders xs @ renders ys"
  by (simp_all add: renders_def)

definition tag_ok :: "string \<Rightarrow> bool" where
  "tag_ok tag \<longleftrightarrow> tag \<noteq> [] \<and> hd tag \<noteq> CHR ''/'' \<and> CHR ''<'' \<notin> set tag \<and> CHR ''>'' \<notin> set tag"

fun wf_xml :: "xml \<Rightarrow> bool" where
  "wf_xml (Leaf tag body) = tag_ok tag"
| "wf_xml (Node tag children) = (tag_ok tag \<and> children \<noteq> [] \<and> list_all wf_xml children)"

lemma escape_simps [simp]: "escape [] = []" "escape (c # cs) = escape_char c @ escape cs"
  by (simp_all add: escape_def)

lemma push_escaped_escape: "push_escaped out s = out @ escape s"
  by (induction out s rule: push_escaped.induct) (auto simp: escape_char_def)

lemma escape_char_no_markup:
  "CHR ''<'' \<notin> set (escape_char c) \<and> CHR ''>'' \<notin> set (escape_char c) \<and>
   CHR 0x22 \<notin> set (escape_char c) \<and> CHR 0x27 \<notin> set (escape_char c)"
  by (auto simp: escape_char_def)

lemma escape_no_markup:
  "CHR ''<'' \<notin> set (escape s)" "CHR ''>'' \<notin> set (escape s)"
  "CHR 0x22 \<notin> set (escape s)" "CHR 0x27 \<notin> set (escape s)"
  using escape_char_no_markup by (induction s) auto

lemma escape_char_prefix: "escape_char c @ s = escape_char d @ t \<Longrightarrow> c = d \<and> s = t"
  by (auto simp: escape_char_def split: if_splits)

lemma escape_char_not_Nil [simp]: "escape_char c \<noteq> []"
  by (simp add: escape_char_def)

lemma escape_inject: "escape s = escape t \<longleftrightarrow> s = t"
proof
  show "escape s = escape t \<Longrightarrow> s = t"
  proof (induction s arbitrary: t)
    case Nil
    then show ?case by (cases t) auto
  next
    case (Cons c s)
    then obtain d u where t: "t = d # u" by (cases t) auto
    with Cons.prems escape_char_prefix [of c "escape s" d "escape u"] Cons.IH show ?case by simp
  qed
qed simp

text \<open>Two texts split at the first occurrence of a character that neither prefix contains.\<close>

lemma split_at: "a @ c # s = b @ c # t \<Longrightarrow> c \<notin> set a \<Longrightarrow> c \<notin> set b \<Longrightarrow> a = b \<and> s = t"
  by (induction a arbitrary: b) (case_tac [!] b, auto)

lemma render_hd: "\<exists>tag s. render x = ''<'' @ tag @ CHR ''>'' # s \<and> (wf_xml x \<longrightarrow> tag_ok tag)"
  by (cases x) auto

lemma wf_render_start:
  assumes "wf_xml x"
  shows "\<exists>c s. render x = CHR ''<'' # c # s \<and> c \<noteq> CHR ''/''"
proof -
  obtain tag s where x: "render x = ''<'' @ tag @ CHR ''>'' # s" and t: "tag_ok tag"
    using render_hd [of x] assms by blast
  then show ?thesis by (cases tag) (auto simp: tag_ok_def)
qed

lemma renders_prefix:
  assumes "\<And>x y r s. x \<in> set xs \<Longrightarrow> wf_xml x \<Longrightarrow> wf_xml y \<Longrightarrow> render x @ r = render y @ s \<Longrightarrow>
      x = y \<and> r = s"
    and "list_all wf_xml xs" and "list_all wf_xml ys"
    and "renders xs @ ''</'' @ r = renders ys @ ''</'' @ s"
  shows "xs = ys \<and> r = s"
  using assms
proof (induction xs arbitrary: ys)
  case Nil
  show ?case
  proof (cases ys)
    case (Cons y ys')
    with Nil.prems wf_render_start [of y] show ?thesis by auto
  qed (use Nil.prems in auto)
next
  case (Cons x xs)
  show ?case
  proof (cases ys)
    case Nil
    with Cons.prems wf_render_start [of x] show ?thesis by auto
  next
    case (Cons y ys')
    with Cons.prems(4) have "render x @ renders xs @ ''</'' @ r = render y @ renders ys' @ ''</'' @ s"
      by simp
    moreover have "wf_xml x" "wf_xml y" using Cons.prems(2,3) Cons by auto
    ultimately have "x = y" and e: "renders xs @ ''</'' @ r = renders ys' @ ''</'' @ s"
      using Cons.prems(1) [of x y] by auto
    moreover have "xs = ys' \<and> r = s"
      by (rule Cons.IH) (use Cons.prems(1) Cons.prems(2,3) Cons e in auto)
    ultimately show ?thesis using Cons by simp
  qed
qed

lemma tag_split:
  assumes "tag_ok t" "tag_ok u" and "''<'' @ t @ ''>'' @ r = ''<'' @ u @ ''>'' @ s"
  shows "t = u \<and> r = s"
  using assms split_at [of t "CHR ''>''" r u s] by (simp add: tag_ok_def)

lemma leaf_not_node:
  assumes "children \<noteq> []" and "list_all wf_xml children"
  shows "escape body @ ''</'' @ r \<noteq> renders children @ s"
proof
  assume e: "escape body @ ''</'' @ r = renders children @ s"
  obtain x xs where ch: "children = x # xs" using assms(1) by (cases children) auto
  obtain c u where x: "render x = CHR ''<'' # c # u" "c \<noteq> CHR ''/''"
    using wf_render_start [of x] assms(2) ch by auto
  then have "escape body @ CHR ''<'' # CHR ''/'' # r = [] @ CHR ''<'' # c # u @ renders xs @ s"
    using e ch by simp
  from split_at [OF this escape_no_markup(1)] x(2) show False by simp
qed

text \<open>Writing out is uniquely readable: no rendering is a proper prefix of another.\<close>

lemma render_prefix:
  "wf_xml x \<Longrightarrow> wf_xml y \<Longrightarrow> render x @ r = render y @ s \<Longrightarrow> x = y \<and> r = s"
proof (induction x arbitrary: y r s)
  case (Leaf t body)
  show ?case
  proof (cases y)
    case y: (Leaf u body')
    have tu: "t = u" and e: "escape body @ ''</'' @ t @ ''>'' @ r = escape body' @ ''</'' @ u @ ''>'' @ s"
      using tag_split [of t u "escape body @ ''</'' @ t @ ''>'' @ r" "escape body' @ ''</'' @ u @ ''>'' @ s"]
        Leaf.prems y by auto
    from split_at [of "escape body" "CHR ''<''" _ "escape body'"] e escape_no_markup(1)
    have "escape body = escape body'" "r = s" using tu by auto
    then show ?thesis using tu y by (simp add: escape_inject)
  next
    case y: (Node u children)
    have tu: "t = u" and "escape body @ ''</'' @ t @ ''>'' @ r = renders children @ ''</'' @ u @ ''>'' @ s"
      using tag_split [of t u "escape body @ ''</'' @ t @ ''>'' @ r"
          "renders children @ ''</'' @ u @ ''>'' @ s"] Leaf.prems y
      by (auto simp: renders_def)
    with leaf_not_node [of children body] Leaf.prems(2) y show ?thesis by auto
  qed
next
  case (Node t xs)
  show ?case
  proof (cases y)
    case y: (Leaf u body)
    have tu: "t = u" and "escape body @ ''</'' @ u @ ''>'' @ s = renders xs @ ''</'' @ t @ ''>'' @ r"
      using tag_split [of t u "renders xs @ ''</'' @ t @ ''>'' @ r" "escape body @ ''</'' @ u @ ''>'' @ s"]
        Node.prems y by (auto simp: renders_def)
    with leaf_not_node [of xs body] Node.prems(1) show ?thesis by auto
  next
    case y: (Node u ys)
    have tu: "t = u" and e: "renders xs @ ''</'' @ t @ ''>'' @ r = renders ys @ ''</'' @ u @ ''>'' @ s"
      using tag_split [of t u "renders xs @ ''</'' @ t @ ''>'' @ r" "renders ys @ ''</'' @ u @ ''>'' @ s"]
        Node.prems y by (auto simp: renders_def)
    have "xs = ys \<and> t @ ''>'' @ r = u @ ''>'' @ s"
      by (rule renders_prefix [OF Node.IH _ _ e]) (use Node.prems y in auto)
    with tu y show ?thesis by simp
  qed
qed

section \<open>The tree of a document\<close>

definition opt :: "string \<Rightarrow> string option \<Rightarrow> xml list" where
  "opt tag body = (case body of None \<Rightarrow> [] | Some v \<Rightarrow> [Leaf tag v])"

definition role_children :: "role_description \<Rightarrow> xml list" where
  "role_children role =
     [Leaf ''Identifier'' (ban_str (rd_identifier role)), Leaf ''Name'' (rd_name role)] @
     opt ''Address'' (rd_address role) @ opt ''PersonInCharge'' (rd_person_in_charge role) @
     opt ''TelephoneNumber'' (rd_telephone_number role) @
     opt ''FacsimileNumber'' (rd_facsimile_number role) @
     opt ''EmailAddress'' (rd_email_address role) @ opt ''CustomerNumber'' (rd_customer_number role) @
     opt ''RoleRemark'' (rd_role_remark role)"

definition main_children :: "f0401_main \<Rightarrow> xml list" where
  "main_children main =
     [Leaf ''InvoiceNumber'' (invoice_number_str (fm_invoice_number main)),
      Leaf ''InvoiceDate'' (mig_date_str (fm_invoice_date main)),
      Leaf ''InvoiceTime'' (mig_time_str (fm_invoice_time main)),
      Node ''Seller'' (role_children (fm_seller main)),
      Node ''Buyer'' (role_children (fm_buyer main))] @
     opt ''BuyerRemark'' (map_option buyer_remark_wire (fm_buyer_remark main)) @
     opt ''MainRemark'' (fm_main_remark main) @
     opt ''CustomsClearanceMark'' (map_option customs_clearance_wire (fm_customs_clearance_mark main)) @
     opt ''Category'' (fm_category main) @ opt ''RelateNumber'' (fm_relate_number main) @
     [Leaf ''InvoiceType'' (invoice_type_wire (fm_invoice_type main))] @
     opt ''GroupMark'' (fm_group_mark main) @
     [Leaf ''DonateMark'' (donate_mark_wire (fm_donate_mark main))] @
     opt ''CarrierType'' (fm_carrier_type main) @ opt ''CarrierId1'' (fm_carrier_id1 main) @
     opt ''CarrierId2'' (fm_carrier_id2 main) @
     [Leaf ''PrintMark'' (print_mark_wire (fm_print_mark main))] @
     opt ''NPOBAN'' (map_option ban_str (fm_npo_ban main)) @
     opt ''RandomNumber'' (fm_random_number main) @
     opt ''BondedAreaConfirm'' (map_option bonded_area_wire (fm_bonded_area_confirm main)) @
     opt ''ZeroTaxRateReason'' (map_option zero_tax_rate_reason_wire (fm_zero_tax_rate_reason main)) @
     opt ''Reserved1'' (fm_reserved1 main) @ opt ''Reserved2'' (fm_reserved2 main)"

definition item_children :: "product_item \<Rightarrow> xml list" where
  "item_children item =
     [Leaf ''Description'' (pi_description item), Leaf ''Quantity'' (mig_decimal_str (pi_quantity item))] @
     opt ''Unit'' (pi_unit item) @
     [Leaf ''UnitPrice'' (mig_decimal_str (pi_unit_price item)),
      Leaf ''TaxType'' (tax_type_wire (pi_tax_type item)),
      Leaf ''Amount'' (mig_decimal_str (pi_amount item)),
      Leaf ''SequenceNumber'' (pi_sequence_number item)] @
     opt ''Remark'' (pi_remark item) @ opt ''RelateNumber'' (pi_relate_number item)"

definition amount_children :: "f0401_amount \<Rightarrow> xml list" where
  "amount_children amount =
     [Leaf ''SalesAmount'' (mig_decimal_str (fa_sales_amount amount)),
      Leaf ''FreeTaxSalesAmount'' (mig_decimal_str (fa_free_tax_sales_amount amount)),
      Leaf ''ZeroTaxSalesAmount'' (mig_decimal_str (fa_zero_tax_sales_amount amount)),
      Leaf ''TaxType'' (tax_type_wire (fa_tax_type amount)),
      Leaf ''TaxRate'' (tax_rate_wire (fa_tax_rate amount)),
      Leaf ''TaxAmount'' (mig_decimal_str (fa_tax_amount amount)),
      Leaf ''TotalAmount'' (mig_decimal_str (fa_total_amount amount))] @
     opt ''DiscountAmount'' (map_option mig_decimal_str (fa_discount_amount amount)) @
     opt ''OriginalCurrencyAmount'' (map_option mig_decimal_str (fa_original_currency_amount amount)) @
     opt ''ExchangeRate'' (map_option mig_decimal_str (fa_exchange_rate amount)) @
     opt ''Currency'' (map_option currency_code_str (fa_currency amount))"

definition invoice_children :: "f0401_invoice \<Rightarrow> xml list" where
  "invoice_children invoice =
     [Node ''Main'' (main_children (fi_main invoice)),
      Node ''Details'' (map (\<lambda>item. Node ''ProductItem'' (item_children item)) (fi_details invoice)),
      Node ''Amount'' (amount_children (fi_amount invoice))]"

subsection \<open>The code writes out this tree\<close>

lemma push_text_element_render: "push_text_element out tag body = out @ renders [Leaf tag body]"
  by (simp add: push_text_element_def push_escaped_escape Let_def)

lemma push_optional_render: "push_optional out tag body = out @ renders (opt tag body)"
  by (cases body) (simp_all add: push_optional_def push_text_element_render opt_def)

lemma push_some_render: "push_some out tag wire field = out @ renders (opt tag (map_option wire field))"
  by (cases field) (simp_all add: push_some_def push_text_element_render opt_def)

lemmas push_render = push_text_element_render push_optional_render push_some_render

lemma render_Node: "render (Node tag children) = ''<'' @ tag @ ''>'' @ renders children @ ''</'' @ tag @ ''>''"
  by (simp add: renders_def)

lemma push_role_render: "push_role out tag role = out @ renders [Node tag (role_children role)]"
  by (simp add: push_role_def push_render role_children_def ban_as_str_def render_Node Let_def
      del: render.simps)

lemma map_option_ban [simp]: "map_option ban_as_str = map_option ban_str"
  by (rule ext) (simp add: ban_as_str_def [abs_def])

lemma push_main_render: "push_main_xml out main = out @ renders [Node ''Main'' (main_children main)]"
  by (simp add: push_main_xml_def push_render push_role_render main_children_def render_Node Let_def
      del: render.simps)

lemma push_item_render: "push_item_xml out item = out @ renders [Node ''ProductItem'' (item_children item)]"
  by (simp add: push_item_xml_def push_render item_children_def render_Node Let_def del: render.simps)

lemma push_items_render:
  "foldl push_item_xml out items =
     out @ renders (map (\<lambda>item. Node ''ProductItem'' (item_children item)) items)"
  by (induction items arbitrary: out) (simp_all add: push_item_render del: render.simps)

lemma push_details_render:
  "push_details_xml out items =
     out @ renders [Node ''Details'' (map (\<lambda>item. Node ''ProductItem'' (item_children item)) items)]"
  by (simp add: push_details_xml_def push_items_render render_Node Let_def del: render.simps)

lemma push_amount_render: "push_amount_xml out amount = out @ renders [Node ''Amount'' (amount_children amount)]"
  by (simp add: push_amount_xml_def push_render amount_children_def render_Node Let_def del: render.simps)

definition invoice_open :: string where
  "invoice_open = ''<Invoice xmlns='' @ [CHR 0x22] @ F0401_NAMESPACE @ [CHR 0x22] @ ''>''"

lemma to_xml_tree:
  "f0401_to_xml invoice = invoice_open @ renders (invoice_children invoice) @ ''</Invoice>''"
  by (simp add: f0401_to_xml_def push_main_render push_details_render push_amount_render
      invoice_children_def invoice_open_def Let_def del: render.simps)

subsection \<open>The tree determines the document\<close>

fun child_text :: "string \<Rightarrow> xml list \<Rightarrow> string option" where
  "child_text tag [] = None"
| "child_text tag (Leaf t body # xs) = (if t = tag then Some body else child_text tag xs)"
| "child_text tag (Node t children # xs) = child_text tag xs"

fun child_node :: "string \<Rightarrow> xml list \<Rightarrow> xml list option" where
  "child_node tag [] = None"
| "child_node tag (Leaf t body # xs) = child_node tag xs"
| "child_node tag (Node t children # xs) = (if t = tag then Some children else child_node tag xs)"

fun or_else :: "'a option \<Rightarrow> 'a option \<Rightarrow> 'a option" where
  "or_else None y = y"
| "or_else (Some x) y = Some x"

lemma or_else_None [simp]: "or_else x None = x"
  by (cases x) simp_all

lemma child_text_append [simp]:
  "child_text tag (xs @ ys) = or_else (child_text tag xs) (child_text tag ys)"
  by (induction tag xs rule: child_text.induct) auto

lemma child_node_append [simp]:
  "child_node tag (xs @ ys) = or_else (child_node tag xs) (child_node tag ys)"
  by (induction tag xs rule: child_node.induct) auto

lemma child_opt [simp]:
  "child_text tag (opt t body) = (if t = tag then body else None)"
  "child_node tag (opt t body) = None"
  by (cases body; simp add: opt_def)+

lemma role_fields:
  "child_text ''Identifier'' (role_children role) = Some (ban_str (rd_identifier role))"
  "child_text ''Name'' (role_children role) = Some (rd_name role)"
  "child_text ''Address'' (role_children role) = rd_address role"
  "child_text ''PersonInCharge'' (role_children role) = rd_person_in_charge role"
  "child_text ''TelephoneNumber'' (role_children role) = rd_telephone_number role"
  "child_text ''FacsimileNumber'' (role_children role) = rd_facsimile_number role"
  "child_text ''EmailAddress'' (role_children role) = rd_email_address role"
  "child_text ''CustomerNumber'' (role_children role) = rd_customer_number role"
  "child_text ''RoleRemark'' (role_children role) = rd_role_remark role"
  by (simp_all add: role_children_def)

lemma role_children_inject [simp]: "role_children a = role_children b \<longleftrightarrow> a = b"
proof
  assume e: "role_children a = role_children b"
  show "a = b"
    by (rule role_description.equality) (use role_fields [of a] role_fields [of b] in
        \<open>simp_all add: e ban.expand\<close>)
qed simp

lemma main_fields:
  "child_text ''InvoiceNumber'' (main_children m) = Some (invoice_number_str (fm_invoice_number m))"
  "child_text ''InvoiceDate'' (main_children m) = Some (mig_date_str (fm_invoice_date m))"
  "child_text ''InvoiceTime'' (main_children m) = Some (mig_time_str (fm_invoice_time m))"
  "child_node ''Seller'' (main_children m) = Some (role_children (fm_seller m))"
  "child_node ''Buyer'' (main_children m) = Some (role_children (fm_buyer m))"
  "child_text ''BuyerRemark'' (main_children m) = map_option buyer_remark_wire (fm_buyer_remark m)"
  "child_text ''MainRemark'' (main_children m) = fm_main_remark m"
  "child_text ''CustomsClearanceMark'' (main_children m) =
     map_option customs_clearance_wire (fm_customs_clearance_mark m)"
  "child_text ''Category'' (main_children m) = fm_category m"
  "child_text ''RelateNumber'' (main_children m) = fm_relate_number m"
  "child_text ''InvoiceType'' (main_children m) = Some (invoice_type_wire (fm_invoice_type m))"
  "child_text ''GroupMark'' (main_children m) = fm_group_mark m"
  "child_text ''DonateMark'' (main_children m) = Some (donate_mark_wire (fm_donate_mark m))"
  "child_text ''CarrierType'' (main_children m) = fm_carrier_type m"
  "child_text ''CarrierId1'' (main_children m) = fm_carrier_id1 m"
  "child_text ''CarrierId2'' (main_children m) = fm_carrier_id2 m"
  "child_text ''PrintMark'' (main_children m) = Some (print_mark_wire (fm_print_mark m))"
  "child_text ''NPOBAN'' (main_children m) = map_option ban_str (fm_npo_ban m)"
  "child_text ''RandomNumber'' (main_children m) = fm_random_number m"
  "child_text ''BondedAreaConfirm'' (main_children m) = map_option bonded_area_wire (fm_bonded_area_confirm m)"
  "child_text ''ZeroTaxRateReason'' (main_children m) =
     map_option zero_tax_rate_reason_wire (fm_zero_tax_rate_reason m)"
  "child_text ''Reserved1'' (main_children m) = fm_reserved1 m"
  "child_text ''Reserved2'' (main_children m) = fm_reserved2 m"
  by (simp_all add: main_children_def)

lemma map_option_inject: "(\<And>x y. f x = f y \<Longrightarrow> x = y) \<Longrightarrow> map_option f u = map_option f v \<Longrightarrow> u = v"
  by (cases u; cases v) auto

lemmas wire_inject =
  invoice_number.expand mig_date.expand mig_time.expand mig_decimal.expand ban.expand currency_code.expand
  map_option_inject [of buyer_remark_wire] map_option_inject [of customs_clearance_wire]
  map_option_inject [of bonded_area_wire] map_option_inject [of zero_tax_rate_reason_wire]
  map_option_inject [of ban_str, OF ban.expand] map_option_inject [of mig_decimal_str, OF mig_decimal.expand]
  map_option_inject [of currency_code_str, OF currency_code.expand]

lemma main_children_inject [simp]: "main_children a = main_children b \<longleftrightarrow> a = b"
proof
  assume e: "main_children a = main_children b"
  note f = main_fields [of b, folded e, unfolded main_fields]
  show "a = b"
    by (rule f0401_main.equality) (use f in \<open>auto intro: wire_inject\<close>)
qed simp

lemma item_fields:
  "child_text ''Description'' (item_children i) = Some (pi_description i)"
  "child_text ''Quantity'' (item_children i) = Some (mig_decimal_str (pi_quantity i))"
  "child_text ''Unit'' (item_children i) = pi_unit i"
  "child_text ''UnitPrice'' (item_children i) = Some (mig_decimal_str (pi_unit_price i))"
  "child_text ''TaxType'' (item_children i) = Some (tax_type_wire (pi_tax_type i))"
  "child_text ''Amount'' (item_children i) = Some (mig_decimal_str (pi_amount i))"
  "child_text ''SequenceNumber'' (item_children i) = Some (pi_sequence_number i)"
  "child_text ''Remark'' (item_children i) = pi_remark i"
  "child_text ''RelateNumber'' (item_children i) = pi_relate_number i"
  by (simp_all add: item_children_def)

lemma item_children_inject [simp]: "item_children a = item_children b \<longleftrightarrow> a = b"
proof
  assume e: "item_children a = item_children b"
  note f = item_fields [of b, folded e, unfolded item_fields]
  show "a = b"
    by (rule product_item.equality) (use f in \<open>auto intro: wire_inject\<close>)
qed simp

lemma amount_fields:
  "child_text ''SalesAmount'' (amount_children a) = Some (mig_decimal_str (fa_sales_amount a))"
  "child_text ''FreeTaxSalesAmount'' (amount_children a) = Some (mig_decimal_str (fa_free_tax_sales_amount a))"
  "child_text ''ZeroTaxSalesAmount'' (amount_children a) = Some (mig_decimal_str (fa_zero_tax_sales_amount a))"
  "child_text ''TaxType'' (amount_children a) = Some (tax_type_wire (fa_tax_type a))"
  "child_text ''TaxRate'' (amount_children a) = Some (tax_rate_wire (fa_tax_rate a))"
  "child_text ''TaxAmount'' (amount_children a) = Some (mig_decimal_str (fa_tax_amount a))"
  "child_text ''TotalAmount'' (amount_children a) = Some (mig_decimal_str (fa_total_amount a))"
  "child_text ''DiscountAmount'' (amount_children a) = map_option mig_decimal_str (fa_discount_amount a)"
  "child_text ''OriginalCurrencyAmount'' (amount_children a) =
     map_option mig_decimal_str (fa_original_currency_amount a)"
  "child_text ''ExchangeRate'' (amount_children a) = map_option mig_decimal_str (fa_exchange_rate a)"
  "child_text ''Currency'' (amount_children a) = map_option currency_code_str (fa_currency a)"
  by (simp_all add: amount_children_def)

lemma amount_children_inject [simp]: "amount_children a = amount_children b \<longleftrightarrow> a = b"
proof
  assume e: "amount_children a = amount_children b"
  note f = amount_fields [of b, folded e, unfolded amount_fields]
  show "a = b"
    by (rule f0401_amount.equality) (use f in \<open>auto intro: wire_inject\<close>)
qed simp

lemma wf_opt [simp]: "tag_ok tag \<Longrightarrow> list_all wf_xml (opt tag body)"
  by (cases body) (simp_all add: opt_def)

lemma wf_children [simp]:
  "list_all wf_xml (role_children role)" "role_children role \<noteq> []"
  "list_all wf_xml (main_children main)" "main_children main \<noteq> []"
  "list_all wf_xml (item_children item)" "item_children item \<noteq> []"
  "list_all wf_xml (amount_children amount)" "amount_children amount \<noteq> []"
proof -
  show r: "list_all wf_xml (role_children role)" "role_children role \<noteq> []" for role
    by (simp_all add: role_children_def tag_ok_def)
  show "list_all wf_xml (main_children main)" "main_children main \<noteq> []"
    by (simp_all add: main_children_def tag_ok_def r)
  show "list_all wf_xml (item_children item)" "item_children item \<noteq> []"
    by (simp_all add: item_children_def tag_ok_def)
  show "list_all wf_xml (amount_children amount)" "amount_children amount \<noteq> []"
    by (simp_all add: amount_children_def tag_ok_def)
qed

lemma wf_items [simp]:
  "list_all wf_xml (map (\<lambda>item. Node ''ProductItem'' (item_children item)) items)"
  by (induction items) (simp_all add: tag_ok_def)

lemma invoice_children_render_inject:
  assumes "renders (invoice_children a) @ r = renders (invoice_children b) @ s"
  shows "a = b"
proof -
  let ?items = "\<lambda>i. map (\<lambda>item. Node ''ProductItem'' (item_children item)) (fi_details i)"
  let ?main = "\<lambda>i. Node ''Main'' (main_children (fi_main i))"
  let ?amount = "\<lambda>i. Node ''Amount'' (amount_children (fi_amount i))"
  have wf: "wf_xml (?main i)" "wf_xml (?amount i)" "list_all wf_xml (?items i)" for i
    by (simp_all add: tag_ok_def)
  from assms have "render (?main a) @ render (Node ''Details'' (?items a)) @ render (?amount a) @ r =
      render (?main b) @ render (Node ''Details'' (?items b)) @ render (?amount b) @ s"
    by (simp add: invoice_children_def del: render.simps)
  from render_prefix [OF wf(1) wf(1) this]
  have main: "?main a = ?main b"
    and "renders (?items a) @ ''</'' @ ''Details>'' @ render (?amount a) @ r =
         renders (?items b) @ ''</'' @ ''Details>'' @ render (?amount b) @ s"
    by (simp_all add: render_Node del: render.simps)
  note both = renders_prefix [OF render_prefix wf(3) wf(3) this(2)]
  then have items: "?items a = ?items b" by (rule conjunct1)
  from both have "render (?amount a) @ r = render (?amount b) @ s"
    by (simp only: same_append_eq)
  from render_prefix [OF wf(2) wf(2) this] have "?amount a = ?amount b" by (rule conjunct1)
  moreover have "inj (\<lambda>item. Node ''ProductItem'' (item_children item))" by (rule injI) simp
  ultimately show ?thesis
    using main items by (intro f0401_invoice.equality) (simp_all add: inj_map_eq_map)
qed

section \<open>Properties\<close>


text \<open>
  C32.  The serialisation loses nothing: two documents with the same text
  are equal - whatever characters their fields contain, and present-but-empty optional fields
  are told apart from absent ones.
\<close>

theorem f0401_to_xml_lossless: "f0401_to_xml a = f0401_to_xml b \<longleftrightarrow> a = b"
  using invoice_children_render_inject [of a "''</Invoice>''" b "''</Invoice>''"]
  by (auto simp: to_xml_tree)

end
