(* ===== verification/Conformance_F0401.thy ===== *)
theory Conformance_F0401
  imports Conformance F0401_Xml
begin

text \<open>
  The unit tests of \<open>crates/einvoice-mig/src/f0401.rs\<close>, among them the comparison with the fixture
  file \<open>tests/fixtures/f0401-synthetic.xml\<close>.
\<close>

section \<open>Fixtures\<close>

definition test_decimal :: "string \<Rightarrow> bool \<Rightarrow> mig_decimal option" where
  "test_decimal text non_negative = ok (mig_decimal_parse text 20 7 non_negative)"

definition test_role :: "string \<Rightarrow> string \<Rightarrow> string option \<Rightarrow> role_description option" where
  "test_role ident name address = do {
     ban \<leftarrow> ok (ban_parse ident);
     Some ((role_description_new ban name)\<lparr>rd_address := address\<rparr>) }"

definition test_main :: "f0401_main option" where
  "test_main = do {
     number \<leftarrow> ok (invoice_number_parse ''QQ12345678'');
     date \<leftarrow> ok (mig_date_parse ''20261025'');
     time \<leftarrow> ok (mig_time_parse ''14:30:00'');
     seller \<leftarrow> test_role ''12345678'' ''Synthetic Seller & Co'' (Some ''Taipei <Test>'');
     buyer \<leftarrow> test_role B2C_BUYER ''ABCD'' None;
     Some \<lparr>fm_invoice_number = number, fm_invoice_date = date, fm_invoice_time = time,
       fm_seller = seller, fm_buyer = buyer, fm_buyer_remark = None, fm_main_remark = None,
       fm_customs_clearance_mark = None, fm_category = None, fm_relate_number = None,
       fm_invoice_type = GeneralTax, fm_group_mark = None, fm_donate_mark = NotDonated,
       fm_carrier_type = None, fm_carrier_id1 = None, fm_carrier_id2 = None, fm_print_mark = Print,
       fm_npo_ban = None, fm_random_number = Some ''1234'', fm_bonded_area_confirm = None,
       fm_zero_tax_rate_reason = None, fm_reserved1 = None, fm_reserved2 = None\<rparr> }"

definition test_amount :: "f0401_amount option" where
  "test_amount = do {
     sales \<leftarrow> test_decimal ''100'' True;
     free \<leftarrow> test_decimal ''0'' True;
     zero \<leftarrow> test_decimal ''0'' True;
     tax \<leftarrow> ok (mig_decimal_parse ''5'' 20 0 True);
     total \<leftarrow> test_decimal ''105'' True;
     Some \<lparr>fa_sales_amount = sales, fa_free_tax_sales_amount = free, fa_zero_tax_sales_amount = zero,
       fa_tax_type = Taxable, fa_tax_rate = FivePercent, fa_tax_amount = tax, fa_total_amount = total,
       fa_discount_amount = None, fa_original_currency_amount = None, fa_exchange_rate = None,
       fa_currency = None\<rparr> }"

definition test_invoice :: "f0401_invoice option" where
  "test_invoice = do {
     main \<leftarrow> test_main;
     quantity \<leftarrow> test_decimal ''1'' False;
     price \<leftarrow> test_decimal ''100'' False;
     total \<leftarrow> test_decimal ''100'' False;
     let details = [product_item_new ''Synthetic product'' quantity price Taxable total ''1''];
     amount \<leftarrow> test_amount;
     ok (f0401_new main details amount) }"

definition has_code :: "string \<Rightarrow> validation_report \<Rightarrow> bool" where
  "has_code code report = list_ex (\<lambda>issue. vi_code issue = code) (vr_issues report)"

text \<open>An assignment to \<open>details[0]\<close>, which panics on an empty vector.\<close>

fun set_first :: "('a \<Rightarrow> 'a) \<Rightarrow> 'a list \<Rightarrow> 'a list option" where
  "set_first f [] = None"
| "set_first f (x # xs) = Some (f x # xs)"

section \<open>Tests\<close>

definition validates_nominal_synthetic_b2c_invoice :: unit_test where
  "validates_nominal_synthetic_b2c_invoice = do {
     invoice \<leftarrow> test_invoice;
     assert (is_valid (f0401_validate invoice)) }"

definition schema_and_semantic_validation_are_separate_for_calendar_dates :: unit_test where
  "schema_and_semantic_validation_are_separate_for_calendar_dates = do {
     invoice \<leftarrow> test_invoice;
     date \<leftarrow> ok (mig_date_parse ''20230229'');
     let invoice = invoice\<lparr>fi_main := (fi_main invoice)\<lparr>fm_invoice_date := date\<rparr>\<rparr>;
     assert (is_valid (validate_schema_constraints invoice));
     assert (has_code ''MIG_DATE_NOT_GREGORIAN'' (validate_semantics invoice)) }"

definition b2c_random_number_requirement_is_semantic_not_schema_cardinality :: unit_test where
  "b2c_random_number_requirement_is_semantic_not_schema_cardinality = do {
     invoice \<leftarrow> test_invoice;
     let invoice = invoice\<lparr>fi_main := (fi_main invoice)\<lparr>fm_random_number := None\<rparr>\<rparr>;
     assert (is_valid (validate_schema_constraints invoice));
     assert (has_code ''F0401_B2C_RANDOM_NUMBER_REQUIRED'' (validate_semantics invoice)) }"

definition field_specific_decimal_constraints_cannot_be_bypassed :: unit_test where
  "field_specific_decimal_constraints_cannot_be_bypassed = do {
     invoice \<leftarrow> test_invoice;
     quantity \<leftarrow> ok (mig_decimal_parse ''1.12345678'' 30 10 False);
     details \<leftarrow> set_first (\<lambda>item. item\<lparr>pi_quantity := quantity\<rparr>) (fi_details invoice);
     let invoice = invoice\<lparr>fi_details := details\<rparr>;
     assert (list_ex (\<lambda>issue. vi_code issue = ''MIG_DECIMAL_CONSTRAINT'' \<and>
         vi_path issue = Some ''Invoice/Details/ProductItem[1]/Quantity'')
       (vr_issues (validate_schema_constraints invoice))) }"

definition detects_b2c_and_print_semantic_conflicts :: unit_test where
  "detects_b2c_and_print_semantic_conflicts = do {
     invoice \<leftarrow> test_invoice;
     let invoice = invoice\<lparr>fi_main := (fi_main invoice)\<lparr>fm_random_number := None,
       fm_carrier_type := Some ''3J0002'', fm_donate_mark := Donated\<rparr>\<rparr>;
     let report = f0401_validate invoice;
     assert (has_code ''F0401_B2C_RANDOM_NUMBER_REQUIRED'' report);
     assert (has_code ''F0401_PRINT_WITH_CARRIER'' report);
     assert (has_code ''F0401_PRINT_DONATION_CONFLICT'' report) }"

definition detects_mixed_product_tax_and_missing_zero_rate_reason :: unit_test where
  "detects_mixed_product_tax_and_missing_zero_rate_reason = do {
     invoice \<leftarrow> test_invoice;
     details \<leftarrow> set_first (\<lambda>item. item\<lparr>pi_tax_type := Mixed\<rparr>) (fi_details invoice);
     let invoice = invoice\<lparr>fi_details := details, fi_amount := (fi_amount invoice)\<lparr>fa_tax_type := ZeroRated\<rparr>\<rparr>;
     let report = f0401_validate invoice;
     assert (has_code ''F0401_PRODUCT_MIXED_TAX_FORBIDDEN'' report);
     assert (has_code ''F0401_ZERO_RATE_REASON_REQUIRED'' report) }"

definition rejects_invalid_product_cardinality :: unit_test where
  "rejects_invalid_product_cardinality = do {
     invoice \<leftarrow> test_invoice;
     e \<leftarrow> err (f0401_new (fi_main invoice) [] (fi_amount invoice));
     assert (e = NoProductItems) }"

text \<open>The fixture file \<open>crates/einvoice-mig/tests/fixtures/f0401-synthetic.xml\<close>.\<close>

definition f0401_synthetic_xml :: string where
  "f0401_synthetic_xml =
     ''<Invoice xmlns='' @ [CHR 0x22] @ ''urn:GEINV:eInvoiceMessage:F0401:4.1'' @ [CHR 0x22] @ ''>'' @
     ''<Main><InvoiceNumber>QQ12345678</InvoiceNumber><InvoiceDate>20261025</InvoiceDate>'' @
     ''<InvoiceTime>14:30:00</InvoiceTime><Seller><Identifier>12345678</Identifier>'' @
     ''<Name>Synthetic Seller &amp; Co</Name><Address>Taipei &lt;Test&gt;</Address></Seller>'' @
     ''<Buyer><Identifier>0000000000</Identifier><Name>ABCD</Name></Buyer>'' @
     ''<InvoiceType>07</InvoiceType><DonateMark>0</DonateMark><PrintMark>Y</PrintMark>'' @
     ''<RandomNumber>1234</RandomNumber></Main><Details><ProductItem>'' @
     ''<Description>Synthetic product</Description><Quantity>1</Quantity><UnitPrice>100</UnitPrice>'' @
     ''<TaxType>1</TaxType><Amount>100</Amount><SequenceNumber>1</SequenceNumber></ProductItem></Details>'' @
     ''<Amount><SalesAmount>100</SalesAmount><FreeTaxSalesAmount>0</FreeTaxSalesAmount>'' @
     ''<ZeroTaxSalesAmount>0</ZeroTaxSalesAmount><TaxType>1</TaxType><TaxRate>0.05</TaxRate>'' @
     ''<TaxAmount>5</TaxAmount><TotalAmount>105</TotalAmount></Amount></Invoice>''"

definition emits_deterministic_mig41_xml :: unit_test where
  "emits_deterministic_mig41_xml = do {
     invoice \<leftarrow> test_invoice;
     assert (f0401_to_xml invoice = f0401_synthetic_xml) }"

definition xml_escapes_optional_text :: unit_test where
  "xml_escapes_optional_text = do {
     invoice \<leftarrow> test_invoice;
     let invoice = invoice\<lparr>fi_main := (fi_main invoice)\<lparr>fm_main_remark := Some ''A&B <C>''\<rparr>\<rparr>;
     assert (contains_str (f0401_to_xml invoice) ''<MainRemark>A&amp;B &lt;C&gt;</MainRemark>'') }"

text \<open>The invoice that the constructors give.\<close>

definition test_invoice_document :: f0401_invoice where
  "test_invoice_document =
     \<lparr>fi_main = \<lparr>fm_invoice_number = InvoiceNumber ''QQ12345678'', fm_invoice_date = MigDate ''20261025'',
        fm_invoice_time = MigTime ''14:30:00'',
        fm_seller = (role_description_new (Ban ''12345678'') ''Synthetic Seller & Co'')\<lparr>rd_address := Some ''Taipei <Test>''\<rparr>,
        fm_buyer = role_description_new (Ban B2C_BUYER) ''ABCD'', fm_buyer_remark = None, fm_main_remark = None,
        fm_customs_clearance_mark = None, fm_category = None, fm_relate_number = None,
        fm_invoice_type = GeneralTax, fm_group_mark = None, fm_donate_mark = NotDonated,
        fm_carrier_type = None, fm_carrier_id1 = None, fm_carrier_id2 = None, fm_print_mark = Print,
        fm_npo_ban = None, fm_random_number = Some ''1234'', fm_bonded_area_confirm = None,
        fm_zero_tax_rate_reason = None, fm_reserved1 = None, fm_reserved2 = None\<rparr>,
      fi_details = [product_item_new ''Synthetic product'' (MigDecimal ''1'') (MigDecimal ''100'') Taxable
        (MigDecimal ''100'') ''1''],
      fi_amount = \<lparr>fa_sales_amount = MigDecimal ''100'', fa_free_tax_sales_amount = MigDecimal ''0'',
        fa_zero_tax_sales_amount = MigDecimal ''0'', fa_tax_type = Taxable, fa_tax_rate = FivePercent,
        fa_tax_amount = MigDecimal ''5'', fa_total_amount = MigDecimal ''105'', fa_discount_amount = None,
        fa_original_currency_amount = None, fa_exchange_rate = None, fa_currency = None\<rparr>\<rparr>"

lemma test_invoice_value: "test_invoice = Some test_invoice_document"
  by code_simp

text \<open>
  The document of the last test has a remark between the buyer, where the fixture has its 
  character 363, and the invoice type.
\<close>

lemma f0401_fixture: "f0401_to_xml test_invoice_document = f0401_synthetic_xml"
  by (rule eq_by_context) (code_simp, rule impI, assumption)

lemma f0401_remark:
  "f0401_to_xml (test_invoice_document\<lparr>fi_main := (fi_main test_invoice_document)\<lparr>fm_main_remark := Some ''A&B <C>''\<rparr>\<rparr>) =
     take 363 f0401_synthetic_xml @ ''<MainRemark>A&amp;B &lt;C&gt;</MainRemark>'' @ drop 363 f0401_synthetic_xml"
  by (rule eq_by_context) (code_simp, rule impI, assumption)

lemma f0401_tests_pass:
  "validates_nominal_synthetic_b2c_invoice = Some ()"
  "schema_and_semantic_validation_are_separate_for_calendar_dates = Some ()"
  "b2c_random_number_requirement_is_semantic_not_schema_cardinality = Some ()"
  "field_specific_decimal_constraints_cannot_be_bypassed = Some ()"
  "detects_b2c_and_print_semantic_conflicts = Some ()"
  "detects_mixed_product_tax_and_missing_zero_rate_reason = Some ()"
  "rejects_invalid_product_cardinality = Some ()"
  unfolding validates_nominal_synthetic_b2c_invoice_def
    schema_and_semantic_validation_are_separate_for_calendar_dates_def
    b2c_random_number_requirement_is_semantic_not_schema_cardinality_def
    field_specific_decimal_constraints_cannot_be_bypassed_def
    detects_b2c_and_print_semantic_conflicts_def
    detects_mixed_product_tax_and_missing_zero_rate_reason_def
    rejects_invalid_product_cardinality_def test_invoice_value
  by code_simp+

lemma f0401_xml_tests_pass:
  "emits_deterministic_mig41_xml = Some ()"
  "xml_escapes_optional_text = Some ()"
  by (simp_all add: emits_deterministic_mig41_xml_def xml_escapes_optional_text_def test_invoice_value
      f0401_fixture f0401_remark contains_str_iff) blast

end
