(* ===== verification/Conformance_State.thy ===== *)
theory Conformance_State
  imports Conformance Submission_Store
begin

text \<open>
  The unit tests of \<open>crates/einvoice-state\<close> (\<open>Submission\<close>, \<open>Submission_Store\<close>), in a debug build:
  an arithmetic overflow would fail them.
\<close>

section \<open>Fixtures\<close>

definition state_message_id :: string where
  "state_message_id = ''4.1-F0401-20260824-141623456-550e8400-e29b-41d4-a716-446655440000''"

definition state_routing :: result_routing where
  "state_routing =
     \<lparr>rt_from = \<lparr>party_id = ''12345678'', party_description = None\<rparr>,
      rt_from_vac = \<lparr>routing_id = ''FROM'', route_description = None\<rparr>,
      rt_to = \<lparr>party_id = ''PLATFORM'', party_description = None\<rparr>,
      rt_to_vac = \<lparr>routing_id = ''TO'', route_description = None\<rparr>\<rparr>"

definition state_process :: "string \<Rightarrow> process_result" where
  "state_process code =
     \<lparr>pr_routing = state_routing,
      pr_message = \<lparr>pmi_id = state_message_id, pmi_size = ''123'', pmi_message_type = ''F0401'',
                    pmi_service = ''S'', pmi_action = ''C0401''\<rparr>,
      pr_diagnostics = [\<lparr>diag_code = code, diag_description = Some ''synthetic diagnostic'',
                         diag_parameters = [None, None, None, None, None]\<rparr>]\<rparr>"

definition state_summary :: "i32 \<Rightarrow> i32 \<Rightarrow> summary_message" where
  "state_summary good failed =
     \<lparr>sm_info = \<lparr>smi_id = state_message_id, smi_size = ''123'', smi_message_type = ''F0401'',
                 smi_service = ''S'', smi_action = ''C0401''\<rparr>,
      sm_result = \<lparr>rb_total = \<lparr>detail_count = good + failed, detail_invoices = []\<rparr>,
                   rb_good = \<lparr>detail_count = good, detail_invoices = []\<rparr>,
                   rb_failed = \<lparr>detail_count = failed, detail_invoices = []\<rparr>\<rparr>\<rparr>"

definition state_record :: "submission_record option" where
  "state_record = ok (submission_new state_message_id 2)"

text \<open>\<open>record.apply_summary_message(..)\<close>, with the record after the call, unwrapped.\<close>

definition summary_unwrap ::
  "summary_message \<Rightarrow> submission_record \<Rightarrow> (apply_outcome \<times> submission_record) option" where
  "summary_unwrap m rec = do {
     (r, rec) \<leftarrow> apply_summary_message Debug m rec;
     out \<leftarrow> ok r;
     Some (out, rec) }"

definition summary_unwrap_err ::
  "summary_message \<Rightarrow> submission_record \<Rightarrow> (apply_error \<times> submission_record) option" where
  "summary_unwrap_err m rec = do {
     (r, rec) \<leftarrow> apply_summary_message Debug m rec;
     e \<leftarrow> err r;
     Some (e, rec) }"

section \<open>Tests\<close>

definition transport_state_is_monotonic_and_idempotent :: unit_test where
  "transport_state_is_monotonic_and_idempotent = do {
     rec \<leftarrow> state_record;
     let (a, rec) = advance_transport Prepared rec;
     assert (a = Advanced Created Prepared);
     let (a, rec) = advance_transport Prepared rec;
     assert (a = Unchanged);
     let (a, rec) = advance_transport Created rec;
     assert (a = IgnoredStale Prepared Created);
     assert (transport rec = Prepared) }"

definition process_result_records_diagnostics_without_terminal_disposition :: unit_test where
  "process_result_records_diagnostics_without_terminal_disposition = do {
     rec \<leftarrow> state_record;
     let (r, rec) = apply_process_result (state_process ''E001'') rec;
     out \<leftarrow> ok r;
     assert (out = Changed);
     assert (transport rec = ProcessObserved);
     first \<leftarrow> get (process_results rec) 0;
     diagnostic \<leftarrow> get (pr_diagnostics first) 0;
     assert (diag_code diagnostic = ''E001'');
     assert (terminal rec = None) }"

definition exact_process_result_replay_is_idempotent :: unit_test where
  "exact_process_result_replay_is_idempotent = do {
     rec \<leftarrow> state_record;
     let result = state_process ''0000'';
     let (r, rec) = apply_process_result result rec;
     out \<leftarrow> ok r;
     assert (out = Changed);
     let (r, rec) = apply_process_result result rec;
     out \<leftarrow> ok r;
     assert (out = UnchangedReplay);
     assert (length (process_results rec) = 1) }"

definition applies_all_good_all_failed_and_partial_terminal_states :: unit_test where
  "applies_all_good_all_failed_and_partial_terminal_states =
     for_each (\<lambda>(good, failed, expected). do {
       rec \<leftarrow> state_record;
       (_, rec) \<leftarrow> summary_unwrap (state_summary good failed) rec;
       t \<leftarrow> terminal rec;
       assert (disposition t = expected);
       assert (transport rec = SummaryObserved) })
     [(2, 0, AllGood), (0, 2, AllFailed), (1, 1, PartialSuccess)]"

definition inconsistent_summary_does_not_change_terminal_state :: unit_test where
  "inconsistent_summary_does_not_change_terminal_state = do {
     rec \<leftarrow> state_record;
     (e, rec) \<leftarrow> summary_unwrap_err (state_summary 1 0) rec;
     assert (case e of
         InconsistentSummary _ issues \<Rightarrow> list_ex (\<lambda>issue. issue = ExpectedQuantityMismatch 2 1) issues
       | _ \<Rightarrow> False);
     assert (terminal rec = None);
     assert (transport rec = Created) }"

definition exact_terminal_replay_is_idempotent_but_conflict_is_rejected :: unit_test where
  "exact_terminal_replay_is_idempotent_but_conflict_is_rejected = do {
     rec \<leftarrow> state_record;
     let first = state_summary 2 0;
     (out, rec) \<leftarrow> summary_unwrap first rec;
     assert (out = Changed);
     (out, rec) \<leftarrow> summary_unwrap first rec;
     assert (out = UnchangedReplay);
     (e, rec) \<leftarrow> summary_unwrap_err (state_summary 1 1) rec;
     assert (case e of ConflictingTerminalSummary _ _ _ \<Rightarrow> True | _ \<Rightarrow> False);
     t \<leftarrow> terminal rec;
     assert (disposition t = AllGood) }"

definition late_process_result_adds_diagnostics_without_transport_regression :: unit_test where
  "late_process_result_adds_diagnostics_without_transport_regression = do {
     rec \<leftarrow> state_record;
     (_, rec) \<leftarrow> summary_unwrap (state_summary 2 0) rec;
     let (r, rec) = apply_process_result (state_process ''LATE'') rec;
     out \<leftarrow> ok r;
     assert (out = Changed);
     assert (transport rec = SummaryObserved);
     assert (length (process_results rec) = 1) }"

definition selects_matching_entry_from_multi_message_summary :: unit_test where
  "selects_matching_entry_from_multi_message_summary = do {
     rec \<leftarrow> state_record;
     let other = state_summary 2 0;
     let other = other\<lparr>sm_info := (sm_info other)\<lparr>smi_id := ''other-message-id''\<rparr>\<rparr>;
     let result = \<lparr>sr_routing = state_routing, sr_messages = [other, state_summary 1 1]\<rparr>;
     (r, rec) \<leftarrow> apply_summary_result Debug result rec;
     _ \<leftarrow> ok r;
     t \<leftarrow> terminal rec;
     assert (disposition t = PartialSuccess) }"

definition persistence_boundary_supports_create_and_optimistic_update :: unit_test where
  "persistence_boundary_supports_create_and_optimistic_update = do {
     let store = (\<lambda>_. None);
     rec \<leftarrow> state_record;
     let (w, store) = memory_compare_and_swap None rec store;
     out \<leftarrow> ok w;
     assert (out = Stored 0);
     let (_, rec) = advance_transport Prepared rec;
     let (w, store) = memory_compare_and_swap (Some 0) rec store;
     out \<leftarrow> ok w;
     assert (out = Stored 1);
     let (w, store) = memory_compare_and_swap (Some 0) rec store;
     out \<leftarrow> ok w;
     assert (out = StoreConflict (Some 1));
     row \<leftarrow> ok (memory_load store state_message_id);
     row \<leftarrow> row;
     assert (revision row = 1) }"

lemma state_tests_pass:
  "transport_state_is_monotonic_and_idempotent = Some ()"
  "process_result_records_diagnostics_without_terminal_disposition = Some ()"
  "exact_process_result_replay_is_idempotent = Some ()"
  "applies_all_good_all_failed_and_partial_terminal_states = Some ()"
  "inconsistent_summary_does_not_change_terminal_state = Some ()"
  "exact_terminal_replay_is_idempotent_but_conflict_is_rejected = Some ()"
  "late_process_result_adds_diagnostics_without_transport_regression = Some ()"
  "selects_matching_entry_from_multi_message_summary = Some ()"
  "persistence_boundary_supports_create_and_optimistic_update = Some ()"
  by code_simp+

end
