(* ===== verification/Conformance_Results.thy ===== *)
theory Conformance_Results
  imports Conformance Inbound
begin

text \<open>
  The unit tests of \<open>crates/einvoice-results\<close>, \<open>filename.rs\<close> and \<open>inbound.rs\<close>.  The XML texts of
  three of them go to the deserialiser, which is a parameter of the model: these tests pass for
  every deserialiser that reads the text as the wire value that it denotes.
\<close>

section \<open>einvoice-results\<close>

text \<open>The texts, and the wire values that they denote.\<close>

definition ROUTING :: string where
  "ROUTING = text_lines [
     [],
     ''        <RoutingInfo>'',
     ''          <From><PartyId>12345678</PartyId><Description>sender</Description></From>'',
     ''          <FromVAC><RoutingId>FROM-VAC</RoutingId></FromVAC>'',
     ''          <To><PartyId>0000000000</PartyId></To>'',
     ''          <ToVAC><RoutingId>TO-VAC</RoutingId><Description>platform</Description></ToVAC>'',
     ''        </RoutingInfo>'',
     ''    '']"

definition process_result_xml :: string where
  "process_result_xml = text_lines [
     ''<?xml version='' @ [CHR 0x22] @ ''1.0'' @ [CHR 0x22] @ '' encoding='' @ [CHR 0x22] @ ''UTF-8'' @ [CHR 0x22] @ ''?>'',
     ''            <ProcessResult xmlns='' @ [CHR 0x22] @ ''urn:GEINV:ProcessResult:4.1'' @ [CHR 0x22] @ ''>'',
     ''              '' @ ROUTING,
     ''              <MessageInfo>'',
     ''                <Id>4.1-F0401-20260824-141623456-550e8400-e29b-41d4-a716-446655440000</Id>'',
     ''                <Size>0012345</Size>'',
     ''                <MessageType>F0401</MessageType>'',
     ''                <Service>S</Service>'',
     ''                <Action>C0401</Action>'',
     ''              </MessageInfo>'',
     ''              <Result>'',
     ''                <Info>'',
     ''                  <Code>E001</Code>'',
     ''                  <Description>synthetic validation error</Description>'',
     ''                  <Parameter0>InvoiceNumber</Parameter0>'',
     ''                  <Parameter1>AB12345678</Parameter1>'',
     ''                </Info>'',
     ''              </Result>'',
     ''            </ProcessResult>'']"

definition summary_result_xml :: string where
  "summary_result_xml = text_lines [
     ''<?xml version='' @ [CHR 0x22] @ ''1.0'' @ [CHR 0x22] @ '' encoding='' @ [CHR 0x22] @ ''UTF-8'' @ [CHR 0x22] @ ''?>'',
     ''            <SummaryResult xmlns='' @ [CHR 0x22] @ ''urn:GEINV:SummaryResult:4.1'' @ [CHR 0x22] @ ''>'',
     ''              '' @ ROUTING,
     ''              <DetailList>'',
     ''                <Message>'',
     ''                  <Info>'',
     ''                    <Id>4.1-F0401-20260824-141623456-550e8400-e29b-41d4-a716-446655440000</Id>'',
     ''                    <Size>12345</Size>'',
     ''                    <MessageType>F0401</MessageType>'',
     ''                    <Service>S</Service>'',
     ''                    <Action>C0401</Action>'',
     ''                  </Info>'',
     ''                  <ResultType>'',
     ''                    <Total><ResultDetailType><Count>2</Count></ResultDetailType></Total>'',
     ''                    <Good>'',
     ''                      <ResultDetailType>'',
     ''                        <Count>1</Count>'',
     ''                        <Invoices><Invoice><ReferenceNumber>AB12345678</ReferenceNumber><InvoiceDate>20260824</InvoiceDate></Invoice></Invoices>'',
     ''                      </ResultDetailType>'',
     ''                    </Good>'',
     ''                    <Failed>'',
     ''                      <ResultDetailType>'',
     ''                        <Count>1</Count>'',
     ''                        <Invoices><Invoice><ReferenceNumber>AB12345679</ReferenceNumber><InvoiceDate>20260824</InvoiceDate></Invoice></Invoices>'',
     ''                      </ResultDetailType>'',
     ''                    </Failed>'',
     ''                  </ResultType>'',
     ''                </Message>'',
     ''              </DetailList>'',
     ''            </SummaryResult>'']"

definition results_routing :: wire_routing where
  "results_routing =
     \<lparr>wrt_from = \<lparr>wp_party_id = ''12345678'', wp_description = Some ''sender''\<rparr>,
      wrt_from_vac = \<lparr>wr_routing_id = ''FROM-VAC'', wr_description = None\<rparr>,
      wrt_to = \<lparr>wp_party_id = ''0000000000'', wp_description = None\<rparr>,
      wrt_to_vac = \<lparr>wr_routing_id = ''TO-VAC'', wr_description = Some ''platform''\<rparr>\<rparr>"

definition results_process :: wire_process_result where
  "results_process =
     \<lparr>wpr_routing_info = results_routing,
      wpr_message_info = \<lparr>wpm_id = ''4.1-F0401-20260824-141623456-550e8400-e29b-41d4-a716-446655440000'',
        wpm_size = ''0012345'', wpm_message_type = ''F0401'', wpm_service = ''S'', wpm_action = ''C0401''\<rparr>,
      wpr_result = [\<lparr>wd_code = ''E001'', wd_description = Some ''synthetic validation error'',
        wd_parameter0 = Some ''InvoiceNumber'', wd_parameter1 = Some ''AB12345678'', wd_parameter2 = None,
        wd_parameter3 = None, wd_parameter4 = None\<rparr>]\<rparr>"

definition parses_process_result_and_preserves_string_size :: "(string \<Rightarrow> 'x + wire_process_result) \<Rightarrow> unit_test" where
  "parses_process_result_and_preserves_string_size de = do {
     result \<leftarrow> ok (process_result_parse de process_result_xml);
     assert (party_id (rt_from (pr_routing result)) = ''12345678'');
     assert (pmi_size (pr_message result) = ''0012345'');
     assert (pmi_message_type (pr_message result) = ''F0401'');
     assert (length (pr_diagnostics result) = 1);
     diagnostic \<leftarrow> get (pr_diagnostics result) 0;
     assert (diag_code diagnostic = ''E001'');
     p0 \<leftarrow> get (diag_parameters diagnostic) 0;
     assert (p0 = Some ''InvoiceNumber'');
     p1 \<leftarrow> get (diag_parameters diagnostic) 1;
     assert (p1 = Some ''AB12345678'') }"

definition results_detail :: "i32 \<Rightarrow> wire_invoice_reference list option \<Rightarrow> wire_result_detail" where
  "results_detail count invoices = \<lparr>wd_count = count, wd_invoices = invoices\<rparr>"

definition results_summary :: wire_summary_result where
  "results_summary =
     \<lparr>wsr_routing_info = results_routing,
      wsr_detail_list =
        [\<lparr>ws_info = \<lparr>wsm_id = ''4.1-F0401-20260824-141623456-550e8400-e29b-41d4-a716-446655440000'',
            wsm_size = ''12345'', wsm_message_type = ''F0401'', wsm_service = ''S'', wsm_action = ''C0401''\<rparr>,
          ws_result_type = \<lparr>wb_total = results_detail 2 None,
            wb_good = results_detail 1 (Some [\<lparr>wi_reference_number = ''AB12345678'', wi_invoice_date = ''20260824''\<rparr>]),
            wb_failed = results_detail 1 (Some [\<lparr>wi_reference_number = ''AB12345679'', wi_invoice_date = ''20260824''\<rparr>])\<rparr>\<rparr>]\<rparr>"

definition parses_consistent_summary_result :: "(string \<Rightarrow> 'x + wire_summary_result) \<Rightarrow> unit_test" where
  "parses_consistent_summary_result de = do {
     result \<leftarrow> ok (summary_result_parse de summary_result_xml);
     assert (length (sr_messages result) = 1);
     message \<leftarrow> get (sr_messages result) 0;
     assert (smi_size (sm_info message) = ''12345'');
     consistent \<leftarrow> is_consistent Debug message (Some 2);
     assert consistent;
     good \<leftarrow> get (detail_invoices (rb_good (sm_result message))) 0;
     assert (reference_number good = ''AB12345678'');
     failed \<leftarrow> get (detail_invoices (rb_failed (sm_result message))) 0;
     assert (reference_number failed = ''AB12345679'') }"

definition reports_summary_count_inconsistencies :: unit_test where
  "reports_summary_count_inconsistencies = do {
     let message = \<lparr>sm_info = \<lparr>smi_id = ''synthetic'', smi_size = ''100'', smi_message_type = ''F0401'',
         smi_service = ''S'', smi_action = ''C0401''\<rparr>,
       sm_result = \<lparr>rb_total = \<lparr>detail_count = 3, detail_invoices = []\<rparr>,
         rb_good = \<lparr>detail_count = 1, detail_invoices = []\<rparr>,
         rb_failed = \<lparr>detail_count = 1, detail_invoices = []\<rparr>\<rparr>\<rparr>;
     issues \<leftarrow> validation_issues Debug message (Some 4);
     assert (issues = [TotalMismatch 3 1 1, ExpectedQuantityMismatch 4 3]) }"

lemma results_tests_pass:
  "de process_result_xml = Inr results_process \<Longrightarrow> parses_process_result_and_preserves_string_size de = Some ()"
  "de' summary_result_xml = Inr results_summary \<Longrightarrow> parses_consistent_summary_result de' = Some ()"
  "reports_summary_count_inconsistencies = Some ()"
proof -
  assume "de process_result_xml = Inr results_process"
  then have r: "process_result_parse de process_result_xml = Inr (process_from_wire results_process)"
    by (simp add: process_result_parse_def and_then_def map_err_def)
  show "parses_process_result_and_preserves_string_size de = Some ()"
    unfolding parses_process_result_and_preserves_string_size_def r by code_simp
next
  assume "de' summary_result_xml = Inr results_summary"
  then have r: "summary_result_parse de' summary_result_xml = Inr (summary_from_wire results_summary)"
    by (simp add: summary_result_parse_def and_then_def map_err_def)
  show "parses_consistent_summary_result de' = Some ()"
    unfolding parses_consistent_summary_result_def r by code_simp
next
  show "reports_summary_count_inconsistencies = Some ()" by code_simp
qed

section \<open>Filenames\<close>

definition COMMON :: string where
  "COMMON = ''4.1-F0401-20260824-141623456-550e8400-e29b-41d4-a716-446655440000''"

definition parses_common_name_with_millisecond_time :: unit_test where
  "parses_common_name_with_millisecond_time = do {
     name \<leftarrow> ok (common_name_parse COMMON);
     assert (mcn_mig_version name = ''4.1'');
     assert (mcn_message_type name = ''F0401'');
     assert (mcn_date name = ''20260824'');
     assert (mcn_time name = ''141623456'');
     assert (mcn_uuid name = ''550e8400-e29b-41d4-a716-446655440000'');
     assert (common_name_render name = COMMON) }"

definition preserves_underscores_in_source_filename :: unit_test where
  "preserves_underscores_in_source_filename = do {
     let filename = ''erp_batch_0001.xml_12345678_0000000000_'' @ COMMON @ ''_27'';
     parsed \<leftarrow> ok (pack_filename_parse filename);
     assert (tpf_source_name parsed = ''erp_batch_0001.xml'');
     assert (tpf_from_party parsed = ''12345678'');
     assert (tpf_to_party parsed = ''0000000000'');
     assert (tpf_pack_count parsed = 27);
     assert (remote_filename parsed = COMMON);
     assert (pack_filename_render parsed = filename) }"

definition rejects_six_digit_time_without_milliseconds :: unit_test where
  "rejects_six_digit_time_without_milliseconds = do {
     e \<leftarrow> err (common_name_parse ''4.1-F0401-20260824-141623-550e8400-e29b-41d4-a716-446655440000'');
     assert (e = InvalidCommonSegmentLength 3 9 6) }"

section \<open>Inbound objects\<close>

definition classifier_matches_receivefile_suffix_precedence :: unit_test where
  "classifier_matches_receivefile_suffix_precedence = do {
     assert (classify_remote_name ''batch-123_ProcessResult'' = ProcessResultObject);
     assert (classify_remote_name ''batch-123_SummaryResult'' = SummaryResultObject);
     assert (classify_remote_name ''batch_E0504'' = E05 E0504);
     assert (classify_remote_name ''batch_Ack'' = ExchangeAck);
     assert (case classify_remote_name COMMON of Invoice _ \<Rightarrow> True | _ \<Rightarrow> False);
     assert (classify_remote_name ''garbage.bin'' = Unknown) }"

definition inbound_process_xml :: string where
  "inbound_process_xml = text_lines [
     ''<?xml version='' @ [CHR 0x22] @ ''1.0'' @ [CHR 0x22] @ '' encoding='' @ [CHR 0x22] @ ''UTF-8'' @ [CHR 0x22] @ ''?>'',
     ''<ProcessResult xmlns='' @ [CHR 0x22] @ ''urn:GEINV:ProcessResult:4.1'' @ [CHR 0x22] @ ''>'',
     ''  <RoutingInfo>'',
     ''    <From><PartyId>12345678</PartyId></From>'',
     ''    <FromVAC><RoutingId>FROM</RoutingId></FromVAC>'',
     ''    <To><PartyId>PLATFORM</PartyId></To>'',
     ''    <ToVAC><RoutingId>TO</RoutingId></ToVAC>'',
     ''  </RoutingInfo>'',
     ''  <MessageInfo>'',
     ''    <Id>4.1-F0401-20260824-141623456-550e8400-e29b-41d4-a716-446655440000</Id>'',
     ''    <Size>123</Size>'',
     ''    <MessageType>F0401</MessageType>'',
     ''    <Service>S</Service>'',
     ''    <Action>C0401</Action>'',
     ''  </MessageInfo>'',
     ''  <Result><Info><Code>0000</Code></Info></Result>'',
     ''</ProcessResult>'']"

definition inbound_process :: wire_process_result where
  "inbound_process =
     \<lparr>wpr_routing_info =
        \<lparr>wrt_from = \<lparr>wp_party_id = ''12345678'', wp_description = None\<rparr>,
         wrt_from_vac = \<lparr>wr_routing_id = ''FROM'', wr_description = None\<rparr>,
         wrt_to = \<lparr>wp_party_id = ''PLATFORM'', wp_description = None\<rparr>,
         wrt_to_vac = \<lparr>wr_routing_id = ''TO'', wr_description = None\<rparr>\<rparr>,
      wpr_message_info = \<lparr>wpm_id = COMMON, wpm_size = ''123'', wpm_message_type = ''F0401'',
        wpm_service = ''S'', wpm_action = ''C0401''\<rparr>,
      wpr_result = [\<lparr>wd_code = ''0000'', wd_description = None, wd_parameter0 = None, wd_parameter1 = None,
        wd_parameter2 = None, wd_parameter3 = None, wd_parameter4 = None\<rparr>]\<rparr>"

definition parses_process_result_only_after_filename_classification ::
  "(string \<Rightarrow> 'x + wire_process_result) \<Rightarrow> (string \<Rightarrow> 'x + wire_summary_result) \<Rightarrow> unit_test" where
  "parses_process_result_only_after_filename_classification de de' = do {
     let xml = as_bytes inbound_process_xml;
     parsed \<leftarrow> ok (parse_reconciliation de de' ProcessResultObject xml);
     parsed \<leftarrow> parsed;
     assert (case parsed of Process _ \<Rightarrow> True | Summary _ \<Rightarrow> False);
     none \<leftarrow> ok (parse_reconciliation de de' ExchangeAck xml);
     assert (none = None) }"

lemma name_tests_pass:
  "parses_common_name_with_millisecond_time = Some ()"
  "preserves_underscores_in_source_filename = Some ()"
  "rejects_six_digit_time_without_milliseconds = Some ()"
  "classifier_matches_receivefile_suffix_precedence = Some ()"
  by code_simp+

lemma inbound_test_passes:
  assumes "de inbound_process_xml = Inr inbound_process"
  shows "parses_process_result_only_after_filename_classification de de' = Some ()"
proof -
  have "from_utf8 (as_bytes inbound_process_xml) = Some inbound_process_xml"
    by (rule ascii_from_utf8) code_simp
  then have "parse_reconciliation de de' ProcessResultObject (as_bytes inbound_process_xml) =
      Inr (Some (Process (process_from_wire inbound_process)))"
    using assms by (simp add: parse_reconciliation_def process_result_parse_def and_then_def map_err_def ok_or_def)
  moreover have "parse_reconciliation de de' ExchangeAck (as_bytes inbound_process_xml) = Inr None"
    by (simp add: parse_reconciliation_def)
  ultimately show ?thesis
    by (simp add: parses_process_result_only_after_filename_classification_def ok_def assert_def)
qed

end
