(* ===== verification/Conformance_Signing.thy ===== *)
theory Conformance_Signing
  imports Conformance Signing
begin

text \<open>
  The unit tests of \<open>crates/einvoice-signing\<close> (\<open>ber.rs\<close>, \<open>lib.rs\<close>), among them the comparison with
  the message signed by the official Turnkey, byte for byte.
\<close>

section \<open>BER\<close>

definition encodes_recovered_single_signer_layout :: unit_test where
  "encodes_recovered_single_signer_layout = do {
     let encoded = encode_turnkey_signed_data
       \<lparr>cp_content = as_bytes ''x'', cp_certificate_der = [0x30, 0x00], cp_issuer_name_der = [0x30, 0x00],
        cp_serial_number = [0x80], cp_signature_algorithm = RsaPkcs1v15Sha256, cp_signature = [0xaa]\<rparr>;
     expected \<leftarrow> decode_hex (''308006092a864886f70d010702a0803080020101'' @
     ''310f300d06096086480165030402010500'' @
     ''308006092a864886f70d010701a08004017800000000'' @
     ''a08030000000'' @
     ''312e302c0201013006300002020080'' @
     ''300d06096086480165030402010500'' @
     ''300d06092a864886f70d01010b0500'' @
     ''0401aa'' @
     ''000000000000'');
     assert (encoded = expected) }"

definition certificate_base64 :: "string list" where
  "certificate_base64 =
     [''MIIDFzCCAf+gAwIBAgIUGVLSpis0l/HCnII86Vp+kGhikpgwDQYJKoZIhvcNAQEL'',
      ''BQAwGzEZMBcGA1UEAwwQdHctZWludm9pY2UtdGVzdDAeFw0yNjA4MjUwNjMxMTZa'',
      ''Fw0yNjA4MjYwNjMxMTZaMBsxGTAXBgNVBAMMEHR3LWVpbnZvaWNlLXRlc3QwggEi'',
      ''MA0GCSqGSIb3DQEBAQUAA4IBDwAwggEKAoIBAQDPKdj6Ug3M6s8Y5Vc3peuKT5Fr'',
      ''nGM/TuD8jMQVxzkNNKCzPzDMpd5epARpdy6EX6ezUmez2LTeXzh1p6jGyDAIGnFc'',
      ''1lTAQkd1QqyIHhkYu/yliM1wYfIwsUw4oFWPLbsiJQ9ZY4XKSd8RGYZgBVwgjBl2'',
      ''9NnxMCCqEXKkx5LT2FM3RDVTkHSmYxTOS1dP07bhLJH1GE9opidMcN/Ety2qtjCV'',
      ''hGbeFu49nKIIeHqC0LlcLsA263oa3CuexuVAEorAXRMAAUNqeB2FQ1go1fFGCx8c'',
      ''UQZm8gCGY4DwBMNtuN1BruljZNMO5rTTUSd7I9GncoZ0qr+V2oeuB+Na71cxAgMB'',
      ''AAGjUzBRMB0GA1UdDgQWBBTSjGMzU3gCioUxNKdQA+I20YkmAzAfBgNVHSMEGDAW'',
      ''gBTSjGMzU3gCioUxNKdQA+I20YkmAzAPBgNVHRMBAf8EBTADAQH/MA0GCSqGSIb3'',
      ''DQEBCwUAA4IBAQCmEp98FsmUqYm+ADgbZlVC7BNJUKOUfkxrNpNC2VtMuvQmEruF'',
      ''szyaT2hBLNoNxkLyuUBnTNagE7mWaHRzaxrS4J96CexdtGS0t0dNVP2Tuy5e1hil'',
      ''EjkFb69zP7fFX6FuyrRIgEu8C2NVQeRR4+w+EF1t3Gx1bnaqF2GJ5VCDFGST96+c'',
      ''enTo7FhTVz9g5Iq2yA/JNPbG8wQJUvFhT+57CXwPimsGEC5kRY3x2q36eH/BKEAZ'',
      ''sflvdEJ3aj/GYwcckDae/IbsURHWnSi3tYGPG8rjIyh8FMhWqbRF3EizS5a4gFY/'',
      ''S8zz0vBQ1kLqO5oaZUTXsNOB/kuyk2ZRdoUs'']"

definition signature_base64 :: "string list" where
  "signature_base64 =
     [''H/1vmBveO/zgDjXANaSA/se3zYemxfcPG7hmi/xlPklUZ0P9Nf2jgQdLJIcF2ya8'',
      ''nemYLqIOzAg/7qcj6MqHkQRtR3x7frhOh8KlE2sElLhpROH+aKGIMapx9F4vmoX'',
      ''bWZPMtjUZlUbUWZGcqELNJb1tgMMNW6U9qEK9WUopFsqfWqRRCEb5/jBGIM2/lu'',
      ''EZBiF1Z0wfvM9bjPkeuxmrCiFvkBLZtos3m57lS9mj0fVZi/l9btSuU9/f9u/OX'',
      ''zNpmsrvOzkCBQmiX86jIdSiXLhWixEqdHOfND6YHM3hSBWDin25wmBKdZ9rXHVI'',
      ''RaBW5q60Rh4H9a+AmurRd99G4A=='']"

definition expected_base64 :: "string list" where
  "expected_base64 =
     [''MIAGCSqGSIb3DQEHAqCAMIACAQExDzANBglghkgBZQMEAgEFADCABgkqhkiG9w0B'',
      ''BwGggAQNaGVsbG8tdHVybmtleQAAAACggDCCAxcwggH/oAMCAQICFBlS0qYrNJfx'',
      ''wpyCPOlafpBoYpKYMA0GCSqGSIb3DQEBCwUAMBsxGTAXBgNVBAMMEHR3LWVpbnZv'',
      ''aWNlLXRlc3QwHhcNMjYwODI1MDYzMTE2WhcNMjYwODI2MDYzMTE2WjAbMRkwFwYD'',
      ''VQQDDBB0dy1laW52b2ljZS10ZXN0MIIBIjANBgkqhkiG9w0BAQEFAAOCAQ8AMIIB'',
      ''CgKCAQEAzynY+lINzOrPGOVXN6Xrik+Ra5xjP07g/IzEFcc5DTSgsz8wzKXeXqQE'',
      ''aXcuhF+ns1Jns9i03l84daeoxsgwCBpxXNZUwEJHdUKsiB4ZGLv8pYjNcGHyMLFM'',
      ''OKBVjy27IiUPWWOFyknfERmGYAVcIIwZdvTZ8TAgqhFypMeS09hTN0Q1U5B0pmMU'',
      ''zktXT9O24SyR9RhPaKYnTHDfxLctqrYwlYRm3hbuPZyiCHh6gtC5XC7ANut6Gtwr'',
      ''nsblQBKKwF0TAAFDangdhUNYKNXxRgsfHFEGZvIAhmOA8ATDbbjdQa7pY2TTDua0'',
      ''01EneyPRp3KGdKq/ldqHrgfjWu9XMQIDAQABo1MwUTAdBgNVHQ4EFgQU0oxjM1N4'',
      ''AoqFMTSnUAPiNtGJJgMwHwYDVR0jBBgwFoAU0oxjM1N4AoqFMTSnUAPiNtGJJgMw'',
      ''DwYDVR0TAQH/BAUwAwEB/zANBgkqhkiG9w0BAQsFAAOCAQEAphKffBbJlKmJvgA4'',
      ''G2ZVQuwTSVCjlH5MazaTQtlbTLr0JhK7hbM8mk9oQSzaDcZC8rlAZ0zWoBO5lmh0'',
      ''c2sa0uCfegnsXbRktLdHTVT9k7suXtYYpRI5BW+vcz+3xV+hbsq0SIBLvAtjVUHk'',
      ''UePsPhBdbdxsdW52qhdhieVQgxRkk/evnHp06OxYU1c/YOSKtsgPyTT2xvMECVLx'',
      ''YU/uewl8D4prBhAuZEWN8dqt+nh/wShAGbH5b3RCd2o/xmMHHJA2nvyG7FER1p0o'',
      ''t7WBjxvK4yMofBTIVqm0RdxIs0uWuIBWP0vM89LwUNZC6juaGmVE17DTgf5LspNm'',
      ''UXaFLAAAMYIBXjCCAVoCAQEwMzAbMRkwFwYDVQQDDBB0dy1laW52b2ljZS10ZXN0'',
      ''AhQZUtKmKzSX8cKcgjzpWn6QaGKSmDANBglghkgBZQMEAgEFADANBgkqhkiG9w0B'',
      ''AQsFAASCAQAf/W+YG947/OAONcA1pID+x7fNh6bF9w8buGaL/GU+SVRnQ/01/aOB'',
      ''B0skhwXbJryd6Zguog7MCD/upyPoyoeRBG1HfHt+uE6HwqUTawSUuGlE4f5ooYgx'',
      ''qnH0Xi+ahdtZk8y2NRmVRtRZkZyoQs0lvW2Aww1bpT2oQr1ZSikWyp9apFEIRvn'',
      ''+MEYgzb+W4RkGIXVnTB+8z1uM+R67GasKIW+QEtm2izebnuVL2aPR9VmL+X1u1K5'',
      ''T39/2785fM2mayu87OQIFCaJfzqMh1KJcuFaLESp0c580PpgczeFIFYOKfbnCYEp1'',
      ''n2tcdUhFoFbmrrRGHgf1r4Ca6tF330bgAAAAAAAA'']"

definition matches_official_turnkey_rsa_fixture_byte_for_byte :: unit_test where
  "matches_official_turnkey_rsa_fixture_byte_for_byte = do {
     certificate_der \<leftarrow> base64_decode (concat certificate_base64);
     issuer_name_der \<leftarrow> decode_hex ''301b3119301706035504030c1074772d65696e766f6963652d74657374'';
     serial_number \<leftarrow> decode_hex ''1952d2a62b3497f1c29c823ce95a7e9068629298'';
     signature \<leftarrow> base64_decode (concat signature_base64);
     expected \<leftarrow> base64_decode (concat expected_base64);
     let encoded = encode_turnkey_signed_data
       \<lparr>cp_content = as_bytes ''hello-turnkey'', cp_certificate_der = certificate_der,
        cp_issuer_name_der = issuer_name_der, cp_serial_number = serial_number,
        cp_signature_algorithm = RsaPkcs1v15Sha256, cp_signature = signature\<rparr>;
     assert (encoded = expected) }"

definition positive_integer_adds_sign_protection_byte :: unit_test where
  "positive_integer_adds_sign_protection_byte = do {
     assert (positive_integer [0x80] = [0x02, 0x02, 0x00, 0x80]);
     assert (positive_integer [0x00, 0x7f] = [0x02, 0x01, 0x7f]) }"

definition ecdsa_algorithm_identifier_keeps_observed_null_parameter :: unit_test where
  "ecdsa_algorithm_identifier_keeps_observed_null_parameter = do {
     let encoded = encode_turnkey_signed_data
       \<lparr>cp_content = as_bytes ''x'', cp_certificate_der = [0x30, 0x00], cp_issuer_name_der = [0x30, 0x00],
        cp_serial_number = [1], cp_signature_algorithm = EcdsaSha256, cp_signature = [0x30, 0x00]\<rparr>;
     assert (contains_str encoded
       [0x30, 0x0c, 0x06, 0x08, 0x2a, 0x86, 0x48, 0xce, 0x3d, 0x04, 0x03, 0x02, 0x05, 0x00]) }"

lemma ber_tests_pass:
  "encodes_recovered_single_signer_layout = Some ()"
  "positive_integer_adds_sign_protection_byte = Some ()"
  "ecdsa_algorithm_identifier_keeps_observed_null_parameter = Some ()"
  by code_simp+

text \<open>
  The message of the official Turnkey, 1,230 bytes.  The texts are decoded line by line, because
  rewriting visits the rest of a literal at each of its characters, and the two messages are
  compared as terms.
\<close>

fun decode_lines :: "string list \<Rightarrow> bytes option" where
  "decode_lines [] = Some []"
| "decode_lines (l # ls) =
     (if contains l (CHR ''='') then if ls = [] then base64_decode l else None
      else case base64_decode l of
          None \<Rightarrow> None
        | Some b \<Rightarrow> (case decode_lines ls of None \<Rightarrow> None | Some b' \<Rightarrow> Some (b @ b')))"

lemma base64_decode_append:
  assumes "base64_decode s = Some b" "\<not> contains s (CHR ''='')"
  shows "base64_decode (s @ t) = map_option ((@) b) (base64_decode t)"
  using assms
proof (induction s arbitrary: b rule: base64_decode.induct)
  case (1 c d e f rest)
  then show ?case
    by (auto simp: contains_def Let_def split: if_splits bind_splits option.splits)
next
  case 2
  then show ?case by (cases "base64_decode t") simp_all
qed simp_all

lemma base64_lines: "decode_lines ls = Some b \<Longrightarrow> base64_decode (concat ls) = Some b"
proof (induction ls arbitrary: b)
  case (Cons l ls)
  then show ?case by (auto simp: base64_decode_append split: if_splits option.splits)
qed simp

lemma concat_regroup: "concat (take n ls @ [concat (drop n ls)]) = concat ls"
  using concat_append [of "take n ls" "drop n ls"] by simp

lemma official_message:
  "decode_lines (take 22 expected_base64 @ [concat (drop 22 expected_base64)]) =
     (case decode_lines certificate_base64 of None \<Rightarrow> None | Some certificate_der \<Rightarrow>
      case base64_decode (concat signature_base64) of None \<Rightarrow> None | Some signature \<Rightarrow>
      case decode_hex ''301b3119301706035504030c1074772d65696e766f6963652d74657374'' of None \<Rightarrow> None | Some issuer_name_der \<Rightarrow>
      case decode_hex ''1952d2a62b3497f1c29c823ce95a7e9068629298'' of None \<Rightarrow> None | Some serial_number \<Rightarrow>
      Some (encode_turnkey_signed_data
        \<lparr>cp_content = as_bytes ''hello-turnkey'', cp_certificate_der = certificate_der,
         cp_issuer_name_der = issuer_name_der, cp_serial_number = serial_number,
         cp_signature_algorithm = RsaPkcs1v15Sha256, cp_signature = signature\<rparr>))"
proof (rule eq_by_context)
  fix f
  show "f (decode_lines (take 22 expected_base64 @ [concat (drop 22 expected_base64)])) \<longrightarrow>
    f (case decode_lines certificate_base64 of None \<Rightarrow> None | Some certificate_der \<Rightarrow>
      case base64_decode (concat signature_base64) of None \<Rightarrow> None | Some signature \<Rightarrow>
      case decode_hex ''301b3119301706035504030c1074772d65696e766f6963652d74657374'' of None \<Rightarrow> None | Some issuer_name_der \<Rightarrow>
      case decode_hex ''1952d2a62b3497f1c29c823ce95a7e9068629298'' of None \<Rightarrow> None | Some serial_number \<Rightarrow>
      Some (encode_turnkey_signed_data
        \<lparr>cp_content = as_bytes ''hello-turnkey'', cp_certificate_der = certificate_der,
         cp_issuer_name_der = issuer_name_der, cp_serial_number = serial_number,
         cp_signature_algorithm = RsaPkcs1v15Sha256, cp_signature = signature\<rparr>))"
    by code_simp simp
qed

lemma official_fixture_passes: "matches_official_turnkey_rsa_fixture_byte_for_byte = Some ()"
proof -
  let ?expected = "take 22 expected_base64 @ [concat (drop 22 expected_base64)]"
  have "decode_lines ?expected \<noteq> None"
    by (simp only: expected_base64_def) code_simp
  then obtain e where e: "decode_lines ?expected = Some e" by (cases "decode_lines ?expected") simp_all
  then have "base64_decode (concat expected_base64) = Some e"
    using base64_lines [OF e] by (simp only: concat_regroup)
  with e official_message show ?thesis
    unfolding matches_official_turnkey_rsa_fixture_byte_for_byte_def
    by (auto simp: Let_def simp del: decode_hex.simps dest!: base64_lines split: option.splits)
qed

section \<open>Profile and armor\<close>

definition profile_matches_recovered_turnkey_algorithms :: unit_test where
  "profile_matches_recovered_turnkey_algorithms = do {
     let profile = default_cms_profile;
     assert (digest_algorithm_oid (tcp_digest profile) = ''2.16.840.1.101.3.4.2.1'');
     assert (signature_algorithm_oid RsaPkcs1v15Sha256 = ''1.2.840.113549.1.1.11'');
     assert (signature_algorithm_oid EcdsaSha256 = ''1.2.840.10045.4.3.2'');
     assert (tcp_content_mode profile = Attached);
     assert (tcp_encoding profile = BerIndefiniteLength);
     assert (tcp_include_certificate profile);
     assert (\<not> tcp_signed_attributes profile) }"

definition armor_wraps_at_sixty_four_characters_without_pem_markers :: unit_test where
  "armor_wraps_at_sixty_four_characters_without_pem_markers = do {
     signed \<leftarrow> ok (cms_from_encoded (replicate 48 0));
     let armored = to_turnkey_armored base64_encode signed;
     assert (armored = replicate 64 (CHR ''A'') @ [lf]);
     assert (\<not> contains_str armored ''BEGIN PKCS7'');
     assert (\<not> contains_str armored ''END PKCS7'') }"

definition armor_wraps_subsequent_lines_and_keeps_final_newline :: unit_test where
  "armor_wraps_subsequent_lines_and_keeps_final_newline = do {
     signed \<leftarrow> ok (cms_from_encoded (replicate 49 0));
     let armored = to_turnkey_armored base64_encode signed;
     let lines = split_terminator lf armored;
     assert (length lines = 2);
     first \<leftarrow> get lines 0;
     assert (length first = 64);
     second \<leftarrow> get lines 1;
     assert (second = ''AA=='');
     assert (ends_with armored [lf]) }"

lemma signing_tests_pass:
  "profile_matches_recovered_turnkey_algorithms = Some ()"
  "armor_wraps_at_sixty_four_characters_without_pem_markers = Some ()"
  "armor_wraps_subsequent_lines_and_keeps_final_newline = Some ()"
  by code_simp+

end
