(* ===== verification/Conformance_Envelope.thy ===== *)
theory Conformance_Envelope
  imports Conformance Pack
begin

text \<open>
  The unit tests of \<open>crates/einvoice-envelope\<close> (\<open>lib.rs\<close>, \<open>wire.rs\<close>) and of
  \<open>crates/einvoice-pack\<close>.
\<close>

section \<open>The envelope\<close>

definition lib_routing :: envelope_routing where
  "lib_routing =
     \<lparr>er_from = \<lparr>pin_identifier = ''12345678'', pin_description = None\<rparr>,
      er_from_vac = \<lparr>ri_identifier = ''FROM-VAC'', ri_description = None\<rparr>,
      er_to = \<lparr>pin_identifier = ''87654321'', pin_description = None\<rparr>,
      er_to_vac = \<lparr>ri_identifier = ''TO-VAC'', ri_description = None\<rparr>\<rparr>"

definition lib_metadata :: invoice_pack_metadata where
  "lib_metadata = \<lparr>ipm_message_type = ''F0401'', ipm_version = V4_1\<rparr>"

definition rejects_empty_envelope :: unit_test where
  "rejects_empty_envelope = do {
     e \<leftarrow> err (envelope_new lib_routing lib_metadata []);
     assert (e = NoPayloads) }"

definition accepts_one_thousand_payloads :: unit_test where
  "accepts_one_thousand_payloads = do {
     payload \<leftarrow> ok (mig_payload_new (as_bytes ''<Invoice/>''));
     envelope \<leftarrow> ok (envelope_new lib_routing lib_metadata (replicate MAX_PAYLOADS payload));
     assert (envelope_count envelope = 1000) }"

definition rejects_more_than_one_thousand_payloads :: unit_test where
  "rejects_more_than_one_thousand_payloads = do {
     payload \<leftarrow> ok (mig_payload_new (as_bytes ''<Invoice/>''));
     e \<leftarrow> err (envelope_new lib_routing lib_metadata (replicate (MAX_PAYLOADS + 1) payload));
     assert (e = TooManyPayloads 1001 1000) }"

lemma envelope_tests_pass:
  "rejects_empty_envelope = Some ()"
  "accepts_one_thousand_payloads = Some ()"
  "rejects_more_than_one_thousand_payloads = Some ()"
  by (simp_all add: rejects_empty_envelope_def accepts_one_thousand_payloads_def
      rejects_more_than_one_thousand_payloads_def envelope_new_def mig_payload_new_def MAX_PAYLOADS_def
      envelope_count_def ok_def err_def assert_def)

section \<open>The wire profile\<close>

definition wire_routing_info :: envelope_routing where
  "wire_routing_info =
     \<lparr>er_from = \<lparr>pin_identifier = ''12345678'', pin_description = Some ''Sender & Co''\<rparr>,
      er_from_vac = \<lparr>ri_identifier = ''FROM-VAC'', ri_description = Some ''Route <A>''\<rparr>,
      er_to = \<lparr>pin_identifier = ''0000000000'', pin_description = Some ''Receiver''\<rparr>,
      er_to_vac = \<lparr>ri_identifier = ''TO-VAC'', ri_description = None\<rparr>\<rparr>"

definition wire_metadata :: invoice_pack_metadata where
  "wire_metadata = \<lparr>ipm_message_type = ''F0401'', ipm_version = V4_1\<rparr>"

text \<open>\<open><Invoice xmlns="urn:GEINV:eInvoiceMessage:F0401:4.1"><Main/></Invoice>\<close>\<close>

definition invoice_xml :: string where
  "invoice_xml = ''<Invoice xmlns='' @ [CHR 0x22] @ ''urn:GEINV:eInvoiceMessage:F0401:4.1'' @ [CHR 0x22] @
     ''><Main/></Invoice>''"

definition expected_envelope :: string where
  "expected_envelope =
     [lf] @
     ''<InvoiceEnvelope xmlns='' @ [CHR 0x22] @ ''urn:GEINV:InvoiceEnvelope:4.1'' @ [CHR 0x22] @
     '' xmlns:xsi='' @ [CHR 0x22] @ ''http://www.w3.org/2001/XMLSchema-instance'' @ [CHR 0x22] @
     '' xsi:schemaLocation='' @ [CHR 0x22] @ ''urn:GEINV:InvoiceEnvelope:4.1 InvoiceEnvelope.xsd'' @ [CHR 0x22] @ ''>'' @ [lf] @
     ''  <From>'' @ [lf] @
     ''    <PartyId>12345678</PartyId>'' @ [lf] @
     ''    <Description>Sender &amp; Co</Description>'' @ [lf] @
     ''  </From>'' @ [lf] @
     ''  <FromVAC>'' @ [lf] @
     ''    <RoutingId>FROM-VAC</RoutingId>'' @ [lf] @
     ''    <Description>Route &lt;A&gt;</Description>'' @ [lf] @
     ''  </FromVAC>'' @ [lf] @
     ''  <To>'' @ [lf] @
     ''    <PartyId>0000000000</PartyId>'' @ [lf] @
     ''    <Description>Receiver</Description>'' @ [lf] @
     ''  </To>'' @ [lf] @
     ''  <ToVAC>'' @ [lf] @
     ''    <RoutingId>TO-VAC</RoutingId>'' @ [lf] @
     ''  </ToVAC>'' @ [lf] @
     ''  <InvoicePack count='' @ [CHR 0x22] @ ''1'' @ [CHR 0x22] @ '' messageType='' @ [CHR 0x22] @ ''F0401'' @ [CHR 0x22] @
     '' version='' @ [CHR 0x22] @ ''v41'' @ [CHR 0x22] @ ''>'' @ [lf] @
     invoice_xml @ [lf] @
     ''</InvoicePack>'' @ [lf] @
     ''</InvoiceEnvelope>'' @ [lf]"

definition matches_recovered_turnkey_envelope_splice_profile :: unit_test where
  "matches_recovered_turnkey_envelope_splice_profile = do {
     payload \<leftarrow> ok (mig_payload_new (as_bytes invoice_xml));
     envelope \<leftarrow> ok (envelope_new wire_routing_info wire_metadata [payload]);
     encoded \<leftarrow> ok (to_turnkey_xml envelope);
     assert (encoded = as_bytes expected_envelope) }"

definition crlf_xml :: string where
  "crlf_xml = ''<Invoice>'' @ [CHR 0x0D, lf] @ ''  <Main/>'' @ [CHR 0x0D, lf] @ ''</Invoice>'' @ [CHR 0x0D, lf]"

definition normalizes_payload_crlf_like_linux_pack :: unit_test where
  "normalizes_payload_crlf_like_linux_pack = do {
     payload \<leftarrow> ok (mig_payload_new (as_bytes crlf_xml));
     envelope \<leftarrow> ok (envelope_new wire_routing_info wire_metadata [payload]);
     encoded \<leftarrow> ok (to_turnkey_xml envelope);
     encoded \<leftarrow> from_utf8 encoded;
     assert (contains_str encoded
       (''<Invoice>'' @ [lf] @ ''  <Main/>'' @ [lf] @ ''</Invoice>'' @ [lf] @ ''</InvoicePack>''));
     assert (\<not> contains encoded (CHR 0x0D)) }"

definition rejects_embedded_xml_declaration :: unit_test where
  "rejects_embedded_xml_declaration = do {
     payload \<leftarrow> ok (mig_payload_new (as_bytes (''<?xml version='' @ [CHR 0x22] @ ''1.0'' @ [CHR 0x22] @ ''?><Invoice/>'')));
     envelope \<leftarrow> ok (envelope_new wire_routing_info wire_metadata [payload]);
     e \<leftarrow> err (to_turnkey_xml envelope);
     assert (e = EmbeddedXmlDeclaration 0) }"

definition rejects_non_utf8_payload :: unit_test where
  "rejects_non_utf8_payload = do {
     payload \<leftarrow> ok (mig_payload_new [0xff, 0xfe]);
     envelope \<leftarrow> ok (envelope_new wire_routing_info wire_metadata [payload]);
     e \<leftarrow> err (to_turnkey_xml envelope);
     assert (e = PayloadNotUtf8 0) }"

text \<open>An envelope with one ASCII payload, as text.\<close>

definition envelope_text :: "invoice_envelope \<Rightarrow> string \<Rightarrow> string" where
  "envelope_text envelope payload =
     push_envelope_header envelope @ unix_text payload @ ''</InvoicePack>'' @ [lf] @ ''</InvoiceEnvelope>'' @ [lf]"

lemma one_payload_xml:
  assumes "list_all (\<lambda>c. \<not> digit7 c) s" "\<not> starts_with (trim_start s) ''<?xml''"
    and "env_payloads envelope = [MigPayload (as_bytes s)]"
  shows "to_turnkey_xml envelope = Inr (as_bytes (envelope_text envelope s))"
  using assms
  by (simp add: to_turnkey_xml_def envelope_text_def ascii_from_utf8 ok_or_def and_then_def append_lines Let_def)

lemma ok_payload: "s \<noteq> [] \<Longrightarrow> ok (mig_payload_new (as_bytes s)) = Some (MigPayload (as_bytes s))"
  by (cases s) (simp_all add: mig_payload_new_def ok_def)

lemma ok_envelope:
  "ok (envelope_new routing metadata [p]) = Some \<lparr>env_routing = routing, env_metadata = metadata, env_payloads = [p]\<rparr>"
  by (simp add: envelope_new_def MAX_PAYLOADS_def ok_def)

lemma envelope_text_cong:
  assumes "env_routing a = env_routing b" "env_metadata a = env_metadata b"
    and "length (env_payloads a) = length (env_payloads b)"
  shows "envelope_text a s = envelope_text b s"
  by (simp add: envelope_text_def push_envelope_header_def assms)

lemma serialization_fails:
  assumes "\<And>out. push_payloads 0 (env_payloads env) out = Inl e"
  shows "to_turnkey_xml env = Inl e"
  by (simp add: to_turnkey_xml_def and_then_def assms Let_def)

lemma splice_test_passes: "matches_recovered_turnkey_envelope_splice_profile = Some ()"
proof -
  let ?env = "\<lparr>env_routing = wire_routing_info, env_metadata = wire_metadata, env_payloads = [MigPayload (as_bytes invoice_xml)]\<rparr>"
  have "to_turnkey_xml ?env = Inr (as_bytes (envelope_text ?env invoice_xml))"
    by (rule one_payload_xml) (code_simp, code_simp, simp)
  moreover have "envelope_text \<lparr>env_routing = wire_routing_info, env_metadata = wire_metadata, env_payloads = [p]\<rparr> invoice_xml =
      expected_envelope" for p
    by (rule eq_by_context) (code_simp, rule impI, assumption)
  moreover have "invoice_xml \<noteq> []" by code_simp
  ultimately show ?thesis
    unfolding matches_recovered_turnkey_envelope_splice_profile_def
    by (simp add: ok_payload ok_envelope)
qed

lemma crlf_test_passes: "normalizes_payload_crlf_like_linux_pack = Some ()"
proof -
  let ?env = "\<lparr>env_routing = wire_routing_info, env_metadata = wire_metadata, env_payloads = [MigPayload (as_bytes crlf_xml)]\<rparr>"
  define t where "t = envelope_text ?env crlf_xml"
  have xml: "to_turnkey_xml ?env = Inr (as_bytes t)"
    unfolding t_def by (rule one_payload_xml) (code_simp, code_simp, simp)
  have t: "t = envelope_text \<lparr>env_routing = wire_routing_info, env_metadata = wire_metadata, env_payloads = [MigPayload []]\<rparr> crlf_xml"
    unfolding t_def by (rule envelope_text_cong) simp_all
  have utf8: "from_utf8 (as_bytes t) = Some t"
    unfolding t by (rule ascii_from_utf8) code_simp
  have "unix_text crlf_xml @ ''</InvoicePack>'' =
      ''<Invoice>'' @ [lf] @ ''  <Main/>'' @ [lf] @ ''</Invoice>'' @ [lf] @ ''</InvoicePack>''"
    by code_simp
  then have "contains_str t (''<Invoice>'' @ [lf] @ ''  <Main/>'' @ [lf] @ ''</Invoice>'' @ [lf] @ ''</InvoicePack>'')"
    unfolding t envelope_text_def contains_str_iff by (metis append.assoc)
  moreover have "\<not> contains t (CHR 0x0D)"
    unfolding t by code_simp
  moreover have "crlf_xml \<noteq> []" by code_simp
  ultimately show ?thesis
    unfolding normalizes_payload_crlf_like_linux_pack_def
    by (simp add: ok_payload ok_envelope xml utf8 del: contains_iff)
qed

lemma wire_tests_pass:
  "rejects_embedded_xml_declaration = Some ()"
  "rejects_non_utf8_payload = Some ()"
proof -
  let ?xml = "''<?xml version='' @ [CHR 0x22] @ ''1.0'' @ [CHR 0x22] @ ''?><Invoice/>''"
  have "push_payloads 0 [MigPayload (as_bytes ?xml)] out = Inl (EmbeddedXmlDeclaration 0)"
    and "push_payloads 0 [MigPayload [0xff, 0xfe]] out = Inl (PayloadNotUtf8 0)" for out
    by code_simp+
  then show "rejects_embedded_xml_declaration = Some ()" "rejects_non_utf8_payload = Some ()"
    unfolding rejects_embedded_xml_declaration_def rejects_non_utf8_payload_def
    by (simp_all only: ok_payload ok_envelope) (simp_all add: serialization_fails mig_payload_new_def)
qed

end
