(* ===== verification/Conformance_Transport.thy ===== *)
theory Conformance_Transport
  imports Conformance_Envelope Native Sftp
begin

text \<open>
  The unit tests of \<open>gateway.rs\<close>, \<open>package.rs\<close>, \<open>native.rs\<close>, \<open>packed.rs\<close> and \<open>sftp.rs\<close> in
  \<open>crates/einvoice-transport\<close>.  The recording uploader and notifier of the tests act on a world
  that holds their records.  The crates \<open>zip\<close> and \<open>serde_json\<close> are parameters: what a test reads back
  with them goes through \<open>unzip\<close> and \<open>to_vec\<close>, and the facts used of them are hypotheses.
\<close>

section \<open>gateway.rs\<close>

definition service_type_wire_values_match_gateway_contract :: unit_test where
  "service_type_wire_values_match_gateway_contract = do {
     assert (service_type_wire Exchange = ''E'');
     assert (service_type_wire Store = ''S'') }"

definition zip_wire_values_match_gateway_contract :: unit_test where
  "zip_wire_values_match_gateway_contract = do {
     assert (zip_mode_wire Plain = ''0'');
     assert (zip_mode_wire Zip = ''1'') }"

definition test_notification :: upload_notification where
  "test_notification =
     \<lparr>un_from = \<lparr>gp_party_id = ''12345678'', gp_party_description = Some ''sender'',
        gp_routing_id = ''FROM-VAC'', gp_routing_description = None\<rparr>,
      un_to = \<lparr>gp_party_id = ''0000000000'', gp_party_description = None,
        gp_routing_id = ''TO-VAC'', gp_routing_description = Some ''receiver route''\<rparr>,
      un_service_type = Store, un_zip_mode = Zip, un_message_type = ''F0401'', un_action = ''C0401'',
      un_quantity = 3, un_mig_version = ''4.1'',
      un_filename = ''4.1-F0401-20260824-141623456-550e8400-e29b-41d4-a716-446655440000'',
      un_size = 12345, un_retry = INITIAL_RETRY, un_api_version = ''3.1.3'', un_turnkey_version = ''3.2.1''\<rparr>"

text \<open>The decoded \<open>Value\<close> has the members of the wire structure that was encoded.\<close>

definition encodes_pfs001_wire_shape ::
  "(wire_invoice_event \<Rightarrow> 'j + bytes) \<Rightarrow> (bytes \<Rightarrow> wire_invoice_event option) \<Rightarrow> unit_test" where
  "encodes_pfs001_wire_shape to_vec from_slice = do {
     let credentials = gateway_credentials_new ''transport-id'' ''transport-password'';
     encoded \<leftarrow> ok (to_pfs001_json to_vec test_notification credentials);
     v \<leftarrow> from_slice encoded;
     assert (wie_login_id v = ''transport-id'');
     assert (wie_login_password v = ''transport-password'');
     assert (wpp_party_id (wt_party_info (wie_trans_from v)) = ''12345678'');
     assert (wpr_routing_id (wt_routing_info (wie_trans_from v)) = ''FROM-VAC'');
     assert (wpp_party_id (wt_party_info (wie_trans_to v)) = ''0000000000'');
     assert (wie_service_type v = ''S'');
     assert (wie_zip v = ''1'');
     assert (wie_quantity v = 3);
     assert (wie_size v = 12345);
     assert (wie_retry v = 0);
     assert (wie_api_version v = ''3.1.3'');
     assert (wie_turnkey_version v = ''3.2.1'') }"

definition rejects_values_outside_gateway_int32_range ::
  "(wire_invoice_event \<Rightarrow> 'j + bytes) \<Rightarrow> unit_test" where
  "rejects_values_outside_gateway_int32_range to_vec = do {
     let credentials = gateway_credentials_new ''id'' ''password'';
     let request = test_notification\<lparr>un_size := 2147483647 + 1\<rparr>;
     e \<leftarrow> err (to_pfs001_json to_vec request credentials);
     assert (case e of IntegerOutOfRange field _ \<Rightarrow> field = ''size'' | _ \<Rightarrow> False) }"

lemma gateway_tests_pass:
  "service_type_wire_values_match_gateway_contract = Some ()"
  "zip_wire_values_match_gateway_contract = Some ()"
  "(\<And>v. \<exists>b. to_vec v = Inr b \<and> from_slice b = Some v) \<Longrightarrow> encodes_pfs001_wire_shape to_vec from_slice = Some ()"
  "rejects_values_outside_gateway_int32_range to_vec' = Some ()"
proof -
  show "service_type_wire_values_match_gateway_contract = Some ()"
    "zip_wire_values_match_gateway_contract = Some ()" by code_simp+
next
  assume io: "\<And>v. \<exists>b. to_vec v = Inr b \<and> from_slice b = Some v"
  then obtain f where f: "\<And>v. to_vec v = Inr (f v)" "\<And>v. from_slice (f v) = Some v" by metis
  show "encodes_pfs001_wire_shape to_vec from_slice = Some ()"
    by (simp add: encodes_pfs001_wire_shape_def to_pfs001_json_def checked_i32_def test_notification_def
        wire_trans_of_def INITIAL_RETRY_def and_then_def map_err_def f)
next
  show "rejects_values_outside_gateway_int32_range to_vec' = Some ()"
    by (simp add: rejects_values_outside_gateway_int32_range_def to_pfs001_json_def checked_i32_def
        test_notification_def and_then_def)
qed

section \<open>package.rs\<close>

definition zip_reads ::
  "('h, 'z, 'io) zip_writer \<Rightarrow> (bytes \<Rightarrow> (string \<times> bytes) list option) \<Rightarrow> bool" where
  "zip_reads zw unzip \<longleftrightarrow> (\<forall>name source. \<exists>z. zip_single_entry zw name source = Inr z \<and> z \<noteq> source \<and>
     unzip z = Some [(name, source)])"

lemma zip_readsE:
  assumes "zip_reads zw unzip"
  obtains z where "zip_single_entry zw name source = Inr z" "z \<noteq> source" "unzip z = Some [(name, source)]"
  using assms by (auto simp: zip_reads_def)

definition plain_mode_preserves_bytes_and_source_size :: "('h, 'z, 'io) zip_writer \<Rightarrow> unit_test" where
  "plain_mode_preserves_bytes_and_source_size zw = do {
     let source = as_bytes ''signed-cms'';
     prepared \<leftarrow> ok (prepare_upload_object zw ''source_from_to_common_1'' ''4.1-F0401-common'' source Plain);
     assert (puo_uploaded_bytes prepared = source);
     assert (puo_notification_size prepared = of_nat (length source));
     assert (puo_remote_filename prepared = ''4.1-F0401-common'') }"

definition zip_mode_uses_full_local_name_as_single_entry_but_keeps_remote_name ::
  "('h, 'z, 'io) zip_writer \<Rightarrow> (bytes \<Rightarrow> (string \<times> bytes) list option) \<Rightarrow> unit_test" where
  "zip_mode_uses_full_local_name_as_single_entry_but_keeps_remote_name zw unzip = do {
     let source = as_bytes ''signed-cms-payload'';
     let local = ''erp.xml_12345678_PLATFORM_4.1-F0401-common_1'';
     let remote = ''4.1-F0401-common'';
     prepared \<leftarrow> ok (prepare_upload_object zw local remote source Zip);
     assert (puo_remote_filename prepared = remote);
     assert (puo_notification_size prepared = of_nat (length source));
     assert (puo_uploaded_bytes prepared \<noteq> source);
     archive \<leftarrow> unzip (puo_uploaded_bytes prepared);
     assert (length archive = 1);
     (name, decoded) \<leftarrow> get archive 0;
     assert (name = local);
     assert (decoded = source) }"

definition enforces_twenty_mib_limit_before_zip :: "('h, 'z, 'io) zip_writer \<Rightarrow> unit_test" where
  "enforces_twenty_mib_limit_before_zip zw = do {
     let oversized = replicate (MAX_SIGNED_SOURCE_BYTES + 1) 0;
     e \<leftarrow> err (prepare_upload_object zw ''local'' ''remote'' oversized Zip);
     assert (case e of
         SourceTooLarge actual maximum \<Rightarrow> maximum = MAX_SIGNED_SOURCE_BYTES \<and> actual = MAX_SIGNED_SOURCE_BYTES + 1
       | _ \<Rightarrow> False) }"

definition rejects_path_like_names :: "('h, 'z, 'io) zip_writer \<Rightarrow> unit_test" where
  "rejects_path_like_names zw = do {
     e \<leftarrow> err (prepare_upload_object zw ''../signed'' ''remote'' (as_bytes ''x'') Plain);
     assert (case e of InvalidFilename _ \<Rightarrow> True | _ \<Rightarrow> False);
     e \<leftarrow> err (prepare_upload_object zw ''signed'' ''in/remote'' (as_bytes ''x'') Plain);
     assert (case e of InvalidFilename _ \<Rightarrow> True | _ \<Rightarrow> False) }"

lemma package_tests_pass:
  "plain_mode_preserves_bytes_and_source_size zw = Some ()"
  "zip_reads zw unzip \<Longrightarrow> zip_mode_uses_full_local_name_as_single_entry_but_keeps_remote_name zw unzip = Some ()"
  "enforces_twenty_mib_limit_before_zip zw = Some ()"
  "rejects_path_like_names zw = Some ()"
proof -
  note defs = prepare_upload_object_def validate_basename_def MAX_SIGNED_SOURCE_BYTES_def and_then_def contains_def
  show "plain_mode_preserves_bytes_and_source_size zw = Some ()"
    by (simp add: plain_mode_preserves_bytes_and_source_size_def defs)
  show "enforces_twenty_mib_limit_before_zip zw = Some ()"
    by (simp add: enforces_twenty_mib_limit_before_zip_def prepare_upload_object_def validate_basename_def and_then_def contains_def)
  show "rejects_path_like_names zw = Some ()"
    by (simp add: rejects_path_like_names_def defs)
  assume "zip_reads zw unzip"
  then obtain z where "zip_single_entry zw ''erp.xml_12345678_PLATFORM_4.1-F0401-common_1'' (as_bytes ''signed-cms-payload'') = Inr z"
    "z \<noteq> as_bytes ''signed-cms-payload''"
    "unzip z = Some [(''erp.xml_12345678_PLATFORM_4.1-F0401-common_1'', as_bytes ''signed-cms-payload'')]"
    by (rule zip_readsE)
  then show "zip_mode_uses_full_local_name_as_single_entry_but_keeps_remote_name zw unzip = Some ()"
    by (simp add: zip_mode_uses_full_local_name_as_single_entry_but_keeps_remote_name_def defs)
qed

section \<open>native.rs and packed.rs\<close>

record recorded =
  rw_calls :: "(string \<times> bytes) list"
  rw_notification :: "upload_notification option"

definition recorded_nothing :: recorded where
  "recorded_nothing = \<lparr>rw_calls = [], rw_notification = None\<rparr>"

definition recording_upload :: "(unit, recorded) uploader" where
  "recording_upload name bytes w = (Inr (), w\<lparr>rw_calls := rw_calls w @ [(name, bytes)]\<rparr>)"

definition recording_notify :: "i32 \<Rightarrow> (unit, recorded) notifier" where
  "recording_notify status_code notification w =
     (Inr \<lparr>gps_status_code = status_code, gps_details = []\<rparr>, w\<lparr>rw_notification := Some notification\<rparr>)"

definition test_party :: "string \<Rightarrow> string \<Rightarrow> gateway_party" where
  "test_party ident route = \<lparr>gp_party_id = ident, gp_party_description = None, gp_routing_id = route,
     gp_routing_description = None\<rparr>"

definition test_metadata :: "u32 \<Rightarrow> native_submission_metadata" where
  "test_metadata quantity =
     metadata_initial (test_party ''12345678'' ''FROM'') (test_party ''PLATFORM'' ''TO'') Store
       (native_message_profile_new ''F0401'' ''C0401'' quantity ''4.1'')
       (gateway_version_profile_new ''3.1.3'' ''3.2.1'')"

definition derives_zip_notification_metadata_from_actual_prepared_object ::
  "('h, 'z, 'io) zip_writer \<Rightarrow> (bytes \<Rightarrow> (string \<times> bytes) list option) \<Rightarrow> unit_test" where
  "derives_zip_notification_metadata_from_actual_prepared_object zw unzip = do {
     let signed = as_bytes (''armored-cms'' @ [lf]);
     let request = \<lparr>nsr_signed_local_filename = ''source_12345678_PLATFORM_common_1'',
       nsr_remote_filename = ''common'', nsr_signed_bytes = signed, nsr_zip_mode = Zip,
       nsr_metadata = test_metadata 1\<rparr>;
     let (r, w) = native_submit zw recording_upload (recording_notify 0) request recorded_nothing;
     receipt \<leftarrow> ok r;
     assert (rcp_remote_filename receipt = ''common'');
     assert (length (rw_calls w) = 1);
     (name, uploaded) \<leftarrow> get (rw_calls w) 0;
     assert (name = ''common'');
     archive \<leftarrow> unzip uploaded;
     (entry, unzipped) \<leftarrow> get archive 0;
     assert (entry = nsr_signed_local_filename request);
     assert (unzipped = signed);
     notification \<leftarrow> rw_notification w;
     assert (un_filename notification = ''common'');
     assert (un_size notification = of_nat (length signed));
     assert (un_zip_mode notification = Zip) }"

definition preserves_remote_filename_when_pfs001_rejects_after_upload :: "('h, 'z, 'io) zip_writer \<Rightarrow> unit_test" where
  "preserves_remote_filename_when_pfs001_rejects_after_upload zw = do {
     let request = \<lparr>nsr_signed_local_filename = ''signed_local'', nsr_remote_filename = ''remote-common-name'',
       nsr_signed_bytes = as_bytes ''cms'', nsr_zip_mode = Plain, nsr_metadata = test_metadata 1\<rparr>;
     let (r, w) = native_submit zw recording_upload (recording_notify 42) request recorded_nothing;
     e \<leftarrow> err r;
     assert (case e of
         GatewayRejected remote status \<Rightarrow> gps_status_code status = 42 \<and> remote = ''remote-common-name''
       | _ \<Rightarrow> False);
     assert (length (rw_calls w) = 1) }"

lemmas transport_test_defs = native_submit_def prepare_upload_object_def validate_basename_def MAX_SIGNED_SOURCE_BYTES_def
  and_then_def contains_def recording_upload_def recording_notify_def recorded_nothing_def notification_of_def
  test_metadata_def metadata_initial_def is_accepted_def

lemma native_tests_pass:
  "zip_reads zw unzip \<Longrightarrow> derives_zip_notification_metadata_from_actual_prepared_object zw unzip = Some ()"
  "preserves_remote_filename_when_pfs001_rejects_after_upload zw = Some ()"
proof -
  assume "zip_reads zw unzip"
  then obtain z where "zip_single_entry zw ''source_12345678_PLATFORM_common_1'' (as_bytes (''armored-cms'' @ [lf])) = Inr z"
    "unzip z = Some [(''source_12345678_PLATFORM_common_1'', as_bytes (''armored-cms'' @ [lf]))]"
    by (rule zip_readsE)
  then show "derives_zip_notification_metadata_from_actual_prepared_object zw unzip = Some ()"
    by (simp add: derives_zip_notification_metadata_from_actual_prepared_object_def transport_test_defs)
next
  show "preserves_remote_filename_when_pfs001_rejects_after_upload zw = Some ()"
    by (simp add: preserves_remote_filename_when_pfs001_rejects_after_upload_def transport_test_defs)
qed

definition synthetic_sign :: "bytes \<Rightarrow> unit + cms_signed_data" where
  "synthetic_sign content =
     (case cms_from_encoded ([0x30, 0x80] @ content @ [0x00, 0x00]) of
        Inl _ \<Rightarrow> Inl () | Inr cms \<Rightarrow> Inr cms)"

definition packed_envelope :: "invoice_envelope option" where
  "packed_envelope = do {
     payload \<leftarrow> ok (mig_payload_new (as_bytes invoice_xml));
     ok (envelope_new
       \<lparr>er_from = \<lparr>pin_identifier = ''12345678'', pin_description = None\<rparr>,
        er_from_vac = \<lparr>ri_identifier = ''FROM'', ri_description = None\<rparr>,
        er_to = \<lparr>pin_identifier = ''PLATFORM'', pin_description = None\<rparr>,
        er_to_vac = \<lparr>ri_identifier = ''TO'', ri_description = None\<rparr>\<rparr>
       \<lparr>ipm_message_type = ''F0401'', ipm_version = V4_1\<rparr> [payload]) }"

definition packed_filename :: "turnkey_pack_filename option" where
  "packed_filename = ok (pack_filename_parse
     ''source.xml_12345678_PLATFORM_4.1-F0401-20260825-163300000-550e8400-e29b-41d4-a716-446655440000_1'')"

definition packed_artifact :: "signed_artifact option" where
  "packed_artifact = do {
     envelope \<leftarrow> packed_envelope;
     ok (pack_and_sign base64_encode (\<lambda>_. RsaPkcs1v15Sha256) (\<lambda>_. synthetic_sign) envelope ()) }"

definition derives_zip_upload_and_pfs001_from_pack_artifact ::
  "('h, 'z, 'io) zip_writer \<Rightarrow> (bytes \<Rightarrow> (string \<times> bytes) list option) \<Rightarrow> unit_test" where
  "derives_zip_upload_and_pfs001_from_pack_artifact zw unzip = do {
     artifact \<leftarrow> packed_artifact;
     filename \<leftarrow> packed_filename;
     let request = \<lparr>pas_filename = filename, pas_artifact = artifact, pas_zip_mode = Zip, pas_metadata = test_metadata 1\<rparr>;
     let (r, w) = submit_pack_artifact zw recording_upload (recording_notify 0) request recorded_nothing;
     receipt \<leftarrow> ok r;
     assert (rcp_remote_filename receipt = remote_filename filename);
     assert (length (rw_calls w) = 1);
     (name, uploaded) \<leftarrow> get (rw_calls w) 0;
     assert (name = remote_filename filename);
     assert (uploaded \<noteq> sa_upload_bytes artifact);
     archive \<leftarrow> unzip uploaded;
     (entry, unzipped) \<leftarrow> get archive 0;
     assert (entry = pack_filename_render filename);
     assert (unzipped = sa_upload_bytes artifact);
     notification \<leftarrow> rw_notification w;
     assert (un_filename notification = remote_filename filename);
     assert (un_size notification = of_nat (turnkey_reported_size artifact));
     assert (un_zip_mode notification = Zip);
     assert (un_quantity notification = 1) }"

definition rejects_quantity_mismatch_before_upload :: "('h, 'z, 'io) zip_writer \<Rightarrow> unit_test" where
  "rejects_quantity_mismatch_before_upload zw = do {
     artifact \<leftarrow> packed_artifact;
     filename \<leftarrow> packed_filename;
     let request = \<lparr>pas_filename = filename, pas_artifact = artifact, pas_zip_mode = Plain, pas_metadata = test_metadata 2\<rparr>;
     let (r, w) = submit_pack_artifact zw recording_upload (recording_notify 0) request recorded_nothing;
     e \<leftarrow> err r;
     assert (case e of QuantityMismatch filename_count notification_quantity \<Rightarrow>
         filename_count = 1 \<and> notification_quantity = 2
       | _ \<Rightarrow> False);
     assert (rw_calls w = []);
     assert (rw_notification w = None) }"

lemma packed_filename_value:
  "packed_filename = Some \<lparr>tpf_source_name = ''source.xml'', tpf_from_party = ''12345678'', tpf_to_party = ''PLATFORM'',
     tpf_common_name = \<lparr>mcn_mig_version = ''4.1'', mcn_message_type = ''F0401'', mcn_date = ''20260825'',
       mcn_time = ''163300000'', mcn_uuid = ''550e8400-e29b-41d4-a716-446655440000''\<rparr>, tpf_pack_count = 1\<rparr>"
  by code_simp

text \<open>The artifact is small; its bytes do not matter.\<close>

lemma length_base64: "length (base64_encode bs) \<le> 4 * length bs"
  by (induction bs rule: base64_encode.induct) (simp_all add: Let_def)

lemma length_armor_loop: "length (armor_loop i s out) \<le> length out + 2 * length s"
proof (induction s arbitrary: i out)
  case (Cons c s)
  let ?out = "if (i + 1) AND LINE_MASK = 0 then (out @ [c]) @ [lf] else out @ [c]"
  have "length (armor_loop i (c # s) out) \<le> length ?out + 2 * length s"
    using Cons.IH by (simp add: Let_def)
  then show ?case by (simp split: if_splits)
qed simp

lemma small_artifact:
  assumes "to_turnkey_xml env = Inr (as_bytes t)" "length t < 1000"
  shows "\<exists>a. pack_and_sign base64_encode (\<lambda>_. RsaPkcs1v15Sha256) (\<lambda>_. synthetic_sign) env signer = Inr a \<and>
    length (sa_upload_bytes a) \<le> 20000"
proof -
  let ?cms = "CmsSignedData ([0x30, 0x80] @ as_bytes t @ [0x00, 0x00])"
  let ?a = "\<lparr>sa_upload_bytes = as_bytes (to_turnkey_armored base64_encode ?cms),
     sa_envelope_size = length t, sa_signature_algorithm = RsaPkcs1v15Sha256\<rparr>"
  have "pack_and_sign base64_encode (\<lambda>_. RsaPkcs1v15Sha256) (\<lambda>_. synthetic_sign) env signer = Inr ?a"
    by (simp add: pack_and_sign_def assms(1) synthetic_sign_def cms_from_encoded_def and_then_def map_err_def)
  moreover have "length (to_turnkey_armored base64_encode ?cms) \<le> 2 * length (base64_encode (as_encoded ?cms)) + 1"
    using length_armor_loop [of 0 "base64_encode (as_encoded ?cms)" "[]"]
    by (auto simp: to_turnkey_armored_def Let_def)
  then have "length (to_turnkey_armored base64_encode ?cms) \<le> 20000"
    using length_base64 [of "as_encoded ?cms"] assms(2) by simp
  then have "length (sa_upload_bytes ?a) \<le> 20000" by simp
  ultimately show ?thesis by blast
qed

lemma packed_artifact_value:
  "\<exists>a. packed_artifact = Some a \<and> length (sa_upload_bytes a) \<le> 20000"
proof -
  let ?env = "\<lambda>p. \<lparr>env_routing = \<lparr>er_from = \<lparr>pin_identifier = ''12345678'', pin_description = None\<rparr>,
        er_from_vac = \<lparr>ri_identifier = ''FROM'', ri_description = None\<rparr>,
        er_to = \<lparr>pin_identifier = ''PLATFORM'', pin_description = None\<rparr>,
        er_to_vac = \<lparr>ri_identifier = ''TO'', ri_description = None\<rparr>\<rparr>,
      env_metadata = \<lparr>ipm_message_type = ''F0401'', ipm_version = V4_1\<rparr>, env_payloads = [p]\<rparr>"
  let ?e = "?env (MigPayload (as_bytes invoice_xml))"
  have "invoice_xml \<noteq> []" by code_simp
  then have e: "packed_envelope = Some ?e"
    by (simp add: packed_envelope_def ok_payload ok_envelope)
  have xml: "to_turnkey_xml ?e = Inr (as_bytes (envelope_text ?e invoice_xml))"
    by (rule one_payload_xml) (code_simp, code_simp, simp)
  have "length (envelope_text (?env p) invoice_xml) < 1000" for p by code_simp
  from small_artifact [OF xml this, of "()"] obtain a where
    "pack_and_sign base64_encode (\<lambda>_. RsaPkcs1v15Sha256) (\<lambda>_. synthetic_sign) ?e () = Inr a"
    "length (sa_upload_bytes a) \<le> 20000" by blast
  then show ?thesis by (simp add: packed_artifact_def e)
qed

lemma packed_tests_pass:
  "zip_reads zw unzip \<Longrightarrow> derives_zip_upload_and_pfs001_from_pack_artifact zw unzip = Some ()"
  "rejects_quantity_mismatch_before_upload zw = Some ()"
proof -
  obtain a where a: "packed_artifact = Some a" "length (sa_upload_bytes a) \<le> 20000"
    using packed_artifact_value by blast
  obtain f where f: "packed_filename = Some f" "tpf_pack_count f = 1"
    "remote_filename f = ''4.1-F0401-20260825-163300000-550e8400-e29b-41d4-a716-446655440000''"
    "pack_filename_render f = ''source.xml_12345678_PLATFORM_4.1-F0401-20260825-163300000-550e8400-e29b-41d4-a716-446655440000_1''"
  proof -
    have "pack_filename_render f = ''source.xml_12345678_PLATFORM_4.1-F0401-20260825-163300000-550e8400-e29b-41d4-a716-446655440000_1'' \<and>
      remote_filename f = ''4.1-F0401-20260825-163300000-550e8400-e29b-41d4-a716-446655440000''"
      if "f = \<lparr>tpf_source_name = ''source.xml'', tpf_from_party = ''12345678'', tpf_to_party = ''PLATFORM'',
     tpf_common_name = \<lparr>mcn_mig_version = ''4.1'', mcn_message_type = ''F0401'', mcn_date = ''20260825'',
       mcn_time = ''163300000'', mcn_uuid = ''550e8400-e29b-41d4-a716-446655440000''\<rparr>, tpf_pack_count = 1\<rparr>" for f
      unfolding that by code_simp
    with packed_filename_value that show thesis by simp
  qed
  have one: "u32_of_i32 1 = Some 1" by (simp add: u32_of_i32_def)
  show "rejects_quantity_mismatch_before_upload zw = Some ()"
    by (simp add: rejects_quantity_mismatch_before_upload_def a f one submit_pack_artifact_def recorded_nothing_def
        test_metadata_def metadata_initial_def)
  assume "zip_reads zw unzip"
  then obtain z where "zip_single_entry zw (pack_filename_render f) (sa_upload_bytes a) = Inr z" "z \<noteq> sa_upload_bytes a"
    "unzip z = Some [(pack_filename_render f, sa_upload_bytes a)]"
    by (rule zip_readsE)
  moreover from a(2) have "\<not> 20971520 < length (sa_upload_bytes a)" "length (sa_upload_bytes a) < 18446744073709551616" by simp_all
  ultimately show "derives_zip_upload_and_pfs001_from_pack_artifact zw unzip = Some ()"
    by (simp add: derives_zip_upload_and_pfs001_from_pack_artifact_def a f one submit_pack_artifact_def
        transport_test_defs turnkey_reported_size_def Let_def)
qed

section \<open>sftp.rs\<close>

definition default_config_matches_turnkey_directories :: unit_test where
  "default_config_matches_turnkey_directories = do {
     let config = sftp_config_new ''tsftp.einvoice.nat.gov.tw'' ''/tmp/known_hosts'';
     assert (cfg_port config = 2222);
     assert (cfg_timeout config = 120 * 1000);
     assert (cfg_upload_directory config = ''in'');
     assert (cfg_receive_directory config = ''out'') }"

lemma sftp_tests_pass:
  "default_config_matches_turnkey_directories = Some ()"
  by (simp add: default_config_matches_turnkey_directories_def sftp_config_new_def
      DEFAULT_PORT_def SFTP_DEFAULT_TIMEOUT_def)

end
