(* ===== verification/Conformance_Client.thy ===== *)
theory Conformance_Client
  imports Conformance_Transport Client
begin

text \<open>
  The unit tests of \<open>crates/einvoice-client\<close>.  The counting signer of the tests signs like the one
  of \<open>packed.rs\<close>; that the first test never calls it is said by passing for every signer.
\<close>

definition client_xml :: string where
  "client_xml = ''<Invoice><Main/></Invoice>''"

definition client_envelope :: "invoice_envelope option" where
  "client_envelope = do {
     payload \<leftarrow> ok (mig_payload_new (as_bytes client_xml));
     ok (envelope_new
       \<lparr>er_from = \<lparr>pin_identifier = ''12345678'', pin_description = Some ''sender''\<rparr>,
        er_from_vac = \<lparr>ri_identifier = ''FROM-ROUTE'', ri_description = None\<rparr>,
        er_to = \<lparr>pin_identifier = ''PLATFORM'', pin_description = None\<rparr>,
        er_to_vac = \<lparr>ri_identifier = ''TO-ROUTE'', ri_description = Some ''platform route''\<rparr>\<rparr>
       \<lparr>ipm_message_type = ''F0401'', ipm_version = V4_1\<rparr> [payload]) }"

definition client_filename :: "turnkey_pack_filename option" where
  "client_filename = ok (pack_filename_parse
     ''source.xml_12345678_PLATFORM_4.1-F0401-20260825-170000000-550e8400-e29b-41d4-a716-446655440000_1'')"

definition client_plan :: "submission_plan option" where
  "client_plan = do {
     envelope \<leftarrow> client_envelope;
     filename \<leftarrow> client_filename;
     Some (submission_plan_new envelope filename Store Plain ''C0401''
       (gateway_version_profile_new ''3.1.3'' ''0.1.0'')) }"

definition client_prepared :: "prepared_submission option" where
  "client_prepared = do {
     plan \<leftarrow> client_plan;
     ok (prepare_submission base64_encode (\<lambda>_. RsaPkcs1v15Sha256) (\<lambda>_. synthetic_sign) plan ()) }"

definition rejects_cross_layer_mismatch_before_signing ::
  "('s \<Rightarrow> bytes \<Rightarrow> 'e + cms_signed_data) \<Rightarrow> 's \<Rightarrow> unit_test" where
  "rejects_cross_layer_mismatch_before_signing sign signer = do {
     plan \<leftarrow> client_plan;
     let filename = sp_filename plan;
     let filename = filename\<lparr>tpf_common_name := (tpf_common_name filename)\<lparr>mcn_message_type := ''F0501''\<rparr>\<rparr>;
     let plan = plan\<lparr>sp_filename := filename\<rparr>;
     e \<leftarrow> err (prepare_submission base64_encode (\<lambda>_. RsaPkcs1v15Sha256) sign plan signer);
     assert (case e of Consistency (MessageTypeMismatch _ _) \<Rightarrow> True | _ \<Rightarrow> False) }"

definition prepare_derives_gateway_metadata_from_envelope :: unit_test where
  "prepare_derives_gateway_metadata_from_envelope = do {
     prepared \<leftarrow> client_prepared;
     let metadata = pps_metadata prepared;
     assert (gp_party_id (nsm_from metadata) = ''12345678'');
     assert (gp_routing_id (nsm_from metadata) = ''FROM-ROUTE'');
     assert (gp_party_id (nsm_to metadata) = ''PLATFORM'');
     assert (gp_routing_id (nsm_to metadata) = ''TO-ROUTE'');
     assert (nmp_message_type (nsm_message metadata) = ''F0401'');
     assert (nmp_mig_version (nsm_message metadata) = ''4.1'');
     assert (nmp_quantity (nsm_message metadata) = 1);
     assert (nmp_action (nsm_message metadata) = ''C0401'') }"

definition prepared_submission_reaches_native_transport_without_reentering_metadata ::
  "('h, 'z, 'io) zip_writer \<Rightarrow> unit_test" where
  "prepared_submission_reaches_native_transport_without_reentering_metadata zw = do {
     prepared \<leftarrow> client_prepared;
     let (r, w) = prepared_submit zw recording_upload (recording_notify 0) prepared recorded_nothing;
     receipt \<leftarrow> ok r;
     assert (rcp_remote_filename receipt = remote_filename (pps_filename prepared));
     assert (length (rw_calls w) = 1);
     notification \<leftarrow> rw_notification w;
     assert (un_filename notification = remote_filename (pps_filename prepared));
     assert (un_quantity notification = 1);
     assert (un_message_type notification = ''F0401'');
     assert (un_mig_version notification = ''4.1'');
     assert (gp_party_id (un_from notification) = ''12345678'');
     assert (gp_party_id (un_to notification) = ''PLATFORM'') }"

section \<open>Evaluation\<close>

definition client_file :: turnkey_pack_filename where
  "client_file = \<lparr>tpf_source_name = ''source.xml'', tpf_from_party = ''12345678'', tpf_to_party = ''PLATFORM'',
     tpf_common_name = \<lparr>mcn_mig_version = ''4.1'', mcn_message_type = ''F0401'', mcn_date = ''20260825'',
       mcn_time = ''170000000'', mcn_uuid = ''550e8400-e29b-41d4-a716-446655440000''\<rparr>, tpf_pack_count = 1\<rparr>"

definition client_routing :: envelope_routing where
  "client_routing =
     \<lparr>er_from = \<lparr>pin_identifier = ''12345678'', pin_description = Some ''sender''\<rparr>,
      er_from_vac = \<lparr>ri_identifier = ''FROM-ROUTE'', ri_description = None\<rparr>,
      er_to = \<lparr>pin_identifier = ''PLATFORM'', pin_description = None\<rparr>,
      er_to_vac = \<lparr>ri_identifier = ''TO-ROUTE'', ri_description = Some ''platform route''\<rparr>\<rparr>"

lemma client_file_value: "client_filename = Some client_file"
  by code_simp

lemma client_names:
  "remote_filename client_file = ''4.1-F0401-20260825-170000000-550e8400-e29b-41d4-a716-446655440000''"
  "pack_filename_render client_file =
     ''source.xml_12345678_PLATFORM_4.1-F0401-20260825-170000000-550e8400-e29b-41d4-a716-446655440000_1''"
  by code_simp+

lemma client_plan_value:
  "\<exists>p a. client_plan = Some
     \<lparr>sp_envelope = \<lparr>env_routing = client_routing, env_metadata = \<lparr>ipm_message_type = ''F0401'', ipm_version = V4_1\<rparr>, env_payloads = [p]\<rparr>,
      sp_filename = client_file, sp_service_type = Store, sp_zip_mode = Plain, sp_action = ''C0401'',
      sp_versions = \<lparr>gvp_api_version = ''3.1.3'', gvp_turnkey_version = ''0.1.0''\<rparr>\<rparr> \<and>
     pack_and_sign base64_encode (\<lambda>_. RsaPkcs1v15Sha256) (\<lambda>_. synthetic_sign)
       \<lparr>env_routing = client_routing, env_metadata = \<lparr>ipm_message_type = ''F0401'', ipm_version = V4_1\<rparr>, env_payloads = [p]\<rparr> () = Inr a \<and>
     length (sa_upload_bytes a) \<le> 20000"
proof -
  let ?env = "\<lambda>p. \<lparr>env_routing = client_routing, env_metadata = \<lparr>ipm_message_type = ''F0401'', ipm_version = V4_1\<rparr>, env_payloads = [p]\<rparr>"
  define p where "p = MigPayload (as_bytes client_xml)"
  have "client_xml \<noteq> []" by (simp add: client_xml_def)
  then have env: "client_envelope = Some (?env p)"
    unfolding client_envelope_def p_def by (simp add: ok_payload ok_envelope client_routing_def)
  have plan: "client_plan = Some
     \<lparr>sp_envelope = ?env p, sp_filename = client_file, sp_service_type = Store, sp_zip_mode = Plain, sp_action = ''C0401'',
      sp_versions = \<lparr>gvp_api_version = ''3.1.3'', gvp_turnkey_version = ''0.1.0''\<rparr>\<rparr>"
    unfolding client_plan_def client_file_value env
    by (simp add: submission_plan_new_def gateway_version_profile_new_def)
  have xml: "to_turnkey_xml (?env p) = Inr (as_bytes (envelope_text (?env p) client_xml))"
    unfolding p_def by (rule one_payload_xml) (code_simp, code_simp, simp)
  have small: "length (envelope_text (?env p) client_xml) < 1000" by code_simp
  obtain a where a: "pack_and_sign base64_encode (\<lambda>_. RsaPkcs1v15Sha256) (\<lambda>_. synthetic_sign) (?env p) () = Inr a \<and>
      length (sa_upload_bytes a) \<le> 20000"
    using small_artifact [OF xml small, of "()"] ..
  show ?thesis
    by (rule exI [of _ p], rule exI [of _ a]) (rule conjI [OF plan a])
qed

lemma client_tests_pass:
  "rejects_cross_layer_mismatch_before_signing sign signer = Some ()"
  "prepare_derives_gateway_metadata_from_envelope = Some ()"
  "prepared_submission_reaches_native_transport_without_reentering_metadata zw = Some ()"
proof -
  obtain p a where plan: "client_plan = Some
     \<lparr>sp_envelope = \<lparr>env_routing = client_routing, env_metadata = \<lparr>ipm_message_type = ''F0401'', ipm_version = V4_1\<rparr>, env_payloads = [p]\<rparr>,
      sp_filename = client_file, sp_service_type = Store, sp_zip_mode = Plain, sp_action = ''C0401'',
      sp_versions = \<lparr>gvp_api_version = ''3.1.3'', gvp_turnkey_version = ''0.1.0''\<rparr>\<rparr>"
    and a: "pack_and_sign base64_encode (\<lambda>_. RsaPkcs1v15Sha256) (\<lambda>_. synthetic_sign)
       \<lparr>env_routing = client_routing, env_metadata = \<lparr>ipm_message_type = ''F0401'', ipm_version = V4_1\<rparr>, env_payloads = [p]\<rparr> () = Inr a"
      "length (sa_upload_bytes a) \<le> 20000" using client_plan_value by blast
  note defs = prepare_submission_def validate_plan_def usize_try_from_def envelope_count_def u32_of_usize_def ok_or_def
    and_then_def map_err_def Let_def client_file_def client_routing_def
  show "rejects_cross_layer_mismatch_before_signing sign signer = Some ()"
    by (simp add: rejects_cross_layer_mismatch_before_signing_def plan defs)
  have prepared: "client_prepared = Some \<lparr>pps_filename = client_file, pps_artifact = a, pps_zip_mode = Plain,
     pps_metadata = metadata_initial \<lparr>gp_party_id = ''12345678'', gp_party_description = Some ''sender'', gp_routing_id = ''FROM-ROUTE'',
         gp_routing_description = None\<rparr>
       \<lparr>gp_party_id = ''PLATFORM'', gp_party_description = None, gp_routing_id = ''TO-ROUTE'',
         gp_routing_description = Some ''platform route''\<rparr> Store
       (native_message_profile_new ''F0401'' ''C0401'' 1 ''4.1'') (gateway_version_profile_new ''3.1.3'' ''0.1.0'')\<rparr>"
    using a(1) by (simp add: client_prepared_def plan defs party_for_gateway_def)
  show "prepare_derives_gateway_metadata_from_envelope = Some ()"
    by (simp add: prepare_derives_gateway_metadata_from_envelope_def prepared metadata_initial_def)
  have one: "u32_of_i32 1 = Some 1" "tpf_pack_count client_file = 1" by (simp_all add: u32_of_i32_def client_file_def)
  from a(2) have "\<not> 20971520 < length (sa_upload_bytes a)" "length (sa_upload_bytes a) < 18446744073709551616" by simp_all
  then show "prepared_submission_reaches_native_transport_without_reentering_metadata zw = Some ()"
    by (simp add: prepared_submission_reaches_native_transport_without_reentering_metadata_def prepared prepared_submit_def
        one client_names submit_pack_artifact_def transport_test_defs Let_def)
qed

end
