(* ===== verification/Conformance_Receiver.thy ===== *)
theory Conformance_Receiver
  imports Conformance_Results Receiver_Properties
begin

text \<open>
  The unit tests of \<open>receiver.rs\<close> and \<open>reconciliation.rs\<close> in \<open>crates/einvoice-transport\<close>, in any
  temporary directory on a machine without faults.  The fake remotes of the tests are instances of
  the locale \<open>remote_inbox\<close>.
\<close>

section \<open>receiver.rs\<close>

record fake_remote =
  fk_bytes :: bytes
  fk_download_attempts :: nat
  fk_delete_attempts :: nat
  fk_deleted :: bool
  fk_fail_first_delete :: bool

definition fake_remote_new :: "bytes \<Rightarrow> fake_remote" where
  "fake_remote_new bytes =
     \<lparr>fk_bytes = bytes, fk_download_attempts = 0, fk_delete_attempts = 0, fk_deleted = False,
      fk_fail_first_delete = False\<rparr>"

text \<open>The error \<open>FakeRemoteError\<close> is its text.\<close>

definition fake_download ::
  "remote_object \<Rightarrow> (bytes \<Rightarrow> (machine, io_error, unit) io) \<Rightarrow> (machine \<times> fake_remote, string, unit) io" where
  "fake_download object write_all = (\<lambda>(m, self).
     let self = self\<lparr>fk_download_attempts := fk_download_attempts self + 1\<rparr> in
     io_map_err (\<lambda>_. ''write failed'') (on_fst (write_all (fk_bytes self))) (m, self))"

definition fake_delete :: "remote_object \<Rightarrow> (fake_remote, string, unit) io" where
  "fake_delete object self =
     (let self = self\<lparr>fk_delete_attempts := fk_delete_attempts self + 1\<rparr> in
      if fk_fail_first_delete self \<and> fk_delete_attempts self = 1
      then Some (Inl ''synthetic delete failure'', self)
      else Some (Inr (), self\<lparr>fk_deleted := True\<rparr>))"

definition fake_inbox :: "(fake_remote, string) remote_ops" where
  "fake_inbox = \<lparr>rmt_download = fake_download, rmt_delete = fake_delete\<rparr>"

interpretation fake: remote_inbox fake_inbox
proof
  fix object wr m w r m' w'
  assume "rmt_download fake_inbox object wr (m, w) = Some (r, m', w')"
  then obtain q where "wr (fk_bytes w) m = Some (q, m')"
    by (auto simp: fake_inbox_def fake_download_def io_iff Let_def)
  then show "writes wr m m'" by (auto intro: writes.intros)
qed

definition test_object :: "string \<Rightarrow> bytes \<Rightarrow> remote_object" where
  "test_object name bytes = \<lparr>ro_name = name, ro_size = of_nat (length bytes)\<rparr>"

text \<open>\<open>fs::read(path).unwrap()\<close> and \<open>fs::write(path, bytes).unwrap()\<close>.\<close>

definition read_unwrap :: "string \<Rightarrow> machine \<Rightarrow> bytes option" where
  "read_unwrap path m = do { (r, m) \<leftarrow> fs_read path m; ok r }"

definition write_unwrap :: "string \<Rightarrow> bytes \<Rightarrow> machine \<Rightarrow> machine option" where
  "write_unwrap path bytes m = do {
     (r, m) \<leftarrow> io_bind (fs_create_truncate path) (\<lambda>file. fs_write_all file bytes) m;
     ok r;
     Some m }"

text \<open>A temporary directory that was just created.\<close>

definition fresh_machine :: machine where
  "fresh_machine = sample_machine []"

definition persists_complete_object_before_remote_delete :: "string \<Rightarrow> unit_test" where
  "persists_complete_object_before_remote_delete directory = do {
     let bytes = as_bytes ''<ProcessResult/>'';
     let remote = fake_remote_new bytes;
     (receiver, m) \<leftarrow> durable_receiver_new fake_inbox directory fresh_machine;
     receiver \<leftarrow> ok receiver;
     let object = test_object ''ProcessResult.xml'' bytes;
     (outcome, m, remote) \<leftarrow> receive receiver object (m, remote);
     outcome \<leftarrow> ok outcome;
     assert (outcome = Persisted (path_join directory ''ProcessResult.xml''));
     stored \<leftarrow> read_unwrap (path_join directory ''ProcessResult.xml'') m;
     assert (stored = bytes);
     assert (fk_deleted remote) }"

definition incomplete_download_is_not_published_or_deleted :: "string \<Rightarrow> unit_test" where
  "incomplete_download_is_not_published_or_deleted directory = do {
     let remote = fake_remote_new (as_bytes ''short'');
     (receiver, m) \<leftarrow> durable_receiver_new fake_inbox directory fresh_machine;
     receiver \<leftarrow> ok receiver;
     let object = \<lparr>ro_name = ''SummaryResult.xml'', ro_size = 100\<rparr>;
     (r, m, remote) \<leftarrow> receive receiver object (m, remote);
     e \<leftarrow> err r;
     assert (case e of SizeMismatch _ _ _ \<Rightarrow> True | _ \<Rightarrow> False);
     assert (m_dir m (path_join directory ''SummaryResult.xml'') = None);
     assert (\<not> fk_deleted remote) }"

definition retry_after_delete_failure_recognizes_identical_durable_copy :: "string \<Rightarrow> unit_test" where
  "retry_after_delete_failure_recognizes_identical_durable_copy directory = do {
     let bytes = as_bytes ''<SummaryResult/>'';
     let remote = fake_remote_new bytes;
     let remote = remote\<lparr>fk_fail_first_delete := True\<rparr>;
     (receiver, m) \<leftarrow> durable_receiver_new fake_inbox directory fresh_machine;
     receiver \<leftarrow> ok receiver;
     let object = test_object ''SummaryResult.xml'' bytes;
     (r, m, remote) \<leftarrow> receive receiver object (m, remote);
     first \<leftarrow> err r;
     assert (case first of RemoteError operation _ \<Rightarrow> operation = Delete | _ \<Rightarrow> False);
     stored \<leftarrow> read_unwrap (path_join directory ''SummaryResult.xml'') m;
     assert (stored = bytes);
     assert (\<not> fk_deleted remote);
     (r, m, remote) \<leftarrow> receive receiver object (m, remote);
     second \<leftarrow> ok r;
     assert (second = AlreadyPersisted (path_join directory ''SummaryResult.xml''));
     assert (fk_deleted remote);
     assert (fk_delete_attempts remote = 2) }"

definition same_name_same_size_different_content_is_a_conflict :: "string \<Rightarrow> unit_test" where
  "same_name_same_size_different_content_is_a_conflict directory = do {
     m \<leftarrow> write_unwrap (path_join directory ''ProcessResult.xml'') (as_bytes ''AAAA'') fresh_machine;
     let remote = fake_remote_new (as_bytes ''BBBB'');
     (receiver, m) \<leftarrow> durable_receiver_new fake_inbox directory m;
     receiver \<leftarrow> ok receiver;
     let object = test_object ''ProcessResult.xml'' (as_bytes ''BBBB'');
     (r, m, remote) \<leftarrow> receive receiver object (m, remote);
     e \<leftarrow> err r;
     assert (case e of ConflictingLocalObject _ _ \<Rightarrow> True | _ \<Rightarrow> False);
     stored \<leftarrow> read_unwrap (path_join directory ''ProcessResult.xml'') m;
     assert (stored = as_bytes ''AAAA'');
     assert (\<not> fk_deleted remote) }"

definition rejects_path_traversal_before_remote_access :: "string \<Rightarrow> unit_test" where
  "rejects_path_traversal_before_remote_access directory = do {
     let remote = fake_remote_new (as_bytes ''x'');
     (receiver, m) \<leftarrow> durable_receiver_new fake_inbox directory fresh_machine;
     receiver \<leftarrow> ok receiver;
     let object = test_object ''../escape.xml'' (as_bytes ''x'');
     (r, m, remote) \<leftarrow> receive receiver object (m, remote);
     e \<leftarrow> err r;
     assert (case e of InvalidRemoteName _ \<Rightarrow> True | _ \<Rightarrow> False);
     assert (fk_download_attempts remote = 0);
     assert (fk_delete_attempts remote = 0) }"

section \<open>Calls on a remote that serves whole objects\<close>

text \<open>The names of the tests are safe, and never temporary names.\<close>

definition test_name :: "string \<Rightarrow> bool" where
  "test_name name \<longleftrightarrow> validate_remote_name name = (Inr () :: unit receive_error + unit) \<and>
     \<not> contains name CHR 0x00 \<and> \<not> starts_with name ''.''"

lemma test_nameD:
  assumes "test_name name" "valid_path dir"
  shows "validate_remote_name name = (Inr () :: 'e receive_error + unit)" "valid_path (path_join dir name)"
    "path_join dir name \<noteq> path_join dir (incoming_name pid n)" "CHR ''/'' \<notin> set name"
proof -
  show n: "validate_remote_name name = (Inr () :: 'e receive_error + unit)"
    using assms(1) by (auto simp: test_name_def validate_remote_name_def Let_def split: if_splits)
  then show slash: "CHR ''/'' \<notin> set name"
    by (auto simp: validate_remote_name_def Let_def split: if_splits)
  show "valid_path (path_join dir name)"
    using assms by (auto simp: test_name_def valid_path_def path_join_def)
  show "path_join dir name \<noteq> path_join dir (incoming_name pid n)"
    using assms(1) slash incoming_name_chars [of pid n]
    by (auto simp: path_join_inject test_name_def incoming_name_def starts_with_def)
qed

text \<open>The machine holds the one file \<open>path\<close>, or nothing.\<close>

definition holds :: "(string \<times> bytes) option \<Rightarrow> machine \<Rightarrow> bool" where
  "holds f m \<longleftrightarrow> m_events m = [] \<and> wf_machine m \<and>
     (case f of None \<Rightarrow> m_dir m = Map.empty
      | Some (path, bs) \<Rightarrow> \<exists>i. m_dir m = [path \<mapsto> i] \<and> m_data m i = bs)"

lemma holds_fresh: "holds None fresh_machine"
  by (simp add: holds_def fresh_machine_def sample_machine_def wf_machine_def)

lemma holds_read: "holds (Some (path, bs)) m \<Longrightarrow> valid_path path \<Longrightarrow> read_unwrap path m = Some bs"
  by (auto simp: holds_def read_unwrap_def fs_read_def attempt_nil fs_lookup_def ok_or_def and_then_def)

lemma holds_write:
  assumes "valid_path path"
  shows "\<exists>m. write_unwrap path bs fresh_machine = Some m \<and> holds (Some (path, bs)) m"
proof -
  let ?m = "with_data 0 bs (snd (new_file path fresh_machine))"
  have "write_unwrap path bs fresh_machine = Some ?m"
    using assms
    by (simp add: write_unwrap_def io_bind_def fs_create_truncate_def attempt_nil write_all_nil fresh_machine_def
        sample_machine_def new_file_def with_data_def)
  moreover have "m_dir ?m = [path \<mapsto> 0]" "m_data ?m 0 = bs" "m_events ?m = []" "wf_machine ?m"
    by (simp_all add: fresh_machine_def sample_machine_def new_file_def with_data_def wf_machine_def)
  ultimately show ?thesis by (auto simp: holds_def)
qed

lemma wf_after_receive: "wf_machine m \<Longrightarrow> wf_machine (after_receive dir path bs m)"
  by (auto simp: after_receive_def Let_def with_incoming_def with_entry_def with_flushed_def wf_machine_def
      flushed_directory_def intro: less_SucI split: if_splits)

lemma holds_after_receive:
  assumes "holds None m" "path \<noteq> path_join dir (incoming_name (m_process_id m) (m_next_temp_id m))"
  shows "holds (Some (path, bs)) (after_receive dir path bs m)"
  using assms wf_after_receive [of m dir path bs]
  by (auto simp: holds_def after_receive_def Let_def with_incoming_def with_entry_def with_flushed_def)

context remote_inbox
begin

lemma receive_one:
  assumes m: "holds f m" and name: "test_name (ro_name object)" "valid_path dir"
    and f: "f = None \<or> (\<exists>old. f = Some (path_join dir (ro_name object), old) \<and> length old < 2 ^ 64)"
    and dl: "\<And>u. m_events u = [] \<Longrightarrow> rmt_download remote object (fs_write_all (m_fresh m)) (u, w) =
      Some (Inr (), (with_data (m_fresh m) (m_data u (m_fresh m) @ bs) u, w1))"
    and size: "bs \<noteq> []" "length bs = unat (ro_size object)"
    and del: "rmt_delete remote object w1 = Some (d, w2)"
  obtains m' where "receive (receiver dir) object (m, w) =
    (case f of
       None \<Rightarrow> Some (and_then (map_err (RemoteError Delete) d) (\<lambda>_. Inr (Persisted (path_join dir (ro_name object)))), (m', w2))
     | Some (path, old) \<Rightarrow>
         if old = bs then Some (and_then (map_err (RemoteError Delete) d) (\<lambda>_. Inr (AlreadyPersisted path)), (m', w2))
         else Some (Inl (ConflictingLocalObject (ro_name object) path), (m', w1)))"
    "holds (Some (path_join dir (ro_name object), case f of None \<Rightarrow> bs | Some (path, old) \<Rightarrow> old)) m'"
proof -
  let ?path = "path_join dir (ro_name object)"
  note n = test_nameD [OF name]
  have ne: "path_join dir (incoming_name (m_process_id m) (m_next_temp_id m)) \<noteq> ?path"
    using n(3) [symmetric] .
  with m f have tmp: "m_dir m (path_join dir (incoming_name (m_process_id m) (m_next_temp_id m))) = None"
    by (auto simp: holds_def)
  have run: "receive (receiver dir) object (m, w) =
    (case m_dir m ?path of
       Some j \<Rightarrow>
         if m_data m j = bs
         then Some (and_then (map_err (RemoteError Delete) d) (\<lambda>_. Inr (AlreadyPersisted ?path)),
                (after_receive dir ?path bs m, w2))
         else Some (Inl (ConflictingLocalObject (ro_name object) ?path), (after_receive dir ?path bs m, w1))
     | None \<Rightarrow> Some (and_then (map_err (RemoteError Delete) d) (\<lambda>_. Inr (Persisted ?path)),
                (after_receive dir ?path bs m, w2)))"
    by (rule receive_fault_free [OF _ _ n(1) refl n(2) n(3) valid_incoming_path [OF name(2)] tmp dl size _ del])
      (use m f in \<open>auto simp: holds_def\<close>)
  have "holds (Some (?path, case f of None \<Rightarrow> bs | Some (path, old) \<Rightarrow> old)) (after_receive dir ?path bs m)"
  proof (cases f)
    case None
    with holds_after_receive [of m ?path dir bs] m n(3) show ?thesis by simp
  next
    case (Some a)
    with ne m f obtain i where i: "m_dir m = [?path \<mapsto> i]" "f = Some (?path, m_data m i)" "m_events m = []" "wf_machine m"
      by (auto simp: holds_def)
    then have "i < m_fresh m" by (auto simp: wf_machine_def)
    with i ne wf_after_receive [OF i(4), of dir ?path bs] show ?thesis
      by (auto simp: holds_def after_receive_def Let_def with_incoming_def intro: exI [of _ i])
  qed
  with run m f that [of "after_receive dir ?path bs m"] show thesis
    by (auto simp: holds_def)
qed

end

section \<open>The tests of receiver.rs pass\<close>

lemma fake_ops:
  "m_events u = [] \<Longrightarrow> rmt_download fake_inbox object (fs_write_all i) (u, w) =
     Some (Inr (), (with_data i (m_data u i @ fk_bytes w) u, w\<lparr>fk_download_attempts := fk_download_attempts w + 1\<rparr>))"
  "rmt_delete fake_inbox object = fake_delete object"
  by (simp_all add: fake_inbox_def fake_download_def Let_def io_map_err_def on_fst_def map_err_def write_all_nil)

lemma receiver_new:
  "m_events m = [] \<Longrightarrow> durable_receiver_new remote dir m = Some (Inr \<lparr>dr_remote = remote, dr_inbox_dir = dir\<rparr>, m)"
  by (simp add: durable_receiver_new_def io_bind_def io_return_def fs_create_dir_all_def attempt_nil)

lemma test_names: "test_name ''ProcessResult.xml''" "test_name ''SummaryResult.xml''"
  by code_simp+

lemma test_object_simps [simp]: "ro_name (test_object name bytes) = name" "ro_size (test_object name bytes) = of_nat (length bytes)"
  by (simp_all add: test_object_def)

lemma fake_receive:
  assumes m: "holds f m" and name: "test_name name" "valid_path dir"
    and f: "f = None \<or> (\<exists>old. f = Some (path_join dir name, old) \<and> length old < 2 ^ 64)"
    and w: "fk_bytes w = bs" "bs \<noteq> []" "length bs < 2 ^ 64"
  obtains m' where "receive \<lparr>dr_remote = fake_inbox, dr_inbox_dir = dir\<rparr> (test_object name bs) (m, w) =
    (let w = w\<lparr>fk_download_attempts := fk_download_attempts w + 1\<rparr>;
         deleted = (\<lambda>out. if fk_fail_first_delete w \<and> fk_delete_attempts w = 0
           then Some (Inl (RemoteError Delete ''synthetic delete failure''), (m', w\<lparr>fk_delete_attempts := 1\<rparr>))
           else Some (Inr out, (m', w\<lparr>fk_delete_attempts := fk_delete_attempts w + 1, fk_deleted := True\<rparr>)))
     in case f of
          None \<Rightarrow> deleted (Persisted (path_join dir name))
        | Some (path, old) \<Rightarrow>
            if old = bs then deleted (AlreadyPersisted path)
            else Some (Inl (ConflictingLocalObject name path), (m', w)))"
    "holds (Some (path_join dir name, case f of None \<Rightarrow> bs | Some (path, old) \<Rightarrow> old)) m'"
proof -
  let ?w = "w\<lparr>fk_download_attempts := fk_download_attempts w + 1\<rparr>"
  obtain d w2 where d: "(d, w2) = (if fk_fail_first_delete w \<and> fk_delete_attempts w = 0
       then (Inl ''synthetic delete failure'', ?w\<lparr>fk_delete_attempts := 1\<rparr>)
       else (Inr (), ?w\<lparr>fk_delete_attempts := fk_delete_attempts w + 1, fk_deleted := True\<rparr>))"
    by (metis surj_pair)
  then have del: "rmt_delete fake_inbox (test_object name bs) ?w = Some (d, w2)"
    by (auto simp: fake_ops fake_delete_def Let_def split: if_splits)
  have "rmt_download fake_inbox (test_object name bs) (fs_write_all (m_fresh m)) (u, w) =
      Some (Inr (), (with_data (m_fresh m) (m_data u (m_fresh m) @ bs) u, ?w))" if "m_events u = []" for u
    using fake_ops(1) [OF that] w(1) by simp
  note run = fake.receive_one [OF m _ name(2) _ this w(2) _ del, unfolded test_object_simps, OF name(1) f]
  show thesis
    by (rule run) (use that d w(3) in \<open>auto simp: unat_of_nat Let_def and_then_def map_err_def split: if_splits option.splits\<close>)
qed

lemma persists_passes:
  assumes dir: "valid_path dir"
  shows "persists_complete_object_before_remote_delete dir = Some ()"
proof -
  define bs where "bs = as_bytes ''<ProcessResult/>''"
  have bs: "bs \<noteq> []" "length bs < 2 ^ 64" by (simp_all add: bs_def)
  obtain m' where "receive \<lparr>dr_remote = fake_inbox, dr_inbox_dir = dir\<rparr> (test_object ''ProcessResult.xml'' bs) (fresh_machine, fake_remote_new bs) =
      Some (Inr (Persisted (path_join dir ''ProcessResult.xml'')),
        (m', (fake_remote_new bs)\<lparr>fk_download_attempts := 1, fk_delete_attempts := 1, fk_deleted := True\<rparr>))"
    "holds (Some (path_join dir ''ProcessResult.xml'', bs)) m'"
    by (rule fake_receive [OF holds_fresh test_names(1) dir, of "fake_remote_new bs" bs])
      (use bs in \<open>simp_all add: fake_remote_new_def Let_def\<close>)
  moreover have "m_events fresh_machine = []" using holds_fresh by (simp add: holds_def)
  ultimately show ?thesis
    using test_nameD(2) [OF test_names(1) dir]
    unfolding persists_complete_object_before_remote_delete_def bs_def [symmetric]
    by (simp add: receiver_new holds_read)
qed

lemma fresh_quiet: "m_events fresh_machine = []"
  using holds_fresh by (simp add: holds_def)

lemma retry_passes:
  assumes dir: "valid_path dir"
  shows "retry_after_delete_failure_recognizes_identical_durable_copy dir = Some ()"
proof -
  define bs where "bs = as_bytes ''<SummaryResult/>''"
  define w0 where "w0 = (fake_remote_new bs)\<lparr>fk_fail_first_delete := True\<rparr>"
  have bs: "bs \<noteq> []" "length bs < 2 ^ 64" by (simp_all add: bs_def)
  let ?r = "\<lparr>dr_remote = fake_inbox, dr_inbox_dir = dir\<rparr>" and ?path = "path_join dir ''SummaryResult.xml''"
  let ?w = "w0\<lparr>fk_download_attempts := 1, fk_delete_attempts := 1\<rparr>"
  obtain m1 where first: "receive ?r (test_object ''SummaryResult.xml'' bs) (fresh_machine, w0) =
      Some (Inl (RemoteError Delete ''synthetic delete failure''), (m1, ?w))"
    and m1: "holds (Some (?path, bs)) m1"
    by (rule fake_receive [OF holds_fresh test_names(2) dir, of w0 bs])
      (use bs in \<open>simp_all add: w0_def fake_remote_new_def Let_def\<close>)
  obtain m2 where second: "receive ?r (test_object ''SummaryResult.xml'' bs) (m1, ?w) =
      Some (Inr (AlreadyPersisted ?path), (m2, ?w\<lparr>fk_download_attempts := 2, fk_delete_attempts := 2, fk_deleted := True\<rparr>))"
    by (rule fake_receive [OF m1 test_names(2) dir, of ?w bs])
      (use bs in \<open>simp_all add: w0_def fake_remote_new_def Let_def\<close>)
  from first second m1 test_nameD(2) [OF test_names(2) dir] show ?thesis
    unfolding retry_after_delete_failure_recognizes_identical_durable_copy_def bs_def [symmetric] Let_def
      w0_def [symmetric]
    by (simp add: receiver_new fresh_quiet holds_read) (simp add: w0_def fake_remote_new_def)
qed

lemma conflict_passes:
  assumes dir: "valid_path dir"
  shows "same_name_same_size_different_content_is_a_conflict dir = Some ()"
proof -
  define a where "a = as_bytes ''AAAA''"
  define b where "b = as_bytes ''BBBB''"
  have ab: "a \<noteq> b" "length a < 2 ^ 64" "b \<noteq> []" "length b < 2 ^ 64" by (simp_all add: a_def b_def)
  let ?path = "path_join dir ''ProcessResult.xml''"
  note path = test_nameD(2) [OF test_names(1) dir]
  obtain m where m: "write_unwrap ?path a fresh_machine = Some m" "holds (Some (?path, a)) m"
    using holds_write [OF path] by blast
  obtain m' where run: "receive \<lparr>dr_remote = fake_inbox, dr_inbox_dir = dir\<rparr> (test_object ''ProcessResult.xml'' b) (m, fake_remote_new b) =
      Some (Inl (ConflictingLocalObject ''ProcessResult.xml'' ?path), (m', (fake_remote_new b)\<lparr>fk_download_attempts := 1\<rparr>))"
    and m': "holds (Some (?path, a)) m'"
    by (rule fake_receive [OF m(2) test_names(1) dir, of "fake_remote_new b" b])
      (use ab in \<open>simp_all add: fake_remote_new_def Let_def\<close>)
  have "m_events m = []" using m(2) by (simp add: holds_def)
  with m(1) run m' path show ?thesis
    unfolding same_name_same_size_different_content_is_a_conflict_def a_def [symmetric] b_def [symmetric] Let_def
    by (simp add: receiver_new holds_read) (simp add: fake_remote_new_def)
qed

text \<open>A download shorter than the advertised size.\<close>

lemma incomplete_passes:
  assumes dir: "valid_path dir"
  shows "incomplete_download_is_not_published_or_deleted dir = Some ()"
proof -
  define bs where "bs = as_bytes ''short''"
  let ?object = "\<lparr>ro_name = ''SummaryResult.xml'', ro_size = 100\<rparr>" and ?m = fresh_machine
  let ?tmp = "path_join dir (incoming_name (m_process_id ?m) (m_next_temp_id ?m))"
  have bs: "length bs = 5" by (simp add: bs_def)
  note n = test_nameD [OF test_names(2) dir]
  have ne: "?tmp \<noteq> path_join dir ''SummaryResult.xml''" using n(3) [symmetric] .
  let ?u = "with_incoming ?tmp bs (Some bs) (?m\<lparr>m_next_temp_id := m_next_temp_id ?m + 1\<rparr>)"
  let ?w = "(fake_remote_new bs)\<lparr>fk_download_attempts := 1\<rparr>"
  have "receive (fake.receiver dir) ?object (?m, fake_remote_new bs) =
      io_finally (receive_sized (fake.receiver dir) ?object (path_join dir (ro_name ?object))
        \<lparr>inc_path = ?tmp, inc_file = m_fresh ?m\<rparr> (of_nat (length bs))) (on_fst (incoming_drop \<lparr>inc_path = ?tmp, inc_file = m_fresh ?m\<rparr>)) (?u, ?w)"
    by (rule fake.receive_downloaded)
      (use n(1) valid_incoming_path [OF dir] bs holds_fresh in
        \<open>simp_all add: fresh_quiet fake_ops holds_def fake_remote_new_def\<close>)
  moreover have "incoming_drop \<lparr>inc_path = ?tmp, inc_file = m_fresh ?m\<rparr> ?u = Some (Inr (), ?u\<lparr>m_dir := (m_dir ?u)(?tmp := None)\<rparr>)"
    by (rule fake.incoming_drop_nil [OF _ valid_incoming_path [OF dir]]) (simp_all add: with_incoming_def fresh_quiet)
  ultimately have "receive (fake.receiver dir) ?object (?m, fake_remote_new bs) =
      Some (Inl (SizeMismatch ''SummaryResult.xml'' 100 5), (?u\<lparr>m_dir := (m_dir ?u)(?tmp := None)\<rparr>, ?w))"
    by (simp add: bs receive_sized_def io_finally_def io_result_def on_fst_def)
  then show ?thesis
    unfolding incomplete_download_is_not_published_or_deleted_def bs_def [symmetric] Let_def
    using ne holds_fresh
    by (simp add: receiver_new fresh_quiet) (simp add: with_incoming_def fake_remote_new_def holds_def)
qed

lemma traversal_passes: "rejects_path_traversal_before_remote_access dir = Some ()"
proof -
  have "validate_remote_name ''../escape.xml'' = (Inl (InvalidRemoteName ''../escape.xml'') :: string receive_error + unit)"
    by (simp add: validate_remote_name_def)
  then show ?thesis
    by (simp add: rejects_path_traversal_before_remote_access_def receiver_new fresh_quiet receive_def io_bind_def
        io_result_def fake_remote_new_def Let_def)
qed

section \<open>reconciliation.rs\<close>

record fake_listed_remote =
  fl_objects :: "remote_object list"
  fl_bytes :: "string \<Rightarrow> bytes option"
  fl_deleted :: "string list"

definition fake_listed_with_object :: "string \<Rightarrow> bytes \<Rightarrow> fake_listed_remote" where
  "fake_listed_with_object name bytes =
     (let size = of_nat (length bytes) in
      \<lparr>fl_objects = [\<lparr>ro_name = name, ro_size = size\<rparr>], fl_bytes = [name \<mapsto> bytes], fl_deleted = []\<rparr>)"

definition fake_listed_download ::
  "remote_object \<Rightarrow> (bytes \<Rightarrow> (machine, io_error, unit) io) \<Rightarrow> (machine \<times> fake_listed_remote, unit, unit) io" where
  "fake_listed_download object write_all = (\<lambda>(m, self).
     io_bind (io_result (ok_or () (fl_bytes self (ro_name object)))) (\<lambda>bytes.
       io_map_err (\<lambda>_. ()) (on_fst (write_all bytes))) (m, self))"

definition fake_listed_delete :: "remote_object \<Rightarrow> (fake_listed_remote, unit, unit) io" where
  "fake_listed_delete object self = Some (Inr (), self\<lparr>fl_deleted := fl_deleted self @ [ro_name object]\<rparr>)"

definition fake_listed_list :: "(fake_listed_remote, unit, remote_object list) io" where
  "fake_listed_list self = Some (Inr (fl_objects self), self)"

definition fake_listed_inbox :: "(fake_listed_remote, unit) remote_ops" where
  "fake_listed_inbox = \<lparr>rmt_download = fake_listed_download, rmt_delete = fake_listed_delete\<rparr>"

interpretation fake_listed: remote_inbox fake_listed_inbox
proof
  fix object wr m w r m' w'
  assume "rmt_download fake_listed_inbox object wr (m, w) = Some (r, m', w')"
  then have "m' = m \<or> (\<exists>bytes q. wr bytes m = Some (q, m'))"
    by (auto simp: fake_listed_inbox_def fake_listed_download_def io_iff ok_or_def split: option.splits)
  then show "writes wr m m'" by (auto intro: writes.intros)
qed

text \<open>A temporary file whose name ends in the suffix: its path.\<close>

definition test_file :: "string \<Rightarrow> string \<Rightarrow> bytes \<Rightarrow> (string \<times> machine) option" where
  "test_file directory name_suffix bytes = do {
     let path = path_join directory (''synthetic_'' @ name_suffix);
     m \<leftarrow> write_unwrap path bytes fresh_machine;
     Some (path, m) }"

definition process_result_exposes_message_id_for_correlation :: "'x deserializers \<Rightarrow> string \<Rightarrow> unit_test" where
  "process_result_exposes_message_id_for_correlation de directory = do {
     (path, m) \<leftarrow> test_file directory ''ProcessResult'' (as_bytes inbound_process_xml);
     (r, m) \<leftarrow> durable_load de path m;
     rec \<leftarrow> ok r;
     assert (din_kind rec = ProcessResultObject);
     assert (correlation_ids rec = [''4.1-F0401-20260824-141623456-550e8400-e29b-41d4-a716-446655440000'']) }"

definition non_result_control_file_remains_opaque :: "'x deserializers \<Rightarrow> string \<Rightarrow> unit_test" where
  "non_result_control_file_remains_opaque de directory = do {
     (path, m) \<leftarrow> test_file directory ''Ack'' (as_bytes ''opaque-control-payload'');
     (r, m) \<leftarrow> durable_load de path m;
     rec \<leftarrow> ok r;
     assert (din_kind rec = ExchangeAck);
     assert (din_reconciliation rec = None);
     assert (correlation_ids rec = []) }"

definition poller_process_xml :: string where
  "poller_process_xml = text_lines [
     ''<?xml version='' @ [CHR 0x22] @ ''1.0'' @ [CHR 0x22] @ '' encoding='' @ [CHR 0x22] @ ''UTF-8'' @ [CHR 0x22] @ ''?>'',
     ''<ProcessResult xmlns='' @ [CHR 0x22] @ ''urn:GEINV:ProcessResult:4.1'' @ [CHR 0x22] @ ''>'',
     ''  <RoutingInfo>'',
     ''    <From><PartyId>12345678</PartyId></From>'',
     ''    <FromVAC><RoutingId>FROM</RoutingId></FromVAC>'',
     ''    <To><PartyId>PLATFORM</PartyId></To>'',
     ''    <ToVAC><RoutingId>TO</RoutingId></ToVAC>'',
     ''  </RoutingInfo>'',
     ''  <MessageInfo>'',
     ''    <Id>correlation-id</Id><Size>10</Size><MessageType>F0401</MessageType>'',
     ''    <Service>S</Service><Action>C0401</Action>'',
     ''  </MessageInfo>'',
     ''  <Result><Info><Code>0000</Code></Info></Result>'',
     ''</ProcessResult>'']"

definition poller_receives_deletes_and_parses_in_that_order :: "'x deserializers \<Rightarrow> string \<Rightarrow> unit_test" where
  "poller_receives_deletes_and_parses_in_that_order de directory = do {
     let remote = fake_listed_with_object ''synthetic_ProcessResult'' (as_bytes poller_process_xml);
     (poller, m) \<leftarrow> poller_new fake_listed_inbox fake_listed_list directory fresh_machine;
     poller \<leftarrow> ok poller;
     (attempts, m, remote) \<leftarrow> poll_once de poller (m, remote);
     attempts \<leftarrow> ok attempts;
     assert (length attempts = 1);
     first \<leftarrow> get attempts 0;
     result \<leftarrow> ok (pa_result first);
     assert (correlation_ids (rec_record result) = [''correlation-id'']);
     assert (fl_deleted remote = [''synthetic_ProcessResult'']);
     assert (m_dir m (path_join directory ''synthetic_ProcessResult'') \<noteq> None) }"

text \<open>The values of the two texts.\<close>

definition poller_process :: wire_process_result where
  "poller_process = inbound_process\<lparr>wpr_message_info :=
     \<lparr>wpm_id = ''correlation-id'', wpm_size = ''10'', wpm_message_type = ''F0401'',
      wpm_service = ''S'', wpm_action = ''C0401''\<rparr>\<rparr>"

section \<open>The tests of reconciliation.rs pass\<close>

lemma path_file_name_join:
  assumes "name \<noteq> []" "name \<noteq> ''.''" "name \<noteq> ''..''" "CHR ''/'' \<notin> set name"
  shows "path_file_name (path_join dir name) = Some name"
proof -
  have "last (split_on CHR ''/'' (path_join dir name)) = name"
  proof (cases "dir = [] \<or> \<not> ends_with dir ''/''")
    case True
    with assms(4) show ?thesis
      using last_split_on_join [OF assms(4), of dir] by (auto simp: path_join_plain split_on_notin)
  next
    case False
    then obtain d where "dir = d @ ''/''" by (auto simp: ends_with_iff)
    with assms(4) False show ?thesis
      using last_split_on_join [OF assms(4), of d] by (simp add: path_join_plain)
  qed
  moreover have "split_on CHR ''/'' (path_join dir name) \<noteq> []" by simp
  ultimately obtain cs where "split_on CHR ''/'' (path_join dir name) = cs @ [name]"
    by (metis append_butlast_last_id)
  with assms show ?thesis by (simp add: path_file_name_def)
qed

lemma basename_join:
  assumes "test_name name" "list_all (\<lambda>c. \<not> digit7 c) name"
  shows "basename (path_join dir name) = Some name"
proof -
  have "name \<noteq> []" "name \<noteq> ''.''" "name \<noteq> ''..''" "CHR ''/'' \<notin> set name"
    using assms(1) by (auto simp: test_name_def validate_remote_name_def Let_def split: if_splits)
  then show ?thesis by (simp add: basename_def path_file_name_join ascii_from_utf8 assms(2))
qed

lemma synthetic_names:
  "test_name ''synthetic_ProcessResult''" "list_all (\<lambda>c. \<not> digit7 c) ''synthetic_ProcessResult''"
  "test_name ''synthetic_Ack''" "list_all (\<lambda>c. \<not> digit7 c) ''synthetic_Ack''"
  "classify_remote_name ''synthetic_ProcessResult'' = ProcessResultObject"
  "classify_remote_name ''synthetic_Ack'' = ExchangeAck"
  by code_simp+

lemma load_held:
  assumes "holds (Some (path_join dir name, bs)) m" "valid_path dir" "test_name name" "list_all (\<lambda>c. \<not> digit7 c) name"
  shows "durable_load de (path_join dir name) m =
    Some (map_err InboundParse (and_then (parse_reconciliation (de_process de) (de_summary de) (classify_remote_name name) bs)
       (\<lambda>r. Inr \<lparr>din_path = path_join dir name, din_kind = classify_remote_name name, din_reconciliation = r\<rparr>)), m)"
proof -
  have "fs_read (path_join dir name) m = Some (Inr bs, m)"
    using assms(1) test_nameD(2) [OF assms(3,2)]
    by (auto simp: holds_def fs_read_def attempt_nil fs_lookup_def ok_or_def and_then_def)
  then show ?thesis
    by (simp add: durable_load_def basename_join [OF assms(3,4)] io_bind_def io_result_def io_map_err_def io_return_def
        ok_or_def map_err_def and_then_def Let_def split: sum.split)
qed

lemma parse_process_text:
  assumes "de_process de xml = Inr wire" "list_all (\<lambda>c. \<not> digit7 c) xml"
  shows "parse_reconciliation (de_process de) (de_summary de) ProcessResultObject (as_bytes xml) =
    Inr (Some (Process (process_from_wire wire)))"
  using assms by (simp add: parse_reconciliation_def process_result_parse_def ascii_from_utf8 and_then_def map_err_def ok_or_def)

lemma load_tests_pass:
  assumes dir: "valid_path dir"
  shows "de_process de inbound_process_xml = Inr inbound_process \<Longrightarrow>
      process_result_exposes_message_id_for_correlation de dir = Some ()"
    and "non_result_control_file_remains_opaque de dir = Some ()"
proof -
  note path = test_nameD(2) [OF synthetic_names(1) dir] test_nameD(2) [OF synthetic_names(3) dir]
  assume de: "de_process de inbound_process_xml = Inr inbound_process"
  define bs where "bs = as_bytes inbound_process_xml"
  have "list_all (\<lambda>c. \<not> digit7 c) inbound_process_xml" by code_simp
  note parse = parse_process_text [OF de this, folded bs_def]
  obtain m where m: "write_unwrap (path_join dir ''synthetic_ProcessResult'') bs fresh_machine = Some m"
    "holds (Some (path_join dir ''synthetic_ProcessResult'', bs)) m"
    using holds_write [OF path(1)] by blast
  have "correlation_ids \<lparr>din_path = p, din_kind = ProcessResultObject,
      din_reconciliation = Some (Process (process_from_wire inbound_process))\<rparr> = [COMMON]" for p
    by (simp add: correlation_ids_def process_from_wire_def inbound_process_def)
  with m(1) load_held [OF m(2) dir synthetic_names(1,2), of de] parse
  show "process_result_exposes_message_id_for_correlation de dir = Some ()"
    unfolding process_result_exposes_message_id_for_correlation_def bs_def [symmetric]
    by (simp add: test_file_def synthetic_names(5) and_then_def map_err_def COMMON_def)
next
  note path = test_nameD(2) [OF synthetic_names(3) dir]
  define bs where "bs = as_bytes ''opaque-control-payload''"
  obtain m where m: "write_unwrap (path_join dir ''synthetic_Ack'') bs fresh_machine = Some m"
    "holds (Some (path_join dir ''synthetic_Ack'', bs)) m"
    using holds_write [OF path] by blast
  have "parse_reconciliation (de_process de) (de_summary de) ExchangeAck bs = Inr None"
    by (simp add: parse_reconciliation_def)
  with m(1) load_held [OF m(2) dir synthetic_names(3,4), of de]
  show "non_result_control_file_remains_opaque de dir = Some ()"
    unfolding non_result_control_file_remains_opaque_def bs_def [symmetric]
    by (simp add: test_file_def synthetic_names(6) and_then_def map_err_def correlation_ids_def)
qed

lemma poller_passes:
  assumes dir: "valid_path dir" and de: "de_process de poller_process_xml = Inr poller_process"
  shows "poller_receives_deletes_and_parses_in_that_order de dir = Some ()"
proof -
  define bs where "bs = as_bytes poller_process_xml"
  let ?name = "''synthetic_ProcessResult''" and ?r = "\<lparr>dr_remote = fake_listed_inbox, dr_inbox_dir = dir\<rparr>"
  let ?path = "path_join dir ?name" and ?w = "fake_listed_with_object ?name bs"
  let ?object = "\<lparr>ro_name = ?name, ro_size = of_nat (length bs)\<rparr>" and ?w' = "?w\<lparr>fl_deleted := [?name]\<rparr>"
  have len: "length poller_process_xml < 1000" "poller_process_xml \<noteq> []" "list_all (\<lambda>c. \<not> digit7 c) poller_process_xml"
    by code_simp+
  then have bs: "bs \<noteq> []" "length bs < 2 ^ 64" by (simp_all add: bs_def as_bytes_def)
  have dl: "rmt_download fake_listed_inbox ?object (fs_write_all i) (u, ?w) =
      Some (Inr (), (with_data i (m_data u i @ bs) u, ?w))" if "m_events u = []" for u i
    using that by (simp add: fake_listed_inbox_def fake_listed_download_def fake_listed_with_object_def Let_def io_bind_def
        io_result_def ok_or_def io_map_err_def on_fst_def map_err_def write_all_nil)
  have del: "rmt_delete fake_listed_inbox ?object ?w = Some (Inr (), ?w')"
    by (simp add: fake_listed_inbox_def fake_listed_delete_def fake_listed_with_object_def Let_def)
  obtain m where m: "receive ?r ?object (fresh_machine, ?w) = Some (Inr (Persisted ?path), (m, ?w'))"
    "holds (Some (?path, bs)) m"
    by (rule fake_listed.receive_one [OF holds_fresh _ dir _ dl bs(1) _ del])
      (use synthetic_names(1) bs(2) in \<open>simp_all add: unat_of_nat and_then_def map_err_def\<close>)
  have load: "durable_load de ?path m = Some (Inr \<lparr>din_path = ?path, din_kind = ProcessResultObject,
      din_reconciliation = Some (Process (process_from_wire poller_process))\<rparr>, m)"
    using load_held [OF m(2) dir synthetic_names(1,2), of de] parse_process_text [OF de len(3), folded bs_def]
    by (simp add: synthetic_names(5) and_then_def map_err_def)
  have list: "fake_listed_list ?w = Some (Inr [?object], ?w)"
    by (simp add: fake_listed_list_def fake_listed_with_object_def Let_def)
  have ids: "correlation_ids \<lparr>din_path = p, din_kind = k,
      din_reconciliation = Some (Process (process_from_wire poller_process))\<rparr> = [''correlation-id'']" for p k
    by (simp add: correlation_ids_def process_from_wire_def poller_process_def)
  have "poller_new fake_listed_inbox fake_listed_list dir fresh_machine =
      Some (Inr \<lparr>rp_receiver = ?r, rp_list = fake_listed_list\<rparr>, fresh_machine)"
    by (simp add: poller_new_def io_bind_def io_return_def receiver_new fresh_quiet)
  moreover have "poll_object de ?r ?object (fresh_machine, ?w) =
      Some (Inr \<lparr>rec_receive_outcome = Persisted ?path, rec_record = \<lparr>din_path = ?path, din_kind = ProcessResultObject,
        din_reconciliation = Some (Process (process_from_wire poller_process))\<rparr>\<rparr>, (m, ?w'))"
    by (simp add: poll_object_def io_bind_def io_map_err_def map_err_def m(1) load on_fst_def io_return_def)
  moreover have "m_dir m ?path \<noteq> None" using m(2) by (auto simp: holds_def)
  ultimately show ?thesis
    unfolding poller_receives_deletes_and_parses_in_that_order_def bs_def [symmetric] Let_def
    by (simp add: poll_once_def io_bind_def io_map_err_def map_err_def on_snd_def list ids)
qed

end
