(* ===== verification/Conformance_Cli.thy ===== *)
theory Conformance_Cli
  imports Conformance_Receiver Conformance_Envelope Console
begin

text \<open>
  The unit tests of \<open>apps/einvoice-cli/src/main.rs\<close> (those of the argument parser \<open>clap\<close> apart), the
  test of the remote names in \<open>sftp.rs\<close> and the signing test of \<open>crates/einvoice-pack\<close>.
\<close>

section \<open>main.rs\<close>

definition endpoints_are_environment_specific :: unit_test where
  "endpoints_are_environment_specific = do {
     assert (pe_sftp_host (endpoints Test) = ''tsftp.einvoice.nat.gov.tw'');
     assert (pe_gateway_base (endpoints Production) = ''https://gw.einvoice.nat.gov.tw/gateway/api'') }"

fun file_error_kind :: "file_error \<Rightarrow> io_error" where
  "file_error_kind (SystemError error) = error"
| "file_error_kind (ContextError context error) = error"

definition persistence_refuses_overwrite_without_force :: "string \<Rightarrow> unit_test" where
  "persistence_refuses_overwrite_without_force path = do {
     (r, m) \<leftarrow> persist_artifact path (as_bytes ''first'') False fresh_machine;
     ok r;
     (r, m) \<leftarrow> persist_artifact path (as_bytes ''second'') False m;
     e \<leftarrow> err r;
     assert (file_error_kind e = AlreadyExists);
     stored \<leftarrow> read_unwrap path m;
     assert (stored = as_bytes ''first'') }"

definition persistence_can_explicitly_replace_artifact :: "string \<Rightarrow> unit_test" where
  "persistence_can_explicitly_replace_artifact path = do {
     (r, m) \<leftarrow> persist_artifact path (as_bytes ''first'') False fresh_machine;
     ok r;
     (r, m) \<leftarrow> persist_artifact path (as_bytes ''second'') True m;
     ok r;
     stored \<leftarrow> read_unwrap path m;
     assert (stored = as_bytes ''second'') }"

definition secret_variable_name_is_validated_without_exposing_values ::
  "(string \<Rightarrow> string) \<Rightarrow> (string \<Rightarrow> var_error + string) \<Rightarrow> nat \<Rightarrow> unit_test" where
  "secret_variable_name_is_validated_without_exposing_values dbg var next_path = do {
     e \<leftarrow> err (read_secret_environment var []);
     assert (e = EmptySecretEnvironmentName);
     let missing = ''TW_EINVOICE_TEST_MISSING_'' @ dec next_path;
     e \<leftarrow> err (read_secret_environment var missing);
     assert (contains_str (display_cli_error dbg e) missing) }"

lemma persist_new:
  assumes "valid_path path"
  shows "\<exists>m. persist_artifact path bs False fresh_machine = Some (Inr (), m) \<and> holds (Some (path, bs)) m"
proof -
  let ?m = "(with_data 0 bs (snd (new_file path fresh_machine)))\<lparr>m_disk_data := (\<lambda>_. None)(0 \<mapsto> bs)\<rparr>"
  have "persist_artifact path bs False fresh_machine = Some (Inr (), ?m)"
    using assms
    by (simp add: persist_artifact_def io_bind_def io_map_err_def map_err_def fs_create_new_def attempt_nil write_all_nil
        fs_sync_all_def fresh_machine_def sample_machine_def new_file_def with_data_def fun_eq_iff)
  moreover have "m_dir ?m = [path \<mapsto> 0]" "m_data ?m 0 = bs" "m_events ?m = []" "wf_machine ?m"
    by (simp_all add: fresh_machine_def sample_machine_def new_file_def with_data_def wf_machine_def)
  ultimately show ?thesis by (auto simp: holds_def)
qed

lemma persist_again:
  assumes "holds (Some (path, old)) m" "valid_path path"
  shows "\<exists>e. persist_artifact path bs False m = Some (Inl e, m) \<and> file_error_kind e = AlreadyExists"
    and "\<exists>m'. persist_artifact path bs True m = Some (Inr (), m') \<and> holds (Some (path, bs)) m'"
proof -
  from assms obtain i where i: "m_dir m = [path \<mapsto> i]" "m_events m = []" "wf_machine m" by (auto simp: holds_def)
  with assms(2) show "\<exists>e. persist_artifact path bs False m = Some (Inl e, m) \<and> file_error_kind e = AlreadyExists"
    by (simp add: persist_artifact_def io_bind_def io_map_err_def map_err_def fs_create_new_def attempt_nil)
  let ?m = "(with_data i bs m)\<lparr>m_disk_data := (m_disk_data m)(i \<mapsto> bs)\<rparr>"
  have "persist_artifact path bs True m = Some (Inr (), ?m)"
    using i assms(2)
    by (simp add: persist_artifact_def io_bind_def io_map_err_def map_err_def fs_create_truncate_def attempt_nil write_all_nil
        fs_sync_all_def with_data_def)
  moreover have "holds (Some (path, bs)) ?m"
    using i by (auto simp: holds_def with_data_def wf_machine_def)
  ultimately show "\<exists>m'. persist_artifact path bs True m = Some (Inr (), m') \<and> holds (Some (path, bs)) m'" by blast
qed

lemma persistence_tests_pass:
  assumes path: "valid_path path"
  shows "persistence_refuses_overwrite_without_force path = Some ()"
    and "persistence_can_explicitly_replace_artifact path = Some ()"
proof -
  define a b where "a = as_bytes ''first''" and "b = as_bytes ''second''"
  obtain m where m: "persist_artifact path a False fresh_machine = Some (Inr (), m)" "holds (Some (path, a)) m"
    using persist_new [OF path] by blast
  obtain e where e: "persist_artifact path b False m = Some (Inl e, m)" "file_error_kind e = AlreadyExists"
    using persist_again(1) [OF m(2) path] by blast
  obtain m' where m': "persist_artifact path b True m = Some (Inr (), m')" "holds (Some (path, b)) m'"
    using persist_again(2) [OF m(2) path] by blast
  show "persistence_refuses_overwrite_without_force path = Some ()"
    unfolding persistence_refuses_overwrite_without_force_def a_def [symmetric] b_def [symmetric]
    using m e holds_read [OF m(2) path] by simp
  show "persistence_can_explicitly_replace_artifact path = Some ()"
    unfolding persistence_can_explicitly_replace_artifact_def a_def [symmetric] b_def [symmetric]
    using m m' holds_read [OF m'(2) path] by simp
qed

lemma cli_tests_pass:
  "endpoints_are_environment_specific = Some ()"
  "var (''TW_EINVOICE_TEST_MISSING_'' @ dec n) = Inl NotPresent \<Longrightarrow>
     dbg (''TW_EINVOICE_TEST_MISSING_'' @ dec n) = [CHR 0x22] @ ''TW_EINVOICE_TEST_MISSING_'' @ dec n @ [CHR 0x22] \<Longrightarrow>
     secret_variable_name_is_validated_without_exposing_values dbg var n = Some ()"
proof -
  show "endpoints_are_environment_specific = Some ()" by code_simp
next
  define name where "name = ''TW_EINVOICE_TEST_MISSING_'' @ dec n"
  assume var: "var (''TW_EINVOICE_TEST_MISSING_'' @ dec n) = Inl NotPresent"
    and dbg: "dbg (''TW_EINVOICE_TEST_MISSING_'' @ dec n) = [CHR 0x22] @ ''TW_EINVOICE_TEST_MISSING_'' @ dec n @ [CHR 0x22]"
  from var have e: "read_secret_environment var name = Inl (MissingSecretEnvironment name)"
    by (simp add: read_secret_environment_def name_def)
  from dbg have "display_cli_error dbg (MissingSecretEnvironment name) =
      (''required secret environment variable '' @ [CHR 0x22]) @ name @ ([CHR 0x22] @ '' is not set'')"
    by (simp add: name_def)
  then have "contains_str (display_cli_error dbg (MissingSecretEnvironment name)) name"
    unfolding contains_str_iff by blast
  with e show "secret_variable_name_is_validated_without_exposing_values dbg var n = Some ()"
    unfolding secret_variable_name_is_validated_without_exposing_values_def name_def [symmetric] Let_def
    by (simp add: read_secret_environment_def)
qed

section \<open>sftp.rs\<close>

definition uploader_rejects_path_traversal_remote_names :: "(io_error \<Rightarrow> string) \<Rightarrow> ('x \<Rightarrow> string) \<Rightarrow> unit_test" where
  "uploader_rejects_path_traversal_remote_names io ssh = do {
     let error = InvalidRemoteFilename;
     assert (display_upload_error io ssh error = ''SFTP remote filename must be a non-empty basename'');
     assert (\<not> safe_remote_basename ''../invoice'');
     assert (\<not> safe_remote_basename ''in/invoice'');
     assert (safe_remote_basename ''4.1-F0401-common'') }"

lemma sftp_name_test_passes: "uploader_rejects_path_traversal_remote_names io ssh = Some ()"
  by (simp add: uploader_rejects_path_traversal_remote_names_def safe_remote_basename_def)

section \<open>einvoice-pack\<close>

text \<open>That the signer is given the serialised envelope is lemma \<open>pack_and_sign_Inr\<close>.\<close>

definition pack_envelope :: "invoice_envelope option" where
  "pack_envelope = do {
     payload \<leftarrow> ok (mig_payload_new (as_bytes invoice_xml));
     ok (envelope_new
       \<lparr>er_from = \<lparr>pin_identifier = ''12345678'', pin_description = None\<rparr>,
        er_from_vac = \<lparr>ri_identifier = ''FROM'', ri_description = None\<rparr>,
        er_to = \<lparr>pin_identifier = ''0000000000'', pin_description = None\<rparr>,
        er_to_vac = \<lparr>ri_identifier = ''TO'', ri_description = None\<rparr>\<rparr>
       \<lparr>ipm_message_type = ''F0401'', ipm_version = V4_1\<rparr> [payload]) }"

definition capturing_sign :: "bytes \<Rightarrow> unit + cms_signed_data" where
  "capturing_sign content =
     (case cms_from_encoded [0x30, 0x80, 0x00, 0x00] of Inl _ \<Rightarrow> Inl () | Inr cms \<Rightarrow> Inr cms)"

definition signs_exact_serialized_envelope_bytes :: unit_test where
  "signs_exact_serialized_envelope_bytes = do {
     envelope \<leftarrow> pack_envelope;
     expected \<leftarrow> ok (to_turnkey_xml envelope);
     artifact \<leftarrow> ok (pack_and_sign base64_encode (\<lambda>_. RsaPkcs1v15Sha256) (\<lambda>_. capturing_sign) envelope ());
     assert (sa_envelope_size artifact = length expected);
     assert (sa_signature_algorithm artifact = RsaPkcs1v15Sha256);
     assert (turnkey_reported_size artifact = length (sa_upload_bytes artifact));
     assert (drop (length (sa_upload_bytes artifact) - 1) (sa_upload_bytes artifact) = as_bytes [lf]) }"

lemma pack_test_passes: "signs_exact_serialized_envelope_bytes = Some ()"
proof -
  define p where "p = MigPayload (as_bytes invoice_xml)"
  let ?env = "\<lparr>env_routing =
      \<lparr>er_from = \<lparr>pin_identifier = ''12345678'', pin_description = None\<rparr>,
       er_from_vac = \<lparr>ri_identifier = ''FROM'', ri_description = None\<rparr>,
       er_to = \<lparr>pin_identifier = ''0000000000'', pin_description = None\<rparr>,
       er_to_vac = \<lparr>ri_identifier = ''TO'', ri_description = None\<rparr>\<rparr>,
     env_metadata = \<lparr>ipm_message_type = ''F0401'', ipm_version = V4_1\<rparr>, env_payloads = [p]\<rparr>"
  have "invoice_xml \<noteq> []" by code_simp
  then have env: "pack_envelope = Some ?env"
    by (simp add: pack_envelope_def ok_payload ok_envelope p_def)
  have xml: "to_turnkey_xml ?env = Inr (as_bytes (envelope_text ?env invoice_xml))"
    unfolding p_def by (rule one_payload_xml) (code_simp, code_simp, simp)
  have armored: "to_turnkey_armored base64_encode (CmsSignedData [0x30, 0x80, 0x00, 0x00]) = ''MIAAAA=='' @ [lf]"
    by code_simp
  have "pack_and_sign base64_encode (\<lambda>_. RsaPkcs1v15Sha256) (\<lambda>_. capturing_sign) ?env () =
      Inr \<lparr>sa_upload_bytes = as_bytes (''MIAAAA=='' @ [lf]), sa_envelope_size = length (as_bytes (envelope_text ?env invoice_xml)),
        sa_signature_algorithm = RsaPkcs1v15Sha256\<rparr>"
    by (simp only: pack_and_sign_def xml capturing_sign_def cms_from_encoded_def) (simp add: and_then_def map_err_def armored)
  then show ?thesis
    by (simp only: signs_exact_serialized_envelope_bytes_def env xml bind.bind_lunit ok_simps)
      (simp add: turnkey_reported_size_def)
qed

end
