(* ===== verification/Spec2Isabelle.thy ===== *)
theory Spec2Isabelle
  imports Domain_Values Store_Concurrency Redelivery Submit_Success Console Redaction
    Conformance_Mig Conformance_F0401 Conformance_State Conformance_Results Conformance_Signing Conformance_Client Conformance_Cli
begin

text \<open>
  A verification development for tw-einvoice-rs, a Rust client of the Taiwanese e-invoice
  platform that speaks the protocol of the official Turnkey program.

  \<^bold>\<open>The program.\<close>  An outgoing invoice is built and validated (\<open>crates/einvoice-mig\<close>), put
  with others into an envelope (\<open>einvoice-envelope\<close>), signed and armored (\<open>einvoice-pack\<close>,
  \<open>einvoice-signing\<close>), named (\<open>filename.rs\<close>), uploaded over SFTP (\<open>sftp.rs\<close>) and announced to
  the PFS001 gateway (\<open>gateway.rs\<close>); \<open>native.rs\<close> and \<open>packed.rs\<close> order the last two steps,
  \<open>einvoice-client\<close> checks that filename, envelope and notification say the same, and
  \<open>apps/einvoice-cli\<close> persists the artifact in between.  Results come back through the remote
  directory \<open>/out\<close>: \<open>receiver.rs\<close> stores each object before it deletes the remote copy,
  \<open>reconciliation.rs\<close> polls, \<open>inbound.rs\<close> classifies, \<open>einvoice-results\<close> checks the counts, and
  \<open>einvoice-state\<close> keeps the record of each submission.

  \<^bold>\<open>Conventions\<close> (\<open>Prelude\<close>, \<open>Text_Utils\<close>).  A \<open>String\<close> is its UTF-8 byte sequence as a HOL
  string, a \<open>Vec<u8>\<close> a list of 8-bit words, a \<open>Result\<close> a sum with the error on the left;
  machine integers in arithmetic keep their width.  A panic, like a computation that does not
  return, is \<open>None\<close>; where overflow panics only in debug builds the build profile is an argument.
  A method with \<open>&mut self\<close> returns its result and the new state.  Traits are records or
  tuples of operations in the model and locales in the proofs: \<open>submission_store\<close>
  (\<open>SubmissionStore\<close>, interpreted by \<open>MemoryStore\<close>, as is its extension
  \<open>counting_store\<close>), \<open>cms_signer\<close> (\<open>CmsSigner\<close>, by \<open>PfxSigner\<close>),
  \<open>platform_channel\<close> (\<open>ObjectUploader\<close> with \<open>GatewayNotifier\<close>, by any pair of them with its
  calls traced), \<open>remote_inbox\<close> (\<open>RemoteInbox\<close>, by \<open>Ssh2RemoteInbox\<close>), \<open>std_error\<close> (the bound
  \<open>E: Error\<close> of the generic errors, by the error types of the backends) and \<open>submit_errors\<close> (its two
  instances in a submission).

  \<^bold>\<open>Theories, in dependency order, with the code each models.\<close>

  \<^item> \<open>Einvoice_Core\<close>: \<open>einvoice-core/src/lib.rs\<close>.
  \<^item> \<open>Mig_Catalog\<close>, \<open>Mig_Primitives\<close>: \<open>einvoice-mig/src/catalog.rs\<close>, \<open>primitives.rs\<close>; each parser
    is proved exact against the grammar of its data element.
  \<^item> \<open>Domain_Values\<close>: the values that the checked constructors of core, MIG and envelope admit.
  \<^item> \<open>F0401\<close>, \<open>F0401_Xml\<close>: \<open>einvoice-mig/src/f0401.rs\<close>; the validator is proved equivalent to the
    schema facets and usage rules, the serialiser injective and well formed.
  \<^item> \<open>Results\<close>: \<open>einvoice-results\<close>; summary consistency over the integers, overflow included.
  \<^item> \<open>Submission\<close>, \<open>Submission_Store\<close>: \<open>einvoice-state\<close>; the inductive relation \<open>evolves\<close> is any
    sequence of the record's operations; invariants by rule induction, a refinement of an
    abstract specification, and the contract of the store with its in-memory implementation.
  \<^item> \<open>Store_Concurrency\<close>: any number of clients that load a record, apply an event and write it
    back with the loaded revision, interleaved in any order: what the store holds is one client
    after the other, in the order of the successful writes.
  \<^item> \<open>Envelope\<close>: \<open>einvoice-envelope\<close> (\<open>lib.rs\<close>, \<open>wire.rs\<close>).
  \<^item> \<open>Ber\<close>, \<open>Signing\<close>, \<open>Pack\<close>: \<open>einvoice-signing\<close>, \<open>einvoice-pack\<close>; a reader for the encoding
    gives the round trips.
  \<^item> \<open>Filename\<close>, \<open>Inbound\<close>, \<open>Gateway\<close>, \<open>Package\<close>, \<open>Native\<close>: the files of \<open>einvoice-transport\<close> with
    these names (\<open>Native\<close> also \<open>packed.rs\<close>).
  \<^item> \<open>File_System\<close>: what the code uses of \<open>std::fs\<close>.  A state \<open>machine\<close> has directory entries and
    contents as the process sees them (\<open>m_dir\<close>, \<open>m_data\<close>) and as a crash would leave them
    (\<open>m_disk_dir\<close>, \<open>m_disk_data\<close>).
  \<^item> \<open>Receiver\<close> (\<open>receiver.rs\<close>), \<open>Receiver_Safety\<close> (the phases of \<open>receive\<close> for any remote inbox),
    \<open>Sftp\<close> (\<open>sftp.rs\<close>), \<open>Reconciliation\<close> (\<open>reconciliation.rs\<close>, \<open>sftp_reconciliation.rs\<close>),
    \<open>Receiver_Runs\<close> (fault-free executions, termination), \<open>Receiver_Properties\<close> (the properties on
    the SFTP inbox).
  \<^item> \<open>Mailbox\<close>: the abstract specification of the inbox directory and the proof that every history
    of calls, faults, restarts and crashes refines it; what is reported as stored survives.
  \<^item> \<open>Redelivery\<close>: an object that the remote end presents again after a failed deletion, from the
    poll to the submission record: nothing is applied twice.
  \<^item> \<open>Correlation\<close>: inbound records against submission records (\<open>reconciliation.rs\<close> with
    \<open>einvoice-state\<close>), which no function of the repository combines.
  \<^item> \<open>Client\<close> (\<open>einvoice-client\<close>), \<open>Cli\<close>, \<open>Cli_Properties\<close>, \<open>Submit_Success\<close>
    (\<open>einvoice-cli/src/main.rs\<close>; the last says what a successful \<open>submit\<close> has done).
  \<^item> \<open>Error_Texts\<close>: the \<open>Display\<close> and \<open>Error\<close> implementations of all error types (\<open>display_\<close> and
    \<open>source_\<close> with the type's name; \<open>dyn_\<close> is the error as a trait object); \<open>Console\<close>: the lines that
    the command line prints, and \<open>main\<close>.
  \<^item> \<open>Redaction\<close>: the \<open>Debug\<close> implementations of the types that hold secrets, as trees.
  \<^item> \<open>Conformance\<close> and the ten theories \<open>Conformance_\<close> with the name of a part: the unit tests of
    the repository, translated and evaluated on the model.  They tie the definitions to inputs and
    outputs that the authors chose, among them the XML fixture of an F0401 document and a message
    signed by the official Turnkey, reproduced byte for byte.  The fakes of the tests interpret
    the locales.

  \<^bold>\<open>Third-party code\<close> is an argument of the definitions that call it: the XML deserialiser
  (\<open>quick_xml\<close>), Base64, OpenSSL, the ZIP writer, \<open>serde_json\<close>, \<open>reqwest\<close>, \<open>ssh2\<close> with the TCP
  sockets, and the process environment.  Effects outside the machine pass an explicit world.
  The few hypotheses about them (\<open>base64_like\<close>, DER values returned by OpenSSL) are named in the
  statements and met by the instances in the witnesses.

  \<^bold>\<open>Faults, bounds, fuel.\<close>  No definition has fuel.  The environment of the file system is a
  schedule of events, one for each system call: pass, fail (a write having moved a prefix), or a
  short read; the properties of the receiver and of the commands hold for every schedule.  Loops
  that may not end (\<open>incoming_create\<close>, \<open>copy_loop\<close>) are partial functions; \<open>receive_returns\<close>
  proves that the first ends in a file system with fewer than \<open>2 ^ 64\<close> entries.  \<open>compare_loop\<close>
  is total.  Encoded sizes below \<open>2 ^ 64\<close> are a hypothesis where a reader needs them.

  \<^bold>\<open>What modelling showed\<close>, as theorems on concrete runs: \<open>retry_deletes_unsynced_copy\<close> and
  \<open>incoming_name_loses_object\<close> (the receiver can delete the remote object without a lasting local
  copy after a failed directory sync, or for an object named like its temporary file),
  \<open>validation_issues_debug\<close>, \<open>declaration_behind_bom\<close>, \<open>artifact_entry_not_synced\<close>, \<open>prepared_upload_debug_shows_bytes\<close>.

  \<^bold>\<open>Not modelled.\<close>  The texts of foreign errors and how \<open>{:?}\<close> escapes a string (arguments of the
  definitions that print them), the pretty-printing of \<open>Debug\<close> trees, accessors that only return a
  field, \<open>From\<close> conversions of errors as functions of their own (\<open>?\<close> applies the constructor), the
  parsing of command-line arguments, the panic of a print to a closed stream, \<open>InvoiceTransport\<close> in
  \<open>einvoice-transport/src/lib.rs\<close> and
  \<open>MigDocumentMetadata\<close> in \<open>einvoice-mig/src/lib.rs\<close> (unused in the repository), memory allocation
  failure, concurrent changes of the inbox directory by other processes, spellings of one path
  as two strings, directories as objects (creating one succeeds unless told to fail), the
  variant of \<open>sync_parent_directory\<close> for other systems than unix, the tests of \<open>clap\<close>, of
  \<open>Debug\<close> output and of JSON decoding, documentation, container and CI files.
\<close>

end
